(* ===== verification/Prelude.thy ===== *)
theory Prelude
  imports Main "HOL-Library.Word" "HOL-Library.Multiset"
begin

text \<open>
  Shared vocabulary of the lmprof development: the machine types of
  \<^verbatim>\<open>src/src/lmprof_conf.h\<close> (64-bit build, \<^verbatim>\<open>LUA_32BITS == 0\<close>), the bit-field
  macros every component uses on its flag words, the collections of lemmas the
  component theories feed, and list lemmas the hashtable and the profile stack share.
\<close>

unbundle bit_operations_syntax

section \<open>Machine types\<close>

text \<open>
  \<^verbatim>\<open>lu_time\<close> is \<^verbatim>\<open>uint64_t\<close>, \<^verbatim>\<open>lu_size\<close> is \<^verbatim>\<open>size_t\<close> and \<^verbatim>\<open>lu_addr\<close>
  is \<^verbatim>\<open>uintptr_t\<close>: all three are 64-bit unsigned words whose arithmetic wraps.
  The profiler's mode, configuration and state fields are \<^verbatim>\<open>uint32_t\<close>.
\<close>

type_synonym lu_time = "64 word"
type_synonym lu_size = "64 word"
type_synonym lu_addr = "64 word"
type_synonym flags32 = "32 word"

text \<open>
  Objects the C code shares through pointers (activation records, borrowed by the
  hashtable and by every stack frame) live in an explicit store; a pointer is a
  \<open>ref\<close>. An error raised through \<^verbatim>\<open>lmprof_error\<close> (a \<^verbatim>\<open>lua_error\<close> long jump)
  is the \<open>Inl\<close> of a result, carrying the message the code formats.
\<close>

type_synonym ref = nat

text \<open>
  A pointer to a \<^verbatim>\<open>TraceEvent\<close> inside the paged timeline (a stack frame's
  \<^verbatim>\<open>begin_event\<close>, an event's \<^verbatim>\<open>op\<close> link) is the page index and the slot in it.
\<close>

type_synonym event_ptr = "nat \<times> nat"
type_synonym 'a result = "string + 'a"

section \<open>Lemma collections\<close>

named_theorems unit_simps "algebra of measurement units"
named_theorems hash_simps "hashtable operations on concrete chains"
named_theorems stack_simps "profile stack operations"
named_theorems timeline_simps "trace event timeline operations"

section \<open>Bit fields (lmprof_conf.h)\<close>

text \<open>\<^verbatim>\<open>BITFIELD_TEST\<close>, \<^verbatim>\<open>BITFIELD_SET\<close>, \<^verbatim>\<open>BITFIELD_CLEAR\<close> and \<^verbatim>\<open>BITFIELD_IS\<close>.\<close>

definition BITFIELD_TEST :: "'a::len word \<Rightarrow> 'a word \<Rightarrow> bool" where
  "BITFIELD_TEST x m \<longleftrightarrow> x AND m \<noteq> 0"

definition BITFIELD_SET :: "'a::len word \<Rightarrow> 'a word \<Rightarrow> 'a word" where
  "BITFIELD_SET x m = x OR m"

definition BITFIELD_CLEAR :: "'a::len word \<Rightarrow> 'a word \<Rightarrow> 'a word" where
  "BITFIELD_CLEAR x m = x AND NOT m"

definition BITFIELD_IS :: "'a::len word \<Rightarrow> 'a word \<Rightarrow> bool" where
  "BITFIELD_IS x m \<longleftrightarrow> x AND m = m"

section \<open>Generic lemmas\<close>

lemma BITFIELD_TEST_SET_same [simp]:
  "m \<noteq> 0 \<Longrightarrow> BITFIELD_TEST (BITFIELD_SET x m) m"
  by (simp add: BITFIELD_TEST_def BITFIELD_SET_def word_bw_lcs(1) word_ao_absorbs(4))

lemma BITFIELD_TEST_CLEAR_same [simp]:
  "\<not> BITFIELD_TEST (BITFIELD_CLEAR x m) m"
  by (simp add: BITFIELD_TEST_def BITFIELD_CLEAR_def word_bw_assocs(1))

lemma BITFIELD_TEST_SET_other [simp]:
  "m AND n = 0 \<Longrightarrow> BITFIELD_TEST (BITFIELD_SET x m) n \<longleftrightarrow> BITFIELD_TEST x n"
  by (simp add: BITFIELD_TEST_def BITFIELD_SET_def bit.conj_disj_distrib2)

lemma NOT_AND_disjoint:
  fixes m n :: "'a::len word"
  assumes mn: "m AND n = 0"
  shows "NOT m AND n = n"
proof (rule bit_word_eqI)
  fix i assume i: "i < LENGTH('a)"
  have "bit (m AND n) i = bit (0::'a word) i" using mn by simp
  then have "\<not> (bit m i \<and> bit n i)" by (simp add: bit_and_iff)
  with i show "bit (NOT m AND n) i = bit n i" by (auto simp: bit_and_iff bit_not_iff)
qed

lemma BITFIELD_TEST_CLEAR_other [simp]:
  "m AND n = 0 \<Longrightarrow> BITFIELD_TEST (BITFIELD_CLEAR x m) n \<longleftrightarrow> BITFIELD_TEST x n"
  by (simp add: BITFIELD_TEST_def BITFIELD_CLEAR_def word_bw_assocs(1) NOT_AND_disjoint)

lemma BITFIELD_TEST_mono: "BITFIELD_TEST x a \<Longrightarrow> a AND b = a \<Longrightarrow> BITFIELD_TEST x b"
  unfolding BITFIELD_TEST_def by (auto simp: bit_eq_iff bit_and_iff)

lemma BITFIELD_IS_OR: "BITFIELD_IS x (a OR b) \<longleftrightarrow> BITFIELD_IS x a \<and> BITFIELD_IS x b"
  unfolding BITFIELD_IS_def by (auto simp: bit_eq_iff bit_and_iff bit_or_iff)

lemma BITFIELD_TEST_OR: "BITFIELD_TEST x (a OR b) \<longleftrightarrow> BITFIELD_TEST x a \<or> BITFIELD_TEST x b"
  unfolding BITFIELD_TEST_def by (auto simp: bit_eq_iff bit_and_iff bit_or_iff)

lemma BITFIELD_IS_pow2:
  assumes k: "k < LENGTH('a)"
  shows "BITFIELD_IS (x::'a::len word) (2 ^ k) \<longleftrightarrow> BITFIELD_TEST x (2 ^ k)"
proof -
  have "x AND 2 ^ k = 2 ^ k \<longleftrightarrow> bit x k"
  proof
    assume "x AND 2 ^ k = 2 ^ k"
    then have "bit (x AND 2 ^ k) k" using k by (simp add: bit_exp_iff)
    then show "bit x k" by (simp add: bit_and_iff)
  next
    assume "bit x k"
    then show "x AND 2 ^ k = 2 ^ k" by (intro bit_word_eqI) (auto simp: bit_and_iff bit_exp_iff)
  qed
  then show ?thesis
    by (simp add: BITFIELD_IS_def BITFIELD_TEST_def and_exp_eq_0_iff_not_bit)
qed

lemma BITFIELD_IS_TEST: "BITFIELD_IS x m \<Longrightarrow> m \<noteq> 0 \<Longrightarrow> BITFIELD_TEST x m"
  by (simp add: BITFIELD_IS_def BITFIELD_TEST_def)

lemma BITFIELD_TEST_CLEAR_sub: "n AND m = n \<Longrightarrow> \<not> BITFIELD_TEST (BITFIELD_CLEAR x m) n"
  unfolding BITFIELD_TEST_def BITFIELD_CLEAR_def by (auto simp: bit_eq_iff bit_and_iff bit_not_iff)

lemma BITFIELD_TEST_SET_sub: "n AND m = n \<Longrightarrow> n \<noteq> 0 \<Longrightarrow> BITFIELD_TEST (BITFIELD_SET x m) n"
  unfolding BITFIELD_TEST_def BITFIELD_SET_def by (auto simp: bit_eq_iff bit_and_iff bit_or_iff)

lemma BITFIELD_TEST_SET_mono: "BITFIELD_TEST x n \<Longrightarrow> BITFIELD_TEST (BITFIELD_SET x m) n"
  unfolding BITFIELD_TEST_def BITFIELD_SET_def by (auto simp: bit_eq_iff bit_and_iff bit_or_iff)

text \<open>A signed integer that fits the width reads back unchanged through a word.\<close>

lemmas sint_small = sint_sbintrunc' signed_take_bit_int_eq_self

text \<open>Moving the element at position \<open>i\<close> to the front keeps the multiset of a chain.\<close>

lemma mset_move_to_front:
  "i < length xs \<Longrightarrow> mset (xs ! i # take i xs @ drop (Suc i) xs) = mset xs"
proof -
  assume i: "i < length xs"
  have "xs = take i xs @ xs ! i # drop (Suc i) xs"
    using i by (simp add: id_take_nth_drop)
  then have "mset xs = mset (take i xs) + add_mset (xs ! i) (mset (drop (Suc i) xs))"
    by (metis mset.simps(2) mset_append)
  then show ?thesis by simp
qed

lemma set_move_to_front:
  "i < length xs \<Longrightarrow> set (xs ! i # take i xs @ drop (Suc i) xs) = set xs"
  by (metis mset_move_to_front set_mset_mset)

lemma find_append_eq:
  "find P (xs @ ys) = (case find P xs of None \<Rightarrow> find P ys | Some x \<Rightarrow> Some x)"
  by (induction xs) auto

lemma length_move_to_front:
  "i < length xs \<Longrightarrow> length (xs ! i # take i xs @ drop (Suc i) xs) = length xs"
  by simp

lemma map_update_nth_self [simp]: "(map f xs)[i := f (xs ! i)] = map f xs"
  by (metis length_map list_update_beyond list_update_id not_less nth_map)

lemma distinct_concat_map_Pair:
  "distinct xs \<Longrightarrow> distinct (concat (map (\<lambda>i. map (Pair i) (f i)) xs))"
  if "\<And>i. distinct (f i)" for xs :: "nat list"
  using that by (induction xs) (auto simp: distinct_map inj_on_def)

lemma map_sum_eq_Inr [simp]: "(map_sum f g x = Inr y) = (\<exists>z. x = Inr z \<and> y = g z)"
  by (cases x) auto

lemma nth_update_out_of_range: "length xs \<le> j \<Longrightarrow> xs[i := v] ! j = xs ! j"
proof (induction xs arbitrary: i j)
  case Nil
  then show ?case by simp
next
  case (Cons x xs)
  then show ?case by (cases i; cases j) simp_all
qed

lemma nth_update_other: "i \<noteq> j \<Longrightarrow> xs[i := v] ! j = xs ! j"
  by (cases "j < length xs") (simp_all add: nth_update_out_of_range)

lemma nth_list_update_gen: "xs[i := v] ! j = (if i = j \<and> i < length xs then v else xs ! j)"
  by (cases "i = j") (simp_all add: nth_update_other list_update_beyond)

end
