(* ===== verification/Measure.thy ===== *)
theory Measure
  imports Prelude
begin

text \<open>
  Clock and measurement unit. The measurement unit
  \<^verbatim>\<open>lmprof_EventUnit\<close> of \<^verbatim>\<open>src/src/lmprof_conf.h\<close> is a triple of 64-bit
  counters; its operations are the inline functions \<^verbatim>\<open>unit_clear\<close>,
  \<^verbatim>\<open>unit_add_to\<close>, \<^verbatim>\<open>unit_sub\<close> and \<^verbatim>\<open>unit_allocated\<close> of
  \<^verbatim>\<open>src/src/collections/lmprof_record.h\<close>, and \<^verbatim>\<open>lmprof_clock_diff\<close>. The clock
  itself (\<^verbatim>\<open>lmprof_clock_sample\<close>) is the operating system's and appears in the
  model only as the times handed to the operations. The allocator trampoline
  \<^verbatim>\<open>alloc_hook\<close> of \<^verbatim>\<open>src/src/lmprof_lib.c\<close> writes only into a unit, so its
  accounting is here too.
\<close>

section \<open>Data\<close>

record event_unit =
  time :: lu_time
  allocated :: lu_size
  deallocated :: lu_size

record event_process =
  pid :: int
  tid :: int

record event_measurement =
  proc :: event_process
  s :: event_unit
  overhead :: lu_time

section \<open>Operations\<close>

definition unit_clear :: "event_unit \<Rightarrow> event_unit" where
  "unit_clear u = u\<lparr>time := 0, allocated := 0, deallocated := 0\<rparr>"

text \<open>A unit whose bytes are all zero, as \<^verbatim>\<open>memset\<close> and \<^verbatim>\<open>LMPROF_ZERO_STRUCT\<close> leave it.\<close>

definition unit_zero :: event_unit where
  "unit_zero = \<lparr>time = 0, allocated = 0, deallocated = 0\<rparr>"

text \<open>\<^verbatim>\<open>unit_add_to(dest, source)\<close> returns the new \<^verbatim>\<open>dest\<close>.\<close>

definition unit_add_to :: "event_unit \<Rightarrow> event_unit \<Rightarrow> event_unit" where
  "unit_add_to dest src =
     dest\<lparr>time := time dest + time src,
          allocated := allocated dest + allocated src,
          deallocated := deallocated dest + deallocated src\<rparr>"

text \<open>\<^verbatim>\<open>unit_sub(dest, a, b)\<close> returns the new \<^verbatim>\<open>dest\<close>, which is \<open>a - b\<close>.\<close>

definition unit_sub :: "event_unit \<Rightarrow> event_unit \<Rightarrow> event_unit" where
  "unit_sub a b =
     \<lparr>time = time a - time b,
      allocated = allocated a - allocated b,
      deallocated = deallocated a - deallocated b\<rparr>"

definition unit_allocated :: "event_unit \<Rightarrow> lu_size" where
  "unit_allocated u = (if deallocated u > allocated u then 0 else allocated u - deallocated u)"

definition lmprof_clock_diff :: "lu_time \<Rightarrow> lu_time \<Rightarrow> lu_time" where
  "lmprof_clock_diff start stop = (if start \<le> stop then stop - start else start - stop)"

text \<open>
  Lines 111--117 of \<^verbatim>\<open>alloc_hook\<close>: the size of the old block is \<^verbatim>\<open>osize\<close> only
  for a non-null \<^verbatim>\<open>ptr\<close>; growth is added to \<^verbatim>\<open>allocated\<close> and shrinkage to
  \<^verbatim>\<open>deallocated\<close>, unless \<^verbatim>\<open>LMPROF_STATE_IGNORE_ALLOC\<close> is set.
\<close>

definition alloc_hook_unit :: "bool \<Rightarrow> bool \<Rightarrow> lu_size \<Rightarrow> lu_size \<Rightarrow> event_unit \<Rightarrow> event_unit" where
  "alloc_hook_unit ignore ptr_null osize nsize u =
     (let sz = (if \<not> ptr_null then osize else 0);
          u1 = (if nsize > sz \<and> \<not> ignore then u\<lparr>allocated := allocated u + (nsize - sz)\<rparr> else u)
      in if nsize < sz \<and> \<not> ignore then u1\<lparr>deallocated := deallocated u1 + (sz - nsize)\<rparr> else u1)"

section \<open>Algebra of units\<close>

lemma unit_add_to_fields [unit_simps]:
  "time (unit_add_to d x) = time d + time x"
  "allocated (unit_add_to d x) = allocated d + allocated x"
  "deallocated (unit_add_to d x) = deallocated d + deallocated x"
  by (simp_all add: unit_add_to_def)

lemma unit_sub_fields [unit_simps]:
  "time (unit_sub a b) = time a - time b"
  "allocated (unit_sub a b) = allocated a - allocated b"
  "deallocated (unit_sub a b) = deallocated a - deallocated b"
  by (simp_all add: unit_sub_def)

lemma unit_clear_fields [unit_simps]:
  "time (unit_clear u) = 0" "allocated (unit_clear u) = 0" "deallocated (unit_clear u) = 0"
  by (simp_all add: unit_clear_def)

lemma event_unit_eqI:
  "time a = time b \<Longrightarrow> allocated a = allocated b \<Longrightarrow> deallocated a = deallocated b
   \<Longrightarrow> event_unit.more a = event_unit.more b \<Longrightarrow> a = b"
  by (cases a, cases b) simp

lemma unit_sub_more [unit_simps]: "event_unit.more (unit_sub a b) = ()"
  by (simp add: unit_sub_def)

lemma unit_add_to_more [unit_simps]: "event_unit.more (unit_add_to a b) = event_unit.more a"
  by (simp add: unit_add_to_def)

lemma unit_add_to_assoc:
  "unit_add_to (unit_add_to a b) c = unit_add_to a (unit_add_to b c)"
  by (rule event_unit_eqI) (simp_all add: unit_simps ac_simps)

lemma unit_add_to_clear [simp]: "unit_add_to d (unit_clear u) = d"
  by (rule event_unit_eqI) (simp_all add: unit_simps)

lemma unit_sub_clear [simp]: "unit_sub a (unit_clear b) = a"
  by (cases a) (simp add: unit_sub_def unit_clear_def)

lemma unit_add_to_clear_left [simp]: "unit_add_to (unit_clear a) b = b"
  by (cases b) (simp add: unit_add_to_def unit_clear_def)

section \<open>Properties\<close>

text \<open>
  Subtracting a unit that was just added gives the old unit back:
  \<^verbatim>\<open>unit_add_to\<close> and \<^verbatim>\<open>unit_sub\<close> keep exact totals, wrap-around included.
\<close>

theorem unit_sub_add_to_roundtrip: "unit_sub (unit_add_to d x) x = d"
  by (rule event_unit_eqI) (simp_all add: unit_simps)

text \<open>
  The live-bytes query \<^verbatim>\<open>unit_allocated\<close> is clamped at zero when more
  was deallocated than allocated, and is otherwise the exact difference, never above the
  allocated total.
\<close>

theorem unit_allocated_bounds:
  "unat (unit_allocated u) = unat (allocated u) - unat (deallocated u)"
proof (cases "deallocated u > allocated u")
  case True
  then show ?thesis by (simp add: unit_allocated_def word_less_nat_alt)
next
  case False
  then have "deallocated u \<le> allocated u" by simp
  then show ?thesis by (simp add: unit_allocated_def unat_sub)
qed

text \<open>
  \<^verbatim>\<open>lmprof_clock_diff\<close> is the absolute difference of the two samples,
  whichever is larger, so it never wraps.
\<close>

theorem lmprof_clock_diff_abs:
  "int (unat (lmprof_clock_diff a b)) = \<bar>int (unat b) - int (unat a)\<bar>"
proof (cases "a \<le> b")
  case True
  then have "unat a \<le> unat b" by (simp add: word_le_nat_alt)
  with True show ?thesis by (simp add: lmprof_clock_diff_def unat_sub word_le_def)
next
  case False
  then have "b \<le> a" by simp
  then have "unat b \<le> unat a" by (simp add: word_le_nat_alt)
  with False \<open>b \<le> a\<close> show ?thesis by (simp add: lmprof_clock_diff_def unat_sub word_le_def)
qed

text \<open>
  The allocator trampoline accounts exactly the size change of the
  block: afterwards allocated minus deallocated has moved by \<open>nsize - sz\<close> (modulo
  \<open>2^64\<close>), where \<open>sz\<close> is \<open>osize\<close> for an existing block and 0 for a new one; with
  \<^verbatim>\<open>LMPROF_STATE_IGNORE_ALLOC\<close> set the unit is unchanged.
\<close>

theorem alloc_hook_unit_net:
  "allocated (alloc_hook_unit ign pn osize nsize u) - deallocated (alloc_hook_unit ign pn osize nsize u)
   = allocated u - deallocated u + (if ign then 0 else nsize - (if pn then 0 else osize))
   \<and> time (alloc_hook_unit ign pn osize nsize u) = time u"
  by (auto simp: alloc_hook_unit_def Let_def not_less)

end
