(* ===== verification/Activation.thy ===== *)
theory Activation
  imports Measure
begin

text \<open>
  Activation records, \<^verbatim>\<open>src/src/collections/lmprof_record.h\<close>
  and \<^verbatim>\<open>lmprof_record.c\<close>: the record structure with its function information and
  graph statistics, the reset of the statistics, the string sanitizer applied to every
  duplicated name and source, the two string hashes and the identifier derivation
  \<^verbatim>\<open>lmprof_record_id\<close> of the non-builtin build for Lua 5.2 and later. The host's
  \<^verbatim>\<open>lua_Debug\<close> is seen through the fields the derivation reads.
\<close>

unbundle bit_operations_syntax

section \<open>Data\<close>

text \<open>
  \<^verbatim>\<open>lmprof_FunctionInfo\<close> is a re-used \<^verbatim>\<open>lua_Debug\<close>; the fields the profiler
  writes or reads are kept. A \<^verbatim>\<open>NULL\<close> string is \<open>None\<close>; the integer
  \<^verbatim>\<open>event\<close> field is the record's flag word. The fields of Lua 5.4 the report
  prints keep their C widths (\<^verbatim>\<open>unsigned char nups, nparams\<close>,
  \<^verbatim>\<open>unsigned short ftransfer, ntransfer\<close>); the two \<^verbatim>\<open>char\<close> flags, which
  \<^verbatim>\<open>lua_getinfo\<close> sets to 0 or 1, are booleans.
\<close>

record function_info =
  name :: "string option"
  source :: "string option"
  what :: string
  event :: flags32
  linedefined :: int
  lastlinedefined :: int
  nups :: "8 word"
  nparams :: "8 word"
  isvararg :: bool
  istailcall :: bool
  ftransfer :: "16 word"
  ntransfer :: "16 word"

text \<open>
  \<^verbatim>\<open>lmprof_Record\<close>. The graph statistics of the union are prefixed \<open>graph_\<close>
  (\<^verbatim>\<open>record->graph.count\<close> is \<open>graph_count\<close>); an unallocated
  \<^verbatim>\<open>line_freq\<close> array is the empty list, its size the list's length.
\<close>

record lmprof_record =
  r_id :: lu_addr
  f_id :: lu_addr
  p_id :: lu_addr
  p_currentline :: int
  info :: function_info
  graph_count :: lu_size
  graph_node :: event_unit
  graph_path :: event_unit
  graph_line_freq :: "lu_size list"

definition LMPROF_RECORD_USERDATA :: flags32 where "LMPROF_RECORD_USERDATA = 0x1"
definition LMPROF_RECORD_CCLOSURE :: flags32 where "LMPROF_RECORD_CCLOSURE = 0x2"
definition LMPROF_RECORD_IGNORED :: flags32 where "LMPROF_RECORD_IGNORED = 0x4"

definition LMPROF_RECORD_ID_ROOT :: lu_addr where "LMPROF_RECORD_ID_ROOT = 0"
definition LMPROF_RECORD_ID_MAIN :: lu_addr where "LMPROF_RECORD_ID_MAIN = 1"
definition LMPROF_RECORD_ID_UNKNOWN :: lu_addr where "LMPROF_RECORD_ID_UNKNOWN = 2"

text \<open>
  A record fresh from \<^verbatim>\<open>memset(record, 0, sizeof(lmprof_Record))\<close>
  (\<^verbatim>\<open>lmprof_fetch_record\<close>): every field zero, every pointer \<^verbatim>\<open>NULL\<close>.
\<close>

definition info_zero :: function_info where
  "info_zero = \<lparr>name = None, source = None, what = [], event = 0, linedefined = 0,
                lastlinedefined = 0, nups = 0, nparams = 0, isvararg = False,
                istailcall = False, ftransfer = 0, ntransfer = 0\<rparr>"

definition record_zero :: lmprof_record where
  "record_zero = \<lparr>r_id = 0, f_id = 0, p_id = 0, p_currentline = 0, info = info_zero,
                  graph_count = 0, graph_node = unit_zero, graph_path = unit_zero,
                  graph_line_freq = []\<rparr>"

section \<open>Statistics\<close>

definition lmprof_record_clear_graph_statistics :: "lmprof_record \<Rightarrow> lmprof_record" where
  "lmprof_record_clear_graph_statistics r =
     r\<lparr>graph_count := 0, graph_node := unit_clear (graph_node r),
       graph_path := unit_clear (graph_path r)\<rparr>"

section \<open>Sanitizing duplicated strings\<close>

text \<open>
  \<^verbatim>\<open>lmprof_record_sanitize\<close> walks the \<^verbatim>\<open>len\<close> characters of a NUL-terminated
  copy. A dash followed by a dash becomes a space (the look-ahead at the last
  character reads the terminator, which is no dash); otherwise a double quote becomes a
  single quote and a backslash a slash. Position \<open>i + 1\<close> is read before it is
  rewritten, so the look-ahead sees the original character.
\<close>

definition next_is_dash :: "string \<Rightarrow> bool" where
  "next_is_dash cs = (case cs of d # _ \<Rightarrow> d = CHR ''-'' | [] \<Rightarrow> False)"

fun lmprof_record_sanitize :: "string \<Rightarrow> string" where
  "lmprof_record_sanitize [] = []"
| "lmprof_record_sanitize (c # cs) =
     (if c = CHR ''-'' \<and> next_is_dash cs then CHR '' ''
      else if c = CHR 0x22 then CHR 0x27
      else if c = CHR 0x5C then CHR ''/''
      else c) # lmprof_record_sanitize cs"

section \<open>String hashes\<close>

text \<open>
  \<^verbatim>\<open>lmprof_jenkins\<close> (Jenkins one-at-a-time, the default \<^verbatim>\<open>LMPROF_NAME_HASH\<close>)
  reads up to the terminating NUL; \<^verbatim>\<open>lmprof_Shash\<close> (selected by
  \<^verbatim>\<open>LMPROF_USE_STRHASH\<close>) reads the \<^verbatim>\<open>strlen\<close> characters from the last to the
  first. Both compute on \<^verbatim>\<open>lu_addr\<close>, so every step wraps modulo \<open>2^64\<close>.
\<close>

definition c_string :: "string \<Rightarrow> string" where
  "c_string str = takeWhile (\<lambda>c. c \<noteq> CHR 0x00) str"

definition char_word :: "char \<Rightarrow> lu_addr" where
  "char_word c = word_of_nat (of_char c)"

definition jenkins_step :: "lu_addr \<Rightarrow> char \<Rightarrow> lu_addr" where
  "jenkins_step h c =
     (let h1 = h + char_word c;
          h2 = h1 + push_bit 10 h1
      in h2 XOR drop_bit 6 h2)"

definition lmprof_jenkins :: "string \<Rightarrow> lu_addr \<Rightarrow> lu_addr" where
  "lmprof_jenkins str seed =
     (let h = fold (\<lambda>c h. jenkins_step h c) (c_string str) seed;
          h1 = h + push_bit 3 h;
          h2 = h1 XOR drop_bit 11 h1
      in h2 + push_bit 15 h2)"

definition shash_step :: "lu_addr \<Rightarrow> char \<Rightarrow> lu_addr" where
  "shash_step h c = h XOR (push_bit 5 h + drop_bit 2 h + char_word c)"

definition lmprof_Shash :: "string \<Rightarrow> lu_addr \<Rightarrow> lu_addr" where
  "lmprof_Shash str seed =
     (let cs = c_string str
      in fold (\<lambda>c h. shash_step h c) (rev cs) (seed XOR word_of_nat (length cs)))"

definition LMPROF_NAME_HASH :: "string \<Rightarrow> lu_addr" where
  "LMPROF_NAME_HASH str = lmprof_jenkins str 0"

section \<open>Function identifiers\<close>

text \<open>
  What \<^verbatim>\<open>lmprof_record_id\<close> (non-builtin, Lua \<open>\<ge>\<close> 5.2) reads of the activation
  record: whether it has a call info, the C function \<^verbatim>\<open>lua_tocfunction\<close> returns,
  the pointer \<^verbatim>\<open>lua_topointer\<close> returns, \<^verbatim>\<open>what\<close>, \<^verbatim>\<open>source\<close>, the name
  \<^verbatim>\<open>lua_getinfo(L, "n", ar)\<close> fills in, \<^verbatim>\<open>short_src\<close> and \<^verbatim>\<open>linedefined\<close>.
\<close>

record debug_view =
  dv_has_ci :: bool
  dv_cfunction :: "lu_addr option"
  dv_pointer :: lu_addr
  dv_what :: "string option"
  dv_source :: "string option"
  dv_name :: "string option"
  dv_short_src :: string
  dv_linedefined :: int

definition first_char_is :: "char \<Rightarrow> string \<Rightarrow> bool" where
  "first_char_is c str = (case str of d # _ \<Rightarrow> d = c | [] \<Rightarrow> False)"

text \<open>
  The result is the identifier and the C function handed back through \<^verbatim>\<open>result\<close>
  (\<open>None\<close> when it is left untouched).
\<close>

definition lmprof_record_id :: "debug_view \<Rightarrow> bool \<Rightarrow> lu_addr \<times> lu_addr option" where
  "lmprof_record_id ar gc_disabled =
     (if \<not> dv_has_ci ar then (0, None)
      else
        let function = (case dv_cfunction ar of Some f \<Rightarrow> f
                         | None \<Rightarrow> if gc_disabled then dv_pointer ar else 0xDEAD);
            line = (if dv_linedefined ar > 0 then word_of_int (dv_linedefined ar) else 0)
        in (case dv_what ar of
              None \<Rightarrow> function
            | Some w \<Rightarrow>
                if w = [] \<or> first_char_is CHR ''C'' w then function
                else if first_char_is CHR ''m'' w then LMPROF_RECORD_ID_MAIN
                else if (case dv_source ar of Some src \<Rightarrow> first_char_is CHR ''='' src \<or> first_char_is CHR ''@'' src
                         | None \<Rightarrow> False)
                then (0 XOR LMPROF_NAME_HASH (the (dv_source ar))) + line
                else
                  let nm = (case dv_name ar of None \<Rightarrow> w | Some n \<Rightarrow> n);
                      hash = LMPROF_NAME_HASH nm;
                      hash = LMPROF_NAME_HASH (dv_short_src ar)
                  in hash + line,
            dv_cfunction ar))"

section \<open>Lemmas\<close>

lemma sanitize_length [simp]: "length (lmprof_record_sanitize str) = length str"
  by (induction str) simp_all

lemma sanitize_Cons_char:
  "hd (lmprof_record_sanitize (c # cs)) \<in> {CHR '' '', CHR 0x27, CHR ''/''} \<or>
   hd (lmprof_record_sanitize (c # cs)) = c"
  by auto

lemma sanitize_dash_iff:
  "lmprof_record_sanitize (c # cs) = CHR ''-'' # rest \<longleftrightarrow>
   c = CHR ''-'' \<and> \<not> next_is_dash cs \<and> lmprof_record_sanitize cs = rest"
  by auto

lemma sanitize_hd_not_dash:
  "cs \<noteq> [] \<Longrightarrow> hd cs \<noteq> CHR ''-'' \<Longrightarrow> hd (lmprof_record_sanitize cs) \<noteq> CHR ''-''"
  by (cases cs) auto

lemma sanitize_hd_dash:
  "lmprof_record_sanitize (d # ds) = CHR ''-'' # rest \<Longrightarrow> d = CHR ''-'' \<and> \<not> next_is_dash ds"
  by (auto split: if_splits)

lemma next_is_dash_sanitize:
  "next_is_dash (lmprof_record_sanitize cs) \<Longrightarrow> next_is_dash cs"
  by (cases cs) (auto simp: next_is_dash_def split: if_splits)

lemma sanitize_no_double_dash:
  "\<not> (\<exists>xs ys. lmprof_record_sanitize str = xs @ CHR ''-'' # CHR ''-'' # ys)"
proof (induction str)
  case Nil
  then show ?case by simp
next
  case (Cons c cs)
  show ?case
  proof
    assume "\<exists>xs ys. lmprof_record_sanitize (c # cs) = xs @ CHR ''-'' # CHR ''-'' # ys"
    then obtain xs ys where eq: "lmprof_record_sanitize (c # cs) = xs @ CHR ''-'' # CHR ''-'' # ys"
      by blast
    show False
    proof (cases xs)
      case Nil
      with eq have "lmprof_record_sanitize (c # cs) = CHR ''-'' # CHR ''-'' # ys" by simp
      then have nd: "\<not> next_is_dash cs" and tl: "lmprof_record_sanitize cs = CHR ''-'' # ys"
        by (auto split: if_splits)
      from tl obtain d ds where "cs = d # ds" by (cases cs) auto
      with tl have "lmprof_record_sanitize (d # ds) = CHR ''-'' # ys" by simp
      then have "d = CHR ''-''" by (rule sanitize_hd_dash [THEN conjunct1])
      with nd \<open>cs = d # ds\<close> show False by (simp add: next_is_dash_def)
    next
      case (Cons x xs')
      with eq have "lmprof_record_sanitize cs = xs' @ CHR ''-'' # CHR ''-'' # ys" by simp
      with Cons.IH show False by blast
    qed
  qed
qed

lemma sanitize_no_quote: "CHR 0x22 \<notin> set (lmprof_record_sanitize str)"
  by (induction str) auto

lemma sanitize_no_backslash: "CHR 0x5C \<notin> set (lmprof_record_sanitize str)"
  by (induction str) auto

section \<open>Properties\<close>

text \<open>
  C35 (safety): a sanitized name or source never contains two successive dashes (a Lua
  comment leader), a double quote or a backslash, and has the length of the original, so
  it can be re-emitted inside a quoted string of any report format.
\<close>

theorem sanitize_safe:
  "\<not> (\<exists>xs ys. lmprof_record_sanitize str = xs @ CHR ''-'' # CHR ''-'' # ys)
   \<and> CHR 0x22 \<notin> set (lmprof_record_sanitize str)
   \<and> CHR 0x5C \<notin> set (lmprof_record_sanitize str)
   \<and> length (lmprof_record_sanitize str) = length str"
  using sanitize_no_double_dash sanitize_no_quote sanitize_no_backslash by simp

text \<open>
  Sanitizing is idempotent: a string that was sanitized once (as every
  duplicated name is) is left unchanged by a second pass.
\<close>

theorem sanitize_idempotent:
  "lmprof_record_sanitize (lmprof_record_sanitize str) = lmprof_record_sanitize str"
proof (induction str)
  case Nil
  then show ?case by simp
next
  case (Cons c cs)
  have nd: "next_is_dash (lmprof_record_sanitize cs) \<Longrightarrow> next_is_dash cs"
    by (rule next_is_dash_sanitize)
  show ?case
    using Cons.IH nd by (auto split: if_splits)
qed

text \<open>
  The identifier \<^verbatim>\<open>lmprof_record_id\<close> derives for a Lua function
  whose source is neither a file nor a literal does not depend on the function's name:
  the hash of the name is overwritten by the hash of \<^verbatim>\<open>short_src\<close>
  (\<^verbatim>\<open>lmprof_record.c\<close> lines 488--489), so two functions defined on the same line
  of the same chunk share an identifier.
\<close>

theorem lmprof_record_id_ignores_name:
  "lmprof_record_id (ar\<lparr>dv_name := n\<rparr>) gc = lmprof_record_id ar gc"
proof -
  have sel: "dv_has_ci (ar\<lparr>dv_name := n\<rparr>) = dv_has_ci ar"
    "dv_cfunction (ar\<lparr>dv_name := n\<rparr>) = dv_cfunction ar"
    "dv_pointer (ar\<lparr>dv_name := n\<rparr>) = dv_pointer ar"
    "dv_what (ar\<lparr>dv_name := n\<rparr>) = dv_what ar"
    "dv_source (ar\<lparr>dv_name := n\<rparr>) = dv_source ar"
    "dv_short_src (ar\<lparr>dv_name := n\<rparr>) = dv_short_src ar"
    "dv_linedefined (ar\<lparr>dv_name := n\<rparr>) = dv_linedefined ar"
    by simp_all
  show ?thesis
    unfolding lmprof_record_id_def Let_def sel ..
qed

end
