(* ===== verification/Hashtable.thy ===== *)
theory Hashtable
  imports Activation
begin

text \<open>
  The activation-record hashtable,
  \<^verbatim>\<open>src/src/collections/lmprof_hash.h\<close> and the hash section of
  \<^verbatim>\<open>lmprof_collections.c\<close>, together with \<^verbatim>\<open>lmprof_fetch_record\<close> of
  \<^verbatim>\<open>src/src/lmprof.c\<close>, the only caller that inserts. Buckets are chains of record
  pointers; the records themselves live in a store shared with the profile stacks.
  The abstract view of a table is the map from \<open>(fid, parent)\<close> to the first record of
  the key's chain with that key (\<open>hash_lookup\<close>).
\<close>

unbundle bit_operations_syntax

type_synonym record_store = "ref \<Rightarrow> lmprof_record option"

section \<open>Data\<close>

record lmprof_hash =
  bucket_count :: nat
  buckets :: "ref list list"

definition LMPROF_HASH_MAXSIZE :: nat where "LMPROF_HASH_MAXSIZE = 1031"
definition LMPROF_HASH_SIZE :: nat where "LMPROF_HASH_SIZE = 257"

section \<open>Operations\<close>

definition to_identifier :: "lu_addr \<Rightarrow> lu_addr \<Rightarrow> lu_addr" where
  "to_identifier fid parent =
     (let p = fid XOR parent in drop_bit 3 p XOR drop_bit 19 p XOR (p AND 7))"

definition to_bucket :: "lu_addr \<Rightarrow> lu_addr \<Rightarrow> nat \<Rightarrow> nat" where
  "to_bucket fid parent bc = unat (to_identifier fid parent) mod bc"

text \<open>\<^verbatim>\<open>lmprof_hash_create\<close>; \<open>ok\<close> is whether \<^verbatim>\<open>lmprof_malloc\<close> succeeded.\<close>

definition lmprof_hash_create :: "bool \<Rightarrow> nat \<Rightarrow> lmprof_hash option" where
  "lmprof_hash_create ok bc =
     (if ok then Some \<lparr>bucket_count = bc, buckets = replicate bc []\<rparr> else None)"

definition rec_key :: "record_store \<Rightarrow> ref \<Rightarrow> (lu_addr \<times> lu_addr) option" where
  "rec_key st r = map_option (\<lambda>x. (f_id x, p_id x)) (st r)"

text \<open>The search loop of \<^verbatim>\<open>lmprof_hash_get\<close>: the position of the first match.\<close>

fun chain_find :: "(ref \<Rightarrow> bool) \<Rightarrow> ref list \<Rightarrow> nat option" where
  "chain_find P [] = None"
| "chain_find P (r # rs) = (if P r then Some 0 else map_option Suc (chain_find P rs))"

text \<open>
  Moving the hit at position \<open>i\<close> to the head of its chain
  (\<^verbatim>\<open>prev->next = fh->next; fh->next = head; head = fh\<close>), done only when it has a
  predecessor.
\<close>

definition hash_move_front :: "ref list \<Rightarrow> nat \<Rightarrow> ref list" where
  "hash_move_front chain i =
     (if i = 0 then chain else chain ! i # take i chain @ drop (Suc i) chain)"

definition lmprof_hash_get ::
  "record_store \<Rightarrow> lmprof_hash \<Rightarrow> lu_addr \<Rightarrow> lu_addr \<Rightarrow> lmprof_hash \<times> ref option" where
  "lmprof_hash_get st h fid parent =
     (let b = to_bucket fid parent (bucket_count h);
          chain = buckets h ! b
      in case chain_find (\<lambda>r. rec_key st r = Some (fid, parent)) chain of
           None \<Rightarrow> (h, None)
         | Some i \<Rightarrow> (h\<lparr>buckets := (buckets h)[b := hash_move_front chain i]\<rparr>, Some (chain ! i)))"

text \<open>
  \<^verbatim>\<open>lmprof_hash_insert\<close> of the record \<open>x\<close> stored at \<open>r\<close>: a front insertion
  that never checks for the key; \<open>ok\<close> is whether the bucket node was allocated.
  The result flag is the C return value.
\<close>

definition lmprof_hash_insert ::
  "bool \<Rightarrow> lmprof_hash \<Rightarrow> ref \<Rightarrow> lmprof_record \<Rightarrow> lmprof_hash \<times> bool" where
  "lmprof_hash_insert ok h r x =
     (if ok then
        let b = to_bucket (f_id x) (p_id x) (bucket_count h)
        in (h\<lparr>buckets := (buckets h)[b := r # buckets h ! b]\<rparr>, True)
      else (h, False))"

text \<open>The traversal order of \<^verbatim>\<open>lmprof_hash_report\<close> and the statistics reset.\<close>

definition hash_traversal :: "lmprof_hash \<Rightarrow> ref list" where
  "hash_traversal h = concat (map (\<lambda>i. buckets h ! i) [0..<bucket_count h])"

definition lmprof_hash_clear_statistics :: "record_store \<Rightarrow> lmprof_hash \<Rightarrow> record_store" where
  "lmprof_hash_clear_statistics st h =
     fold (\<lambda>r st. st(r := map_option lmprof_record_clear_graph_statistics (st r)))
          (hash_traversal h) st"

text \<open>
  \<^verbatim>\<open>lmprof_fetch_record\<close> (\<^verbatim>\<open>lmprof.c\<close> lines 901--962): look the key up; on a
  miss allocate a zeroed record at a fresh address, number it with the record counter,
  fill in its function information, insert it, then mark it ignored and give it a
  line-frequency array if so configured; on a hit refresh the function information.
  What depends on the interpreter is a parameter: whether each allocation succeeds, the
  fresh address, the information \<^verbatim>\<open>lmprof_record_update\<close> computes for a new record
  and its effect on an existing one, whether the function is in the ignore set (or is
  \<^verbatim>\<open>coroutine.yield\<close> under \<^verbatim>\<open>ignore_yield\<close>), and the length of the
  line-frequency array (0 when none is allocated). An allocation failure raises through
  \<^verbatim>\<open>lmprof_error\<close>.
\<close>

record fetch_env =
  fe_alloc_ok :: bool
  fe_insert_ok :: bool
  fe_fresh :: ref
  fe_info :: function_info
  fe_update :: "function_info \<Rightarrow> function_info"
  fe_ignored :: bool
  fe_nlines :: nat

definition lmprof_fetch_record ::
  "fetch_env \<Rightarrow> record_store \<Rightarrow> lmprof_hash \<Rightarrow> lu_addr \<Rightarrow> lu_addr \<Rightarrow> lu_addr
   \<Rightarrow> (record_store \<times> lmprof_hash \<times> lu_addr \<times> ref) result" where
  "lmprof_fetch_record e st h record_count fid parent =
     (case lmprof_hash_get st h fid parent of
        (h1, None) \<Rightarrow>
          if \<not> fe_alloc_ok e then Inl ''lmprof_record_populate allocation error''
          else
            let x = record_zero\<lparr>f_id := fid, p_id := parent, r_id := record_count,
                                 info := fe_info e\<rparr>;
                r = fe_fresh e
            in (case lmprof_hash_insert (fe_insert_ok e) h1 r x of
                  (h2, False) \<Rightarrow> Inl ''lmprof_hash_insert error''
                | (h2, True) \<Rightarrow>
                    let x1 = (if fe_ignored e
                              then x\<lparr>info := (info x)\<lparr>event := BITFIELD_SET (event (info x)) LMPROF_RECORD_IGNORED\<rparr>\<rparr>
                              else x);
                        x2 = (if 0 < fe_nlines e then x1\<lparr>graph_line_freq := replicate (fe_nlines e) 0\<rparr> else x1)
                    in Inr (st(r \<mapsto> x2), h2, record_count + 1, r))
      | (h1, Some r) \<Rightarrow>
          Inr (st(r := map_option (\<lambda>y. y\<lparr>info := fe_update e (info y)\<rparr>) (st r)), h1, record_count, r))"

section \<open>Abstract view and invariant\<close>

definition hash_lookup :: "record_store \<Rightarrow> lmprof_hash \<Rightarrow> lu_addr \<Rightarrow> lu_addr \<Rightarrow> ref option" where
  "hash_lookup st h fid parent =
     find (\<lambda>r. rec_key st r = Some (fid, parent)) (buckets h ! to_bucket fid parent (bucket_count h))"

text \<open>
  Well-formed table: a positive bucket count matching the array, every chained pointer
  refers to a stored record whose key hashes to that bucket, and no chain holds two
  records with one key.
\<close>

definition hash_inv :: "record_store \<Rightarrow> lmprof_hash \<Rightarrow> bool" where
  "hash_inv st h \<longleftrightarrow>
     0 < bucket_count h \<and> length (buckets h) = bucket_count h \<and>
     (\<forall>b < bucket_count h. \<forall>r \<in> set (buckets h ! b).
        \<exists>f p. rec_key st r = Some (f, p) \<and> to_bucket f p (bucket_count h) = b) \<and>
     (\<forall>b < bucket_count h. distinct (map (rec_key st) (buckets h ! b)))"

section \<open>Lemmas\<close>

lemma to_bucket_less [hash_simps]: "0 < bc \<Longrightarrow> to_bucket f p bc < bc"
  by (simp add: to_bucket_def)

lemma chain_find_Some:
  "chain_find P c = Some i \<Longrightarrow> i < length c \<and> P (c ! i) \<and> (\<forall>j < i. \<not> P (c ! j))"
proof (induction c arbitrary: i)
  case Nil
  then show ?case by simp
next
  case (Cons r rs)
  then show ?case
    by (auto split: if_splits simp: less_Suc_eq_0_disj)
qed

lemma chain_find_None: "chain_find P c = None \<longleftrightarrow> (\<forall>r \<in> set c. \<not> P r)"
  by (induction c) auto

lemma find_chain_find: "find P c = map_option ((!) c) (chain_find P c)"
  by (induction c) (auto simp: option.map_comp comp_def)

lemma find_move_front:
  assumes "i < length c" and "Q (c ! i) \<Longrightarrow> \<forall>j < i. \<not> Q (c ! j)"
  shows "find Q (hash_move_front c i) = find Q c"
proof (cases "i = 0")
  case True
  then show ?thesis by (simp add: hash_move_front_def)
next
  case False
  have c: "c = take i c @ c ! i # drop (Suc i) c"
    using assms(1) by (simp add: id_take_nth_drop)
  show ?thesis
  proof (cases "Q (c ! i)")
    case True
    with assms(2) have "\<forall>x \<in> set (take i c). \<not> Q x"
      by (auto simp: in_set_conv_nth)
    then have "find Q c = Some (c ! i)"
      using True c by (metis find_append_eq find_None_iff option.simps(4) find.simps(2))
    with True False show ?thesis by (simp add: hash_move_front_def)
  next
    case nQ: False
    have "find Q c = find Q (take i c @ drop (Suc i) c)"
      using c nQ by (metis find_append_eq find.simps(2))
    with nQ False show ?thesis by (simp add: hash_move_front_def)
  qed
qed

lemma set_hash_move_front [simp]: "i < length c \<Longrightarrow> set (hash_move_front c i) = set c"
  by (metis hash_move_front_def set_move_to_front)

lemma mset_hash_move_front [simp]: "i < length c \<Longrightarrow> mset (hash_move_front c i) = mset c"
  by (metis hash_move_front_def mset_move_to_front)

lemma distinct_map_hash_move_front:
  "i < length c \<Longrightarrow> distinct (map f (hash_move_front c i)) = distinct (map f c)"
  by (metis mset_hash_move_front mset_map mset_eq_imp_distinct_iff)

lemma lookup_rec_key_cong:
  "(\<And>r. rec_key st' r = rec_key st r) \<Longrightarrow> hash_lookup st' h = hash_lookup st h"
  by (simp add: hash_lookup_def fun_eq_iff)

lemma hash_inv_rec_key_cong:
  "(\<And>r. rec_key st' r = rec_key st r) \<Longrightarrow> hash_inv st' h = hash_inv st h"
proof -
  assume "\<And>r. rec_key st' r = rec_key st r"
  then have "rec_key st' = rec_key st" by (rule ext)
  then show ?thesis by (simp add: hash_inv_def)
qed

lemma hash_get_snd: "snd (lmprof_hash_get st h f p) = hash_lookup st h f p"
  by (auto simp: lmprof_hash_get_def hash_lookup_def Let_def find_chain_find split: option.split)

lemma hash_get_lookup:
  "hash_lookup st (fst (lmprof_hash_get st h f p)) = hash_lookup st h"
proof (intro ext)
  fix f' p'
  let ?b = "to_bucket f p (bucket_count h)" and ?c = "buckets h ! to_bucket f p (bucket_count h)"
  let ?P = "\<lambda>r. rec_key st r = Some (f, p)"
  show "hash_lookup st (fst (lmprof_hash_get st h f p)) f' p' = hash_lookup st h f' p'"
  proof (cases "chain_find ?P ?c")
    case None
    then show ?thesis by (simp add: lmprof_hash_get_def Let_def)
  next
    case (Some i)
    note ci = chain_find_Some [OF Some]
    let ?Q = "\<lambda>r. rec_key st r = Some (f', p')"
    have mv: "find ?Q (hash_move_front ?c i) = find ?Q ?c"
    proof (rule find_move_front)
      show "i < length ?c" using ci by simp
      assume "?Q (?c ! i)"
      with ci have "(f', p') = (f, p)" by simp
      with ci show "\<forall>j < i. \<not> ?Q (?c ! j)" by simp
    qed
    show ?thesis
    proof (cases "?b < length (buckets h)")
      case True
      with Some mv show ?thesis
        by (cases "to_bucket f' p' (bucket_count h) = ?b")
           (auto simp: lmprof_hash_get_def hash_lookup_def Let_def nth_list_update)
    next
      case False
      with Some show ?thesis
        by (simp add: lmprof_hash_get_def hash_lookup_def Let_def list_update_beyond not_less)
    qed
  qed
qed

lemma hash_inv_set_bucket:
  assumes inv: "hash_inv st h" and b: "b < length (buckets h)"
    and keys: "\<forall>r \<in> set c'. \<exists>f p. rec_key st r = Some (f, p) \<and> to_bucket f p (bucket_count h) = b"
    and dist: "distinct (map (rec_key st) c')"
  shows "hash_inv st (h\<lparr>buckets := (buckets h)[b := c']\<rparr>)"
  unfolding hash_inv_def
proof (intro conjI allI impI ballI)
  show "0 < bucket_count (h\<lparr>buckets := (buckets h)[b := c']\<rparr>)"
    using inv by (simp add: hash_inv_def)
  show "length (buckets (h\<lparr>buckets := (buckets h)[b := c']\<rparr>)) = bucket_count (h\<lparr>buckets := (buckets h)[b := c']\<rparr>)"
    using inv by (simp add: hash_inv_def)
next
  fix b' r
  assume "b' < bucket_count (h\<lparr>buckets := (buckets h)[b := c']\<rparr>)"
    and r: "r \<in> set (buckets (h\<lparr>buckets := (buckets h)[b := c']\<rparr>) ! b')"
  then have b': "b' < bucket_count h" by simp
  show "\<exists>f p. rec_key st r = Some (f, p) \<and> to_bucket f p (bucket_count (h\<lparr>buckets := (buckets h)[b := c']\<rparr>)) = b'"
  proof (cases "b' = b")
    case True
    with r b keys show ?thesis by simp
  next
    case False
    with r b inv b' show ?thesis by (simp add: hash_inv_def)
  qed
next
  fix b'
  assume "b' < bucket_count (h\<lparr>buckets := (buckets h)[b := c']\<rparr>)"
  then have b': "b' < bucket_count h" by simp
  show "distinct (map (rec_key st) (buckets (h\<lparr>buckets := (buckets h)[b := c']\<rparr>) ! b'))"
  proof (cases "b' = b")
    case True
    with b dist show ?thesis by simp
  next
    case False
    with b inv b' show ?thesis by (simp add: hash_inv_def)
  qed
qed

lemma hash_get_inv: "hash_inv st h \<Longrightarrow> hash_inv st (fst (lmprof_hash_get st h f p))"
proof -
  assume inv: "hash_inv st h"
  let ?b = "to_bucket f p (bucket_count h)" and ?c = "buckets h ! to_bucket f p (bucket_count h)"
  show ?thesis
  proof (cases "chain_find (\<lambda>r. rec_key st r = Some (f, p)) ?c")
    case None
    with inv show ?thesis by (simp add: lmprof_hash_get_def Let_def)
  next
    case (Some i)
    then have i: "i < length ?c" by (simp add: chain_find_Some)
    have b: "?b < length (buckets h)" using inv by (simp add: hash_inv_def to_bucket_less)
    have "hash_inv st (h\<lparr>buckets := (buckets h)[?b := hash_move_front ?c i]\<rparr>)"
    proof (rule hash_inv_set_bucket [OF inv b])
      show "\<forall>r \<in> set (hash_move_front ?c i). \<exists>f' p'. rec_key st r = Some (f', p') \<and> to_bucket f' p' (bucket_count h) = ?b"
        using inv b i by (simp add: hash_inv_def)
      show "distinct (map (rec_key st) (hash_move_front ?c i))"
        using inv b i by (simp add: hash_inv_def distinct_map_hash_move_front)
    qed
    with Some show ?thesis by (simp add: lmprof_hash_get_def Let_def)
  qed
qed

lemma hash_inv_bucket_len: "hash_inv st h \<Longrightarrow> to_bucket f p (bucket_count h) < length (buckets h)"
  by (simp add: hash_inv_def to_bucket_less)

lemma hash_inv_in_store:
  "hash_inv st h \<Longrightarrow> b < bucket_count h \<Longrightarrow> r \<in> set (buckets h ! b) \<Longrightarrow> st r \<noteq> None"
  by (fastforce simp: hash_inv_def rec_key_def)

lemma hash_insert_lookup:
  assumes inv: "hash_inv st h" and x: "st r = Some x"
  shows "hash_lookup st (fst (lmprof_hash_insert True h r x)) =
           (\<lambda>f p. if (f, p) = (f_id x, p_id x) then Some r else hash_lookup st h f p)"
proof (intro ext)
  fix f p
  let ?b = "to_bucket (f_id x) (p_id x) (bucket_count h)"
  have b: "?b < length (buckets h)" using inv by (rule hash_inv_bucket_len)
  have k: "rec_key st r = Some (f_id x, p_id x)" using x by (simp add: rec_key_def)
  show "hash_lookup st (fst (lmprof_hash_insert True h r x)) f p =
        (if (f, p) = (f_id x, p_id x) then Some r else hash_lookup st h f p)"
  proof (cases "(f, p) = (f_id x, p_id x)")
    case True
    then have "to_bucket f p (bucket_count h) = ?b" by simp
    with True b k show ?thesis
      by (simp add: lmprof_hash_insert_def hash_lookup_def Let_def)
  next
    case False
    with k have nq: "rec_key st r \<noteq> Some (f, p)" by auto
    show ?thesis
    proof (cases "to_bucket f p (bucket_count h) = ?b")
      case True
      with False b nq show ?thesis
        by (auto simp: lmprof_hash_insert_def hash_lookup_def Let_def)
    next
      case nb: False
      with False show ?thesis
        by (auto simp: lmprof_hash_insert_def hash_lookup_def Let_def)
    qed
  qed
qed

lemma hash_insert_inv:
  assumes inv: "hash_inv st h" and x: "st r = Some x"
    and miss: "hash_lookup st h (f_id x) (p_id x) = None"
  shows "hash_inv st (fst (lmprof_hash_insert True h r x))"
proof -
  let ?b = "to_bucket (f_id x) (p_id x) (bucket_count h)"
  have b: "?b < length (buckets h)" using inv by (rule hash_inv_bucket_len)
  have k: "rec_key st r = Some (f_id x, p_id x)" using x by (simp add: rec_key_def)
  have notin: "Some (f_id x, p_id x) \<notin> set (map (rec_key st) (buckets h ! ?b))"
    using miss by (auto simp: hash_lookup_def find_None_iff)
  have "hash_inv st (h\<lparr>buckets := (buckets h)[?b := r # buckets h ! ?b]\<rparr>)"
  proof (rule hash_inv_set_bucket [OF inv b])
    show "\<forall>r' \<in> set (r # buckets h ! ?b). \<exists>f p. rec_key st r' = Some (f, p) \<and> to_bucket f p (bucket_count h) = ?b"
      using inv b k by (simp add: hash_inv_def)
    show "distinct (map (rec_key st) (r # buckets h ! ?b))"
      using inv b k notin by (simp add: hash_inv_def)
  qed
  then show ?thesis by (simp add: lmprof_hash_insert_def Let_def)
qed

lemma hash_inv_fresh_store:
  assumes inv: "hash_inv st h" and fresh: "st r = None"
  shows "hash_inv (st(r \<mapsto> x)) h \<and> hash_lookup (st(r \<mapsto> x)) h = hash_lookup st h"
proof -
  have notin: "r \<notin> set (buckets h ! b)" if "b < bucket_count h" for b
    using hash_inv_in_store [OF inv that] fresh by blast
  have eq: "map (rec_key (st(r \<mapsto> x))) (buckets h ! b) = map (rec_key st) (buckets h ! b)"
    if "b < bucket_count h" for b
    using notin [OF that] by (auto simp: rec_key_def)
  have key: "rec_key (st(r \<mapsto> x)) r' = rec_key st r'" if "r' \<in> set (buckets h ! b)" "b < bucket_count h" for r' b
    using notin that by (auto simp: rec_key_def)
  have dist: "distinct (map (rec_key (st(r \<mapsto> x))) (buckets h ! b))" if "b < bucket_count h" for b
    using inv that unfolding eq [OF that] by (simp add: hash_inv_def)
  have keys: "\<exists>f p. rec_key (st(r \<mapsto> x)) r' = Some (f, p) \<and> to_bucket f p (bucket_count h) = b"
    if "b < bucket_count h" "r' \<in> set (buckets h ! b)" for b r'
    using key [OF that(2,1)] inv that by (simp add: hash_inv_def)
  have "hash_inv (st(r \<mapsto> x)) h"
    using inv dist keys by (simp add: hash_inv_def)
  moreover have "hash_lookup (st(r \<mapsto> x)) h = hash_lookup st h"
  proof (intro ext)
    fix f p
    have "to_bucket f p (bucket_count h) < bucket_count h"
      using inv by (simp add: hash_inv_def to_bucket_less)
    then show "hash_lookup (st(r \<mapsto> x)) h f p = hash_lookup st h f p"
      unfolding hash_lookup_def using key by (intro find_cong) auto
  qed
  ultimately show ?thesis ..
qed

lemma fold_clear_statistics:
  "fold (\<lambda>r st. st(r := map_option lmprof_record_clear_graph_statistics (st r))) xs st r =
   (if r \<in> set xs then map_option lmprof_record_clear_graph_statistics (st r) else st r)"
proof (induction xs arbitrary: st)
  case Nil
  then show ?case by simp
next
  case (Cons y ys)
  have idem: "lmprof_record_clear_graph_statistics (lmprof_record_clear_graph_statistics z) =
              lmprof_record_clear_graph_statistics z" for z
    by (simp add: lmprof_record_clear_graph_statistics_def unit_clear_def)
  show ?case using Cons.IH by (auto simp: option.map_comp comp_def idem)
qed

lemma hash_get_eq: "lmprof_hash_get st h f p = (fst (lmprof_hash_get st h f p), hash_lookup st h f p)"
  by (metis hash_get_snd prod.collapse)

lemma hash_insert_keys:
  "f_id x = f_id y \<Longrightarrow> p_id x = p_id y \<Longrightarrow> lmprof_hash_insert ok h r x = lmprof_hash_insert ok h r y"
  by (simp add: lmprof_hash_insert_def)

lemma find_Some_key: "find (\<lambda>r. rec_key st r = Some k) c = Some r \<Longrightarrow> rec_key st r = Some k"
  by (auto simp: find_Some_iff)

lemma fetch_record_ok:
  assumes inv: "hash_inv st h" and fresh: "st (fe_fresh e) = None"
    and ok: "fe_alloc_ok e" "fe_insert_ok e"
  shows "\<exists>st' h' rc' r. lmprof_fetch_record e st h rc f p = Inr (st', h', rc', r) \<and>
           hash_inv st' h' \<and> hash_lookup st' h' f p = Some r \<and> rec_key st' r = Some (f, p)"
proof (cases "hash_lookup st h f p")
  case (Some r0)
  let ?h1 = "fst (lmprof_hash_get st h f p)"
  let ?st' = "st(r0 := map_option (\<lambda>y. y\<lparr>info := fe_update e (info y)\<rparr>) (st r0))"
  have keys: "rec_key ?st' r = rec_key st r" for r
    by (simp add: rec_key_def option.map_comp comp_def)
  have inv1: "hash_inv st ?h1" using inv by (rule hash_get_inv)
  have k: "rec_key st r0 = Some (f, p)"
    using Some unfolding hash_lookup_def by (rule find_Some_key)
  have "lmprof_fetch_record e st h rc f p = Inr (?st', ?h1, rc, r0)"
    using Some unfolding lmprof_fetch_record_def by (subst hash_get_eq) simp
  moreover have "hash_inv ?st' ?h1" using inv1 hash_inv_rec_key_cong [of ?st' st] keys by simp
  moreover have "hash_lookup ?st' ?h1 f p = Some r0"
    using lookup_rec_key_cong [of ?st' st] keys hash_get_lookup Some by simp
  moreover have "rec_key ?st' r0 = Some (f, p)" using keys k by simp
  ultimately show ?thesis by blast
next
  case None
  let ?h1 = "fst (lmprof_hash_get st h f p)" and ?r = "fe_fresh e"
  define x where "x = record_zero\<lparr>f_id := f, p_id := p, r_id := rc, info := fe_info e\<rparr>"
  define x1 where "x1 = (if fe_ignored e
                    then x\<lparr>info := (info x)\<lparr>event := BITFIELD_SET (event (info x)) LMPROF_RECORD_IGNORED\<rparr>\<rparr>
                    else x)"
  define x2 where "x2 = (if 0 < fe_nlines e then x1\<lparr>graph_line_freq := replicate (fe_nlines e) 0\<rparr> else x1)"
  let ?st1 = "st(?r \<mapsto> x2)"
  have kx2: "f_id x2 = f" "p_id x2 = p" by (simp_all add: x_def x1_def x2_def)
  have ins: "lmprof_hash_insert True ?h1 ?r x = lmprof_hash_insert True ?h1 ?r x2"
    by (rule hash_insert_keys) (simp_all add: x_def x1_def x2_def)
  have inv1: "hash_inv st ?h1" using inv by (rule hash_get_inv)
  have fr: "hash_inv ?st1 ?h1 \<and> hash_lookup ?st1 ?h1 = hash_lookup st ?h1"
    using inv1 fresh by (rule hash_inv_fresh_store)
  have miss: "hash_lookup ?st1 ?h1 (f_id x2) (p_id x2) = None"
    using fr None hash_get_lookup kx2 by simp
  let ?h2 = "fst (lmprof_hash_insert True ?h1 ?r x2)"
  have res: "lmprof_fetch_record e st h rc f p = Inr (?st1, ?h2, rc + 1, ?r)"
    using None ok ins unfolding lmprof_fetch_record_def
    by (subst hash_get_eq) (simp add: Let_def x_def x1_def x2_def lmprof_hash_insert_def)
  have "hash_inv ?st1 ?h2"
    using fr miss by (intro hash_insert_inv) simp_all
  moreover have "hash_lookup ?st1 ?h2 f p = Some ?r"
    using hash_insert_lookup [of ?st1 ?h1 ?r x2] fr kx2 by simp
  moreover have "rec_key ?st1 ?r = Some (f, p)" using kx2 by (simp add: rec_key_def)
  ultimately show ?thesis using res by blast
qed


lemma example_hash_inv:
  "hash_inv [0 \<mapsto> record_zero\<lparr>f_id := 5\<rparr>] \<lparr>bucket_count = 2, buckets = [[], [0]]\<rparr>"
  by (simp add: hash_inv_def rec_key_def record_zero_def to_bucket_def to_identifier_def
                less_2_cases_iff)

section \<open>Properties\<close>

text \<open>
  C33 (refinement): \<^verbatim>\<open>lmprof_hash_get\<close> returns exactly what the abstract lookup
  returns, and its move-to-front reordering changes no lookup afterwards.
\<close>

theorem hash_get_refines:
  "snd (lmprof_hash_get st h f p) = hash_lookup st h f p \<and>
   hash_lookup st (fst (lmprof_hash_get st h f p)) = hash_lookup st h"
  using hash_get_snd hash_get_lookup by simp

text \<open>
  C34 (refinement): on a well-formed table, inserting the record stored at \<open>r\<close> makes
  its key map to \<open>r\<close> and leaves every other key's lookup as it was: an update of the
  abstract map.
\<close>

theorem hash_insert_refines:
  assumes "hash_inv st h" and "st r = Some x"
  shows "hash_lookup st (fst (lmprof_hash_insert True h r x)) =
           (\<lambda>f p. if (f, p) = (f_id x, p_id x) then Some r else hash_lookup st h f p)"
  using assms by (rule hash_insert_lookup)

theorem hash_insert_refines_witness:
  "hash_inv [0 \<mapsto> record_zero\<lparr>f_id := 5\<rparr>] \<lparr>bucket_count = 2, buckets = [[], [0]]\<rparr> \<and>
   [0 \<mapsto> record_zero\<lparr>f_id := 5\<rparr>] (0::ref) = Some (record_zero\<lparr>f_id := 5\<rparr>) \<and>
   hash_lookup [0 \<mapsto> record_zero\<lparr>f_id := 5\<rparr>]
     (fst (lmprof_hash_insert True \<lparr>bucket_count = 2, buckets = [[], [0]]\<rparr> 0 (record_zero\<lparr>f_id := 5\<rparr>))) 5 0 = Some 0"
proof -
  have inv: "hash_inv [0 \<mapsto> record_zero\<lparr>f_id := 5\<rparr>] \<lparr>bucket_count = 2, buckets = [[], [0]]\<rparr>"
    by (rule example_hash_inv)
  show ?thesis
    using inv hash_insert_refines [OF inv, of 0 "record_zero\<lparr>f_id := 5\<rparr>"]
    by (simp add: record_zero_def)
qed

text \<open>
  C32 (invariant): the table invariant (positive bucket count, every chained record stored
  and hashed to its bucket, no key twice in a chain) is kept by a lookup, and by an
  insertion of a key the table does not yet hold, which is how
  \<^verbatim>\<open>lmprof_fetch_record\<close> calls \<^verbatim>\<open>lmprof_hash_insert\<close>.
\<close>

theorem hash_ops_preserve_inv:
  assumes "hash_inv st h"
  shows "hash_inv st (fst (lmprof_hash_get st h f p)) \<and>
         (st r = Some x \<longrightarrow> hash_lookup st h (f_id x) (p_id x) = None \<longrightarrow>
            hash_inv st (fst (lmprof_hash_insert True h r x)))"
  using assms hash_get_inv hash_insert_inv by blast

theorem hash_ops_preserve_inv_witness:
  "hash_inv [0 \<mapsto> record_zero\<lparr>f_id := 5\<rparr>, 1 \<mapsto> record_zero\<lparr>f_id := 4\<rparr>]
     (fst (lmprof_hash_insert True \<lparr>bucket_count = 2, buckets = [[], [0]]\<rparr> 1 (record_zero\<lparr>f_id := 4\<rparr>)))"
proof -
  let ?st = "[0 \<mapsto> record_zero\<lparr>f_id := 5\<rparr>, 1 \<mapsto> record_zero\<lparr>f_id := 4\<rparr>]"
  have inv: "hash_inv ?st \<lparr>bucket_count = 2, buckets = [[], [0]]\<rparr>"
    by (simp add: hash_inv_def rec_key_def record_zero_def to_bucket_def to_identifier_def
                  less_2_cases_iff)
  have miss: "hash_lookup ?st \<lparr>bucket_count = 2, buckets = [[], [0]]\<rparr> 4 0 = None"
    by (simp add: hash_lookup_def rec_key_def record_zero_def to_bucket_def to_identifier_def)
  show ?thesis
    using hash_ops_preserve_inv [OF inv, of 0 0 1 "record_zero\<lparr>f_id := 4\<rparr>"] miss
    by (simp add: record_zero_def)
qed

text \<open>
  In a well-formed table no two distinct records anywhere in the table
  share a \<open>(fid, pid)\<close> key.
\<close>

theorem hash_unique_key:
  assumes inv: "hash_inv st h"
    and r1: "r1 \<in> set (hash_traversal h)" and r2: "r2 \<in> set (hash_traversal h)"
    and k: "rec_key st r1 = rec_key st r2"
  shows "r1 = r2"
proof -
  from r1 obtain b1 where b1: "b1 < bucket_count h" "r1 \<in> set (buckets h ! b1)"
    by (auto simp: hash_traversal_def)
  from r2 obtain b2 where b2: "b2 < bucket_count h" "r2 \<in> set (buckets h ! b2)"
    by (auto simp: hash_traversal_def)
  from inv b1 obtain f p where kf: "rec_key st r1 = Some (f, p)" "to_bucket f p (bucket_count h) = b1"
    unfolding hash_inv_def by blast
  from inv b2 obtain f2 p2 where kf2: "rec_key st r2 = Some (f2, p2)" "to_bucket f2 p2 (bucket_count h) = b2"
    unfolding hash_inv_def by blast
  from k kf(1) kf2(1) have "(f2, p2) = (f, p)" by simp
  with kf(2) kf2(2) have "b2 = b1" by simp
  with b2 have r2': "r2 \<in> set (buckets h ! b1)" by simp
  from inv b1 have "inj_on (rec_key st) (set (buckets h ! b1))"
    by (simp add: hash_inv_def distinct_map)
  with b1 r2' k show ?thesis by (auto dest: inj_onD)
qed

theorem hash_unique_key_witness:
  "hash_inv [0 \<mapsto> record_zero\<lparr>f_id := 5\<rparr>] \<lparr>bucket_count = 2, buckets = [[], [0]]\<rparr> \<and>
   (0::ref) \<in> set (hash_traversal \<lparr>bucket_count = 2, buckets = [[], [0]]\<rparr>) \<and> (0::ref) = 0"
proof -
  have "(0::ref) \<in> set (hash_traversal \<lparr>bucket_count = 2, buckets = [[], [0]]\<rparr>)"
    by (simp add: hash_traversal_def upt_rec)
  then show ?thesis
    using example_hash_inv hash_unique_key [OF example_hash_inv, of 0 0] by simp
qed

text \<open>
  C31 (functional): \<^verbatim>\<open>lmprof_fetch_record\<close> on a well-formed table with a fresh
  address and successful allocations always returns, leaves a well-formed table in which
  the key \<open>(fid, pid)\<close> maps to the returned record, and that record carries the key,
  whether it was found or created.
\<close>

theorem fetch_record_spec:
  assumes "hash_inv st h" and "st (fe_fresh e) = None"
    and "fe_alloc_ok e" and "fe_insert_ok e"
  shows "\<exists>st' h' rc' r. lmprof_fetch_record e st h rc f p = Inr (st', h', rc', r) \<and>
           hash_inv st' h' \<and> hash_lookup st' h' f p = Some r \<and> rec_key st' r = Some (f, p)"
  using assms by (rule fetch_record_ok)

theorem fetch_record_spec_witness:
  "\<exists>st' h' rc' r. lmprof_fetch_record
       \<lparr>fe_alloc_ok = True, fe_insert_ok = True, fe_fresh = 1, fe_info = info_zero,
        fe_update = id, fe_ignored = False, fe_nlines = 0\<rparr>
       [0 \<mapsto> record_zero\<lparr>f_id := 5\<rparr>] \<lparr>bucket_count = 2, buckets = [[], [0]]\<rparr> 1 7 5
       = Inr (st', h', rc', r) \<and> hash_lookup st' h' 7 5 = Some r"
  using fetch_record_spec [OF example_hash_inv,
      of "\<lparr>fe_alloc_ok = True, fe_insert_ok = True, fe_fresh = 1, fe_info = info_zero,
           fe_update = id, fe_ignored = False, fe_nlines = 0\<rparr>" 1 7 5]
  by auto

text \<open>
  When the key is new and the record allocation fails,
  \<^verbatim>\<open>lmprof_fetch_record\<close> raises \<^verbatim>\<open>"lmprof_record_populate allocation error"\<close> and
  commits nothing.
\<close>

theorem fetch_record_alloc_error:
  assumes "hash_lookup st h f p = None" and "\<not> fe_alloc_ok e"
  shows "lmprof_fetch_record e st h rc f p = Inl ''lmprof_record_populate allocation error''"
  using assms unfolding lmprof_fetch_record_def by (subst hash_get_eq) simp

theorem fetch_record_alloc_error_witness:
  "lmprof_fetch_record
       \<lparr>fe_alloc_ok = False, fe_insert_ok = True, fe_fresh = 1, fe_info = info_zero,
        fe_update = id, fe_ignored = False, fe_nlines = 0\<rparr>
       Map.empty \<lparr>bucket_count = 2, buckets = [[], []]\<rparr> 1 7 5
   = Inl ''lmprof_record_populate allocation error''"
  by (rule fetch_record_alloc_error) (simp_all add: hash_lookup_def rec_key_def find_None_iff)

text \<open>
  \<^verbatim>\<open>lmprof_hash_clear_statistics\<close> resets the count and both
  measurements of exactly the records the table holds and leaves every other stored
  record, and the table itself, untouched; a record keeps its identity and information.
\<close>

theorem hash_clear_statistics_spec:
  "lmprof_hash_clear_statistics st h r =
     (if r \<in> set (hash_traversal h) then map_option lmprof_record_clear_graph_statistics (st r)
      else st r)"
  unfolding lmprof_hash_clear_statistics_def by (rule fold_clear_statistics)

end
