(* ===== verification/Profile_Stack.thy ===== *)
theory Profile_Stack
  imports Hashtable
begin

text \<open>
  The profile stack, \<^verbatim>\<open>src/src/collections/lmprof_stack.h\<close> and the stack section
  of \<^verbatim>\<open>src/src/collections/lmprof_collections.c\<close>. A stack is a fixed array of
  \<^verbatim>\<open>LMPROF_MAXSTACK\<close> frames with a \<^verbatim>\<open>head\<close> (first free slot); the operations
  hand out pointers into the array, modelled as indices. Each frame is a union of a
  graph view (record, overhead, node and path measurements) and a trace-event view
  (record, begin event, call measurement); a stack uses one view for its whole life
  (\<^verbatim>\<open>callback_api\<close> is fixed at creation), so the model keeps both views as separate
  fields and each operation touches the view the code touches. The graph pop mutates
  the activation record it points to, held in the store of the hashtable theory.
\<close>

section \<open>Data\<close>

definition LMPROF_MAXSTACK :: nat where "LMPROF_MAXSTACK = 1024"

definition LMPROF_PROCESS_MAIN :: int where "LMPROF_PROCESS_MAIN = 1"
definition LMPROF_THREAD_BROWSER :: int where "LMPROF_THREAD_BROWSER = 1"

text \<open>\<^verbatim>\<open>lmprof_StackInst\<close>: \<open>g_\<close> fields are \<^verbatim>\<open>graph.*\<close>, \<open>t_\<close> fields \<^verbatim>\<open>trace.*\<close>.\<close>

record stack_inst =
  tail_call :: bool
  last_line :: int
  last_line_instructions :: lu_size
  g_record :: "ref option"
  g_overhead :: lu_time
  g_node :: event_unit
  g_path :: event_unit
  t_record :: "ref option"
  t_begin_event :: "event_ptr option"
  t_call :: event_measurement

text \<open>\<^verbatim>\<open>lmprof_Stack\<close>; its \<^verbatim>\<open>size\<close> field is \<open>size_stk\<close>.\<close>

record lmprof_stack =
  callback_api :: bool
  thread_identifier :: int
  instr_count :: lu_size
  instr_last :: lu_time
  head :: nat
  size_stk :: nat
  stack :: "stack_inst list"

section \<open>Stack operations (lmprof_stack.h)\<close>

text \<open>A write through the frame pointer \<^verbatim>\<open>&s->stack[i]\<close>.\<close>

definition inst_upd :: "nat \<Rightarrow> (stack_inst \<Rightarrow> stack_inst) \<Rightarrow> lmprof_stack \<Rightarrow> lmprof_stack" where
  "inst_upd i f stk = stk\<lparr>stack := (stack stk)[i := f (stack stk ! i)]\<rparr>"

definition lmprof_stack_size :: "lmprof_stack \<Rightarrow> nat" where
  "lmprof_stack_size stk = head stk"

definition lmprof_stack_peek :: "lmprof_stack \<Rightarrow> nat option" where
  "lmprof_stack_peek stk = (if 0 < head stk then Some (head stk - 1) else None)"

definition lmprof_stack_parent :: "lmprof_stack \<Rightarrow> nat option" where
  "lmprof_stack_parent stk = (if 1 < head stk then Some (head stk - 2) else None)"

definition lmprof_stack_next :: "lmprof_stack \<Rightarrow> bool \<Rightarrow> lmprof_stack \<times> nat option" where
  "lmprof_stack_next stk tail =
     (if head stk < size_stk stk
      then (inst_upd (head stk) (\<lambda>inst. inst\<lparr>tail_call := tail\<rparr>) (stk\<lparr>head := head stk + 1\<rparr>),
            Some (head stk))
      else (stk, None))"

definition lmprof_stack_pop :: "lmprof_stack \<Rightarrow> lmprof_stack \<times> nat option" where
  "lmprof_stack_pop stk =
     (if 0 < head stk then (stk\<lparr>head := head stk - 1\<rparr>, Some (head stk - 1)) else (stk, None))"

text \<open>
  \<^verbatim>\<open>lmprof_stack_foreach\<close> visits the frames from the top down and stops at the
  first callback that does not return \<^verbatim>\<open>LUA_OK\<close>: the frames it visits, for a
  callback given as a predicate on frame indices.
\<close>

definition lmprof_stack_foreach :: "(nat \<Rightarrow> bool) \<Rightarrow> lmprof_stack \<Rightarrow> nat list" where
  "lmprof_stack_foreach ok stk =
     (let order = rev [0..<head stk] in takeWhile ok order @ take 1 (dropWhile ok order))"

section \<open>Clearing and creating stacks (lmprof_collections.c)\<close>

definition inst_clear :: "bool \<Rightarrow> stack_inst \<Rightarrow> stack_inst" where
  "inst_clear cb inst =
     (let i1 = inst\<lparr>tail_call := False, last_line := 0, last_line_instructions := 0\<rparr>
      in if cb
         then i1\<lparr>t_record := None, t_begin_event := None,
                 t_call := (t_call i1)\<lparr>overhead := 0,
                   proc := \<lparr>pid = LMPROF_PROCESS_MAIN, tid = LMPROF_THREAD_BROWSER\<rparr>,
                   s := unit_clear (s (t_call i1))\<rparr>\<rparr>
         else i1\<lparr>g_overhead := 0, g_record := None, g_node := unit_clear (g_node i1),
                 g_path := unit_clear (g_path i1)\<rparr>)"

definition stack_clear_instance :: "lmprof_stack \<Rightarrow> nat option \<Rightarrow> lmprof_stack" where
  "stack_clear_instance stk io =
     (case io of None \<Rightarrow> stk | Some i \<Rightarrow> inst_upd i (inst_clear (callback_api stk)) stk)"

definition lmprof_stack_clear :: "lmprof_stack \<Rightarrow> lmprof_stack" where
  "lmprof_stack_clear stk =
     (let stk1 = stk\<lparr>head := 0, size_stk := LMPROF_MAXSTACK\<rparr>
      in fold (\<lambda>i t. stack_clear_instance t (Some i)) [0..<size_stk stk1] stk1)"

text \<open>
  \<^verbatim>\<open>setup_stack\<close> over the memory the allocator returned (\<open>None\<close> for
  \<^verbatim>\<open>NULL\<close>); \<^verbatim>\<open>lmprof_stack_light_new\<close> allocates it, whose previous contents
  \<open>raw\<close> are arbitrary.
\<close>

definition setup_stack :: "lmprof_stack option \<Rightarrow> int \<Rightarrow> bool \<Rightarrow> lmprof_stack option" where
  "setup_stack so ident cb =
     map_option (\<lambda>stk. lmprof_stack_clear
                   (stk\<lparr>instr_last := 0, instr_count := 0, thread_identifier := ident,
                        callback_api := cb\<rparr>)) so"

definition lmprof_stack_light_new :: "bool \<Rightarrow> lmprof_stack \<Rightarrow> int \<Rightarrow> bool \<Rightarrow> lmprof_stack option" where
  "lmprof_stack_light_new alloc_ok raw ident cb = setup_stack (if alloc_ok then Some raw else None) ident cb"

section \<open>Graph measurements\<close>

definition lmprof_stack_measured_push ::
  "lmprof_stack \<Rightarrow> ref \<Rightarrow> event_unit \<Rightarrow> bool \<Rightarrow> lmprof_stack \<times> nat option" where
  "lmprof_stack_measured_push stk r u tail =
     (if \<not> callback_api stk
      then (case lmprof_stack_next stk tail of
              (stk1, Some i) \<Rightarrow>
                (inst_upd i (\<lambda>inst. inst\<lparr>g_overhead := 0, g_record := Some r, g_node := u,
                                          g_path := unit_clear (g_path inst)\<rparr>) stk1, Some i)
            | (stk1, None) \<Rightarrow> (stk1, None))
      else (stk, None))"

text \<open>
  \<^verbatim>\<open>lmprof_stack_measured_pop\<close> does not check its input: an empty stack or a frame
  without a record is undefined behaviour, \<open>None\<close> here. Statement by statement: the
  total \<open>node = unit - inst.node\<close>; the frame's snapshot time loses the overhead
  (after the total was taken); the record's path and the parent's path and overhead
  grow; the record's count grows and its node gains the total minus the children.
\<close>

definition lmprof_stack_measured_pop ::
  "lmprof_stack \<Rightarrow> record_store \<Rightarrow> event_unit \<Rightarrow> (lmprof_stack \<times> record_store \<times> nat) option" where
  "lmprof_stack_measured_pop stk st u =
     (if head stk = 0 then None
      else
        let h = head stk - 1; inst = stack stk ! h
        in (case g_record inst of
              None \<Rightarrow> None
            | Some r \<Rightarrow>
                (case st r of
                   None \<Rightarrow> None
                 | Some x \<Rightarrow>
                     let node = unit_sub u (g_node inst);
                         inst1 = inst\<lparr>g_node := (g_node inst)\<lparr>time := time (g_node inst) - g_overhead inst\<rparr>\<rparr>;
                         stk1 = stk\<lparr>head := h, stack := (stack stk)[h := inst1]\<rparr>;
                         x1 = x\<lparr>graph_path := unit_add_to (graph_path x) node\<rparr>;
                         stk2 = (if 0 < h
                                 then inst_upd (h - 1)
                                        (\<lambda>p. p\<lparr>g_overhead := g_overhead p + g_overhead inst1,
                                               g_path := unit_add_to (g_path p) node\<rparr>) stk1
                                 else stk1);
                         x2 = x1\<lparr>graph_count := graph_count x1 + 1\<rparr>;
                         node2 = unit_sub node (g_path inst1);
                         x3 = x2\<lparr>graph_node := unit_add_to (graph_node x2) node2\<rparr>
                     in Some (stk2, st(r \<mapsto> x3), h))))"

definition lmprof_stack_event_push ::
  "lmprof_stack \<Rightarrow> ref \<Rightarrow> event_measurement \<Rightarrow> bool \<Rightarrow> lmprof_stack \<times> nat option" where
  "lmprof_stack_event_push stk r u tail =
     (case lmprof_stack_next stk tail of
        (stk1, Some i) \<Rightarrow> (inst_upd i (\<lambda>inst. inst\<lparr>t_call := u, t_record := Some r\<rparr>) stk1, Some i)
      | (stk1, None) \<Rightarrow> (stk1, None))"

text \<open>A frame whose bytes are all zero, the contents of freshly zeroed stack memory.\<close>

definition stack_inst_zero :: stack_inst where
  "stack_inst_zero = \<lparr>tail_call = False, last_line = 0, last_line_instructions = 0, g_record = None,
      g_overhead = 0, g_node = unit_zero, g_path = unit_zero, t_record = None, t_begin_event = None,
      t_call = \<lparr>proc = \<lparr>pid = 0, tid = 0\<rparr>, s = unit_zero, overhead = 0\<rparr>\<rparr>"

section \<open>Invariants\<close>

text \<open>
  The array has \<open>size\<close> frames and \<open>head\<close> never passes it; on a graph stack every
  live frame points to a stored record.
\<close>

definition stack_inv :: "lmprof_stack \<Rightarrow> bool" where
  "stack_inv stk \<longleftrightarrow> head stk \<le> size_stk stk \<and> size_stk stk = length (stack stk)"

definition graph_stack_inv :: "record_store \<Rightarrow> lmprof_stack \<Rightarrow> bool" where
  "graph_stack_inv st stk \<longleftrightarrow>
     stack_inv stk \<and> \<not> callback_api stk \<and>
     (\<forall>i < head stk. \<exists>r. g_record (stack stk ! i) = Some r \<and> r \<in> dom st)"

section \<open>Lemmas\<close>


lemma inst_upd_sel [stack_simps]:
  "head (inst_upd i f stk) = head stk"
  "size_stk (inst_upd i f stk) = size_stk stk"
  "callback_api (inst_upd i f stk) = callback_api stk"
  "length (stack (inst_upd i f stk)) = length (stack stk)"
  "i < length (stack stk) \<Longrightarrow> stack (inst_upd i f stk) ! j = (if j = i then f (stack stk ! i) else stack stk ! j)"
  by (simp_all add: inst_upd_def nth_list_update)

lemma inst_upd_same [stack_simps]:
  "inst_upd i g (inst_upd i f stk) = inst_upd i (g \<circ> f) stk"
  by (cases "i < length (stack stk)") (simp_all add: inst_upd_def list_update_beyond)

lemma inst_upd_head [stack_simps]:
  "inst_upd i f (stk\<lparr>head := n\<rparr>) = (inst_upd i f stk)\<lparr>head := n\<rparr>"
  by (simp add: inst_upd_def)

lemma measured_push_Some:
  assumes "\<not> callback_api stk" "head stk < size_stk stk"
  shows "lmprof_stack_measured_push stk r u tail =
           (inst_upd (head stk) (\<lambda>inst. inst\<lparr>tail_call := tail, g_overhead := 0, g_record := Some r,
               g_node := u, g_path := unit_clear (g_path inst)\<rparr>) (stk\<lparr>head := head stk + 1\<rparr>), Some (head stk))"
  using assms
  by (simp add: lmprof_stack_measured_push_def lmprof_stack_next_def inst_upd_same comp_def inst_upd_head)

lemma measured_push_full:
  "size_stk stk \<le> head stk \<Longrightarrow> lmprof_stack_measured_push stk r u tail = (stk, None)"
  by (simp add: lmprof_stack_measured_push_def lmprof_stack_next_def)

lemma measured_pop_Some:
  assumes "0 < head stk" "g_record (stack stk ! (head stk - 1)) = Some r" "st r = Some x"
  shows "lmprof_stack_measured_pop stk st u =
    (let h = head stk - 1; inst = stack stk ! h; node = unit_sub u (g_node inst);
         stk1 = stk\<lparr>head := h, stack := (stack stk)[h := inst\<lparr>g_node := (g_node inst)\<lparr>time := time (g_node inst) - g_overhead inst\<rparr>\<rparr>]\<rparr>
     in Some (if 0 < h then inst_upd (h - 1) (\<lambda>p. p\<lparr>g_overhead := g_overhead p + g_overhead inst,
                                               g_path := unit_add_to (g_path p) node\<rparr>) stk1 else stk1,
              st(r \<mapsto> x\<lparr>graph_path := unit_add_to (graph_path x) node, graph_count := graph_count x + 1,
                        graph_node := unit_add_to (graph_node x) (unit_sub node (g_path inst))\<rparr>), h))"
  using assms by (simp add: lmprof_stack_measured_pop_def Let_def)

lemma stack_inv_inst_upd [stack_simps]: "stack_inv (inst_upd i f stk) = stack_inv stk"
  by (simp add: stack_inv_def stack_simps)

lemma stack_inv_next: "stack_inv stk \<Longrightarrow> stack_inv (fst (lmprof_stack_next stk t))"
  by (auto simp: lmprof_stack_next_def stack_inv_def stack_simps)

lemma stack_inv_pop: "stack_inv stk \<Longrightarrow> stack_inv (fst (lmprof_stack_pop stk))"
  by (auto simp: lmprof_stack_pop_def stack_inv_def)

lemma stack_inv_measured_push: "stack_inv stk \<Longrightarrow> stack_inv (fst (lmprof_stack_measured_push stk r u t))"
  by (auto simp: lmprof_stack_measured_push_def lmprof_stack_next_def stack_inv_def stack_simps
           split: prod.splits option.splits)

lemma stack_inv_event_push: "stack_inv stk \<Longrightarrow> stack_inv (fst (lmprof_stack_event_push stk r m t))"
  by (auto simp: lmprof_stack_event_push_def lmprof_stack_next_def stack_inv_def stack_simps
           split: prod.splits option.splits)

lemma measured_pop_head:
  "lmprof_stack_measured_pop stk st u = Some (stk', st', i) \<Longrightarrow>
     head stk' = head stk - 1 \<and> i = head stk - 1 \<and> 0 < head stk \<and>
     size_stk stk' = size_stk stk \<and> length (stack stk') = length (stack stk) \<and>
     callback_api stk' = callback_api stk"
  by (auto simp: lmprof_stack_measured_pop_def Let_def stack_simps split: option.splits if_splits)

lemma stack_inv_measured_pop:
  "stack_inv stk \<Longrightarrow> lmprof_stack_measured_pop stk st u = Some (stk', st', i) \<Longrightarrow> stack_inv stk'"
  by (drule measured_pop_head) (auto simp: stack_inv_def)

lemma clear_fold_sel:
  "head (fold (\<lambda>i t. stack_clear_instance t (Some i)) is stk) = head stk \<and>
   size_stk (fold (\<lambda>i t. stack_clear_instance t (Some i)) is stk) = size_stk stk \<and>
   callback_api (fold (\<lambda>i t. stack_clear_instance t (Some i)) is stk) = callback_api stk \<and>
   length (stack (fold (\<lambda>i t. stack_clear_instance t (Some i)) is stk)) = length (stack stk)"
  by (induction "is" arbitrary: stk) (simp_all add: stack_clear_instance_def stack_simps)

lemma clear_fold_others:
  "\<exists>xs. fold (\<lambda>i t. stack_clear_instance t (Some i)) ns stk = stk\<lparr>stack := xs\<rparr>"
proof (induction ns arbitrary: stk)
  case Nil
  show ?case by (rule exI [of _ "stack stk"]) simp
next
  case (Cons i ns)
  obtain xs where "fold (\<lambda>i t. stack_clear_instance t (Some i)) ns (stack_clear_instance stk (Some i)) =
                   (stack_clear_instance stk (Some i))\<lparr>stack := xs\<rparr>" using Cons.IH by blast
  then show ?case by (auto simp: stack_clear_instance_def inst_upd_def)
qed

lemma clear_fold_nth:
  "distinct is \<Longrightarrow> set is \<subseteq> {..<length (stack stk)} \<Longrightarrow> j < length (stack stk) \<Longrightarrow>
   stack (fold (\<lambda>i t. stack_clear_instance t (Some i)) is stk) ! j =
     (if j \<in> set is then inst_clear (callback_api stk) (stack stk ! j) else stack stk ! j)"
  by (induction "is" arbitrary: stk) (auto simp: stack_clear_instance_def stack_simps clear_fold_sel)

lemma stack_clear_spec:
  assumes "length (stack stk) = LMPROF_MAXSTACK"
  shows "head (lmprof_stack_clear stk) = 0 \<and> size_stk (lmprof_stack_clear stk) = LMPROF_MAXSTACK \<and>
         stack (lmprof_stack_clear stk) = map (inst_clear (callback_api stk)) (stack stk)"
proof -
  let ?s1 = "stk\<lparr>head := 0, size_stk := LMPROF_MAXSTACK\<rparr>"
  let ?f = "fold (\<lambda>i t. stack_clear_instance t (Some i)) [0..<LMPROF_MAXSTACK] ?s1"
  have sel: "head ?f = 0 \<and> size_stk ?f = LMPROF_MAXSTACK \<and> callback_api ?f = callback_api stk \<and>
             length (stack ?f) = LMPROF_MAXSTACK"
    using assms clear_fold_sel [of "[0..<LMPROF_MAXSTACK]" ?s1] by simp
  have "stack ?f = map (inst_clear (callback_api stk)) (stack stk)"
  proof (rule nth_equalityI)
    show "length (stack ?f) = length (map (inst_clear (callback_api stk)) (stack stk))"
      using sel assms by simp
    fix j assume "j < length (stack ?f)"
    then have j: "j < LMPROF_MAXSTACK" using sel by simp
    have "set [0..<LMPROF_MAXSTACK] \<subseteq> {..<length (stack ?s1)}" using assms by auto
    then show "stack ?f ! j = map (inst_clear (callback_api stk)) (stack stk) ! j"
      using assms j clear_fold_nth [of "[0..<LMPROF_MAXSTACK]" ?s1 j] by simp
  qed
  with sel show ?thesis by (simp add: lmprof_stack_clear_def)
qed

lemma map_g_record_inst_upd:
  "(\<And>x. g_record (f x) = g_record x) \<Longrightarrow> map g_record (stack (inst_upd i f stk)) = map g_record (stack stk)"
  by (cases "i < length (stack stk)") (simp_all add: inst_upd_def map_update list_update_beyond)

lemma measured_pop_records:
  assumes "lmprof_stack_measured_pop stk st u = Some (stk', st', i)"
  shows "map g_record (stack stk') = map g_record (stack stk) \<and> dom st' = dom st"
proof -
  from assms have ne: "0 < head stk"
    by (simp add: lmprof_stack_measured_pop_def split: if_splits)
  from assms ne obtain r x where r: "g_record (stack stk ! (head stk - 1)) = Some r" and x: "st r = Some x"
    by (auto simp: lmprof_stack_measured_pop_def Let_def split: option.splits)
  define h where "h = head stk - 1"
  define inst where "inst = stack stk ! h"
  define stk1 where "stk1 = stk\<lparr>head := h, stack := (stack stk)[h := inst\<lparr>g_node := (g_node inst)\<lparr>time := time (g_node inst) - g_overhead inst\<rparr>\<rparr>]\<rparr>"
  define g :: "stack_inst \<Rightarrow> stack_inst" where "g = (\<lambda>p. p\<lparr>g_overhead := g_overhead p + g_overhead inst,
                               g_path := unit_add_to (g_path p) (unit_sub u (g_node inst))\<rparr>)"
  have m1: "map g_record (stack stk1) = map g_record (stack stk)"
    by (simp add: stk1_def inst_def map_update)
  have m2: "map g_record (stack (inst_upd (h - 1) g stk1)) = map g_record (stack stk1)"
    by (rule map_g_record_inst_upd) (simp add: g_def)
  have "\<exists>y. lmprof_stack_measured_pop stk st u =
               Some (if 0 < h then inst_upd (h - 1) g stk1 else stk1, st(r \<mapsto> y), h)"
    unfolding measured_pop_Some [where stk=stk and st=st and r=r and x=x, OF ne r x] Let_def
    by (simp add: h_def inst_def stk1_def g_def) blast
  then have eq: "stk' = (if 0 < h then inst_upd (h - 1) g stk1 else stk1) \<and> (\<exists>y. st' = st(r \<mapsto> y))"
    using assms by auto
  then have st': "dom st' = dom st" using x by (auto split: if_splits)
  show ?thesis using m1 m2 eq st' by simp
qed

lemma map_proj_inst_upd:
  "(\<And>x. p (f x) = p x) \<Longrightarrow> map p (stack (inst_upd i f stk)) = map p (stack stk)"
  by (cases "i < length (stack stk)") (simp_all add: inst_upd_def map_update list_update_beyond)

text \<open>A pop keeps the tail-call flags of the frames and the identifiers of the records.\<close>

lemma measured_pop_frames:
  assumes "lmprof_stack_measured_pop stk st u = Some (stk', st', i)"
  shows "map tail_call (stack stk') = map tail_call (stack stk) \<and> map_option f_id \<circ> st' = map_option f_id \<circ> st"
proof -
  from assms have ne: "0 < head stk"
    by (simp add: lmprof_stack_measured_pop_def split: if_splits)
  from assms ne obtain r x where r: "g_record (stack stk ! (head stk - 1)) = Some r" and x: "st r = Some x"
    by (auto simp: lmprof_stack_measured_pop_def Let_def split: option.splits)
  define h where "h = head stk - 1"
  define inst where "inst = stack stk ! h"
  define stk1 where "stk1 = stk\<lparr>head := h, stack := (stack stk)[h := inst\<lparr>g_node := (g_node inst)\<lparr>time := time (g_node inst) - g_overhead inst\<rparr>\<rparr>]\<rparr>"
  define g :: "stack_inst \<Rightarrow> stack_inst" where "g = (\<lambda>p. p\<lparr>g_overhead := g_overhead p + g_overhead inst,
                               g_path := unit_add_to (g_path p) (unit_sub u (g_node inst))\<rparr>)"
  have m1: "map tail_call (stack stk1) = map tail_call (stack stk)"
    by (simp add: stk1_def inst_def map_update)
  have m2: "map tail_call (stack (inst_upd (h - 1) g stk1)) = map tail_call (stack stk1)"
    by (rule map_proj_inst_upd) (simp add: g_def)
  have "\<exists>y. f_id y = f_id x \<and> lmprof_stack_measured_pop stk st u =
               Some (if 0 < h then inst_upd (h - 1) g stk1 else stk1, st(r \<mapsto> y), h)"
    unfolding measured_pop_Some [where stk=stk and st=st and r=r and x=x, OF ne r x] Let_def
    by (simp add: h_def inst_def stk1_def g_def) (rule exI, rule conjI [OF _ refl], simp)
  then obtain y where "f_id y = f_id x" "stk' = (if 0 < h then inst_upd (h - 1) g stk1 else stk1)" "st' = st(r \<mapsto> y)"
    using assms by auto
  then show ?thesis using m1 m2 x by (auto simp: fun_eq_iff)
qed

lemma graph_inv_measured_pop:
  assumes inv: "graph_stack_inv st stk" and pop: "lmprof_stack_measured_pop stk st u = Some (stk', st', i)"
  shows "graph_stack_inv st' stk'"
proof -
  note hd = measured_pop_head [OF pop] and rec = measured_pop_records [OF pop]
  have si: "stack_inv stk'" using inv pop stack_inv_measured_pop by (auto simp: graph_stack_inv_def)
  have "\<exists>r. g_record (stack stk' ! j) = Some r \<and> r \<in> dom st'" if j: "j < head stk'" for j
  proof -
    have jl: "j < length (stack stk)" using j hd inv by (auto simp: graph_stack_inv_def stack_inv_def)
    have "g_record (stack stk' ! j) = g_record (stack stk ! j)"
      using rec jl hd by (metis nth_map)
    then show ?thesis using inv j hd rec by (auto simp: graph_stack_inv_def)
  qed
  then show ?thesis using si hd inv by (simp add: graph_stack_inv_def)
qed

lemma graph_inv_measured_push:
  assumes inv: "graph_stack_inv st stk" and r: "r \<in> dom st"
  shows "graph_stack_inv st (fst (lmprof_stack_measured_push stk r u t))"
proof (cases "head stk < size_stk stk")
  case True
  have cb: "\<not> callback_api stk" and len: "head stk < length (stack stk)"
    using inv True by (auto simp: graph_stack_inv_def stack_inv_def)
  show ?thesis
    using inv r True len unfolding measured_push_Some [OF cb True]
    by (auto simp: graph_stack_inv_def stack_inv_def stack_simps less_Suc_eq)
next
  case False
  then show ?thesis using inv by (simp add: measured_push_full)
qed

lemma graph_stack_inv_top:
  assumes "graph_stack_inv st stk" "0 < head stk"
  shows "\<exists>r x. g_record (stack stk ! (head stk - 1)) = Some r \<and> st r = Some x"
proof -
  have "head stk - 1 < head stk" using assms(2) by simp
  then show ?thesis using assms(1) by (auto simp: graph_stack_inv_def)
qed

lemma measured_push_frame:
  assumes "graph_stack_inv st stk" "head stk < size_stk stk"
  shows "head (fst (lmprof_stack_measured_push stk r u t)) = Suc (head stk) \<and>
         stack (fst (lmprof_stack_measured_push stk r u t)) ! head stk =
           (stack stk ! head stk)\<lparr>tail_call := t, g_overhead := 0, g_record := Some r, g_node := u,
              g_path := unit_clear (g_path (stack stk ! head stk))\<rparr> \<and>
         (\<forall>j. j \<noteq> head stk \<longrightarrow> stack (fst (lmprof_stack_measured_push stk r u t)) ! j = stack stk ! j) \<and>
         size_stk (fst (lmprof_stack_measured_push stk r u t)) = size_stk stk"
proof -
  have cb: "\<not> callback_api stk" and len: "head stk < length (stack stk)"
    using assms by (auto simp: graph_stack_inv_def stack_inv_def)
  show ?thesis unfolding measured_push_Some [OF cb assms(2)] using len
    by (simp add: stack_simps)
qed

lemma leaf_call:
  assumes inv: "graph_stack_inv st stk" and room: "head stk < size_stk stk" and x: "st r = Some x"
  shows "\<exists>stk2. lmprof_stack_measured_pop (fst (lmprof_stack_measured_push stk r u0 t)) st u1 =
     Some (stk2, st(r \<mapsto> x\<lparr>graph_path := unit_add_to (graph_path x) (unit_sub u1 u0),
                          graph_count := graph_count x + 1,
                          graph_node := unit_add_to (graph_node x) (unit_sub u1 u0)\<rparr>), head stk) \<and>
     head stk2 = head stk \<and> size_stk stk2 = size_stk stk \<and>
     (\<forall>j. j \<noteq> head stk \<and> j + 1 \<noteq> head stk \<longrightarrow> stack stk2 ! j = stack stk ! j) \<and>
     (0 < head stk \<longrightarrow> stack stk2 ! (head stk - 1) =
        (stack stk ! (head stk - 1))\<lparr>g_path := unit_add_to (g_path (stack stk ! (head stk - 1))) (unit_sub u1 u0)\<rparr>)"
proof -
  let ?s1 = "fst (lmprof_stack_measured_push stk r u0 t)"
  note p = measured_push_frame [OF inv room, of r u0 t]
  have len: "head stk < length (stack stk)" using inv room by (auto simp: graph_stack_inv_def stack_inv_def)
  have len1: "length (stack ?s1) = length (stack stk)"
    using stack_inv_measured_push inv room by (simp add: lmprof_stack_measured_push_def
        lmprof_stack_next_def graph_stack_inv_def stack_simps split: prod.splits option.splits)
  have ne: "0 < head ?s1" and top: "g_record (stack ?s1 ! (head ?s1 - 1)) = Some r" using p by simp_all
  show ?thesis
    unfolding measured_pop_Some [where stk="?s1" and st=st and r=r and x=x, OF ne top x] Let_def
    using p len len1 by (auto simp: stack_simps nth_list_update)
qed

lemma nested_call:
  assumes inv: "graph_stack_inv st stk" and room: "head stk + 2 \<le> size_stk stk"
    and x1: "st r1 = Some x1" and x2: "st r2 = Some x2" and ne: "r1 \<noteq> r2"
  shows "\<exists>stk2 st2 stk3 st3.
     lmprof_stack_measured_pop (fst (lmprof_stack_measured_push
        (fst (lmprof_stack_measured_push stk r1 u0 t1)) r2 u1 t2)) st u2 = Some (stk2, st2, Suc (head stk)) \<and>
     lmprof_stack_measured_pop stk2 st2 u3 = Some (stk3, st3, head stk) \<and>
     head stk3 = head stk \<and>
     st3 r1 = Some (x1\<lparr>graph_path := unit_add_to (graph_path x1) (unit_sub u3 u0),
                        graph_count := graph_count x1 + 1,
                        graph_node := unit_add_to (graph_node x1) (unit_sub (unit_sub u3 u0) (unit_sub u2 u1))\<rparr>) \<and>
     st3 r2 = Some (x2\<lparr>graph_path := unit_add_to (graph_path x2) (unit_sub u2 u1),
                        graph_count := graph_count x2 + 1,
                        graph_node := unit_add_to (graph_node x2) (unit_sub u2 u1)\<rparr>)"
proof -
  let ?s1 = "fst (lmprof_stack_measured_push stk r1 u0 t1)"
  have room0: "head stk < size_stk stk" using room by simp
  have inv1: "graph_stack_inv st ?s1" using x1 by (intro graph_inv_measured_push [OF inv]) auto
  note p1 = measured_push_frame [OF inv room0, of r1 u0 t1]
  have room1: "head ?s1 < size_stk ?s1" using p1 room by simp
  define x2' where "x2' = x2\<lparr>graph_path := unit_add_to (graph_path x2) (unit_sub u2 u1),
                        graph_count := graph_count x2 + 1,
                        graph_node := unit_add_to (graph_node x2) (unit_sub u2 u1)\<rparr>"
  obtain stk2 where
    pop1: "lmprof_stack_measured_pop (fst (lmprof_stack_measured_push ?s1 r2 u1 t2)) st u2 =
             Some (stk2, st(r2 \<mapsto> x2'), head ?s1)" and
    h2: "head stk2 = head ?s1" and
    top2: "stack stk2 ! (head ?s1 - 1) =
             (stack ?s1 ! (head ?s1 - 1))\<lparr>g_path := unit_add_to (g_path (stack ?s1 ! (head ?s1 - 1))) (unit_sub u2 u1)\<rparr>"
    using leaf_call [OF inv1 room1 x2, of u1 t2 u2] p1 unfolding x2'_def by auto
  have ne2: "0 < head stk2" and r2top: "g_record (stack stk2 ! (head stk2 - 1)) = Some r1"
    and st2: "(st(r2 \<mapsto> x2')) r1 = Some x1"
    using h2 top2 p1 x1 ne by simp_all
  have frame: "stack stk2 ! (head stk2 - 1) =
                 (stack stk ! head stk)\<lparr>tail_call := t1, g_overhead := 0, g_record := Some r1, g_node := u0,
                    g_path := unit_sub u2 u1\<rparr>"
    using h2 top2 p1 by simp
  define x1' where "x1' = x1\<lparr>graph_path := unit_add_to (graph_path x1) (unit_sub u3 u0),
                        graph_count := graph_count x1 + 1,
                        graph_node := unit_add_to (graph_node x1) (unit_sub (unit_sub u3 u0) (unit_sub u2 u1))\<rparr>"
  have "\<exists>stk3. lmprof_stack_measured_pop stk2 (st(r2 \<mapsto> x2')) u3 =
                Some (stk3, st(r2 \<mapsto> x2', r1 \<mapsto> x1'), head stk)"
    unfolding measured_pop_Some [where stk=stk2 and st="st(r2 \<mapsto> x2')" and r=r1 and x=x1, OF ne2 r2top st2]
      Let_def frame
    using h2 p1 by (simp add: x1'_def)
  then obtain stk3 where pop2: "lmprof_stack_measured_pop stk2 (st(r2 \<mapsto> x2')) u3 =
                Some (stk3, st(r2 \<mapsto> x2', r1 \<mapsto> x1'), head stk)" by blast
  have "head stk3 = head stk" using measured_pop_head [OF pop2] h2 p1 by simp
  then show ?thesis using pop1 pop2 p1 ne unfolding x1'_def x2'_def by auto
qed

lemma overhead_not_subtracted:
  "map_option (fst \<circ> snd) (lmprof_stack_measured_pop (inst_upd (head stk - 1) (\<lambda>i. i\<lparr>g_overhead := ov\<rparr>) stk) st u) =
   map_option (fst \<circ> snd) (lmprof_stack_measured_pop stk st u)"
  by (cases "head stk - 1 < length (stack stk)")
     (auto simp: lmprof_stack_measured_pop_def Let_def inst_upd_def list_update_beyond
           split: option.splits)

section \<open>Properties\<close>

text \<open>
  C1 (functional): on a well-formed graph stack \<^verbatim>\<open>lmprof_stack_measured_pop\<close> of a
  non-empty stack is defined and does exactly the accounting of its comment: with
  \<open>total = now - frame.node\<close> the popped record's path gains the total, its count
  grows by one and its node gains \<open>total - frame.path\<close> (self time); the parent
  frame's path gains the total; the head drops by one.
\<close>

theorem measured_pop_accounting:
  assumes inv: "graph_stack_inv st stk" and ne: "0 < head stk"
  shows "\<exists>r x stk'. g_record (stack stk ! (head stk - 1)) = Some r \<and> st r = Some x \<and>
     lmprof_stack_measured_pop stk st u =
       Some (stk', st(r \<mapsto> x\<lparr>graph_path := unit_add_to (graph_path x) (unit_sub u (g_node (stack stk ! (head stk - 1)))),
                             graph_count := graph_count x + 1,
                             graph_node := unit_add_to (graph_node x)
                               (unit_sub (unit_sub u (g_node (stack stk ! (head stk - 1))))
                                  (g_path (stack stk ! (head stk - 1))))\<rparr>), head stk - 1) \<and>
     head stk' = head stk - 1 \<and>
     (1 < head stk \<longrightarrow> g_path (stack stk' ! (head stk - 2)) =
        unit_add_to (g_path (stack stk ! (head stk - 2))) (unit_sub u (g_node (stack stk ! (head stk - 1)))))"
proof -
  obtain r x where r: "g_record (stack stk ! (head stk - 1)) = Some r" and x: "st r = Some x"
    using graph_stack_inv_top [OF inv ne] by blast
  have len: "head stk \<le> length (stack stk)" using inv by (simp add: graph_stack_inv_def stack_inv_def)
  have "head stk - 1 - 1 = head stk - 2" by simp
  then show ?thesis
    unfolding measured_pop_Some [where stk=stk and st=st and r=r and x=x, OF ne r x] Let_def
    using r x ne len by (auto simp: stack_simps nth_list_update)
qed

theorem measured_pop_accounting_witness:
  "\<exists>stk'. lmprof_stack_measured_pop
     \<lparr>callback_api = False, thread_identifier = 0, instr_count = 0, instr_last = 0, head = 1, size_stk = 2,
      stack = [stack_inst_zero\<lparr>g_record := Some 0, g_node := \<lparr>time = 10, allocated = 0, deallocated = 0\<rparr>\<rparr>,
               stack_inst_zero]\<rparr>
     [0 \<mapsto> record_zero] \<lparr>time = 25, allocated = 0, deallocated = 0\<rparr> =
     Some (stk', [0 \<mapsto> record_zero\<lparr>graph_path := \<lparr>time = 15, allocated = 0, deallocated = 0\<rparr>, graph_count := 1,
                                    graph_node := \<lparr>time = 15, allocated = 0, deallocated = 0\<rparr>\<rparr>], 0)"
  using measured_pop_accounting [of "[0 \<mapsto> record_zero]"
     "\<lparr>callback_api = False, thread_identifier = 0, instr_count = 0, instr_last = 0, head = 1, size_stk = 2,
      stack = [stack_inst_zero\<lparr>g_record := Some 0, g_node := \<lparr>time = 10, allocated = 0, deallocated = 0\<rparr>\<rparr>,
               stack_inst_zero]\<rparr>" "\<lparr>time = 25, allocated = 0, deallocated = 0\<rparr>"]
  by (auto simp: graph_stack_inv_def stack_inv_def record_zero_def stack_inst_zero_def unit_zero_def
                 unit_add_to_def unit_sub_def)

text \<open>
  C2 (functional): a call nested in another, both pushed and popped by the graph
  measurements, is charged to the caller's path but not to its self time: the callee's
  node and path gain \<open>u2 - u1\<close>, the caller's path gains \<open>u3 - u0\<close> and its node
  \<open>(u3 - u0) - (u2 - u1)\<close>, and the stack is back at its height.
\<close>

theorem nested_call_self_time:
  assumes "graph_stack_inv st stk" and "head stk + 2 \<le> size_stk stk"
    and "st r1 = Some x1" and "st r2 = Some x2" and "r1 \<noteq> r2"
  shows "\<exists>stk2 st2 stk3 st3.
     lmprof_stack_measured_pop (fst (lmprof_stack_measured_push
        (fst (lmprof_stack_measured_push stk r1 u0 t1)) r2 u1 t2)) st u2 = Some (stk2, st2, Suc (head stk)) \<and>
     lmprof_stack_measured_pop stk2 st2 u3 = Some (stk3, st3, head stk) \<and>
     head stk3 = head stk \<and>
     st3 r1 = Some (x1\<lparr>graph_path := unit_add_to (graph_path x1) (unit_sub u3 u0),
                        graph_count := graph_count x1 + 1,
                        graph_node := unit_add_to (graph_node x1) (unit_sub (unit_sub u3 u0) (unit_sub u2 u1))\<rparr>) \<and>
     st3 r2 = Some (x2\<lparr>graph_path := unit_add_to (graph_path x2) (unit_sub u2 u1),
                        graph_count := graph_count x2 + 1,
                        graph_node := unit_add_to (graph_node x2) (unit_sub u2 u1)\<rparr>)"
  using assms by (rule nested_call)

theorem nested_call_self_time_witness:
  "\<exists>stk2 st2 stk3 st3.
     lmprof_stack_measured_pop (fst (lmprof_stack_measured_push
        (fst (lmprof_stack_measured_push \<lparr>callback_api = False, thread_identifier = 0, instr_count = 0,
            instr_last = 0, head = 0, size_stk = 2, stack = [stack_inst_zero, stack_inst_zero]\<rparr>
            0 \<lparr>time = 10, allocated = 0, deallocated = 0\<rparr> False)) 1 \<lparr>time = 20, allocated = 0, deallocated = 0\<rparr> False))
        [0 \<mapsto> record_zero, 1 \<mapsto> record_zero] \<lparr>time = 50, allocated = 0, deallocated = 0\<rparr> = Some (stk2, st2, 1) \<and>
     lmprof_stack_measured_pop stk2 st2 \<lparr>time = 70, allocated = 0, deallocated = 0\<rparr> = Some (stk3, st3, 0) \<and>
     map_option (time \<circ> graph_node) (st3 0) = Some 30 \<and> map_option (time \<circ> graph_node) (st3 1) = Some 30 \<and>
     map_option (time \<circ> graph_path) (st3 0) = Some 60"
  using nested_call_self_time [of "[0 \<mapsto> record_zero, 1 \<mapsto> record_zero]"
      "\<lparr>callback_api = False, thread_identifier = 0, instr_count = 0,
            instr_last = 0, head = 0, size_stk = 2, stack = [stack_inst_zero, stack_inst_zero]\<rparr>"
      0 record_zero 1 record_zero "\<lparr>time = 10, allocated = 0, deallocated = 0\<rparr>" False
      "\<lparr>time = 20, allocated = 0, deallocated = 0\<rparr>" False "\<lparr>time = 50, allocated = 0, deallocated = 0\<rparr>"
      "\<lparr>time = 70, allocated = 0, deallocated = 0\<rparr>"]
  by (auto simp: graph_stack_inv_def stack_inv_def record_zero_def unit_simps unit_zero_def)


text \<open>
  C3 (functional): the overhead a frame accumulated does not change what
  \<^verbatim>\<open>lmprof_stack_measured_pop\<close> charges to any record: the code subtracts it from
  the frame's stored snapshot after the total has been computed, so the statistics
  include the profiler's own overhead, contrary to the overhead-compensation model.
\<close>

theorem measured_pop_overhead_not_subtracted:
  "map_option (fst \<circ> snd) (lmprof_stack_measured_pop (inst_upd (head stk - 1) (\<lambda>i. i\<lparr>g_overhead := ov\<rparr>) stk) st u) =
   map_option (fst \<circ> snd) (lmprof_stack_measured_pop stk st u)"
  by (rule overhead_not_subtracted)

text \<open>
  C4 (invariant): the array bound (\<open>head \<le> size = length\<close>) is kept by every stack
  operation, and the graph invariant (every live frame points to a stored record) by
  the graph push of a stored record and by the graph pop.
\<close>

theorem stack_ops_preserve_inv:
  "(stack_inv stk \<longrightarrow> stack_inv (fst (lmprof_stack_next stk t)) \<and> stack_inv (fst (lmprof_stack_pop stk)) \<and>
      stack_inv (fst (lmprof_stack_event_push stk r m t)) \<and> stack_inv (fst (lmprof_stack_measured_push stk r u t))) \<and>
   (graph_stack_inv st stk \<longrightarrow> r \<in> dom st \<longrightarrow> graph_stack_inv st (fst (lmprof_stack_measured_push stk r u t))) \<and>
   (graph_stack_inv st stk \<longrightarrow> lmprof_stack_measured_pop stk st u = Some (stk', st', i) \<longrightarrow> graph_stack_inv st' stk')"
  by (auto intro: stack_inv_next stack_inv_pop stack_inv_event_push stack_inv_measured_push
                  graph_inv_measured_push graph_inv_measured_pop)

theorem stack_ops_preserve_inv_witness:
  "graph_stack_inv [0 \<mapsto> record_zero] (fst (lmprof_stack_measured_push (\<lparr>callback_api = False, thread_identifier = 0, instr_count = 0,
            instr_last = 0, head = 0, size_stk = 2, stack = [stack_inst_zero, stack_inst_zero]\<rparr>) 0 unit_zero False))"
  using stack_ops_preserve_inv [of "(\<lparr>callback_api = False, thread_identifier = 0, instr_count = 0,
            instr_last = 0, head = 0, size_stk = 2, stack = [stack_inst_zero, stack_inst_zero]\<rparr>)" False 0 "\<lparr>proc = \<lparr>pid = 0, tid = 0\<rparr>, s = unit_zero, overhead = 0\<rparr>" unit_zero
      "[0 \<mapsto> record_zero]" "(\<lparr>callback_api = False, thread_identifier = 0, instr_count = 0,
            instr_last = 0, head = 0, size_stk = 2, stack = [stack_inst_zero, stack_inst_zero]\<rparr>)" "[0 \<mapsto> record_zero]" 0]
  by (simp add: graph_stack_inv_def stack_inv_def)

text \<open>
  C5 (bounds): a stack whose head has reached its size accepts no frame:
  \<^verbatim>\<open>lmprof_stack_next\<close>, the graph push and the trace-event push all return
  \<^verbatim>\<open>NULL\<close> and leave the stack as it was, so the array is never written past its end.
\<close>

theorem stack_push_full_rejected:
  assumes "size_stk stk \<le> head stk"
  shows "lmprof_stack_next stk t = (stk, None) \<and> lmprof_stack_measured_push stk r u t = (stk, None) \<and>
         lmprof_stack_event_push stk r m t = (stk, None)"
  using assms by (simp add: lmprof_stack_next_def measured_push_full lmprof_stack_event_push_def)

theorem stack_push_full_rejected_witness:
  "lmprof_stack_measured_push \<lparr>callback_api = False, thread_identifier = 0, instr_count = 0,
       instr_last = 0, head = 2, size_stk = 2, stack = [stack_inst_zero, stack_inst_zero]\<rparr>
     0 unit_zero False = (\<lparr>callback_api = False, thread_identifier = 0, instr_count = 0,
       instr_last = 0, head = 2, size_stk = 2, stack = [stack_inst_zero, stack_inst_zero]\<rparr>, None)"
  using stack_push_full_rejected [of "\<lparr>callback_api = False, thread_identifier = 0, instr_count = 0,
       instr_last = 0, head = 2, size_stk = 2, stack = [stack_inst_zero, stack_inst_zero]\<rparr>" False 0 unit_zero
      "\<lparr>proc = \<lparr>pid = 0, tid = 0\<rparr>, s = unit_zero, overhead = 0\<rparr>"] by simp

text \<open>
  \<^verbatim>\<open>lmprof_stack_light_new\<close> over an allocation of
  \<^verbatim>\<open>LMPROF_MAXSTACK\<close> frames returns an empty stack of that size with zeroed
  counters, the given identifier and convention, and every frame cleared in the view of
  that convention; a failed allocation returns \<^verbatim>\<open>NULL\<close>.
\<close>

theorem stack_light_new_spec:
  assumes "length (stack raw) = LMPROF_MAXSTACK"
  shows "lmprof_stack_light_new True raw ident cb =
           Some (raw\<lparr>instr_last := 0, instr_count := 0, thread_identifier := ident, callback_api := cb,
                     head := 0, size_stk := LMPROF_MAXSTACK, stack := map (inst_clear cb) (stack raw)\<rparr>) \<and>
         lmprof_stack_light_new False raw ident cb = None"
proof -
  let ?r = "raw\<lparr>instr_last := 0, instr_count := 0, thread_identifier := ident, callback_api := cb\<rparr>"
  have "length (stack ?r) = LMPROF_MAXSTACK" using assms by simp
  note c = stack_clear_spec [OF this]
  obtain xs where "lmprof_stack_clear ?r = ?r\<lparr>head := 0, size_stk := LMPROF_MAXSTACK, stack := xs\<rparr>"
    using clear_fold_others by (auto simp: lmprof_stack_clear_def Let_def)
  with c have "lmprof_stack_clear ?r =
                 ?r\<lparr>head := 0, size_stk := LMPROF_MAXSTACK, stack := map (inst_clear cb) (stack raw)\<rparr>" by simp
  then show ?thesis by (simp add: lmprof_stack_light_new_def setup_stack_def)
qed

theorem stack_light_new_spec_witness:
  "lmprof_stack_light_new False \<lparr>callback_api = True, thread_identifier = 7, instr_count = 5, instr_last = 9, head = 3,
       size_stk = 0, stack = replicate LMPROF_MAXSTACK stack_inst_zero\<rparr> 3 False = None \<and>
   map_option head (lmprof_stack_light_new True \<lparr>callback_api = True, thread_identifier = 7, instr_count = 5, instr_last = 9, head = 3,
       size_stk = 0, stack = replicate LMPROF_MAXSTACK stack_inst_zero\<rparr> 3 False) = Some 0 \<and>
   map_option size_stk (lmprof_stack_light_new True \<lparr>callback_api = True, thread_identifier = 7, instr_count = 5, instr_last = 9, head = 3,
       size_stk = 0, stack = replicate LMPROF_MAXSTACK stack_inst_zero\<rparr> 3 False) = Some LMPROF_MAXSTACK"
  using stack_light_new_spec [of "\<lparr>callback_api = True, thread_identifier = 7, instr_count = 5, instr_last = 9, head = 3,
       size_stk = 0, stack = replicate LMPROF_MAXSTACK stack_inst_zero\<rparr>" 3 False] by simp

end
