(* ===== verification/Timeline.thy ===== *)
theory Timeline
  imports Profile_Stack
begin

text \<open>
  The trace-event timeline, \<^verbatim>\<open>src/src/collections/lmprof_traceevent.h\<close> and the
  TraceEventTimeline and event-collection sections of
  \<^verbatim>\<open>src/src/collections/lmprof_collections.c\<close>. The singly linked list of pages is
  the list \<open>pages\<close> in link order, \<^verbatim>\<open>head\<close> its first element and \<^verbatim>\<open>curr\<close> an
  index into it; \<^verbatim>\<open>page->next\<close> is the following element. A \<^verbatim>\<open>TraceEvent *\<close> is an
  \<open>event_ptr\<close> (page, slot), so the enter/exit sibling links and the line chains,
  cyclic as C pointers, are plain values. The data union of an event keeps one field per
  member, except that the members the code reads through another view share a field:
  \<^verbatim>\<open>event.info\<close>/\<^verbatim>\<open>line.info\<close>, \<^verbatim>\<open>event.sibling\<close>/\<^verbatim>\<open>line.previous\<close> and
  \<^verbatim>\<open>event.lines\<close>/\<^verbatim>\<open>line.next\<close> lie at the same offsets. The function information an
  event points to (\<^verbatim>\<open>&record->info\<close>) is named by its record.
\<close>

section \<open>Data\<close>

datatype trace_event_type =
  BEGIN_FRAME | END_FRAME | BEGIN_ROUTINE | END_ROUTINE | ENTER_SCOPE | EXIT_SCOPE
  | LINE_SCOPE | SAMPLE_EVENT | PROCESS | THREAD | IGNORE_SCOPE

definition op_frame :: "trace_event_type \<Rightarrow> bool" where
  "op_frame op \<longleftrightarrow> op = BEGIN_FRAME \<or> op = END_FRAME"

definition op_routine :: "trace_event_type \<Rightarrow> bool" where
  "op_routine op \<longleftrightarrow> op = BEGIN_ROUTINE \<or> op = END_ROUTINE"

definition op_event :: "trace_event_type \<Rightarrow> bool" where
  "op_event op \<longleftrightarrow> op = ENTER_SCOPE \<or> op = EXIT_SCOPE \<or> op = IGNORE_SCOPE"

definition op_adjust :: "trace_event_type \<Rightarrow> bool" where
  "op_adjust op \<longleftrightarrow> op_event op \<or> op_frame op \<or> op_routine op \<or> op = LINE_SCOPE \<or> op = SAMPLE_EVENT"

definition TRACE_EVENT_OK :: nat where "TRACE_EVENT_OK = 0"
definition TRACE_EVENT_ERRPAGEFULL :: nat where "TRACE_EVENT_ERRPAGEFULL = 2"

record trace_event =
  ev_op :: trace_event_type
  ev_call :: event_measurement
  ev_info :: "ref option"
  ev_sibling :: "event_ptr option"
  ev_lines :: "event_ptr option"
  ev_flags :: nat
  ev_line :: int
  ev_sample_next :: "event_ptr option"
  ev_frame :: lu_size
  ev_name :: "string option"

text \<open>\<^verbatim>\<open>TraceEventPage\<close>: its \<^verbatim>\<open>count\<close> is \<open>count_pg\<close> and its array has
  \<^verbatim>\<open>TRACE_EVENT_SIZE_ARRAY\<close> slots.\<close>

record trace_page =
  count_pg :: nat
  event_array :: "trace_event list"

record timeline =
  page_count :: lu_size
  page_limit :: lu_size
  frame_count :: lu_size
  base_time :: lu_time
  pages :: "trace_page list"
  curr :: nat

text \<open>
  Page geometry on an LP64 target: a \<^verbatim>\<open>TraceEvent\<close> is 88 bytes (a 4-byte enum padded
  to 8, a 48-byte measurement and a 32-byte union) and a \<^verbatim>\<open>TraceEventPage\<close> 104
  bytes (two words and one event), its array at offset 16. The code divides the page by
  \<^verbatim>\<open>sizeof(TraceEventPage)\<close> rather than \<^verbatim>\<open>sizeof(TraceEvent)\<close>.
\<close>

definition TRACE_EVENT_PAGE_SIZE :: nat where "TRACE_EVENT_PAGE_SIZE = 32768"
definition SIZEOF_TRACE_EVENT :: nat where "SIZEOF_TRACE_EVENT = 88"
definition SIZEOF_TRACE_EVENT_PAGE :: nat where "SIZEOF_TRACE_EVENT_PAGE = 104"
definition OFFSETOF_EVENT_ARRAY :: nat where "OFFSETOF_EVENT_ARRAY = 16"

definition TRACE_EVENT_SIZE_ARRAY :: nat where
  "TRACE_EVENT_SIZE_ARRAY = (TRACE_EVENT_PAGE_SIZE - OFFSETOF_EVENT_ARRAY) div SIZEOF_TRACE_EVENT_PAGE"

text \<open>
  The contents of a slot nobody has written yet. The model fixes them (all zero); the
  code reads, for each kind of event, only the fields the emitter of that kind wrote.
\<close>

definition ev_undef :: trace_event where
  "ev_undef = \<lparr>ev_op = BEGIN_FRAME, ev_call = \<lparr>proc = \<lparr>pid = 0, tid = 0\<rparr>, s = unit_zero, overhead = 0\<rparr>,
     ev_info = None, ev_sibling = None, ev_lines = None, ev_flags = 0, ev_line = 0,
     ev_sample_next = None, ev_frame = 0, ev_name = None\<rparr>"

section \<open>Pointers into the timeline\<close>

definition valid_ptr :: "timeline \<Rightarrow> event_ptr \<Rightarrow> bool" where
  "valid_ptr tm p \<longleftrightarrow> fst p < length (pages tm) \<and> snd p < count_pg (pages tm ! fst p)"

definition tl_event :: "timeline \<Rightarrow> event_ptr \<Rightarrow> trace_event" where
  "tl_event tm p = event_array (pages tm ! fst p) ! snd p"

definition ev_upd :: "event_ptr \<Rightarrow> (trace_event \<Rightarrow> trace_event) \<Rightarrow> timeline \<Rightarrow> timeline" where
  "ev_upd p f tm =
     tm\<lparr>pages := (pages tm)[fst p := (pages tm ! fst p)\<lparr>event_array :=
        (event_array (pages tm ! fst p))[snd p := f (event_array (pages tm ! fst p) ! snd p)]\<rparr>]\<rparr>"

text \<open>The events \<^verbatim>\<open>timeline_foreach\<close> visits, in its order: page by page, slot by slot.\<close>

definition timeline_events :: "timeline \<Rightarrow> event_ptr list" where
  "timeline_events tm =
     concat (map (\<lambda>i. map (\<lambda>j. (i, j)) [0..<count_pg (pages tm ! i)]) [0..<length (pages tm)])"

section \<open>Pages\<close>

definition traceevent_new :: "bool \<Rightarrow> trace_page option" where
  "traceevent_new alloc_ok =
     (if alloc_ok then Some \<lparr>count_pg = 0, event_array = replicate TRACE_EVENT_SIZE_ARRAY ev_undef\<rparr>
      else None)"

text \<open>
  \<^verbatim>\<open>timeline_new\<close>: both allocations may fail; \<^verbatim>\<open>baseTime\<close> is not initialised here
  (the profiler sets it when it starts), so it is the argument \<open>bt\<close>.
\<close>

definition timeline_new :: "bool \<Rightarrow> bool \<Rightarrow> lu_size \<Rightarrow> lu_time \<Rightarrow> timeline option" where
  "timeline_new list_ok page_ok limit bt =
     (if \<not> list_ok then None
      else case traceevent_new page_ok of
             None \<Rightarrow> None
           | Some hdr \<Rightarrow> Some \<lparr>page_count = 0, page_limit = limit div of_nat TRACE_EVENT_PAGE_SIZE,
                               frame_count = 1, base_time = bt, pages = [hdr], curr = 0\<rparr>)"

text \<open>\<^verbatim>\<open>timeline_canbuffer\<close>, in \<^verbatim>\<open>size_t\<close> arithmetic.\<close>

definition timeline_canbuffer :: "timeline \<Rightarrow> lu_size \<Rightarrow> bool" where
  "timeline_canbuffer tm n =
     (if page_limit tm \<noteq> 0 then
        let p_avail = of_nat TRACE_EVENT_SIZE_ARRAY - of_nat (count_pg (pages tm ! curr tm)) :: lu_size;
            s_avail = of_nat TRACE_EVENT_SIZE_ARRAY * (page_limit tm - page_count tm - 1)
        in p_avail + s_avail \<le> n
      else True)"

text \<open>The last line of \<^verbatim>\<open>timeline_allocpage\<close>: hand out slot \<^verbatim>\<open>count++\<close> of the current page.\<close>

definition take_slot :: "timeline \<Rightarrow> (timeline \<times> event_ptr) option" where
  "take_slot tm =
     (let c = curr tm; pg = pages tm ! c
      in Some (tm\<lparr>pages := (pages tm)[c := pg\<lparr>count_pg := Suc (count_pg pg)\<rparr>]\<rparr>, (c, count_pg pg)))"

definition timeline_allocpage :: "bool \<Rightarrow> timeline \<Rightarrow> (timeline \<times> event_ptr) option" where
  "timeline_allocpage alloc_ok tm =
     (let c = curr tm; pg = pages tm ! c
      in if count_pg pg = TRACE_EVENT_SIZE_ARRAY then
           (if Suc c < length (pages tm) then
              take_slot (tm\<lparr>pages := (pages tm)[Suc c := (pages tm ! Suc c)\<lparr>count_pg := 0\<rparr>], curr := Suc c\<rparr>)
            else if (page_limit tm = 0 \<or> page_count tm < page_limit tm) then
              (case traceevent_new alloc_ok of
                 None \<Rightarrow> None
               | Some np \<Rightarrow> take_slot (tm\<lparr>pages := pages tm @ [np], curr := Suc c,
                                          page_count := page_count tm + 1\<rparr>))
            else None)
         else take_slot tm)"


section \<open>Event collection\<close>

text \<open>
  Each emitter starts with \<^verbatim>\<open>FETCHPAGE\<close>: when \<^verbatim>\<open>timeline_allocpage\<close> fails it
  returns \<^verbatim>\<open>TRACE_EVENT_ERRPAGEFULL\<close> and nothing has changed. The fields an emitter
  does not write keep what the slot held.
\<close>

definition clear_event_data :: "trace_event \<Rightarrow> trace_event" where
  "clear_event_data ev = ev\<lparr>ev_flags := 0, ev_info := None, ev_sibling := None, ev_lines := None\<rparr>"

definition traceevent_metadata_process ::
  "bool \<Rightarrow> timeline \<Rightarrow> int \<Rightarrow> string \<Rightarrow> timeline \<times> nat" where
  "traceevent_metadata_process alloc_ok tm process nm =
     (case timeline_allocpage alloc_ok tm of
        None \<Rightarrow> (tm, TRACE_EVENT_ERRPAGEFULL)
      | Some (tm1, e) \<Rightarrow>
          (ev_upd e (\<lambda>ev. ev\<lparr>ev_op := PROCESS,
               ev_call := (ev_call ev)\<lparr>proc := \<lparr>pid = process, tid = LMPROF_THREAD_BROWSER\<rparr>\<rparr>,
               ev_name := Some nm\<rparr>) tm1, TRACE_EVENT_OK))"

definition traceevent_metadata_thread ::
  "bool \<Rightarrow> timeline \<Rightarrow> event_process \<Rightarrow> string \<Rightarrow> timeline \<times> nat" where
  "traceevent_metadata_thread alloc_ok tm process nm =
     (case timeline_allocpage alloc_ok tm of
        None \<Rightarrow> (tm, TRACE_EVENT_ERRPAGEFULL)
      | Some (tm1, e) \<Rightarrow>
          (ev_upd e (\<lambda>ev. ev\<lparr>ev_op := THREAD, ev_call := (ev_call ev)\<lparr>proc := process\<rparr>,
                             ev_name := Some nm\<rparr>) tm1, TRACE_EVENT_OK))"

definition traceevent_beginframe :: "bool \<Rightarrow> timeline \<Rightarrow> event_measurement \<Rightarrow> timeline \<times> nat" where
  "traceevent_beginframe alloc_ok tm u =
     (case timeline_allocpage alloc_ok tm of
        None \<Rightarrow> (tm, TRACE_EVENT_ERRPAGEFULL)
      | Some (tm1, e) \<Rightarrow>
          let fc = frame_count tm1 + 1
          in (ev_upd e (\<lambda>ev. ev\<lparr>ev_op := BEGIN_FRAME, ev_call := u, ev_frame := fc\<rparr>)
                (tm1\<lparr>frame_count := fc\<rparr>), TRACE_EVENT_OK))"

definition traceevent_endframe :: "bool \<Rightarrow> timeline \<Rightarrow> event_measurement \<Rightarrow> timeline \<times> nat" where
  "traceevent_endframe alloc_ok tm u =
     (case timeline_allocpage alloc_ok tm of
        None \<Rightarrow> (tm, TRACE_EVENT_ERRPAGEFULL)
      | Some (tm1, e) \<Rightarrow>
          (ev_upd e (\<lambda>ev. ev\<lparr>ev_op := END_FRAME, ev_call := u, ev_frame := frame_count tm1\<rparr>) tm1,
           TRACE_EVENT_OK))"

definition traceevent_beginroutine :: "bool \<Rightarrow> timeline \<Rightarrow> event_measurement \<Rightarrow> timeline \<times> nat" where
  "traceevent_beginroutine alloc_ok tm u =
     (case timeline_allocpage alloc_ok tm of
        None \<Rightarrow> (tm, TRACE_EVENT_ERRPAGEFULL)
      | Some (tm1, e) \<Rightarrow>
          (ev_upd e (\<lambda>ev. clear_event_data (ev\<lparr>ev_op := BEGIN_ROUTINE, ev_call := u\<rparr>)) tm1, TRACE_EVENT_OK))"

definition traceevent_endroutine :: "bool \<Rightarrow> timeline \<Rightarrow> event_measurement \<Rightarrow> timeline \<times> nat" where
  "traceevent_endroutine alloc_ok tm u =
     (case timeline_allocpage alloc_ok tm of
        None \<Rightarrow> (tm, TRACE_EVENT_ERRPAGEFULL)
      | Some (tm1, e) \<Rightarrow>
          (ev_upd e (\<lambda>ev. clear_event_data (ev\<lparr>ev_op := END_ROUTINE, ev_call := u\<rparr>)) tm1, TRACE_EVENT_OK))"

text \<open>\<^verbatim>\<open>traceevent_enterscope\<close> also stores the new event in the frame.\<close>

definition traceevent_enterscope ::
  "bool \<Rightarrow> timeline \<Rightarrow> stack_inst \<Rightarrow> timeline \<times> stack_inst \<times> nat" where
  "traceevent_enterscope alloc_ok tm inst =
     (case timeline_allocpage alloc_ok tm of
        None \<Rightarrow> (tm, inst, TRACE_EVENT_ERRPAGEFULL)
      | Some (tm1, e) \<Rightarrow>
          (ev_upd e (\<lambda>ev. clear_event_data (ev\<lparr>ev_op := ENTER_SCOPE, ev_call := t_call inst\<rparr>)
                          \<lparr>ev_info := t_record inst\<rparr>) tm1,
           inst\<lparr>t_begin_event := Some e\<rparr>, TRACE_EVENT_OK))"

definition traceevent_exitscope :: "bool \<Rightarrow> timeline \<Rightarrow> stack_inst \<Rightarrow> timeline \<times> nat" where
  "traceevent_exitscope alloc_ok tm inst =
     (case timeline_allocpage alloc_ok tm of
        None \<Rightarrow> (tm, TRACE_EVENT_ERRPAGEFULL)
      | Some (tm1, e) \<Rightarrow>
          let tm2 = ev_upd e (\<lambda>ev. clear_event_data (ev\<lparr>ev_op := EXIT_SCOPE, ev_call := t_call inst\<rparr>)
                                    \<lparr>ev_info := t_record inst\<rparr>) tm1
          in (case t_begin_event inst of
                None \<Rightarrow> (tm2, TRACE_EVENT_OK)
              | Some b \<Rightarrow> (ev_upd e (\<lambda>ev. ev\<lparr>ev_sibling := Some b\<rparr>)
                              (ev_upd b (\<lambda>ev. ev\<lparr>ev_sibling := Some e\<rparr>) tm2), TRACE_EVENT_OK)))"

text \<open>
  \<^verbatim>\<open>traceevent_sample\<close>: a line of \<open>-1\<close> records a \<^verbatim>\<open>SAMPLE_EVENT\<close>, any other a
  \<^verbatim>\<open>LINE_SCOPE\<close> pushed on the line chain of the frame's begin event. The slot is taken
  before the frame is checked for a begin event.
\<close>

definition traceevent_sample ::
  "bool \<Rightarrow> timeline \<Rightarrow> stack_inst \<Rightarrow> event_measurement \<Rightarrow> int \<Rightarrow> timeline \<times> nat" where
  "traceevent_sample alloc_ok tm inst u line =
     (case timeline_allocpage alloc_ok tm of
        None \<Rightarrow> (tm, TRACE_EVENT_ERRPAGEFULL)
      | Some (tm1, e) \<Rightarrow>
          (case t_begin_event inst of
             None \<Rightarrow> (tm1, TRACE_EVENT_OK)
           | Some b \<Rightarrow>
               if line = -1
               then (ev_upd e (\<lambda>ev. ev\<lparr>ev_op := SAMPLE_EVENT, ev_call := u, ev_sample_next := None\<rparr>) tm1,
                     TRACE_EVENT_OK)
               else
                 let lines = ev_lines (tl_event tm1 b);
                     tm2 = ev_upd e (\<lambda>ev. ev\<lparr>ev_op := LINE_SCOPE, ev_call := u, ev_line := line,
                                             ev_info := t_record inst, ev_sibling := lines,
                                             ev_lines := None\<rparr>) tm1;
                     tm3 = (case lines of None \<Rightarrow> tm2
                            | Some l \<Rightarrow> ev_upd l (\<lambda>ev. ev\<lparr>ev_lines := Some e\<rparr>) tm2)
                 in (ev_upd b (\<lambda>ev. ev\<lparr>ev_lines := Some e\<rparr>) tm3, TRACE_EVENT_OK)))"

section \<open>Invariant\<close>

text \<open>
  The page list is never empty, \<^verbatim>\<open>curr\<close> is its last page (nothing rewinds
  it, so the recycling branch of the allocator is never taken), every page has the full array
  and a count within it, and \<^verbatim>\<open>pageCount\<close> is the number of pages after the header (modulo
  \<open>2^64\<close>),
  at most \<^verbatim>\<open>pageLimit\<close> when a limit is set.
\<close>

definition timeline_inv :: "timeline \<Rightarrow> bool" where
  "timeline_inv tm \<longleftrightarrow>
     Suc (curr tm) = length (pages tm) \<and>
     (\<forall>pg \<in> set (pages tm). count_pg pg \<le> TRACE_EVENT_SIZE_ARRAY \<and>
                            length (event_array pg) = TRACE_EVENT_SIZE_ARRAY) \<and>
     page_count tm = of_nat (curr tm) \<and>
     (page_limit tm \<noteq> 0 \<longrightarrow> page_count tm \<le> page_limit tm)"

text \<open>The page a successful allocation appends, once its first slot is handed out.\<close>

definition new_page_slot :: trace_page where
  "new_page_slot = \<lparr>count_pg = 1, event_array = replicate TRACE_EVENT_SIZE_ARRAY ev_undef\<rparr>"

section \<open>Specification helpers\<close>

text \<open>
  An emitter call either failed with \<^verbatim>\<open>TRACE_EVENT_ERRPAGEFULL\<close> and changed nothing,
  or succeeded and appended exactly one event; in both cases the invariant holds after.
\<close>

definition emit_ok :: "timeline \<Rightarrow> timeline \<times> nat \<Rightarrow> bool" where
  "emit_ok tm r \<longleftrightarrow> timeline_inv (fst r) \<and>
     (snd r = TRACE_EVENT_OK \<and> (\<exists>e. timeline_events (fst r) = timeline_events tm @ [e]) \<or>
      snd r = TRACE_EVENT_ERRPAGEFULL \<and> fst r = tm)"

text \<open>\<open>n\<close> successive event allocations, as \<open>n\<close> emitter calls perform them.\<close>

fun timeline_alloc_n :: "nat \<Rightarrow> timeline \<Rightarrow> timeline option" where
  "timeline_alloc_n 0 tm = Some tm"
| "timeline_alloc_n (Suc n) tm =
     (case timeline_allocpage True tm of None \<Rightarrow> None | Some (tm', _) \<Rightarrow> timeline_alloc_n n tm')"

section \<open>Lemmas\<close>


lemma ev_upd_sel [timeline_simps]:
  "length (pages (ev_upd p f tm)) = length (pages tm)"
  "curr (ev_upd p f tm) = curr tm"
  "page_count (ev_upd p f tm) = page_count tm"
  "page_limit (ev_upd p f tm) = page_limit tm"
  "frame_count (ev_upd p f tm) = frame_count tm"
  "base_time (ev_upd p f tm) = base_time tm"
  by (simp_all add: ev_upd_def)

lemma ev_upd_page_sel [timeline_simps]:
  "count_pg (pages (ev_upd p f tm) ! i) = count_pg (pages tm ! i)"
  "length (event_array (pages (ev_upd p f tm) ! i)) = length (event_array (pages tm ! i))"
  by (cases "i = fst p"; cases "i < length (pages tm)"; simp add: ev_upd_def nth_list_update list_update_beyond)+

lemma ev_upd_frame [timeline_simps]: "ev_upd p f (tm\<lparr>frame_count := x\<rparr>) = (ev_upd p f tm)\<lparr>frame_count := x\<rparr>"
  by (simp add: ev_upd_def)

lemma valid_ptr_ev_upd [timeline_simps]: "valid_ptr (ev_upd p f tm) q = valid_ptr tm q"
  by (simp add: valid_ptr_def timeline_simps)

lemma timeline_events_cong:
  "length (pages a) = length (pages b) \<Longrightarrow> (\<And>i. i < length (pages a) \<Longrightarrow> count_pg (pages a ! i) = count_pg (pages b ! i))
   \<Longrightarrow> timeline_events a = timeline_events b"
  unfolding timeline_events_def by (rule arg_cong [where f = concat]) simp

lemma timeline_events_ev_upd [timeline_simps]: "timeline_events (ev_upd p f tm) = timeline_events tm"
  by (rule timeline_events_cong) (simp_all add: timeline_simps)

lemma tl_event_ev_upd [timeline_simps]:
  "valid_ptr tm p \<Longrightarrow> length (event_array (pages tm ! fst p)) > snd p \<Longrightarrow>
   tl_event (ev_upd p f tm) q = (if q = p then f (tl_event tm p) else tl_event tm q)"
  by (cases p, cases q) (auto simp: ev_upd_def tl_event_def valid_ptr_def nth_list_update)

lemma timeline_inv_ev_upd [timeline_simps]: "timeline_inv (ev_upd p f tm) = timeline_inv tm"
proof -
  have "set (pages (ev_upd p f tm)) = (\<lambda>i. pages (ev_upd p f tm) ! i) ` {..<length (pages tm)}"
       "set (pages tm) = (\<lambda>i. pages tm ! i) ` {..<length (pages tm)}"
    by (auto simp: timeline_simps in_set_conv_nth image_def)
  then show ?thesis by (auto simp: timeline_inv_def timeline_simps)
qed

lemma timeline_events_upd_last:
  assumes "Suc c = length (pages tm)" "count_pg pg = Suc (count_pg (pages tm ! c))"
  shows "timeline_events (tm\<lparr>pages := (pages tm)[c := pg]\<rparr>) = timeline_events tm @ [(c, count_pg (pages tm ! c))]"
proof -
  let ?b = "\<lambda>ps i. map (\<lambda>j. (i, j)) [0..<count_pg (ps ! i)]"
  have same: "concat (map (?b ((pages tm)[c := pg])) [0..<c]) = concat (map (?b (pages tm)) [0..<c])"
    by (rule arg_cong [where f = concat], rule map_cong) simp_all
  have "[0..<length (pages tm)] = [0..<c] @ [c]" using assms(1) by (metis upt_Suc_append zero_le)
  then show ?thesis using same assms by (simp add: timeline_events_def)
qed

lemma timeline_events_append_page:
  assumes "count_pg pg = 1"
  shows "timeline_events (tm\<lparr>pages := pages tm @ [pg]\<rparr>) = timeline_events tm @ [(length (pages tm), 0)]"
proof -
  let ?b = "\<lambda>ps i. map (\<lambda>j. (i, j)) [0..<count_pg (ps ! i)]"
  have same: "concat (map (?b (pages tm @ [pg])) [0..<length (pages tm)]) =
               concat (map (?b (pages tm)) [0..<length (pages tm)])"
    by (rule arg_cong [where f = concat], rule map_cong) (simp_all add: nth_append)
  then show ?thesis using assms by (simp add: timeline_events_def)
qed

lemma TRACE_EVENT_SIZE_ARRAY_val: "TRACE_EVENT_SIZE_ARRAY = 314"
  by (simp add: TRACE_EVENT_SIZE_ARRAY_def TRACE_EVENT_PAGE_SIZE_def OFFSETOF_EVENT_ARRAY_def
                SIZEOF_TRACE_EVENT_PAGE_def)

lemma allocpage_eq:
  assumes inv: "timeline_inv tm"
  shows "timeline_allocpage ok tm =
    (if count_pg (pages tm ! curr tm) < TRACE_EVENT_SIZE_ARRAY then
       Some (tm\<lparr>pages := (pages tm)[curr tm := (pages tm ! curr tm)\<lparr>count_pg := Suc (count_pg (pages tm ! curr tm))\<rparr>]\<rparr>,
             (curr tm, count_pg (pages tm ! curr tm)))
     else if (page_limit tm = 0 \<or> page_count tm < page_limit tm) \<and> ok then
       Some (tm\<lparr>pages := pages tm @ [new_page_slot], curr := Suc (curr tm), page_count := page_count tm + 1\<rparr>,
             (Suc (curr tm), 0))
     else None)"
proof -
  have last: "Suc (curr tm) = length (pages tm)" and le: "count_pg (pages tm ! curr tm) \<le> TRACE_EVENT_SIZE_ARRAY"
    using inv by (auto simp: timeline_inv_def)
  show ?thesis
    using last le by (auto simp: timeline_allocpage_def take_slot_def traceevent_new_def new_page_slot_def Let_def)
qed

lemma allocpage_Some:
  assumes inv: "timeline_inv tm" and a: "timeline_allocpage ok tm = Some (tm', e)"
  shows "timeline_inv tm' \<and> timeline_events tm' = timeline_events tm @ [e] \<and> valid_ptr tm' e \<and>
         \<not> valid_ptr tm e \<and> (\<forall>p. valid_ptr tm p \<longrightarrow> valid_ptr tm' p \<and> tl_event tm' p = tl_event tm p) \<and>
         snd e < length (event_array (pages tm' ! fst e)) \<and>
         frame_count tm' = frame_count tm \<and> base_time tm' = base_time tm"
proof -
  have last: "Suc (curr tm) = length (pages tm)" and pc: "page_count tm = of_nat (curr tm)"
    and pgs: "\<forall>pg \<in> set (pages tm). count_pg pg \<le> TRACE_EVENT_SIZE_ARRAY \<and>
                            length (event_array pg) = TRACE_EVENT_SIZE_ARRAY"
    and lim: "page_limit tm \<noteq> 0 \<longrightarrow> page_count tm \<le> page_limit tm"
    using inv by (auto simp: timeline_inv_def)
  let ?c = "curr tm" let ?k = "count_pg (pages tm ! curr tm)"
  have cin: "pages tm ! ?c \<in> set (pages tm)" using last by simp
  show ?thesis
  proof (cases "?k < TRACE_EVENT_SIZE_ARRAY")
    case True
    let ?pg = "(pages tm ! ?c)\<lparr>count_pg := Suc ?k\<rparr>"
    have eq: "tm' = tm\<lparr>pages := (pages tm)[?c := ?pg]\<rparr>" "e = (?c, ?k)"
      using a True by (simp_all add: allocpage_eq [OF inv])
    have setp: "set ((pages tm)[?c := ?pg]) \<subseteq> insert ?pg (set (pages tm))" by (rule set_update_subset_insert)
    have i1: "timeline_inv tm'"
      unfolding timeline_inv_def eq using last pc lim pgs setp True cin by fastforce
    have ev: "timeline_events tm' = timeline_events tm @ [e]"
      unfolding eq by (rule timeline_events_upd_last) (use last in simp_all)
    show ?thesis using i1 ev eq last True pgs cin
      by (auto simp: valid_ptr_def tl_event_def nth_list_update)
  next
    case False
    then have full: "?k = TRACE_EVENT_SIZE_ARRAY" using pgs cin by fastforce
    have ok: "(page_limit tm = 0 \<or> page_count tm < page_limit tm) \<and> ok" and
      eq: "tm' = tm\<lparr>pages := pages tm @ [new_page_slot], curr := Suc ?c, page_count := page_count tm + 1\<rparr>"
          "e = (Suc ?c, 0)"
      using a False by (simp_all add: allocpage_eq [OF inv] split: if_splits)
    have sc: "(of_nat (Suc ?c) :: lu_size) = of_nat ?c + 1" by simp
    have i1: "timeline_inv tm'"
      unfolding timeline_inv_def eq using last pc lim pgs ok sc
      by (auto simp: new_page_slot_def TRACE_EVENT_SIZE_ARRAY_val inc_le simp del: of_nat_Suc)
    have ev: "timeline_events tm' = timeline_events tm @ [e]"
    proof -
      have "timeline_events tm' = timeline_events (tm\<lparr>pages := pages tm @ [new_page_slot]\<rparr>)"
        unfolding eq by (rule timeline_events_cong) simp_all
      then show ?thesis using timeline_events_append_page [of new_page_slot tm] last eq
        by (simp add: new_page_slot_def)
    qed
    show ?thesis using i1 ev eq last
      by (auto simp: valid_ptr_def tl_event_def nth_append new_page_slot_def TRACE_EVENT_SIZE_ARRAY_val)
  qed
qed

lemma timeline_events_valid: "p \<in> set (timeline_events tm) \<longleftrightarrow> valid_ptr tm p"
  by (cases p) (auto simp: timeline_events_def valid_ptr_def image_iff)

lemma valid_ptr_len:
  "timeline_inv tm \<Longrightarrow> valid_ptr tm p \<Longrightarrow> snd p < length (event_array (pages tm ! fst p))"
  by (auto simp: timeline_inv_def valid_ptr_def dest!: nth_mem dest: bspec)

lemma tl_event_upd_valid [timeline_simps]:
  "timeline_inv tm \<Longrightarrow> valid_ptr tm p \<Longrightarrow>
   tl_event (ev_upd p f tm) q = (if q = p then f (tl_event tm p) else tl_event tm q)"
  using tl_event_ev_upd valid_ptr_len by blast

lemma timeline_frame_count_sel [timeline_simps]:
  "timeline_events (tm\<lparr>frame_count := x\<rparr>) = timeline_events tm"
  "timeline_inv (tm\<lparr>frame_count := x\<rparr>) = timeline_inv tm"
  "valid_ptr (tm\<lparr>frame_count := x\<rparr>) p = valid_ptr tm p"
  "tl_event (tm\<lparr>frame_count := x\<rparr>) p = tl_event tm p"
  by (simp_all add: timeline_events_def timeline_inv_def valid_ptr_def tl_event_def)

lemma TRACE_EVENT_codes [simp]: "TRACE_EVENT_ERRPAGEFULL \<noteq> TRACE_EVENT_OK" "TRACE_EVENT_OK \<noteq> TRACE_EVENT_ERRPAGEFULL"
  by (simp_all add: TRACE_EVENT_ERRPAGEFULL_def TRACE_EVENT_OK_def)

lemma exitscope_links:
  assumes inv: "timeline_inv tm" and b: "t_begin_event inst = Some b" and vb: "valid_ptr tm b"
    and ex: "traceevent_exitscope ok tm inst = (tm', TRACE_EVENT_OK)"
  shows "\<exists>e. timeline_events tm' = timeline_events tm @ [e] \<and> timeline_inv tm' \<and> valid_ptr tm' e \<and> b \<noteq> e \<and>
     ev_op (tl_event tm' e) = EXIT_SCOPE \<and> ev_op (tl_event tm' b) = ev_op (tl_event tm b) \<and>
     ev_sibling (tl_event tm' b) = Some e \<and> ev_sibling (tl_event tm' e) = Some b"
proof -
  obtain tm1 e where a: "timeline_allocpage ok tm = Some (tm1, e)"
    using ex by (cases "timeline_allocpage ok tm") (auto simp: traceevent_exitscope_def)
  note A = allocpage_Some [OF inv a]
  have vb1: "valid_ptr tm1 b" and tb: "tl_event tm1 b = tl_event tm b" using A vb by (cases b; simp)+
  have ne: "b \<noteq> e" using A vb by auto
  have eq: "tm' = ev_upd e (\<lambda>ev. ev\<lparr>ev_sibling := Some b\<rparr>) (ev_upd b (\<lambda>ev. ev\<lparr>ev_sibling := Some e\<rparr>)
                 (ev_upd e (\<lambda>ev. clear_event_data (ev\<lparr>ev_op := EXIT_SCOPE, ev_call := t_call inst\<rparr>)
                                    \<lparr>ev_info := t_record inst\<rparr>) tm1))"
    using ex a b by (simp add: traceevent_exitscope_def Let_def)
  show ?thesis
    using A vb vb1 ne tb unfolding eq
    by (intro exI [of _ e]) (simp add: timeline_simps clear_event_data_def)
qed

lemma enterscope_begin:
  assumes inv: "timeline_inv tm" and en: "traceevent_enterscope ok tm inst = (tm', inst', TRACE_EVENT_OK)"
  shows "\<exists>b. t_begin_event inst' = Some b \<and> timeline_events tm' = timeline_events tm @ [b] \<and>
             timeline_inv tm' \<and> valid_ptr tm' b \<and> ev_op (tl_event tm' b) = ENTER_SCOPE \<and>
             ev_sibling (tl_event tm' b) = None \<and> ev_lines (tl_event tm' b) = None \<and>
             ev_info (tl_event tm' b) = t_record inst \<and> ev_call (tl_event tm' b) = t_call inst \<and>
             (\<forall>p. valid_ptr tm p \<longrightarrow> tl_event tm' p = tl_event tm p)"
proof -
  obtain tm1 b where a: "timeline_allocpage ok tm = Some (tm1, b)"
    using en by (cases "timeline_allocpage ok tm") (auto simp: traceevent_enterscope_def)
  note A = allocpage_Some [OF inv a]
  have eq: "tm' = ev_upd b (\<lambda>ev. clear_event_data (ev\<lparr>ev_op := ENTER_SCOPE, ev_call := t_call inst\<rparr>)
                          \<lparr>ev_info := t_record inst\<rparr>) tm1" "inst' = inst\<lparr>t_begin_event := Some b\<rparr>"
    using en a by (simp_all add: traceevent_enterscope_def)
  show ?thesis
    using A unfolding eq by (auto simp: timeline_simps clear_event_data_def)
qed

lemma enter_exit:
  assumes "timeline_inv tm"
    and "traceevent_enterscope ok1 tm inst = (tm1, inst1, TRACE_EVENT_OK)"
    and "traceevent_exitscope ok2 tm1 inst1 = (tm2, TRACE_EVENT_OK)"
  shows "\<exists>b e. t_begin_event inst1 = Some b \<and> timeline_events tm2 = timeline_events tm @ [b, e] \<and>
     b \<noteq> e \<and> valid_ptr tm2 b \<and> valid_ptr tm2 e \<and>
     ev_op (tl_event tm2 b) = ENTER_SCOPE \<and> ev_op (tl_event tm2 e) = EXIT_SCOPE \<and>
     ev_sibling (tl_event tm2 b) = Some e \<and> ev_sibling (tl_event tm2 e) = Some b"
proof -
  obtain b where B: "t_begin_event inst1 = Some b" "timeline_events tm1 = timeline_events tm @ [b]"
    "timeline_inv tm1" "valid_ptr tm1 b" "ev_op (tl_event tm1 b) = ENTER_SCOPE"
    using enterscope_begin [OF assms(1,2)] by blast
  obtain e where E: "timeline_events tm2 = timeline_events tm1 @ [e]" "timeline_inv tm2" "valid_ptr tm2 e" "b \<noteq> e"
    "ev_op (tl_event tm2 e) = EXIT_SCOPE" "ev_op (tl_event tm2 b) = ev_op (tl_event tm1 b)"
    "ev_sibling (tl_event tm2 b) = Some e" "ev_sibling (tl_event tm2 e) = Some b"
    using exitscope_links [OF B(3) B(1) B(4) assms(3)] by blast
  have "b \<in> set (timeline_events tm2)" using E(1) B(2) by simp
  then have "valid_ptr tm2 b" by (simp add: timeline_events_valid)
  then show ?thesis using B E by auto
qed

lemma emit_alloc:
  "timeline_inv tm \<Longrightarrow> timeline_allocpage ok tm = Some (tm1, e) \<Longrightarrow>
   timeline_inv tm1 \<and> timeline_events tm1 = timeline_events tm @ [e]"
  using allocpage_Some by blast

lemma emitters_inv:
  assumes inv: "timeline_inv tm"
  shows "emit_ok tm (traceevent_beginframe ok tm u) \<and> emit_ok tm (traceevent_endframe ok tm u) \<and>
         emit_ok tm (traceevent_beginroutine ok tm u) \<and> emit_ok tm (traceevent_endroutine ok tm u) \<and>
         emit_ok tm (traceevent_metadata_process ok tm pr nm) \<and> emit_ok tm (traceevent_metadata_thread ok tm pp nm) \<and>
         emit_ok tm (fst (traceevent_enterscope ok tm inst), snd (snd (traceevent_enterscope ok tm inst))) \<and>
         emit_ok tm (traceevent_exitscope ok tm inst) \<and> emit_ok tm (traceevent_sample ok tm inst u ln)"
  using inv
  by (auto simp: emit_ok_def traceevent_beginframe_def traceevent_endframe_def traceevent_beginroutine_def
        traceevent_endroutine_def traceevent_metadata_process_def traceevent_metadata_thread_def
        traceevent_enterscope_def traceevent_exitscope_def traceevent_sample_def Let_def timeline_simps
        split: option.splits dest: emit_alloc)

lemma sample_no_scope:
  assumes "t_begin_event inst = None" and "timeline_allocpage ok tm = Some (tm1, e)"
  shows "traceevent_sample ok tm inst u ln = (tm1, TRACE_EVENT_OK)"
  using assms by (simp add: traceevent_sample_def)

section \<open>Properties\<close>

text \<open>
  C6 (invariant, I3): an \<^verbatim>\<open>ENTER_SCOPE\<close> emitted by \<^verbatim>\<open>traceevent_enterscope\<close> and
  closed by \<^verbatim>\<open>traceevent_exitscope\<close> on the frame it returned are two distinct live
  events, appended in this order, cross-linked both ways: the enter's sibling is the exit
  and the exit's sibling the enter.
\<close>

theorem enter_exit_cross_link:
  assumes "timeline_inv tm"
    and "traceevent_enterscope ok1 tm inst = (tm1, inst1, TRACE_EVENT_OK)"
    and "traceevent_exitscope ok2 tm1 inst1 = (tm2, TRACE_EVENT_OK)"
  shows "\<exists>b e. t_begin_event inst1 = Some b \<and> timeline_events tm2 = timeline_events tm @ [b, e] \<and>
     b \<noteq> e \<and> valid_ptr tm2 b \<and> valid_ptr tm2 e \<and>
     ev_op (tl_event tm2 b) = ENTER_SCOPE \<and> ev_op (tl_event tm2 e) = EXIT_SCOPE \<and>
     ev_sibling (tl_event tm2 b) = Some e \<and> ev_sibling (tl_event tm2 e) = Some b"
  using assms by (rule enter_exit)

theorem enter_exit_cross_link_witness:
  "\<exists>b e. ev_sibling (tl_event (fst (traceevent_exitscope True (fst (traceevent_enterscope True (\<lparr>page_count = 0, page_limit = 0, frame_count = 1, base_time = 0,
      pages = [\<lparr>count_pg = 0, event_array = replicate TRACE_EVENT_SIZE_ARRAY ev_undef\<rparr>], curr = 0\<rparr>) (stack_inst_zero\<lparr>t_record := Some 0\<rparr>)))
                                                   (fst (snd (traceevent_enterscope True (\<lparr>page_count = 0, page_limit = 0, frame_count = 1, base_time = 0,
      pages = [\<lparr>count_pg = 0, event_array = replicate TRACE_EVENT_SIZE_ARRAY ev_undef\<rparr>], curr = 0\<rparr>) (stack_inst_zero\<lparr>t_record := Some 0\<rparr>)))))) b) = Some e \<and>
         ev_sibling (tl_event (fst (traceevent_exitscope True (fst (traceevent_enterscope True (\<lparr>page_count = 0, page_limit = 0, frame_count = 1, base_time = 0,
      pages = [\<lparr>count_pg = 0, event_array = replicate TRACE_EVENT_SIZE_ARRAY ev_undef\<rparr>], curr = 0\<rparr>) (stack_inst_zero\<lparr>t_record := Some 0\<rparr>)))
                                                   (fst (snd (traceevent_enterscope True (\<lparr>page_count = 0, page_limit = 0, frame_count = 1, base_time = 0,
      pages = [\<lparr>count_pg = 0, event_array = replicate TRACE_EVENT_SIZE_ARRAY ev_undef\<rparr>], curr = 0\<rparr>) (stack_inst_zero\<lparr>t_record := Some 0\<rparr>)))))) e) = Some b \<and>
         b \<noteq> e"
proof -
  have inv: "timeline_inv (\<lparr>page_count = 0, page_limit = 0, frame_count = 1, base_time = 0,
      pages = [\<lparr>count_pg = 0, event_array = replicate TRACE_EVENT_SIZE_ARRAY ev_undef\<rparr>], curr = 0\<rparr>)"
    by (simp add: timeline_inv_def TRACE_EVENT_SIZE_ARRAY_val)
  have en: "traceevent_enterscope True (\<lparr>page_count = 0, page_limit = 0, frame_count = 1, base_time = 0,
      pages = [\<lparr>count_pg = 0, event_array = replicate TRACE_EVENT_SIZE_ARRAY ev_undef\<rparr>], curr = 0\<rparr>) (stack_inst_zero\<lparr>t_record := Some 0\<rparr>) =
              (fst (traceevent_enterscope True (\<lparr>page_count = 0, page_limit = 0, frame_count = 1, base_time = 0,
      pages = [\<lparr>count_pg = 0, event_array = replicate TRACE_EVENT_SIZE_ARRAY ev_undef\<rparr>], curr = 0\<rparr>) (stack_inst_zero\<lparr>t_record := Some 0\<rparr>)), fst (snd (traceevent_enterscope True (\<lparr>page_count = 0, page_limit = 0, frame_count = 1, base_time = 0,
      pages = [\<lparr>count_pg = 0, event_array = replicate TRACE_EVENT_SIZE_ARRAY ev_undef\<rparr>], curr = 0\<rparr>) (stack_inst_zero\<lparr>t_record := Some 0\<rparr>))), TRACE_EVENT_OK)"
    by (simp add: traceevent_enterscope_def timeline_allocpage_def take_slot_def TRACE_EVENT_SIZE_ARRAY_val)
  have ex: "traceevent_exitscope True (fst (traceevent_enterscope True (\<lparr>page_count = 0, page_limit = 0, frame_count = 1, base_time = 0,
      pages = [\<lparr>count_pg = 0, event_array = replicate TRACE_EVENT_SIZE_ARRAY ev_undef\<rparr>], curr = 0\<rparr>) (stack_inst_zero\<lparr>t_record := Some 0\<rparr>))) (fst (snd (traceevent_enterscope True (\<lparr>page_count = 0, page_limit = 0, frame_count = 1, base_time = 0,
      pages = [\<lparr>count_pg = 0, event_array = replicate TRACE_EVENT_SIZE_ARRAY ev_undef\<rparr>], curr = 0\<rparr>) (stack_inst_zero\<lparr>t_record := Some 0\<rparr>)))) =
              (fst (traceevent_exitscope True (fst (traceevent_enterscope True (\<lparr>page_count = 0, page_limit = 0, frame_count = 1, base_time = 0,
      pages = [\<lparr>count_pg = 0, event_array = replicate TRACE_EVENT_SIZE_ARRAY ev_undef\<rparr>], curr = 0\<rparr>) (stack_inst_zero\<lparr>t_record := Some 0\<rparr>))) (fst (snd (traceevent_enterscope True (\<lparr>page_count = 0, page_limit = 0, frame_count = 1, base_time = 0,
      pages = [\<lparr>count_pg = 0, event_array = replicate TRACE_EVENT_SIZE_ARRAY ev_undef\<rparr>], curr = 0\<rparr>) (stack_inst_zero\<lparr>t_record := Some 0\<rparr>))))),
               TRACE_EVENT_OK)"
    by (simp add: traceevent_enterscope_def traceevent_exitscope_def timeline_allocpage_def take_slot_def
                  TRACE_EVENT_SIZE_ARRAY_val ev_upd_def Let_def)
  show ?thesis using enter_exit_cross_link [OF inv en ex] by blast
qed

text \<open>
  C7 (invariant): every emitter keeps the timeline invariant, and either fails with
  \<^verbatim>\<open>TRACE_EVENT_ERRPAGEFULL\<close> leaving the timeline unchanged or returns
  \<^verbatim>\<open>TRACE_EVENT_OK\<close> having appended exactly one event to the traversal order.
\<close>

theorem emitters_preserve_inv:
  assumes "timeline_inv tm"
  shows "emit_ok tm (traceevent_beginframe ok tm u) \<and> emit_ok tm (traceevent_endframe ok tm u) \<and>
         emit_ok tm (traceevent_beginroutine ok tm u) \<and> emit_ok tm (traceevent_endroutine ok tm u) \<and>
         emit_ok tm (traceevent_metadata_process ok tm pr nm) \<and> emit_ok tm (traceevent_metadata_thread ok tm pp nm) \<and>
         emit_ok tm (fst (traceevent_enterscope ok tm inst), snd (snd (traceevent_enterscope ok tm inst))) \<and>
         emit_ok tm (traceevent_exitscope ok tm inst) \<and> emit_ok tm (traceevent_sample ok tm inst u ln)"
  using assms by (rule emitters_inv)

theorem emitters_preserve_inv_witness:
  "emit_ok (\<lparr>page_count = 0, page_limit = 0, frame_count = 1, base_time = 0,
      pages = [\<lparr>count_pg = 0, event_array = replicate TRACE_EVENT_SIZE_ARRAY ev_undef\<rparr>], curr = 0\<rparr>) (traceevent_beginframe True (\<lparr>page_count = 0, page_limit = 0, frame_count = 1, base_time = 0,
      pages = [\<lparr>count_pg = 0, event_array = replicate TRACE_EVENT_SIZE_ARRAY ev_undef\<rparr>], curr = 0\<rparr>) \<lparr>proc = \<lparr>pid = 1, tid = 1\<rparr>, s = unit_zero, overhead = 0\<rparr>)"
proof -
  have inv: "timeline_inv (\<lparr>page_count = 0, page_limit = 0, frame_count = 1, base_time = 0,
      pages = [\<lparr>count_pg = 0, event_array = replicate TRACE_EVENT_SIZE_ARRAY ev_undef\<rparr>], curr = 0\<rparr>)" by (simp add: timeline_inv_def TRACE_EVENT_SIZE_ARRAY_val)
  show ?thesis using emitters_preserve_inv [OF inv, of True "\<lparr>proc = \<lparr>pid = 1, tid = 1\<rparr>, s = unit_zero, overhead = 0\<rparr>"]
    by blast
qed

text \<open>
  C8 (functional): on a well-formed timeline \<^verbatim>\<open>timeline_allocpage\<close> fails exactly when
  the current page is full and no page may be added (the page limit is reached or the
  allocation fails); otherwise it hands out a fresh slot, appended to the traversal
  order, and leaves every existing event as it was.
\<close>

theorem allocpage_spec:
  assumes "timeline_inv tm"
  shows "(timeline_allocpage ok tm = None \<longleftrightarrow>
            count_pg (pages tm ! curr tm) = TRACE_EVENT_SIZE_ARRAY \<and>
            \<not> ((page_limit tm = 0 \<or> page_count tm < page_limit tm) \<and> ok)) \<and>
         (\<forall>tm' e. timeline_allocpage ok tm = Some (tm', e) \<longrightarrow>
            timeline_inv tm' \<and> timeline_events tm' = timeline_events tm @ [e] \<and>
            (\<forall>p. valid_ptr tm p \<longrightarrow> tl_event tm' p = tl_event tm p))"
proof -
  have le: "count_pg (pages tm ! curr tm) \<le> TRACE_EVENT_SIZE_ARRAY"
    using assms by (auto simp: timeline_inv_def)
  have "timeline_allocpage ok tm = None \<longleftrightarrow>
            count_pg (pages tm ! curr tm) = TRACE_EVENT_SIZE_ARRAY \<and>
            \<not> ((page_limit tm = 0 \<or> page_count tm < page_limit tm) \<and> ok)"
    using le by (auto simp: allocpage_eq [OF assms])
  moreover have "\<forall>tm' e. timeline_allocpage ok tm = Some (tm', e) \<longrightarrow>
            timeline_inv tm' \<and> timeline_events tm' = timeline_events tm @ [e] \<and>
            (\<forall>p. valid_ptr tm p \<longrightarrow> tl_event tm' p = tl_event tm p)"
    using allocpage_Some [OF assms] by blast
  ultimately show ?thesis by blast
qed

theorem allocpage_spec_witness:
  "timeline_allocpage False (\<lparr>page_count = 0, page_limit = 0, frame_count = 1, base_time = 0,
      pages = [\<lparr>count_pg = 0, event_array = replicate TRACE_EVENT_SIZE_ARRAY ev_undef\<rparr>], curr = 0\<rparr>) \<noteq> None"
proof -
  have inv: "timeline_inv (\<lparr>page_count = 0, page_limit = 0, frame_count = 1, base_time = 0,
      pages = [\<lparr>count_pg = 0, event_array = replicate TRACE_EVENT_SIZE_ARRAY ev_undef\<rparr>], curr = 0\<rparr>)" by (simp add: timeline_inv_def TRACE_EVENT_SIZE_ARRAY_val)
  show ?thesis using allocpage_spec [OF inv, of False] by (simp add: TRACE_EVENT_SIZE_ARRAY_val)
qed

text \<open>
  C9 (functional, I6): \<^verbatim>\<open>timeline_canbuffer\<close> answers the opposite question. On a
  well-formed timeline with pages left under its budget (and a budget whose byte size fits
  a \<^verbatim>\<open>size_t\<close>), it says yes exactly when \<open>n\<close> is at least the free capacity (the
  free slots of the current page plus full pages for the remaining budget), and no for
  every smaller \<open>n\<close>, which is when \<open>n\<close> more events do fit.
\<close>

theorem timeline_canbuffer_inverted:
  assumes inv: "timeline_inv tm" and room: "page_count tm < page_limit tm"
    and fits: "TRACE_EVENT_SIZE_ARRAY * unat (page_limit tm) < 2 ^ 64"
  shows "timeline_canbuffer tm n \<longleftrightarrow>
           (TRACE_EVENT_SIZE_ARRAY - count_pg (pages tm ! curr tm)) +
           TRACE_EVENT_SIZE_ARRAY * (unat (page_limit tm) - unat (page_count tm) - 1) \<le> unat n"
proof -
  let ?S = TRACE_EVENT_SIZE_ARRAY
  let ?c = "count_pg (pages tm ! curr tm)"
  let ?L = "unat (page_limit tm)" and ?C = "unat (page_count tm)"
  have c: "?c \<le> ?S" using inv by (auto simp: timeline_inv_def)
  have S: "?S < 2 ^ 64" by (simp add: TRACE_EVENT_SIZE_ARRAY_val)
  have lc: "?C < ?L" using room by (simp add: word_less_nat_alt)
  have nz: "page_limit tm \<noteq> 0" using room by auto
  have pa: "unat (of_nat ?S - of_nat ?c :: lu_size) = ?S - ?c"
    using c S by (simp add: of_nat_diff[symmetric] unat_of_nat del: of_nat_diff)
  have d: "unat (page_limit tm - page_count tm - 1) = ?L - ?C - 1"
    using lc room by (simp add: unat_sub word_less_nat_alt word_le_nat_alt less_imp_le)
  have bnd: "?S * (?L - ?C - 1) \<le> ?S * ?L" by simp
  have u: "unat (of_nat ?S :: lu_size) = ?S" using S by (simp add: unat_of_nat)
  have lt: "unat (of_nat ?S :: lu_size) * unat (page_limit tm - page_count tm - 1) < 2 ^ LENGTH(64)"
    using u d le_less_trans [OF bnd fits] by simp
  have sa: "unat (of_nat ?S * (page_limit tm - page_count tm - 1) :: lu_size) = ?S * (?L - ?C - 1)"
    using unat_mult_lem [THEN iffD1, OF lt] u d by simp
  have sum: "(?S - ?c) + ?S * (?L - ?C - 1) < 2 ^ LENGTH(64)"
  proof -
    have "(?S - ?c) + ?S * (?L - ?C - 1) \<le> ?S * (?L - ?C)"
      using lc by (cases "?L - ?C") (simp_all add: algebra_simps)
    also have "\<dots> \<le> ?S * ?L" by simp
    finally show ?thesis using fits by simp
  qed
  have tot: "unat ((of_nat ?S - of_nat ?c :: lu_size) + of_nat ?S * (page_limit tm - page_count tm - 1)) =
             (?S - ?c) + ?S * (?L - ?C - 1)"
    using sum pa sa by (simp add: unat_add_lem [THEN iffD1])
  show ?thesis
    using nz tot by (simp add: timeline_canbuffer_def Let_def word_le_nat_alt)
qed

theorem timeline_canbuffer_inverted_witness:
  "timeline_inv \<lparr>page_count = 0, page_limit = 1, frame_count = 1, base_time = 0,
      pages = [\<lparr>count_pg = 0, event_array = replicate TRACE_EVENT_SIZE_ARRAY ev_undef\<rparr>], curr = 0\<rparr> \<and>
   \<not> timeline_canbuffer \<lparr>page_count = 0, page_limit = 1, frame_count = 1, base_time = 0,
      pages = [\<lparr>count_pg = 0, event_array = replicate TRACE_EVENT_SIZE_ARRAY ev_undef\<rparr>], curr = 0\<rparr> 1 \<and>
   timeline_canbuffer \<lparr>page_count = 0, page_limit = 1, frame_count = 1, base_time = 0,
      pages = [\<lparr>count_pg = 0, event_array = replicate TRACE_EVENT_SIZE_ARRAY ev_undef\<rparr>], curr = 0\<rparr> 314"
proof -
  let ?tm = "\<lparr>page_count = 0 :: lu_size, page_limit = 1 :: lu_size, frame_count = 1 :: lu_size, base_time = 0 :: lu_time,
      pages = [\<lparr>count_pg = 0, event_array = replicate TRACE_EVENT_SIZE_ARRAY ev_undef\<rparr>], curr = 0\<rparr>"
  have inv: "timeline_inv ?tm" by (simp add: timeline_inv_def TRACE_EVENT_SIZE_ARRAY_val)
  have room: "page_count ?tm < page_limit ?tm" by simp
  have fits: "TRACE_EVENT_SIZE_ARRAY * unat (page_limit ?tm) < 2 ^ 64" by (simp add: TRACE_EVENT_SIZE_ARRAY_val)
  show ?thesis
    using inv timeline_canbuffer_inverted [OF inv room fits, of 1] timeline_canbuffer_inverted [OF inv room fits, of 314]
    by (simp add: TRACE_EVENT_SIZE_ARRAY_val)
qed

text \<open>
  \<^verbatim>\<open>traceevent_sample\<close> for a frame without a begin event takes a slot
  of the timeline before it checks the frame and then returns \<^verbatim>\<open>TRACE_EVENT_OK\<close>
  without writing the slot: the traversal order gains an event whose contents are
  whatever the slot held.
\<close>

theorem sample_without_scope_consumes_slot:
  assumes "timeline_inv tm" and "t_begin_event inst = None"
    and "timeline_allocpage ok tm = Some (tm1, e)"
  shows "traceevent_sample ok tm inst u ln = (tm1, TRACE_EVENT_OK) \<and>
         timeline_events tm1 = timeline_events tm @ [e] \<and> valid_ptr tm1 e"
  using sample_no_scope [OF assms(2,3)] allocpage_Some [OF assms(1,3)] by blast

theorem sample_without_scope_consumes_slot_witness:
  "traceevent_sample True (\<lparr>page_count = 0, page_limit = 0, frame_count = 1, base_time = 0,
      pages = [\<lparr>count_pg = 0, event_array = replicate TRACE_EVENT_SIZE_ARRAY ev_undef\<rparr>], curr = 0\<rparr>) stack_inst_zero \<lparr>proc = \<lparr>pid = 1, tid = 1\<rparr>, s = unit_zero, overhead = 0\<rparr> 3 =
     (fst (the (timeline_allocpage True (\<lparr>page_count = 0, page_limit = 0, frame_count = 1, base_time = 0,
      pages = [\<lparr>count_pg = 0, event_array = replicate TRACE_EVENT_SIZE_ARRAY ev_undef\<rparr>], curr = 0\<rparr>))), TRACE_EVENT_OK) \<and>
   timeline_events (fst (the (timeline_allocpage True (\<lparr>page_count = 0, page_limit = 0, frame_count = 1, base_time = 0,
      pages = [\<lparr>count_pg = 0, event_array = replicate TRACE_EVENT_SIZE_ARRAY ev_undef\<rparr>], curr = 0\<rparr>)))) = [(0, 0)]"
proof -
  have inv: "timeline_inv (\<lparr>page_count = 0, page_limit = 0, frame_count = 1, base_time = 0,
      pages = [\<lparr>count_pg = 0, event_array = replicate TRACE_EVENT_SIZE_ARRAY ev_undef\<rparr>], curr = 0\<rparr>)" by (simp add: timeline_inv_def TRACE_EVENT_SIZE_ARRAY_val)
  have a: "timeline_allocpage True (\<lparr>page_count = 0, page_limit = 0, frame_count = 1, base_time = 0,
      pages = [\<lparr>count_pg = 0, event_array = replicate TRACE_EVENT_SIZE_ARRAY ev_undef\<rparr>], curr = 0\<rparr>) = Some (fst (the (timeline_allocpage True (\<lparr>page_count = 0, page_limit = 0, frame_count = 1, base_time = 0,
      pages = [\<lparr>count_pg = 0, event_array = replicate TRACE_EVENT_SIZE_ARRAY ev_undef\<rparr>], curr = 0\<rparr>))), (0, 0))"
    by (simp add: timeline_allocpage_def take_slot_def TRACE_EVENT_SIZE_ARRAY_val)
  have ev: "timeline_events (\<lparr>page_count = 0, page_limit = 0, frame_count = 1, base_time = 0,
      pages = [\<lparr>count_pg = 0, event_array = replicate TRACE_EVENT_SIZE_ARRAY ev_undef\<rparr>], curr = 0\<rparr>) = []" by (simp add: timeline_events_def)
  show ?thesis
    using sample_without_scope_consumes_slot [OF inv _ a, of stack_inst_zero] ev
    by (simp add: stack_inst_zero_def)
qed

end
