(* ===== verification/Timeline_Passes.thy ===== *)
theory Timeline_Passes
  imports Timeline
begin

text \<open>
  The two passes the report emitter runs over a collected timeline
  (\<^verbatim>\<open>traceevent_table_events\<close> in \<^verbatim>\<open>src/src/lmprof_report.c\<close>):
  \<^verbatim>\<open>timeline_adjust\<close>, which rebases every timed event on \<^verbatim>\<open>baseTime\<close> and removes its
  captured overhead, and \<^verbatim>\<open>timeline_compress\<close>, which rewrites short or ignored scopes,
  their exit and their line events as \<^verbatim>\<open>IGNORE_SCOPE\<close>. Both walk the pages in link
  order and the slots below each page's count, the traversal \<open>timeline_events\<close>; neither
  changes a count, so the list of slots is fixed before the walk. The diagnostics of
  \<^verbatim>\<open>timeline_adjust\<close> (compiled only with \<^verbatim>\<open>LMPROF_HAS_LOGGER\<close>) only log.
\<close>

section \<open>Adjust\<close>

definition adjust_event :: "lu_time \<Rightarrow> trace_event \<Rightarrow> trace_event" where
  "adjust_event base ev =
     (if op_adjust (ev_op ev)
      then let c = ev_call ev; t = time (s c) - base - overhead c
           in ev\<lparr>ev_call := c\<lparr>s := (s c)\<lparr>time := t\<rparr>\<rparr>\<rparr>
      else ev)"

definition timeline_adjust :: "timeline \<Rightarrow> timeline" where
  "timeline_adjust tm = fold (\<lambda>p t. ev_upd p (adjust_event (base_time tm)) t) (timeline_events tm) tm"

section \<open>Compress\<close>

text \<open>\<^verbatim>\<open>TraceEventCompressOpts\<close> and the three inclusion macros.\<close>

record compress_opts =
  co_id :: event_process
  co_threshold :: lu_time

definition INCLUDE_PROCESS :: "trace_event \<Rightarrow> compress_opts \<Rightarrow> bool" where
  "INCLUDE_PROCESS ev opts \<longleftrightarrow> pid (co_id opts) = 0 \<or> pid (proc (ev_call ev)) = pid (co_id opts)"

definition INCLUDE_THREAD :: "trace_event \<Rightarrow> compress_opts \<Rightarrow> bool" where
  "INCLUDE_THREAD ev opts \<longleftrightarrow>
     INCLUDE_PROCESS ev opts \<and> (tid (co_id opts) = 0 \<or> tid (proc (ev_call ev)) = tid (co_id opts))"

definition INCLUDE_DURATION :: "lu_time \<Rightarrow> compress_opts \<Rightarrow> bool" where
  "INCLUDE_DURATION d opts \<longleftrightarrow> co_threshold opts = 0 \<or> d \<ge> co_threshold opts"

text \<open>
  \<^verbatim>\<open>BITFIELD_TEST(event->data.event.info->event, LMPROF_RECORD_IGNORED)\<close>: the flag of
  the record the event points to; a \<^verbatim>\<open>NULL\<close> or dangling record is undefined
  behaviour, \<open>None\<close>.
\<close>

definition record_ignored :: "record_store \<Rightarrow> ref option \<Rightarrow> bool option" where
  "record_ignored st r =
     (case r of None \<Rightarrow> None
      | Some x \<Rightarrow> map_option (\<lambda>y. BITFIELD_TEST (event (info y)) LMPROF_RECORD_IGNORED) (st x))"

text \<open>
  The inner loop \<open>for (tail = event->data.event.lines; tail; tail = tail->data.line.previous)\<close>
  follows a chain of pointers that nothing bounds in the code: it ends only if the chain
  does, so it is a partial function, \<open>None\<close> when it does not return (or leaves the
  timeline).
\<close>

partial_function (option) ignore_lines :: "timeline \<Rightarrow> event_ptr option \<Rightarrow> timeline option" where
  "ignore_lines tm tail =
     (case tail of
        None \<Rightarrow> Some tm
      | Some p \<Rightarrow>
          if valid_ptr tm p
          then ignore_lines (ev_upd p (\<lambda>ev. ev\<lparr>ev_op := IGNORE_SCOPE\<rparr>) tm) (ev_sibling (tl_event tm p))
          else None)"

text \<open>One iteration of the outer loop of \<^verbatim>\<open>timeline_compress\<close>, at event \<open>p\<close>.\<close>

definition compress_event ::
  "record_store \<Rightarrow> compress_opts \<Rightarrow> timeline \<Rightarrow> event_ptr \<Rightarrow> timeline option" where
  "compress_event st opts tm p =
     (let ev = tl_event tm p
      in if \<not> INCLUDE_THREAD ev opts then Some tm
         else if ev_op ev = ENTER_SCOPE \<and> ev_sibling ev \<noteq> None then
           (case ev_sibling ev of
              None \<Rightarrow> Some tm
            | Some sb \<Rightarrow>
                let delta = time (s (ev_call (tl_event tm sb))) - time (s (ev_call ev))
                in (case record_ignored st (ev_info ev) of
                      None \<Rightarrow> None
                    | Some ign \<Rightarrow>
                        if ign \<or> \<not> INCLUDE_DURATION delta opts
                        then ignore_lines (ev_upd p (\<lambda>e. e\<lparr>ev_op := IGNORE_SCOPE\<rparr>)
                                            (ev_upd sb (\<lambda>e. e\<lparr>ev_op := IGNORE_SCOPE\<rparr>) tm))
                                          (ev_lines ev)
                        else Some tm))
         else Some tm)"

fun compress_loop ::
  "record_store \<Rightarrow> compress_opts \<Rightarrow> event_ptr list \<Rightarrow> timeline \<Rightarrow> timeline option" where
  "compress_loop st opts [] tm = Some tm"
| "compress_loop st opts (p # ps) tm =
     (case compress_event st opts tm p of None \<Rightarrow> None | Some tm' \<Rightarrow> compress_loop st opts ps tm')"

definition timeline_compress ::
  "record_store \<Rightarrow> timeline \<Rightarrow> compress_opts \<Rightarrow> (timeline \<times> nat) option" where
  "timeline_compress st tm opts =
     map_option (\<lambda>t. (t, TRACE_EVENT_OK)) (compress_loop st opts (timeline_events tm) tm)"

section \<open>Specification helpers\<close>

text \<open>
  A chain of \<^verbatim>\<open>line.previous\<close> links that reaches \<^verbatim>\<open>NULL\<close> through live events in
  finitely many steps (the least predicate closed under the two rules).
\<close>

inductive lines_chain :: "timeline \<Rightarrow> event_ptr option \<Rightarrow> bool" where
  lines_chain_None: "lines_chain tm None"
| lines_chain_Some: "valid_ptr tm p \<Longrightarrow> lines_chain tm (ev_sibling (tl_event tm p)) \<Longrightarrow> lines_chain tm (Some p)"

text \<open>
  Two timelines that differ at most in the kinds of their events, every changed event
  having become \<^verbatim>\<open>IGNORE_SCOPE\<close>: what \<^verbatim>\<open>timeline_compress\<close> may do.
\<close>

definition only_ignored :: "timeline \<Rightarrow> timeline \<Rightarrow> bool" where
  "only_ignored tm tm' \<longleftrightarrow>
     timeline_events tm' = timeline_events tm \<and> timeline_inv tm' = timeline_inv tm \<and>
     (\<forall>p. tl_event tm' p = (tl_event tm p)\<lparr>ev_op := ev_op (tl_event tm' p)\<rparr> \<and>
          (ev_op (tl_event tm' p) = ev_op (tl_event tm p) \<or> ev_op (tl_event tm' p) = IGNORE_SCOPE))"

text \<open>What compress promises about an \<^verbatim>\<open>ENTER_SCOPE\<close> it keeps (S4, I7).\<close>

definition scope_kept :: "record_store \<Rightarrow> compress_opts \<Rightarrow> timeline \<Rightarrow> event_ptr \<Rightarrow> bool" where
  "scope_kept st opts tm p \<longleftrightarrow>
     (ev_op (tl_event tm p) = ENTER_SCOPE \<longrightarrow> INCLUDE_THREAD (tl_event tm p) opts \<longrightarrow>
       (\<forall>sb. ev_sibling (tl_event tm p) = Some sb \<longrightarrow>
          record_ignored st (ev_info (tl_event tm p)) = Some False \<and>
          INCLUDE_DURATION (time (s (ev_call (tl_event tm sb))) - time (s (ev_call (tl_event tm p)))) opts))"

section \<open>Lemmas\<close>


lemma distinct_timeline_events [timeline_simps]: "distinct (timeline_events tm)"
  unfolding timeline_events_def by (rule distinct_concat_map_Pair) simp_all

lemma tl_event_ev_upd_gen:
  "tl_event (ev_upd q f tm) x =
     (if x = q \<and> fst q < length (pages tm) \<and> snd q < length (event_array (pages tm ! fst q))
      then f (tl_event tm q) else tl_event tm x)"
  by (cases x; cases q) (simp add: ev_upd_def tl_event_def nth_list_update_gen)

lemma fold_ev_upd_sel:
  "timeline_events (fold (\<lambda>p t. ev_upd p f t) ps tm) = timeline_events tm \<and>
   timeline_inv (fold (\<lambda>p t. ev_upd p f t) ps tm) = timeline_inv tm \<and>
   base_time (fold (\<lambda>p t. ev_upd p f t) ps tm) = base_time tm"
  by (induction ps arbitrary: tm) (simp_all add: timeline_simps)

lemma fold_ev_upd_nth:
  assumes "distinct ps" "\<forall>p \<in> set ps. valid_ptr tm p" "timeline_inv tm"
  shows "tl_event (fold (\<lambda>p t. ev_upd p f t) ps tm) q = (if q \<in> set ps then f (tl_event tm q) else tl_event tm q)"
  using assms
proof (induction ps arbitrary: tm)
  case Nil
  then show ?case by simp
next
  case (Cons p ps)
  have v: "\<forall>p' \<in> set ps. valid_ptr (ev_upd p f tm) p'" using Cons.prems by (simp add: timeline_simps)
  have i: "timeline_inv (ev_upd p f tm)" using Cons.prems by (simp add: timeline_simps)
  have vp: "valid_ptr tm p" using Cons.prems by simp
  show ?case
    using Cons.IH [of "ev_upd p f tm"] Cons.prems v i
    by (auto simp: tl_event_upd_valid [OF Cons.prems(3) vp])
qed

lemma ev_upd_id:
  "f (tl_event tm p) = tl_event tm p \<Longrightarrow> ev_upd p f tm = tm"
  by (cases p) (auto simp: ev_upd_def tl_event_def list_update_beyond not_less)

lemma fold_ev_upd_id:
  "(\<forall>p \<in> set ps. f (tl_event tm p) = tl_event tm p) \<Longrightarrow> fold (\<lambda>p t. ev_upd p f t) ps tm = tm"
  by (induction ps) (simp_all add: ev_upd_id)

lemma timeline_base_sel [timeline_simps]:
  "timeline_events (tm\<lparr>base_time := x\<rparr>) = timeline_events tm"
  "timeline_inv (tm\<lparr>base_time := x\<rparr>) = timeline_inv tm"
  "valid_ptr (tm\<lparr>base_time := x\<rparr>) p = valid_ptr tm p"
  "tl_event (tm\<lparr>base_time := x\<rparr>) p = tl_event tm p"
  "ev_upd p f (tm\<lparr>base_time := x\<rparr>) = (ev_upd p f tm)\<lparr>base_time := x\<rparr>"
  by (simp_all add: timeline_events_def timeline_inv_def valid_ptr_def tl_event_def ev_upd_def)

lemma adjust_spec:
  assumes inv: "timeline_inv tm"
  shows "timeline_inv (timeline_adjust tm) \<and> timeline_events (timeline_adjust tm) = timeline_events tm \<and>
         base_time (timeline_adjust tm) = base_time tm \<and>
         (\<forall>p. valid_ptr tm p \<longrightarrow> tl_event (timeline_adjust tm) p = adjust_event (base_time tm) (tl_event tm p))"
  using inv fold_ev_upd_sel fold_ev_upd_nth [OF distinct_timeline_events _ inv]
  by (simp add: timeline_adjust_def timeline_events_valid)

lemma adjust_event_twice:
  "op_adjust (ev_op ev) \<Longrightarrow>
   time (s (ev_call (adjust_event 0 (adjust_event b ev)))) = time (s (ev_call ev)) - b - 2 * overhead (ev_call ev)"
  by (simp add: adjust_event_def Let_def)

lemma adjust_event_zero: "overhead (ev_call ev) = 0 \<Longrightarrow> adjust_event 0 ev = ev"
  by (simp add: adjust_event_def Let_def)

lemma only_ignored_refl [simp]: "only_ignored tm tm"
  by (simp add: only_ignored_def)

lemma only_ignored_trans: "only_ignored a b \<Longrightarrow> only_ignored b c \<Longrightarrow> only_ignored a c"
  unfolding only_ignored_def by (metis trace_event.update_convs(1) trace_event.surjective)

lemma only_ignored_fields:
  "only_ignored a b \<Longrightarrow> ev_call (tl_event b x) = ev_call (tl_event a x) \<and>
     ev_sibling (tl_event b x) = ev_sibling (tl_event a x) \<and> ev_lines (tl_event b x) = ev_lines (tl_event a x) \<and>
     ev_info (tl_event b x) = ev_info (tl_event a x) \<and>
     (ev_op (tl_event b x) = ev_op (tl_event a x) \<or> ev_op (tl_event b x) = IGNORE_SCOPE)"
  unfolding only_ignored_def by (metis trace_event.select_convs trace_event.surjective trace_event.update_convs(1))

lemma only_ignored_valid: "only_ignored a b \<Longrightarrow> valid_ptr b p = valid_ptr a p"
  unfolding only_ignored_def by (metis timeline_events_valid)

lemma only_ignored_upd: "only_ignored tm (ev_upd q (\<lambda>e. e\<lparr>ev_op := IGNORE_SCOPE\<rparr>) tm)"
  by (simp add: only_ignored_def timeline_simps tl_event_ev_upd_gen)

lemma ignore_lines_ok:
  assumes "lines_chain t x"
  shows "only_ignored t t' \<Longrightarrow> \<exists>t''. ignore_lines t' x = Some t'' \<and> only_ignored t' t''"
  using assms
proof (induction arbitrary: t' rule: lines_chain.induct)
  case (lines_chain_None tm)
  then show ?case by (simp add: ignore_lines.simps)
next
  case (lines_chain_Some tm p)
  let ?u = "ev_upd p (\<lambda>e. e\<lparr>ev_op := IGNORE_SCOPE\<rparr>) t'"
  have v: "valid_ptr t' p" using lines_chain_Some by (simp add: only_ignored_valid)
  have sib: "ev_sibling (tl_event t' p) = ev_sibling (tl_event tm p)"
    using only_ignored_fields [OF lines_chain_Some.prems] by blast
  have "only_ignored tm ?u" using lines_chain_Some.prems only_ignored_upd only_ignored_trans by blast
  then obtain t'' where t'': "ignore_lines ?u (ev_sibling (tl_event tm p)) = Some t''" "only_ignored ?u t''"
    using lines_chain_Some.IH by blast
  have "ignore_lines t' (Some p) = Some t''" using v sib t''(1) by (subst ignore_lines.simps) simp
  moreover have "only_ignored t' t''" by (rule only_ignored_trans [OF only_ignored_upd t''(2)])
  ultimately show ?case by blast
qed

lemma scope_kept_mono: "scope_kept st opts a p \<Longrightarrow> only_ignored a b \<Longrightarrow> scope_kept st opts b p"
proof -
  have ne: "ENTER_SCOPE \<noteq> IGNORE_SCOPE" by simp
  assume "scope_kept st opts a p" "only_ignored a b"
  then show ?thesis
    unfolding scope_kept_def INCLUDE_THREAD_def INCLUDE_PROCESS_def
    using only_ignored_fields [of a b] ne by metis
qed

lemma ignore_op [simp]: "ENTER_SCOPE \<noteq> IGNORE_SCOPE" by simp

lemma compress_event_ok:
  assumes inv0: "timeline_inv tm0" and oi: "only_ignored tm0 tm" and vp: "valid_ptr tm0 p"
    and chains: "\<forall>q. valid_ptr tm0 q \<longrightarrow> lines_chain tm0 (ev_lines (tl_event tm0 q))"
    and infos: "\<forall>q. valid_ptr tm0 q \<longrightarrow> ev_op (tl_event tm0 q) = ENTER_SCOPE \<longrightarrow>
                   ev_sibling (tl_event tm0 q) \<noteq> None \<longrightarrow> INCLUDE_THREAD (tl_event tm0 q) opts \<longrightarrow>
                   record_ignored st (ev_info (tl_event tm0 q)) \<noteq> None"
  shows "\<exists>tm'. compress_event st opts tm p = Some tm' \<and> only_ignored tm tm' \<and> scope_kept st opts tm' p"
proof -
  let ?ev = "tl_event tm p"
  let ?evo = "tl_event tm0 p"
  note F = only_ignored_fields [OF oi, of p]
  have inc: "INCLUDE_THREAD ?ev opts = INCLUDE_THREAD ?evo opts"
    using F by (simp add: INCLUDE_THREAD_def INCLUDE_PROCESS_def)
  show ?thesis
  proof (cases "INCLUDE_THREAD ?ev opts \<and> ev_op ?ev = ENTER_SCOPE \<and> ev_sibling ?ev \<noteq> None")
    case False
    then have "compress_event st opts tm p = Some tm" by (auto simp: compress_event_def Let_def)
    moreover have "scope_kept st opts tm p" using False by (auto simp: scope_kept_def)
    ultimately show ?thesis by simp
  next
    case True
    then obtain sb where sb: "ev_sibling ?ev = Some sb" by blast
    have op0: "ev_op ?evo = ENTER_SCOPE" using True F by auto
    obtain ign where ign: "record_ignored st (ev_info ?ev) = Some ign"
      using infos vp op0 True inc F by fastforce
    let ?delta = "time (s (ev_call (tl_event tm sb))) - time (s (ev_call ?ev))"
    show ?thesis
    proof (cases "ign \<or> \<not> INCLUDE_DURATION ?delta opts")
      case False
      then have "compress_event st opts tm p = Some tm"
        using True sb ign by (simp add: compress_event_def Let_def)
      moreover have "scope_kept st opts tm p" using False sb ign by (simp add: scope_kept_def)
      ultimately show ?thesis by simp
    next
      case ig: True
      let ?u = "ev_upd p (\<lambda>e. e\<lparr>ev_op := IGNORE_SCOPE\<rparr>) (ev_upd sb (\<lambda>e. e\<lparr>ev_op := IGNORE_SCOPE\<rparr>) tm)"
      have ou: "only_ignored tm ?u" using only_ignored_upd only_ignored_trans by blast
      have "lines_chain tm0 (ev_lines ?evo)" using chains vp by blast
      moreover have "only_ignored tm0 ?u" using oi ou only_ignored_trans by blast
      ultimately obtain t'' where t'': "ignore_lines ?u (ev_lines ?evo) = Some t''" "only_ignored ?u t''"
        using ignore_lines_ok by blast
      have c: "compress_event st opts tm p = Some t''"
        using True sb ign ig t''(1) F by (simp add: compress_event_def Let_def)
      let ?w = "ev_upd sb (\<lambda>e. e\<lparr>ev_op := IGNORE_SCOPE\<rparr>) tm"
      have i1: "timeline_inv ?w" using inv0 oi by (simp add: only_ignored_def timeline_simps)
      have v1: "valid_ptr ?w p" using vp oi by (simp add: only_ignored_valid timeline_simps)
      have "ev_op (tl_event ?u p) = IGNORE_SCOPE" by (simp add: tl_event_upd_valid [OF i1 v1])
      then have "ev_op (tl_event t'' p) = IGNORE_SCOPE" using only_ignored_fields [OF t''(2), of p] by auto
      then have "scope_kept st opts t'' p" by (simp add: scope_kept_def)
      then show ?thesis using c ou t''(2) only_ignored_trans by blast
    qed
  qed
qed

lemma compress_loop_ok:
  assumes inv0: "timeline_inv tm0"
    and chains: "\<forall>q. valid_ptr tm0 q \<longrightarrow> lines_chain tm0 (ev_lines (tl_event tm0 q))"
    and infos: "\<forall>q. valid_ptr tm0 q \<longrightarrow> ev_op (tl_event tm0 q) = ENTER_SCOPE \<longrightarrow>
                   ev_sibling (tl_event tm0 q) \<noteq> None \<longrightarrow> INCLUDE_THREAD (tl_event tm0 q) opts \<longrightarrow>
                   record_ignored st (ev_info (tl_event tm0 q)) \<noteq> None"
  shows "\<forall>p \<in> set ps. valid_ptr tm0 p \<Longrightarrow> only_ignored tm0 tm \<Longrightarrow> \<forall>q \<in> V. scope_kept st opts tm q \<Longrightarrow>
         \<exists>tm'. compress_loop st opts ps tm = Some tm' \<and> only_ignored tm0 tm' \<and>
               (\<forall>q \<in> V \<union> set ps. scope_kept st opts tm' q)"
proof (induction ps arbitrary: tm V)
  case Nil
  then show ?case by simp
next
  case (Cons p ps)
  have vp: "valid_ptr tm0 p" using Cons.prems(1) by simp
  obtain tm1 where t1: "compress_event st opts tm p = Some tm1" "only_ignored tm tm1" "scope_kept st opts tm1 p"
    using compress_event_ok [OF inv0 Cons.prems(2) vp chains infos] by blast
  have "only_ignored tm0 tm1" using Cons.prems(2) t1(2) by (rule only_ignored_trans)
  moreover have "\<forall>q \<in> insert p V. scope_kept st opts tm1 q"
    using Cons.prems(3) t1 scope_kept_mono by blast
  ultimately obtain tm' where "compress_loop st opts ps tm1 = Some tm'" "only_ignored tm0 tm'"
      "\<forall>q \<in> insert p V \<union> set ps. scope_kept st opts tm' q"
    using Cons.IH [of tm1 "insert p V"] Cons.prems(1) by auto
  then show ?case using t1(1) by auto
qed

lemma compress_ok:
  assumes "timeline_inv tm"
    and "\<forall>q. valid_ptr tm q \<longrightarrow> lines_chain tm (ev_lines (tl_event tm q))"
    and "\<forall>q. valid_ptr tm q \<longrightarrow> ev_op (tl_event tm q) = ENTER_SCOPE \<longrightarrow>
                   ev_sibling (tl_event tm q) \<noteq> None \<longrightarrow> INCLUDE_THREAD (tl_event tm q) opts \<longrightarrow>
                   record_ignored st (ev_info (tl_event tm q)) \<noteq> None"
  shows "\<exists>tm'. timeline_compress st tm opts = Some (tm', TRACE_EVENT_OK) \<and> only_ignored tm tm' \<and>
               (\<forall>p. valid_ptr tm p \<longrightarrow> scope_kept st opts tm' p)"
  using compress_loop_ok [OF assms, of "timeline_events tm" tm "{}"]
  by (auto simp: timeline_compress_def timeline_events_valid)

lemma compress_loop_noop:
  "\<forall>p \<in> set ps. compress_event st opts tm p = Some tm \<Longrightarrow> compress_loop st opts ps tm = Some tm"
  by (induction ps) simp_all

lemma compress_event_noop:
  assumes "co_threshold opts = 0"
    and "ev_op (tl_event tm p) = ENTER_SCOPE \<longrightarrow> ev_sibling (tl_event tm p) \<noteq> None \<longrightarrow>
           INCLUDE_THREAD (tl_event tm p) opts \<longrightarrow> record_ignored st (ev_info (tl_event tm p)) = Some False"
  shows "compress_event st opts tm p = Some tm"
  using assms by (auto simp: compress_event_def Let_def INCLUDE_DURATION_def split: option.splits)

section \<open>Properties\<close>

text \<open>
  C11 (functional): \<^verbatim>\<open>timeline_adjust\<close> rewrites each live event independently: an event
  whose kind takes part in time ordering has \<^verbatim>\<open>baseTime\<close> and its own captured overhead
  subtracted from its time (wrapping), every other event is untouched, and the page
  structure and traversal order stay as they were.
\<close>

theorem timeline_adjust_spec:
  assumes "timeline_inv tm"
  shows "timeline_inv (timeline_adjust tm) \<and> timeline_events (timeline_adjust tm) = timeline_events tm \<and>
         base_time (timeline_adjust tm) = base_time tm \<and>
         (\<forall>p. valid_ptr tm p \<longrightarrow>
            tl_event (timeline_adjust tm) p =
              (let ev = tl_event tm p; c = ev_call ev in
               if op_adjust (ev_op ev)
               then ev\<lparr>ev_call := c\<lparr>s := (s c)\<lparr>time := time (s c) - base_time tm - overhead c\<rparr>\<rparr>\<rparr>
               else ev))"
  using adjust_spec [OF assms] by (simp add: adjust_event_def Let_def)

theorem timeline_adjust_spec_witness:
  "time (s (ev_call (tl_event (timeline_adjust ((\<lparr>page_count = 0, page_limit = 0, frame_count = 1, base_time = 0,
      pages = [\<lparr>count_pg = 2, event_array = (ev_undef\<lparr>ev_op := ENTER_SCOPE, ev_info := Some 0, ev_sibling := Some (0, 1),
            ev_call := \<lparr>proc = \<lparr>pid = 1, tid = 1\<rparr>, s = unit_zero, overhead = 0\<rparr>\<rparr>) # (ev_undef\<lparr>ev_op := EXIT_SCOPE, ev_info := Some 0, ev_sibling := Some (0, 0),
            ev_call := \<lparr>proc = \<lparr>pid = 1, tid = 1\<rparr>, s = \<lparr>time = 5, allocated = 0, deallocated = 0\<rparr>, overhead = 1\<rparr>\<rparr>) # replicate 312 ev_undef\<rparr>], curr = 0\<rparr>)\<lparr>base_time := 2\<rparr>)) (0, 1)))) = 2"
proof -
  have inv: "timeline_inv ((\<lparr>page_count = 0, page_limit = 0, frame_count = 1, base_time = 0,
      pages = [\<lparr>count_pg = 2, event_array = (ev_undef\<lparr>ev_op := ENTER_SCOPE, ev_info := Some 0, ev_sibling := Some (0, 1),
            ev_call := \<lparr>proc = \<lparr>pid = 1, tid = 1\<rparr>, s = unit_zero, overhead = 0\<rparr>\<rparr>) # (ev_undef\<lparr>ev_op := EXIT_SCOPE, ev_info := Some 0, ev_sibling := Some (0, 0),
            ev_call := \<lparr>proc = \<lparr>pid = 1, tid = 1\<rparr>, s = \<lparr>time = 5, allocated = 0, deallocated = 0\<rparr>, overhead = 1\<rparr>\<rparr>) # replicate 312 ev_undef\<rparr>], curr = 0\<rparr>)\<lparr>base_time := 2\<rparr>)" by (simp add: timeline_inv_def TRACE_EVENT_SIZE_ARRAY_val)
  have v: "valid_ptr ((\<lparr>page_count = 0, page_limit = 0, frame_count = 1, base_time = 0,
      pages = [\<lparr>count_pg = 2, event_array = (ev_undef\<lparr>ev_op := ENTER_SCOPE, ev_info := Some 0, ev_sibling := Some (0, 1),
            ev_call := \<lparr>proc = \<lparr>pid = 1, tid = 1\<rparr>, s = unit_zero, overhead = 0\<rparr>\<rparr>) # (ev_undef\<lparr>ev_op := EXIT_SCOPE, ev_info := Some 0, ev_sibling := Some (0, 0),
            ev_call := \<lparr>proc = \<lparr>pid = 1, tid = 1\<rparr>, s = \<lparr>time = 5, allocated = 0, deallocated = 0\<rparr>, overhead = 1\<rparr>\<rparr>) # replicate 312 ev_undef\<rparr>], curr = 0\<rparr>)\<lparr>base_time := 2\<rparr>) (0, 1)" by (simp add: valid_ptr_def)
  show ?thesis
    using timeline_adjust_spec [OF inv] v
    by (simp add: adjust_event_def tl_event_def ev_undef_def op_adjust_def op_event_def Let_def)
qed

text \<open>
  Adjusting an adjusted timeline again, with \<^verbatim>\<open>baseTime\<close> reset to
  zero, subtracts every event's overhead a second time: the pass is not idempotent
  whenever an event carries overhead.
\<close>

theorem timeline_adjust_twice:
  assumes "timeline_inv tm" and "valid_ptr tm p" and "op_adjust (ev_op (tl_event tm p))"
  shows "time (s (ev_call (tl_event (timeline_adjust ((timeline_adjust tm)\<lparr>base_time := 0\<rparr>)) p))) =
           time (s (ev_call (tl_event tm p))) - base_time tm - 2 * overhead (ev_call (tl_event tm p))"
proof -
  note A = adjust_spec [OF assms(1)]
  have i1: "timeline_inv ((timeline_adjust tm)\<lparr>base_time := 0\<rparr>)" using A by (simp add: timeline_simps)
  have v1: "valid_ptr ((timeline_adjust tm)\<lparr>base_time := 0\<rparr>) p"
    using A assms(2) by (simp add: timeline_simps timeline_events_valid [symmetric])
  note B = adjust_spec [OF i1]
  have a1: "tl_event (timeline_adjust tm) p = adjust_event (base_time tm) (tl_event tm p)"
    using A assms(2) by blast
  have "tl_event (timeline_adjust ((timeline_adjust tm)\<lparr>base_time := 0\<rparr>)) p =
              adjust_event (base_time ((timeline_adjust tm)\<lparr>base_time := 0\<rparr>))
                (tl_event ((timeline_adjust tm)\<lparr>base_time := 0\<rparr>) p)"
    using B v1 by blast
  then have b1: "tl_event (timeline_adjust ((timeline_adjust tm)\<lparr>base_time := 0\<rparr>)) p =
              adjust_event 0 (tl_event ((timeline_adjust tm)\<lparr>base_time := 0\<rparr>) p)" by simp
  have "tl_event (timeline_adjust ((timeline_adjust tm)\<lparr>base_time := 0\<rparr>)) p =
          adjust_event 0 (adjust_event (base_time tm) (tl_event tm p))"
    using a1 b1 by (simp add: timeline_simps)
  then show ?thesis using assms(3) by (simp add: adjust_event_twice)
qed

theorem timeline_adjust_twice_witness:
  "time (s (ev_call (tl_event (timeline_adjust ((timeline_adjust (\<lparr>page_count = 0, page_limit = 0, frame_count = 1, base_time = 0,
      pages = [\<lparr>count_pg = 2, event_array = (ev_undef\<lparr>ev_op := ENTER_SCOPE, ev_info := Some 0, ev_sibling := Some (0, 1),
            ev_call := \<lparr>proc = \<lparr>pid = 1, tid = 1\<rparr>, s = unit_zero, overhead = 0\<rparr>\<rparr>) # (ev_undef\<lparr>ev_op := EXIT_SCOPE, ev_info := Some 0, ev_sibling := Some (0, 0),
            ev_call := \<lparr>proc = \<lparr>pid = 1, tid = 1\<rparr>, s = \<lparr>time = 5, allocated = 0, deallocated = 0\<rparr>, overhead = 0\<rparr>\<rparr>) # replicate 312 ev_undef\<rparr>], curr = 0\<rparr>))\<lparr>base_time := 0\<rparr>)) (0, 1)))) = 5"
proof -
  have inv: "timeline_inv (\<lparr>page_count = 0, page_limit = 0, frame_count = 1, base_time = 0,
      pages = [\<lparr>count_pg = 2, event_array = (ev_undef\<lparr>ev_op := ENTER_SCOPE, ev_info := Some 0, ev_sibling := Some (0, 1),
            ev_call := \<lparr>proc = \<lparr>pid = 1, tid = 1\<rparr>, s = unit_zero, overhead = 0\<rparr>\<rparr>) # (ev_undef\<lparr>ev_op := EXIT_SCOPE, ev_info := Some 0, ev_sibling := Some (0, 0),
            ev_call := \<lparr>proc = \<lparr>pid = 1, tid = 1\<rparr>, s = \<lparr>time = 5, allocated = 0, deallocated = 0\<rparr>, overhead = 0\<rparr>\<rparr>) # replicate 312 ev_undef\<rparr>], curr = 0\<rparr>)" by (simp add: timeline_inv_def TRACE_EVENT_SIZE_ARRAY_val)
  have v: "valid_ptr (\<lparr>page_count = 0, page_limit = 0, frame_count = 1, base_time = 0,
      pages = [\<lparr>count_pg = 2, event_array = (ev_undef\<lparr>ev_op := ENTER_SCOPE, ev_info := Some 0, ev_sibling := Some (0, 1),
            ev_call := \<lparr>proc = \<lparr>pid = 1, tid = 1\<rparr>, s = unit_zero, overhead = 0\<rparr>\<rparr>) # (ev_undef\<lparr>ev_op := EXIT_SCOPE, ev_info := Some 0, ev_sibling := Some (0, 0),
            ev_call := \<lparr>proc = \<lparr>pid = 1, tid = 1\<rparr>, s = \<lparr>time = 5, allocated = 0, deallocated = 0\<rparr>, overhead = 0\<rparr>\<rparr>) # replicate 312 ev_undef\<rparr>], curr = 0\<rparr>) (0, 1)" by (simp add: valid_ptr_def)
  have o: "op_adjust (ev_op (tl_event (\<lparr>page_count = 0, page_limit = 0, frame_count = 1, base_time = 0,
      pages = [\<lparr>count_pg = 2, event_array = (ev_undef\<lparr>ev_op := ENTER_SCOPE, ev_info := Some 0, ev_sibling := Some (0, 1),
            ev_call := \<lparr>proc = \<lparr>pid = 1, tid = 1\<rparr>, s = unit_zero, overhead = 0\<rparr>\<rparr>) # (ev_undef\<lparr>ev_op := EXIT_SCOPE, ev_info := Some 0, ev_sibling := Some (0, 0),
            ev_call := \<lparr>proc = \<lparr>pid = 1, tid = 1\<rparr>, s = \<lparr>time = 5, allocated = 0, deallocated = 0\<rparr>, overhead = 0\<rparr>\<rparr>) # replicate 312 ev_undef\<rparr>], curr = 0\<rparr>) (0, 1)))"
    by (simp add: tl_event_def op_adjust_def op_event_def)
  show ?thesis using timeline_adjust_twice [OF inv v o] by (simp add: tl_event_def)
qed

text \<open>
  When no live event carries overhead, adjusting again with
  \<^verbatim>\<open>baseTime\<close> reset to zero changes nothing.
\<close>

theorem timeline_adjust_idempotent:
  assumes "timeline_inv tm" and "\<forall>p. valid_ptr tm p \<longrightarrow> overhead (ev_call (tl_event tm p)) = 0"
  shows "timeline_adjust ((timeline_adjust tm)\<lparr>base_time := 0\<rparr>) = (timeline_adjust tm)\<lparr>base_time := 0\<rparr>"
proof -
  note A = adjust_spec [OF assms(1)]
  let ?a = "(timeline_adjust tm)\<lparr>base_time := 0\<rparr>"
  have "\<forall>p \<in> set (timeline_events ?a). adjust_event 0 (tl_event ?a p) = tl_event ?a p"
  proof
    fix p assume "p \<in> set (timeline_events ?a)"
    then have v: "valid_ptr tm p" using A by (simp add: timeline_simps timeline_events_valid)
    then have "tl_event (timeline_adjust tm) p = adjust_event (base_time tm) (tl_event tm p)"
      using A by blast
    moreover have "overhead (ev_call (tl_event tm p)) = 0" using assms(2) v by blast
    ultimately have "overhead (ev_call (tl_event ?a p)) = 0"
      by (simp add: timeline_simps adjust_event_def Let_def)
    then show "adjust_event 0 (tl_event ?a p) = tl_event ?a p" by (rule adjust_event_zero)
  qed
  then show ?thesis unfolding timeline_adjust_def by (simp add: fold_ev_upd_id)
qed

theorem timeline_adjust_idempotent_witness:
  "timeline_adjust ((timeline_adjust (\<lparr>page_count = 0, page_limit = 0, frame_count = 1, base_time = 0,
      pages = [\<lparr>count_pg = 2, event_array = (ev_undef\<lparr>ev_op := ENTER_SCOPE, ev_info := Some 0, ev_sibling := Some (0, 1),
            ev_call := \<lparr>proc = \<lparr>pid = 1, tid = 1\<rparr>, s = unit_zero, overhead = 0\<rparr>\<rparr>) # (ev_undef\<lparr>ev_op := EXIT_SCOPE, ev_info := Some 0, ev_sibling := Some (0, 0),
            ev_call := \<lparr>proc = \<lparr>pid = 1, tid = 1\<rparr>, s = \<lparr>time = 5, allocated = 0, deallocated = 0\<rparr>, overhead = 0\<rparr>\<rparr>) # replicate 312 ev_undef\<rparr>], curr = 0\<rparr>))\<lparr>base_time := 0\<rparr>) = (timeline_adjust (\<lparr>page_count = 0, page_limit = 0, frame_count = 1, base_time = 0,
      pages = [\<lparr>count_pg = 2, event_array = (ev_undef\<lparr>ev_op := ENTER_SCOPE, ev_info := Some 0, ev_sibling := Some (0, 1),
            ev_call := \<lparr>proc = \<lparr>pid = 1, tid = 1\<rparr>, s = unit_zero, overhead = 0\<rparr>\<rparr>) # (ev_undef\<lparr>ev_op := EXIT_SCOPE, ev_info := Some 0, ev_sibling := Some (0, 0),
            ev_call := \<lparr>proc = \<lparr>pid = 1, tid = 1\<rparr>, s = \<lparr>time = 5, allocated = 0, deallocated = 0\<rparr>, overhead = 0\<rparr>\<rparr>) # replicate 312 ev_undef\<rparr>], curr = 0\<rparr>))\<lparr>base_time := 0\<rparr>"
proof -
  have inv: "timeline_inv (\<lparr>page_count = 0, page_limit = 0, frame_count = 1, base_time = 0,
      pages = [\<lparr>count_pg = 2, event_array = (ev_undef\<lparr>ev_op := ENTER_SCOPE, ev_info := Some 0, ev_sibling := Some (0, 1),
            ev_call := \<lparr>proc = \<lparr>pid = 1, tid = 1\<rparr>, s = unit_zero, overhead = 0\<rparr>\<rparr>) # (ev_undef\<lparr>ev_op := EXIT_SCOPE, ev_info := Some 0, ev_sibling := Some (0, 0),
            ev_call := \<lparr>proc = \<lparr>pid = 1, tid = 1\<rparr>, s = \<lparr>time = 5, allocated = 0, deallocated = 0\<rparr>, overhead = 0\<rparr>\<rparr>) # replicate 312 ev_undef\<rparr>], curr = 0\<rparr>)" by (simp add: timeline_inv_def TRACE_EVENT_SIZE_ARRAY_val)
  have w: "valid_ptr (\<lparr>page_count = 0, page_limit = 0, frame_count = 1, base_time = 0,
      pages = [\<lparr>count_pg = 2, event_array = (ev_undef\<lparr>ev_op := ENTER_SCOPE, ev_info := Some 0, ev_sibling := Some (0, 1),
            ev_call := \<lparr>proc = \<lparr>pid = 1, tid = 1\<rparr>, s = unit_zero, overhead = 0\<rparr>\<rparr>) # (ev_undef\<lparr>ev_op := EXIT_SCOPE, ev_info := Some 0, ev_sibling := Some (0, 0),
            ev_call := \<lparr>proc = \<lparr>pid = 1, tid = 1\<rparr>, s = \<lparr>time = 5, allocated = 0, deallocated = 0\<rparr>, overhead = 0\<rparr>\<rparr>) # replicate 312 ev_undef\<rparr>], curr = 0\<rparr>) q \<longleftrightarrow> q = (0, 0) \<or> q = (0, 1)" for q
    by (cases q) (auto simp: valid_ptr_def less_2_cases_iff)
  have "\<forall>p. valid_ptr (\<lparr>page_count = 0, page_limit = 0, frame_count = 1, base_time = 0,
      pages = [\<lparr>count_pg = 2, event_array = (ev_undef\<lparr>ev_op := ENTER_SCOPE, ev_info := Some 0, ev_sibling := Some (0, 1),
            ev_call := \<lparr>proc = \<lparr>pid = 1, tid = 1\<rparr>, s = unit_zero, overhead = 0\<rparr>\<rparr>) # (ev_undef\<lparr>ev_op := EXIT_SCOPE, ev_info := Some 0, ev_sibling := Some (0, 0),
            ev_call := \<lparr>proc = \<lparr>pid = 1, tid = 1\<rparr>, s = \<lparr>time = 5, allocated = 0, deallocated = 0\<rparr>, overhead = 0\<rparr>\<rparr>) # replicate 312 ev_undef\<rparr>], curr = 0\<rparr>) p \<longrightarrow> overhead (ev_call (tl_event (\<lparr>page_count = 0, page_limit = 0, frame_count = 1, base_time = 0,
      pages = [\<lparr>count_pg = 2, event_array = (ev_undef\<lparr>ev_op := ENTER_SCOPE, ev_info := Some 0, ev_sibling := Some (0, 1),
            ev_call := \<lparr>proc = \<lparr>pid = 1, tid = 1\<rparr>, s = unit_zero, overhead = 0\<rparr>\<rparr>) # (ev_undef\<lparr>ev_op := EXIT_SCOPE, ev_info := Some 0, ev_sibling := Some (0, 0),
            ev_call := \<lparr>proc = \<lparr>pid = 1, tid = 1\<rparr>, s = \<lparr>time = 5, allocated = 0, deallocated = 0\<rparr>, overhead = 0\<rparr>\<rparr>) # replicate 312 ev_undef\<rparr>], curr = 0\<rparr>) p)) = 0"
    apply (intro allI impI)
    subgoal for q using w [of q] by (auto simp: tl_event_def)
    done
  then show ?thesis using timeline_adjust_idempotent [OF inv] by blast
qed

text \<open>
  C10 (termination, S4, I7): on a well-formed timeline whose line chains all end and whose
  compressed scopes point to stored records, \<^verbatim>\<open>timeline_compress\<close> returns
  \<^verbatim>\<open>TRACE_EVENT_OK\<close>; it only turns events into \<^verbatim>\<open>IGNORE_SCOPE\<close>, and afterwards
  every \<^verbatim>\<open>ENTER_SCOPE\<close> of the selected threads that has an exit lasts at least the
  threshold and belongs to a function that is not ignored.
\<close>

theorem timeline_compress_spec:
  assumes "timeline_inv tm"
    and "\<forall>q. valid_ptr tm q \<longrightarrow> lines_chain tm (ev_lines (tl_event tm q))"
    and "\<forall>q. valid_ptr tm q \<longrightarrow> ev_op (tl_event tm q) = ENTER_SCOPE \<longrightarrow>
                   ev_sibling (tl_event tm q) \<noteq> None \<longrightarrow> INCLUDE_THREAD (tl_event tm q) opts \<longrightarrow>
                   record_ignored st (ev_info (tl_event tm q)) \<noteq> None"
  shows "\<exists>tm'. timeline_compress st tm opts = Some (tm', TRACE_EVENT_OK) \<and> only_ignored tm tm' \<and>
               (\<forall>p. valid_ptr tm p \<longrightarrow> scope_kept st opts tm' p)"
  using assms by (rule compress_ok)

lemma compress_witness_inv: "timeline_inv (\<lparr>page_count = 0, page_limit = 0, frame_count = 1, base_time = 0,
      pages = [\<lparr>count_pg = 2, event_array = (ev_undef\<lparr>ev_op := ENTER_SCOPE, ev_info := Some 0, ev_sibling := Some (0, 1),
            ev_call := \<lparr>proc = \<lparr>pid = 1, tid = 1\<rparr>, s = unit_zero, overhead = 0\<rparr>\<rparr>) # (ev_undef\<lparr>ev_op := EXIT_SCOPE, ev_info := Some 0, ev_sibling := Some (0, 0),
            ev_call := \<lparr>proc = \<lparr>pid = 1, tid = 1\<rparr>, s = \<lparr>time = 5, allocated = 0, deallocated = 0\<rparr>, overhead = 0\<rparr>\<rparr>) # replicate 312 ev_undef\<rparr>], curr = 0\<rparr>)"
  by (simp add: timeline_inv_def TRACE_EVENT_SIZE_ARRAY_val)

lemma compress_witness_valid: "valid_ptr (\<lparr>page_count = 0, page_limit = 0, frame_count = 1, base_time = 0,
      pages = [\<lparr>count_pg = 2, event_array = (ev_undef\<lparr>ev_op := ENTER_SCOPE, ev_info := Some 0, ev_sibling := Some (0, 1),
            ev_call := \<lparr>proc = \<lparr>pid = 1, tid = 1\<rparr>, s = unit_zero, overhead = 0\<rparr>\<rparr>) # (ev_undef\<lparr>ev_op := EXIT_SCOPE, ev_info := Some 0, ev_sibling := Some (0, 0),
            ev_call := \<lparr>proc = \<lparr>pid = 1, tid = 1\<rparr>, s = \<lparr>time = 5, allocated = 0, deallocated = 0\<rparr>, overhead = 0\<rparr>\<rparr>) # replicate 312 ev_undef\<rparr>], curr = 0\<rparr>) q \<longleftrightarrow> q = (0, 0) \<or> q = (0, 1)"
  by (cases q) (auto simp: valid_ptr_def less_2_cases_iff)

theorem timeline_compress_spec_witness:
  "\<exists>tm'. timeline_compress [0 \<mapsto> record_zero] (\<lparr>page_count = 0, page_limit = 0, frame_count = 1, base_time = 0,
      pages = [\<lparr>count_pg = 2, event_array = (ev_undef\<lparr>ev_op := ENTER_SCOPE, ev_info := Some 0, ev_sibling := Some (0, 1),
            ev_call := \<lparr>proc = \<lparr>pid = 1, tid = 1\<rparr>, s = unit_zero, overhead = 0\<rparr>\<rparr>) # (ev_undef\<lparr>ev_op := EXIT_SCOPE, ev_info := Some 0, ev_sibling := Some (0, 0),
            ev_call := \<lparr>proc = \<lparr>pid = 1, tid = 1\<rparr>, s = \<lparr>time = 5, allocated = 0, deallocated = 0\<rparr>, overhead = 0\<rparr>\<rparr>) # replicate 312 ev_undef\<rparr>], curr = 0\<rparr>) \<lparr>co_id = \<lparr>pid = 0, tid = 0\<rparr>, co_threshold = 10\<rparr> = Some (tm', TRACE_EVENT_OK) \<and>
         ev_op (tl_event tm' (0, 0)) \<noteq> ENTER_SCOPE"
proof -
  have ch: "\<forall>q. valid_ptr (\<lparr>page_count = 0, page_limit = 0, frame_count = 1, base_time = 0,
      pages = [\<lparr>count_pg = 2, event_array = (ev_undef\<lparr>ev_op := ENTER_SCOPE, ev_info := Some 0, ev_sibling := Some (0, 1),
            ev_call := \<lparr>proc = \<lparr>pid = 1, tid = 1\<rparr>, s = unit_zero, overhead = 0\<rparr>\<rparr>) # (ev_undef\<lparr>ev_op := EXIT_SCOPE, ev_info := Some 0, ev_sibling := Some (0, 0),
            ev_call := \<lparr>proc = \<lparr>pid = 1, tid = 1\<rparr>, s = \<lparr>time = 5, allocated = 0, deallocated = 0\<rparr>, overhead = 0\<rparr>\<rparr>) # replicate 312 ev_undef\<rparr>], curr = 0\<rparr>) q \<longrightarrow> lines_chain (\<lparr>page_count = 0, page_limit = 0, frame_count = 1, base_time = 0,
      pages = [\<lparr>count_pg = 2, event_array = (ev_undef\<lparr>ev_op := ENTER_SCOPE, ev_info := Some 0, ev_sibling := Some (0, 1),
            ev_call := \<lparr>proc = \<lparr>pid = 1, tid = 1\<rparr>, s = unit_zero, overhead = 0\<rparr>\<rparr>) # (ev_undef\<lparr>ev_op := EXIT_SCOPE, ev_info := Some 0, ev_sibling := Some (0, 0),
            ev_call := \<lparr>proc = \<lparr>pid = 1, tid = 1\<rparr>, s = \<lparr>time = 5, allocated = 0, deallocated = 0\<rparr>, overhead = 0\<rparr>\<rparr>) # replicate 312 ev_undef\<rparr>], curr = 0\<rparr>) (ev_lines (tl_event (\<lparr>page_count = 0, page_limit = 0, frame_count = 1, base_time = 0,
      pages = [\<lparr>count_pg = 2, event_array = (ev_undef\<lparr>ev_op := ENTER_SCOPE, ev_info := Some 0, ev_sibling := Some (0, 1),
            ev_call := \<lparr>proc = \<lparr>pid = 1, tid = 1\<rparr>, s = unit_zero, overhead = 0\<rparr>\<rparr>) # (ev_undef\<lparr>ev_op := EXIT_SCOPE, ev_info := Some 0, ev_sibling := Some (0, 0),
            ev_call := \<lparr>proc = \<lparr>pid = 1, tid = 1\<rparr>, s = \<lparr>time = 5, allocated = 0, deallocated = 0\<rparr>, overhead = 0\<rparr>\<rparr>) # replicate 312 ev_undef\<rparr>], curr = 0\<rparr>) q))"
    apply (intro allI impI)
    subgoal for q using compress_witness_valid [of q] by (auto simp: tl_event_def ev_undef_def intro: lines_chain_None)
    done
  have inf: "\<forall>q. valid_ptr (\<lparr>page_count = 0, page_limit = 0, frame_count = 1, base_time = 0,
      pages = [\<lparr>count_pg = 2, event_array = (ev_undef\<lparr>ev_op := ENTER_SCOPE, ev_info := Some 0, ev_sibling := Some (0, 1),
            ev_call := \<lparr>proc = \<lparr>pid = 1, tid = 1\<rparr>, s = unit_zero, overhead = 0\<rparr>\<rparr>) # (ev_undef\<lparr>ev_op := EXIT_SCOPE, ev_info := Some 0, ev_sibling := Some (0, 0),
            ev_call := \<lparr>proc = \<lparr>pid = 1, tid = 1\<rparr>, s = \<lparr>time = 5, allocated = 0, deallocated = 0\<rparr>, overhead = 0\<rparr>\<rparr>) # replicate 312 ev_undef\<rparr>], curr = 0\<rparr>) q \<longrightarrow> ev_op (tl_event (\<lparr>page_count = 0, page_limit = 0, frame_count = 1, base_time = 0,
      pages = [\<lparr>count_pg = 2, event_array = (ev_undef\<lparr>ev_op := ENTER_SCOPE, ev_info := Some 0, ev_sibling := Some (0, 1),
            ev_call := \<lparr>proc = \<lparr>pid = 1, tid = 1\<rparr>, s = unit_zero, overhead = 0\<rparr>\<rparr>) # (ev_undef\<lparr>ev_op := EXIT_SCOPE, ev_info := Some 0, ev_sibling := Some (0, 0),
            ev_call := \<lparr>proc = \<lparr>pid = 1, tid = 1\<rparr>, s = \<lparr>time = 5, allocated = 0, deallocated = 0\<rparr>, overhead = 0\<rparr>\<rparr>) # replicate 312 ev_undef\<rparr>], curr = 0\<rparr>) q) = ENTER_SCOPE \<longrightarrow>
                   ev_sibling (tl_event (\<lparr>page_count = 0, page_limit = 0, frame_count = 1, base_time = 0,
      pages = [\<lparr>count_pg = 2, event_array = (ev_undef\<lparr>ev_op := ENTER_SCOPE, ev_info := Some 0, ev_sibling := Some (0, 1),
            ev_call := \<lparr>proc = \<lparr>pid = 1, tid = 1\<rparr>, s = unit_zero, overhead = 0\<rparr>\<rparr>) # (ev_undef\<lparr>ev_op := EXIT_SCOPE, ev_info := Some 0, ev_sibling := Some (0, 0),
            ev_call := \<lparr>proc = \<lparr>pid = 1, tid = 1\<rparr>, s = \<lparr>time = 5, allocated = 0, deallocated = 0\<rparr>, overhead = 0\<rparr>\<rparr>) # replicate 312 ev_undef\<rparr>], curr = 0\<rparr>) q) \<noteq> None \<longrightarrow> INCLUDE_THREAD (tl_event (\<lparr>page_count = 0, page_limit = 0, frame_count = 1, base_time = 0,
      pages = [\<lparr>count_pg = 2, event_array = (ev_undef\<lparr>ev_op := ENTER_SCOPE, ev_info := Some 0, ev_sibling := Some (0, 1),
            ev_call := \<lparr>proc = \<lparr>pid = 1, tid = 1\<rparr>, s = unit_zero, overhead = 0\<rparr>\<rparr>) # (ev_undef\<lparr>ev_op := EXIT_SCOPE, ev_info := Some 0, ev_sibling := Some (0, 0),
            ev_call := \<lparr>proc = \<lparr>pid = 1, tid = 1\<rparr>, s = \<lparr>time = 5, allocated = 0, deallocated = 0\<rparr>, overhead = 0\<rparr>\<rparr>) # replicate 312 ev_undef\<rparr>], curr = 0\<rparr>) q) \<lparr>co_id = \<lparr>pid = 0, tid = 0\<rparr>, co_threshold = 10\<rparr> \<longrightarrow>
                   record_ignored [0 \<mapsto> record_zero] (ev_info (tl_event (\<lparr>page_count = 0, page_limit = 0, frame_count = 1, base_time = 0,
      pages = [\<lparr>count_pg = 2, event_array = (ev_undef\<lparr>ev_op := ENTER_SCOPE, ev_info := Some 0, ev_sibling := Some (0, 1),
            ev_call := \<lparr>proc = \<lparr>pid = 1, tid = 1\<rparr>, s = unit_zero, overhead = 0\<rparr>\<rparr>) # (ev_undef\<lparr>ev_op := EXIT_SCOPE, ev_info := Some 0, ev_sibling := Some (0, 0),
            ev_call := \<lparr>proc = \<lparr>pid = 1, tid = 1\<rparr>, s = \<lparr>time = 5, allocated = 0, deallocated = 0\<rparr>, overhead = 0\<rparr>\<rparr>) # replicate 312 ev_undef\<rparr>], curr = 0\<rparr>) q)) \<noteq> None"
    apply (intro allI impI)
    subgoal for q using compress_witness_valid [of q] by (auto simp: tl_event_def ev_undef_def record_ignored_def)
    done
  obtain tm' where r: "timeline_compress [0 \<mapsto> record_zero] (\<lparr>page_count = 0, page_limit = 0, frame_count = 1, base_time = 0,
      pages = [\<lparr>count_pg = 2, event_array = (ev_undef\<lparr>ev_op := ENTER_SCOPE, ev_info := Some 0, ev_sibling := Some (0, 1),
            ev_call := \<lparr>proc = \<lparr>pid = 1, tid = 1\<rparr>, s = unit_zero, overhead = 0\<rparr>\<rparr>) # (ev_undef\<lparr>ev_op := EXIT_SCOPE, ev_info := Some 0, ev_sibling := Some (0, 0),
            ev_call := \<lparr>proc = \<lparr>pid = 1, tid = 1\<rparr>, s = \<lparr>time = 5, allocated = 0, deallocated = 0\<rparr>, overhead = 0\<rparr>\<rparr>) # replicate 312 ev_undef\<rparr>], curr = 0\<rparr>) \<lparr>co_id = \<lparr>pid = 0, tid = 0\<rparr>, co_threshold = 10\<rparr> = Some (tm', TRACE_EVENT_OK)"
      "\<forall>p. valid_ptr (\<lparr>page_count = 0, page_limit = 0, frame_count = 1, base_time = 0,
      pages = [\<lparr>count_pg = 2, event_array = (ev_undef\<lparr>ev_op := ENTER_SCOPE, ev_info := Some 0, ev_sibling := Some (0, 1),
            ev_call := \<lparr>proc = \<lparr>pid = 1, tid = 1\<rparr>, s = unit_zero, overhead = 0\<rparr>\<rparr>) # (ev_undef\<lparr>ev_op := EXIT_SCOPE, ev_info := Some 0, ev_sibling := Some (0, 0),
            ev_call := \<lparr>proc = \<lparr>pid = 1, tid = 1\<rparr>, s = \<lparr>time = 5, allocated = 0, deallocated = 0\<rparr>, overhead = 0\<rparr>\<rparr>) # replicate 312 ev_undef\<rparr>], curr = 0\<rparr>) p \<longrightarrow> scope_kept [0 \<mapsto> record_zero] \<lparr>co_id = \<lparr>pid = 0, tid = 0\<rparr>, co_threshold = 10\<rparr> tm' p"
      "only_ignored (\<lparr>page_count = 0, page_limit = 0, frame_count = 1, base_time = 0,
      pages = [\<lparr>count_pg = 2, event_array = (ev_undef\<lparr>ev_op := ENTER_SCOPE, ev_info := Some 0, ev_sibling := Some (0, 1),
            ev_call := \<lparr>proc = \<lparr>pid = 1, tid = 1\<rparr>, s = unit_zero, overhead = 0\<rparr>\<rparr>) # (ev_undef\<lparr>ev_op := EXIT_SCOPE, ev_info := Some 0, ev_sibling := Some (0, 0),
            ev_call := \<lparr>proc = \<lparr>pid = 1, tid = 1\<rparr>, s = \<lparr>time = 5, allocated = 0, deallocated = 0\<rparr>, overhead = 0\<rparr>\<rparr>) # replicate 312 ev_undef\<rparr>], curr = 0\<rparr>) tm'"
    using timeline_compress_spec [OF compress_witness_inv ch inf] by blast
  have k: "scope_kept [0 \<mapsto> record_zero] \<lparr>co_id = \<lparr>pid = 0, tid = 0\<rparr>, co_threshold = 10\<rparr> tm' (0, 0)"
    using r(2) compress_witness_valid [of "(0, 0)"] by blast
  have f: "ev_sibling (tl_event tm' (0, 0)) = Some (0, 1) \<and> ev_call (tl_event tm' (0, 0)) = ev_call (tl_event (\<lparr>page_count = 0, page_limit = 0, frame_count = 1, base_time = 0,
      pages = [\<lparr>count_pg = 2, event_array = (ev_undef\<lparr>ev_op := ENTER_SCOPE, ev_info := Some 0, ev_sibling := Some (0, 1),
            ev_call := \<lparr>proc = \<lparr>pid = 1, tid = 1\<rparr>, s = unit_zero, overhead = 0\<rparr>\<rparr>) # (ev_undef\<lparr>ev_op := EXIT_SCOPE, ev_info := Some 0, ev_sibling := Some (0, 0),
            ev_call := \<lparr>proc = \<lparr>pid = 1, tid = 1\<rparr>, s = \<lparr>time = 5, allocated = 0, deallocated = 0\<rparr>, overhead = 0\<rparr>\<rparr>) # replicate 312 ev_undef\<rparr>], curr = 0\<rparr>) (0, 0))
           \<and> ev_call (tl_event tm' (0, 1)) = ev_call (tl_event (\<lparr>page_count = 0, page_limit = 0, frame_count = 1, base_time = 0,
      pages = [\<lparr>count_pg = 2, event_array = (ev_undef\<lparr>ev_op := ENTER_SCOPE, ev_info := Some 0, ev_sibling := Some (0, 1),
            ev_call := \<lparr>proc = \<lparr>pid = 1, tid = 1\<rparr>, s = unit_zero, overhead = 0\<rparr>\<rparr>) # (ev_undef\<lparr>ev_op := EXIT_SCOPE, ev_info := Some 0, ev_sibling := Some (0, 0),
            ev_call := \<lparr>proc = \<lparr>pid = 1, tid = 1\<rparr>, s = \<lparr>time = 5, allocated = 0, deallocated = 0\<rparr>, overhead = 0\<rparr>\<rparr>) # replicate 312 ev_undef\<rparr>], curr = 0\<rparr>) (0, 1))"
    using only_ignored_fields [OF r(3), of "(0, 0)"] only_ignored_fields [OF r(3), of "(0, 1)"]
    by (simp add: tl_event_def)
  have "ev_op (tl_event tm' (0, 0)) \<noteq> ENTER_SCOPE"
    using k f by (auto simp: scope_kept_def INCLUDE_THREAD_def INCLUDE_PROCESS_def INCLUDE_DURATION_def
                            tl_event_def ev_undef_def unit_zero_def)
  then show ?thesis using r(1) by blast
qed

text \<open>
  With threshold 0, \<^verbatim>\<open>timeline_compress\<close> leaves a timeline in which
  no selected scope belongs to an ignored function exactly as it was. (With an ignored
  function it still rewrites that function's scopes, so R2 holds only under this
  condition.)
\<close>

theorem timeline_compress_threshold_zero_noop:
  assumes "co_threshold opts = 0"
    and "\<forall>p. valid_ptr tm p \<longrightarrow> ev_op (tl_event tm p) = ENTER_SCOPE \<longrightarrow> ev_sibling (tl_event tm p) \<noteq> None \<longrightarrow>
           INCLUDE_THREAD (tl_event tm p) opts \<longrightarrow> record_ignored st (ev_info (tl_event tm p)) = Some False"
  shows "timeline_compress st tm opts = Some (tm, TRACE_EVENT_OK)"
proof -
  have "\<forall>p \<in> set (timeline_events tm). compress_event st opts tm p = Some tm"
    using assms by (auto simp: timeline_events_valid intro: compress_event_noop)
  then show ?thesis by (simp add: timeline_compress_def compress_loop_noop)
qed

theorem timeline_compress_threshold_zero_noop_witness:
  "timeline_compress [0 \<mapsto> record_zero] (\<lparr>page_count = 0, page_limit = 0, frame_count = 1, base_time = 0,
      pages = [\<lparr>count_pg = 2, event_array = (ev_undef\<lparr>ev_op := ENTER_SCOPE, ev_info := Some 0, ev_sibling := Some (0, 1),
            ev_call := \<lparr>proc = \<lparr>pid = 1, tid = 1\<rparr>, s = unit_zero, overhead = 0\<rparr>\<rparr>) # (ev_undef\<lparr>ev_op := EXIT_SCOPE, ev_info := Some 0, ev_sibling := Some (0, 0),
            ev_call := \<lparr>proc = \<lparr>pid = 1, tid = 1\<rparr>, s = \<lparr>time = 5, allocated = 0, deallocated = 0\<rparr>, overhead = 0\<rparr>\<rparr>) # replicate 312 ev_undef\<rparr>], curr = 0\<rparr>) \<lparr>co_id = \<lparr>pid = 0, tid = 0\<rparr>, co_threshold = 0\<rparr> = Some ((\<lparr>page_count = 0, page_limit = 0, frame_count = 1, base_time = 0,
      pages = [\<lparr>count_pg = 2, event_array = (ev_undef\<lparr>ev_op := ENTER_SCOPE, ev_info := Some 0, ev_sibling := Some (0, 1),
            ev_call := \<lparr>proc = \<lparr>pid = 1, tid = 1\<rparr>, s = unit_zero, overhead = 0\<rparr>\<rparr>) # (ev_undef\<lparr>ev_op := EXIT_SCOPE, ev_info := Some 0, ev_sibling := Some (0, 0),
            ev_call := \<lparr>proc = \<lparr>pid = 1, tid = 1\<rparr>, s = \<lparr>time = 5, allocated = 0, deallocated = 0\<rparr>, overhead = 0\<rparr>\<rparr>) # replicate 312 ev_undef\<rparr>], curr = 0\<rparr>), TRACE_EVENT_OK)"
proof -
  have w: "valid_ptr (\<lparr>page_count = 0, page_limit = 0, frame_count = 1, base_time = 0,
      pages = [\<lparr>count_pg = 2, event_array = (ev_undef\<lparr>ev_op := ENTER_SCOPE, ev_info := Some 0, ev_sibling := Some (0, 1),
            ev_call := \<lparr>proc = \<lparr>pid = 1, tid = 1\<rparr>, s = unit_zero, overhead = 0\<rparr>\<rparr>) # (ev_undef\<lparr>ev_op := EXIT_SCOPE, ev_info := Some 0, ev_sibling := Some (0, 0),
            ev_call := \<lparr>proc = \<lparr>pid = 1, tid = 1\<rparr>, s = \<lparr>time = 5, allocated = 0, deallocated = 0\<rparr>, overhead = 0\<rparr>\<rparr>) # replicate 312 ev_undef\<rparr>], curr = 0\<rparr>) q \<longleftrightarrow> q = (0, 0) \<or> q = (0, 1)" for q
    by (cases q) (auto simp: valid_ptr_def less_2_cases_iff)
  have "\<forall>p. valid_ptr (\<lparr>page_count = 0, page_limit = 0, frame_count = 1, base_time = 0,
      pages = [\<lparr>count_pg = 2, event_array = (ev_undef\<lparr>ev_op := ENTER_SCOPE, ev_info := Some 0, ev_sibling := Some (0, 1),
            ev_call := \<lparr>proc = \<lparr>pid = 1, tid = 1\<rparr>, s = unit_zero, overhead = 0\<rparr>\<rparr>) # (ev_undef\<lparr>ev_op := EXIT_SCOPE, ev_info := Some 0, ev_sibling := Some (0, 0),
            ev_call := \<lparr>proc = \<lparr>pid = 1, tid = 1\<rparr>, s = \<lparr>time = 5, allocated = 0, deallocated = 0\<rparr>, overhead = 0\<rparr>\<rparr>) # replicate 312 ev_undef\<rparr>], curr = 0\<rparr>) p \<longrightarrow> ev_op (tl_event (\<lparr>page_count = 0, page_limit = 0, frame_count = 1, base_time = 0,
      pages = [\<lparr>count_pg = 2, event_array = (ev_undef\<lparr>ev_op := ENTER_SCOPE, ev_info := Some 0, ev_sibling := Some (0, 1),
            ev_call := \<lparr>proc = \<lparr>pid = 1, tid = 1\<rparr>, s = unit_zero, overhead = 0\<rparr>\<rparr>) # (ev_undef\<lparr>ev_op := EXIT_SCOPE, ev_info := Some 0, ev_sibling := Some (0, 0),
            ev_call := \<lparr>proc = \<lparr>pid = 1, tid = 1\<rparr>, s = \<lparr>time = 5, allocated = 0, deallocated = 0\<rparr>, overhead = 0\<rparr>\<rparr>) # replicate 312 ev_undef\<rparr>], curr = 0\<rparr>) p) = ENTER_SCOPE \<longrightarrow> ev_sibling (tl_event (\<lparr>page_count = 0, page_limit = 0, frame_count = 1, base_time = 0,
      pages = [\<lparr>count_pg = 2, event_array = (ev_undef\<lparr>ev_op := ENTER_SCOPE, ev_info := Some 0, ev_sibling := Some (0, 1),
            ev_call := \<lparr>proc = \<lparr>pid = 1, tid = 1\<rparr>, s = unit_zero, overhead = 0\<rparr>\<rparr>) # (ev_undef\<lparr>ev_op := EXIT_SCOPE, ev_info := Some 0, ev_sibling := Some (0, 0),
            ev_call := \<lparr>proc = \<lparr>pid = 1, tid = 1\<rparr>, s = \<lparr>time = 5, allocated = 0, deallocated = 0\<rparr>, overhead = 0\<rparr>\<rparr>) # replicate 312 ev_undef\<rparr>], curr = 0\<rparr>) p) \<noteq> None \<longrightarrow>
           INCLUDE_THREAD (tl_event (\<lparr>page_count = 0, page_limit = 0, frame_count = 1, base_time = 0,
      pages = [\<lparr>count_pg = 2, event_array = (ev_undef\<lparr>ev_op := ENTER_SCOPE, ev_info := Some 0, ev_sibling := Some (0, 1),
            ev_call := \<lparr>proc = \<lparr>pid = 1, tid = 1\<rparr>, s = unit_zero, overhead = 0\<rparr>\<rparr>) # (ev_undef\<lparr>ev_op := EXIT_SCOPE, ev_info := Some 0, ev_sibling := Some (0, 0),
            ev_call := \<lparr>proc = \<lparr>pid = 1, tid = 1\<rparr>, s = \<lparr>time = 5, allocated = 0, deallocated = 0\<rparr>, overhead = 0\<rparr>\<rparr>) # replicate 312 ev_undef\<rparr>], curr = 0\<rparr>) p) \<lparr>co_id = \<lparr>pid = 0, tid = 0\<rparr>, co_threshold = 0\<rparr> \<longrightarrow>
           record_ignored [0 \<mapsto> record_zero] (ev_info (tl_event (\<lparr>page_count = 0, page_limit = 0, frame_count = 1, base_time = 0,
      pages = [\<lparr>count_pg = 2, event_array = (ev_undef\<lparr>ev_op := ENTER_SCOPE, ev_info := Some 0, ev_sibling := Some (0, 1),
            ev_call := \<lparr>proc = \<lparr>pid = 1, tid = 1\<rparr>, s = unit_zero, overhead = 0\<rparr>\<rparr>) # (ev_undef\<lparr>ev_op := EXIT_SCOPE, ev_info := Some 0, ev_sibling := Some (0, 0),
            ev_call := \<lparr>proc = \<lparr>pid = 1, tid = 1\<rparr>, s = \<lparr>time = 5, allocated = 0, deallocated = 0\<rparr>, overhead = 0\<rparr>\<rparr>) # replicate 312 ev_undef\<rparr>], curr = 0\<rparr>) p)) = Some False"
    apply (intro allI impI)
    subgoal for q using w [of q]
      by (auto simp: tl_event_def record_ignored_def record_zero_def info_zero_def BITFIELD_TEST_def
                     LMPROF_RECORD_IGNORED_def)
    done
  then show ?thesis using timeline_compress_threshold_zero_noop [of "\<lparr>co_id = \<lparr>pid = 0, tid = 0\<rparr>, co_threshold = 0\<rparr>"] by simp
qed

end
