(* ===== verification/Config.thy ===== *)
theory Config
  imports Hashtable
begin

text \<open>
  Profiler modes, configuration flags and the library's option interface
  (\<^verbatim>\<open>src/src/lmprof_state.h\<close>, \<^verbatim>\<open>src/src/lmprof.h\<close>, \<^verbatim>\<open>src/src/lmprof.c\<close>):
  \<^verbatim>\<open>lmprof_parsemode\<close>, which turns the mode strings a script passes into the mode
  word, and \<^verbatim>\<open>lmprof_set_option\<close>/\<^verbatim>\<open>lmprof_get_option\<close>, which keep the defaults
  of later profilers in the library's registry table. The Lua values a script passes
  are a datatype; the registry table is a function from its integer keys to values.
\<close>

unbundle bit_operations_syntax

section \<open>Lua values and argument checks\<close>

datatype lua_value = LNil | LBool bool | LInt int | LStr string

text \<open>
  The string-to-integer coercion of \<^verbatim>\<open>luaL_checkinteger\<close> is modelled for decimal
  numerals with an optional minus sign (the only strings the option names could be
  confused with); the number-to-string coercion of \<^verbatim>\<open>luaL_checkstring\<close> prints the
  decimal numeral.
\<close>

fun digits_val :: "int \<Rightarrow> string \<Rightarrow> int option" where
  "digits_val acc [] = Some acc"
| "digits_val acc (c # cs) =
     (if c \<in> set ''0123456789'' then digits_val (10 * acc + (int (of_char c) - 48)) cs else None)"

definition lua_str_integer :: "string \<Rightarrow> int option" where
  "lua_str_integer str =
     (if str = [] then None
      else if hd str = CHR ''-'' then (if tl str = [] then None else map_option uminus (digits_val 0 (tl str)))
      else digits_val 0 str)"

function nat_str :: "nat \<Rightarrow> string" where
  "nat_str n = (if n < 10 then [char_of (48 + n)] else nat_str (n div 10) @ [char_of (48 + n mod 10)])"
  by auto
termination by (relation "measure id") auto

definition int_str :: "int \<Rightarrow> string" where
  "int_str i = (if i < 0 then CHR ''-'' # nat_str (nat (- i)) else nat_str (nat i))"

definition luaL_checkinteger :: "lua_value \<Rightarrow> int result" where
  "luaL_checkinteger v =
     (case v of
        LInt i \<Rightarrow> Inr i
      | LStr str \<Rightarrow> (case lua_str_integer str of Some i \<Rightarrow> Inr i | None \<Rightarrow> Inl ''number expected, got string'')
      | _ \<Rightarrow> Inl ''number expected'')"

definition luaL_checkstring :: "lua_value \<Rightarrow> string result" where
  "luaL_checkstring v =
     (case v of LStr str \<Rightarrow> Inr str | LInt i \<Rightarrow> Inr (int_str i) | _ \<Rightarrow> Inl ''string expected'')"

fun list_index :: "'a \<Rightarrow> 'a list \<Rightarrow> nat option" where
  "list_index x [] = None"
| "list_index x (y # ys) = (if x = y then Some 0 else map_option Suc (list_index x ys))"

text \<open>
  \<^verbatim>\<open>luaL_checkoption(L, arg, def, lst)\<close>: a missing or nil argument stands for
  \<open>def\<close> when there is one; the index of the name in \<open>lst\<close> or an error.
\<close>

definition luaL_checkoption :: "string option \<Rightarrow> lua_value \<Rightarrow> string list \<Rightarrow> nat result" where
  "luaL_checkoption def v lst =
     (let nm = (case (v, def) of (LNil, Some d) \<Rightarrow> Inr d | _ \<Rightarrow> luaL_checkstring v)
      in (case nm of
            Inl e \<Rightarrow> Inl e
          | Inr str \<Rightarrow> (case list_index str lst of Some i \<Rightarrow> Inr i | None \<Rightarrow> Inl ''invalid option'')))"

text \<open>The argument at a 1-based stack index; a missing argument reads as nil.\<close>

definition lua_arg :: "lua_value list \<Rightarrow> nat \<Rightarrow> lua_value" where
  "lua_arg args n = (if 0 < n \<and> n \<le> length args then args ! (n - 1) else LNil)"

section \<open>Modes (lmprof_state.h)\<close>

definition LMPROF_MODE_NONE :: flags32 where "LMPROF_MODE_NONE = 0x0"
definition LMPROF_MODE_TIME :: flags32 where "LMPROF_MODE_TIME = 0x1"
definition LMPROF_MODE_INSTRUMENT :: flags32 where "LMPROF_MODE_INSTRUMENT = 0x2"
definition LMPROF_MODE_SAMPLE :: flags32 where "LMPROF_MODE_SAMPLE = 0x4"
definition LMPROF_MODE_MEMORY :: flags32 where "LMPROF_MODE_MEMORY = 0x8"
definition LMPROF_MODE_TRACE :: flags32 where "LMPROF_MODE_TRACE = 0x10"
definition LMPROF_MODE_LINE :: flags32 where "LMPROF_MODE_LINE = 0x20"
definition LMPROF_MODE_SINGLE_THREAD :: flags32 where "LMPROF_MODE_SINGLE_THREAD = 0x40"
definition LMPROF_MODE_EXT_CALLBACK :: flags32 where "LMPROF_MODE_EXT_CALLBACK = 0x80"

definition LMPROF_CALLBACK_MASK :: flags32 where
  "LMPROF_CALLBACK_MASK = LMPROF_MODE_TRACE OR LMPROF_MODE_EXT_CALLBACK"

definition LMPROF_LUA_MODE_MASK :: flags32 where
  "LMPROF_LUA_MODE_MASK = LMPROF_MODE_TIME OR LMPROF_MODE_INSTRUMENT OR LMPROF_MODE_SAMPLE
                          OR LMPROF_MODE_MEMORY OR LMPROF_MODE_TRACE"

section \<open>Configuration flags (lmprof_state.h)\<close>

definition LMPROF_OPT_GC_DISABLE :: flags32 where "LMPROF_OPT_GC_DISABLE = 0x1"
definition LMPROF_OPT_CLOCK_INIT :: flags32 where "LMPROF_OPT_CLOCK_INIT = 0x2"
definition LMPROF_OPT_CLOCK_MICRO :: flags32 where "LMPROF_OPT_CLOCK_MICRO = 0x4"
definition LMPROF_OPT_INSTRUCTION_COUNT :: flags32 where "LMPROF_OPT_INSTRUCTION_COUNT = 0x8"
definition LMPROF_OPT_LOAD_STACK :: flags32 where "LMPROF_OPT_LOAD_STACK = 0x10"
definition LMPROF_OPT_STACK_MISMATCH :: flags32 where "LMPROF_OPT_STACK_MISMATCH = 0x20"
definition LMPROF_OPT_COMPRESS_GRAPH :: flags32 where "LMPROF_OPT_COMPRESS_GRAPH = 0x40"
definition LMPROF_OPT_REPORT_VERBOSE :: flags32 where "LMPROF_OPT_REPORT_VERBOSE = 0x1000"
definition LMPROF_OPT_REPORT_STRING :: flags32 where "LMPROF_OPT_REPORT_STRING = 0x2000"
definition LMPROF_OPT_HASH_SIZE :: flags32 where "LMPROF_OPT_HASH_SIZE = 0x40000"
definition LMPROF_OPT_LINE_FREQUENCY :: flags32 where "LMPROF_OPT_LINE_FREQUENCY = 0x80000"
definition LMPROF_OPT_TRACE_COUNTERS_FREQ :: flags32 where "LMPROF_OPT_TRACE_COUNTERS_FREQ = 0x200000"
definition LMPROF_OPT_TRACE_IGNORE_YIELD :: flags32 where "LMPROF_OPT_TRACE_IGNORE_YIELD = 0x400000"
definition LMPROF_OPT_TRACE_PROCESS :: flags32 where "LMPROF_OPT_TRACE_PROCESS = 0x800000"
definition LMPROF_OPT_TRACE_URL :: flags32 where "LMPROF_OPT_TRACE_URL = 0x1000000"
definition LMPROF_OPT_TRACE_NAME :: flags32 where "LMPROF_OPT_TRACE_NAME = 0x2000000"
definition LMPROF_OPT_TRACE_DRAW_FRAME :: flags32 where "LMPROF_OPT_TRACE_DRAW_FRAME = 0x4000000"
definition LMPROF_OPT_TRACE_LAYOUT_SPLIT :: flags32 where "LMPROF_OPT_TRACE_LAYOUT_SPLIT = 0x8000000"
definition LMPROF_OPT_TRACE_ABOUT_TRACING :: flags32 where "LMPROF_OPT_TRACE_ABOUT_TRACING = 0x10000000"
definition LMPROF_OPT_TRACE_PAGELIMIT :: flags32 where "LMPROF_OPT_TRACE_PAGELIMIT = 0x20000000"
definition LMPROF_OPT_TRACE_COMPRESS :: flags32 where "LMPROF_OPT_TRACE_COMPRESS = 0x40000000"
definition LMPROF_OPT_TRACE_THRESHOLD :: flags32 where "LMPROF_OPT_TRACE_THRESHOLD = 0x80000000"

text \<open>The default configuration of a 64-bit build (\<^verbatim>\<open>LUA_32BITS == 0\<close>).\<close>

definition LMPROF_OPT_DEFAULT :: flags32 where
  "LMPROF_OPT_DEFAULT = LMPROF_OPT_CLOCK_INIT OR LMPROF_OPT_LOAD_STACK OR LMPROF_OPT_COMPRESS_GRAPH"

section \<open>Mode parsing (lmprof.c)\<close>

definition lmprof_mode_strings :: "string list" where
  "lmprof_mode_strings = [[], ''time'', ''instrument'', ''memory'', ''trace'', ''lines'', ''sample'', ''single_thread'']"

definition lmprof_mode_codes :: "flags32 list" where
  "lmprof_mode_codes = [LMPROF_MODE_NONE, LMPROF_MODE_TIME, LMPROF_MODE_INSTRUMENT, LMPROF_MODE_MEMORY,
                        LMPROF_MODE_TRACE, LMPROF_MODE_LINE, LMPROF_MODE_SAMPLE, LMPROF_MODE_SINGLE_THREAD]"

text \<open>\<^verbatim>\<open>NOT_ONLY_MODE(M, MASK)\<close>: \<open>M\<close> has a bit of \<open>MASK\<close> and a script-visible bit outside it.\<close>

definition NOT_ONLY_MODE :: "flags32 \<Rightarrow> flags32 \<Rightarrow> bool" where
  "NOT_ONLY_MODE m msk \<longleftrightarrow> BITFIELD_TEST m msk \<and> BITFIELD_TEST m (NOT msk AND LMPROF_LUA_MODE_MASK)"

text \<open>The loop of \<^verbatim>\<open>lmprof_parsemode\<close> that ORs the codes of the arguments, in order.\<close>

fun parsemode_args :: "flags32 \<Rightarrow> lua_value list \<Rightarrow> flags32 result" where
  "parsemode_args m [] = Inr m"
| "parsemode_args m (v # vs) =
     (case luaL_checkoption (Some []) v lmprof_mode_strings of
        Inl e \<Rightarrow> Inl e
      | Inr i \<Rightarrow> parsemode_args (m OR lmprof_mode_codes ! i) vs)"

text \<open>
  \<^verbatim>\<open>lmprof_parsemode(L, index, top)\<close> over the arguments from \<open>index\<close> to \<open>top\<close>; the
  first one is read even when it is missing (then it stands for the empty name).
\<close>

definition lmprof_parsemode :: "lua_value list \<Rightarrow> flags32 result" where
  "lmprof_parsemode args =
     (case parsemode_args 0 (if args = [] then [LNil] else args) of
        Inl e \<Rightarrow> Inl e
      | Inr mode \<Rightarrow>
          if \<not> BITFIELD_TEST mode LMPROF_LUA_MODE_MASK then Inl ''Invalid profiler mode''
          else if NOT_ONLY_MODE mode LMPROF_MODE_TIME then Inl ''MODE_TIME cannot be paired with other modes''
          else if BITFIELD_IS mode (LMPROF_CALLBACK_MASK OR LMPROF_MODE_SAMPLE)
                  \<and> \<not> BITFIELD_TEST mode LMPROF_MODE_SINGLE_THREAD
          then Inl ''trace + sample instrumentation is only configured for single thread profiling''
          else if BITFIELD_IS mode (LMPROF_MODE_SAMPLE OR LMPROF_MODE_MEMORY)
                  \<and> \<not> BITFIELD_TEST mode LMPROF_MODE_INSTRUMENT
          then Inl ''memory mode cannot be enabled when in sampling mode''
          else if BITFIELD_IS mode (LMPROF_MODE_SAMPLE OR LMPROF_MODE_LINE)
                  \<and> \<not> BITFIELD_TEST mode LMPROF_MODE_INSTRUMENT
          then Inl ''line mode cannot be enabled when in sampling mode''
          else Inr mode)"

section \<open>Library options (lmprof.c)\<close>

definition lmprof_option_strings :: "string list" where
  "lmprof_option_strings =
     [''disable_gc'', ''reinit_clock'', ''micro'', ''instructions'', ''load_stack'', ''mismatch'',
      ''verbose'', ''line_freq'', ''hash_size'', ''counter_freq'', ''ignore_yield'', ''process'',
      ''url'', ''name'', ''draw_frame'', ''split'', ''tracing'', ''page_limit'', ''compress'', ''threshold'']"

definition lmprof_option_codes :: "flags32 list" where
  "lmprof_option_codes =
     [LMPROF_OPT_GC_DISABLE, LMPROF_OPT_CLOCK_INIT, LMPROF_OPT_CLOCK_MICRO, LMPROF_OPT_INSTRUCTION_COUNT,
      LMPROF_OPT_LOAD_STACK, LMPROF_OPT_STACK_MISMATCH, LMPROF_OPT_REPORT_VERBOSE,
      LMPROF_OPT_LINE_FREQUENCY, LMPROF_OPT_HASH_SIZE, LMPROF_OPT_TRACE_COUNTERS_FREQ,
      LMPROF_OPT_TRACE_IGNORE_YIELD, LMPROF_OPT_TRACE_PROCESS, LMPROF_OPT_TRACE_URL,
      LMPROF_OPT_TRACE_NAME, LMPROF_OPT_TRACE_DRAW_FRAME, LMPROF_OPT_TRACE_LAYOUT_SPLIT,
      LMPROF_OPT_TRACE_ABOUT_TRACING, LMPROF_OPT_TRACE_PAGELIMIT, LMPROF_OPT_TRACE_COMPRESS,
      LMPROF_OPT_TRACE_THRESHOLD]"

text \<open>The boolean options \<^verbatim>\<open>lmprof_set_option\<close> and \<^verbatim>\<open>lmprof_get_option\<close> share as one case group.\<close>

definition lib_bool_options :: "flags32 list" where
  "lib_bool_options =
     [LMPROF_OPT_GC_DISABLE, LMPROF_OPT_CLOCK_INIT, LMPROF_OPT_CLOCK_MICRO, LMPROF_OPT_LOAD_STACK,
      LMPROF_OPT_STACK_MISMATCH, LMPROF_OPT_REPORT_VERBOSE, LMPROF_OPT_LINE_FREQUENCY,
      LMPROF_OPT_TRACE_IGNORE_YIELD, LMPROF_OPT_TRACE_DRAW_FRAME, LMPROF_OPT_TRACE_LAYOUT_SPLIT,
      LMPROF_OPT_TRACE_ABOUT_TRACING, LMPROF_OPT_TRACE_COMPRESS]"

text \<open>The integer keys of the library's registry subtable (\<^verbatim>\<open>lmprof.h\<close>).\<close>

definition LMPROF_FLAGS :: nat where "LMPROF_FLAGS = 2"
definition LMPROF_THRESHOLD :: nat where "LMPROF_THRESHOLD = 3"
definition LMPROF_HOOK_COUNT :: nat where "LMPROF_HOOK_COUNT = 4"
definition LMPROF_HASHTABLE_SIZE :: nat where "LMPROF_HASHTABLE_SIZE = 5"
definition LMPROF_PROCESS :: nat where "LMPROF_PROCESS = 7"
definition LMPROF_PROFILE_NAME :: nat where "LMPROF_PROFILE_NAME = 8"
definition LMPROF_URL :: nat where "LMPROF_URL = 9"
definition LMPROF_PAGE_LIMIT :: nat where "LMPROF_PAGE_LIMIT = 10"
definition LMPROF_COUNTERS_FREQ :: nat where "LMPROF_COUNTERS_FREQ = 11"

type_synonym lib_table = "nat \<Rightarrow> lua_value"

text \<open>\<^verbatim>\<open>lmprof_getlibi\<close> is \<^verbatim>\<open>luaL_optinteger\<close> on the registry entry.\<close>

definition lmprof_getlibi :: "lib_table \<Rightarrow> nat \<Rightarrow> int \<Rightarrow> int result" where
  "lmprof_getlibi t k opt = (case t k of LNil \<Rightarrow> Inr opt | v \<Rightarrow> luaL_checkinteger v)"

definition lmprof_setlibi :: "lib_table \<Rightarrow> nat \<Rightarrow> int \<Rightarrow> lib_table" where
  "lmprof_setlibi t k v = t(k := LInt v)"

definition lmprof_setlibs :: "lib_table \<Rightarrow> nat \<Rightarrow> string \<Rightarrow> lib_table" where
  "lmprof_setlibs t k v = t(k := LStr v)"

text \<open>
  \<^verbatim>\<open>lmprof_set_option(name, value)\<close>: the boolean options read the stored flags
  (the default configuration when none are stored) and store them with the bit
  changed; the integer and string options check and store their value.
\<close>

definition lmprof_set_option :: "lua_value list \<Rightarrow> lib_table \<Rightarrow> lib_table result" where
  "lmprof_set_option args t =
     (case luaL_checkoption None (lua_arg args 1) lmprof_option_strings of
        Inl e \<Rightarrow> Inl e
      | Inr i \<Rightarrow>
          let opt = lmprof_option_codes ! i; v = lua_arg args 2 in
          if opt \<in> set lib_bool_options then
            (case v of
               LBool b \<Rightarrow>
                 (case lmprof_getlibi t LMPROF_FLAGS (uint LMPROF_OPT_DEFAULT) of
                    Inl e \<Rightarrow> Inl e
                  | Inr c \<Rightarrow>
                      let conf = (word_of_int c :: flags32)
                      in Inr (lmprof_setlibi t LMPROF_FLAGS
                             (uint (if b then BITFIELD_SET conf opt else BITFIELD_CLEAR conf opt))))
             | _ \<Rightarrow> Inl ''boolean expected'')
          else if opt = LMPROF_OPT_INSTRUCTION_COUNT then
            (case luaL_checkinteger v of
               Inl e \<Rightarrow> Inl e
             | Inr cnt \<Rightarrow> if cnt > 0 then Inr (lmprof_setlibi t LMPROF_HOOK_COUNT cnt)
                            else Inl ''instruction count less-than/equal to zero'')
          else if opt = LMPROF_OPT_HASH_SIZE then
            (case luaL_checkinteger v of
               Inl e \<Rightarrow> Inl e
             | Inr cnt \<Rightarrow> if 1 \<le> cnt \<and> cnt \<le> int LMPROF_HASH_MAXSIZE
                            then Inr (lmprof_setlibi t LMPROF_HASHTABLE_SIZE cnt)
                            else Inl ''hashtable size is less-than/equal to zero'')
          else if opt = LMPROF_OPT_TRACE_PROCESS then
            map_sum id (lmprof_setlibi t LMPROF_PROCESS) (luaL_checkinteger v)
          else if opt = LMPROF_OPT_TRACE_NAME then
            map_sum id (lmprof_setlibs t LMPROF_PROFILE_NAME) (luaL_checkstring v)
          else if opt = LMPROF_OPT_TRACE_URL then
            map_sum id (lmprof_setlibs t LMPROF_URL) (luaL_checkstring v)
          else if opt = LMPROF_OPT_TRACE_PAGELIMIT then
            map_sum id (lmprof_setlibi t LMPROF_PAGE_LIMIT) (luaL_checkinteger v)
          else if opt = LMPROF_OPT_TRACE_COUNTERS_FREQ then
            map_sum id (lmprof_setlibi t LMPROF_COUNTERS_FREQ) (luaL_checkinteger v)
          else if opt = LMPROF_OPT_TRACE_THRESHOLD then
            (case luaL_checkinteger v of
               Inl e \<Rightarrow> Inl e
             | Inr th \<Rightarrow> if 0 \<le> th \<and> th \<le> 1024 * 1024 then Inr (lmprof_setlibi t LMPROF_THRESHOLD th)
                         else Inl ''threshold not within [0, 1048576]'')
          else Inl ''Invalid option'')"

text \<open>
  \<^verbatim>\<open>lmprof_get_option(name)\<close>: the values it pushes (none for an option it does
  not know). The boolean options read the stored flags with default \<open>0\<close>.
\<close>

definition lmprof_get_option :: "lua_value list \<Rightarrow> lib_table \<Rightarrow> lua_value list result" where
  "lmprof_get_option args t =
     (case luaL_checkoption None (lua_arg args 1) lmprof_option_strings of
        Inl e \<Rightarrow> Inl e
      | Inr i \<Rightarrow>
          let opt = lmprof_option_codes ! i in
          if opt \<in> set lib_bool_options then
            map_sum id (\<lambda>c. [LBool (BITFIELD_TEST (word_of_int c :: flags32) opt)]) (lmprof_getlibi t LMPROF_FLAGS 0)
          else if opt = LMPROF_OPT_INSTRUCTION_COUNT then Inr [t LMPROF_HOOK_COUNT]
          else if opt = LMPROF_OPT_HASH_SIZE then Inr [t LMPROF_HOOK_COUNT]
          else if opt = LMPROF_OPT_TRACE_PROCESS then Inr [t LMPROF_PROCESS]
          else if opt = LMPROF_OPT_TRACE_URL then Inr [t LMPROF_URL]
          else if opt = LMPROF_OPT_TRACE_NAME then Inr [t LMPROF_PROFILE_NAME]
          else if opt = LMPROF_OPT_TRACE_PAGELIMIT then Inr [t LMPROF_PAGE_LIMIT]
          else if opt = LMPROF_OPT_TRACE_THRESHOLD then Inr [t LMPROF_THRESHOLD]
          else if opt = LMPROF_OPT_TRACE_COUNTERS_FREQ then Inr [t LMPROF_COUNTERS_FREQ]
          else Inr [])"

section \<open>Lemmas\<close>

lemma list_index_Some: "list_index x xs = Some i \<Longrightarrow> i < length xs \<and> xs ! i = x"
  by (induction xs arbitrary: i) (auto split: if_splits)

lemma list_index_None: "list_index x xs = None \<longleftrightarrow> x \<notin> set xs"
  by (induction xs) auto

lemma checkoption_LStr:
  "luaL_checkoption def (LStr nm) lst = Inr i \<longleftrightarrow> list_index nm lst = Some i"
  by (auto simp: luaL_checkoption_def luaL_checkstring_def split: option.splits)

lemmas option_code_defs = lmprof_option_codes_def lib_bool_options_def
  LMPROF_OPT_GC_DISABLE_def LMPROF_OPT_CLOCK_INIT_def LMPROF_OPT_CLOCK_MICRO_def
  LMPROF_OPT_INSTRUCTION_COUNT_def LMPROF_OPT_LOAD_STACK_def LMPROF_OPT_STACK_MISMATCH_def
  LMPROF_OPT_REPORT_VERBOSE_def LMPROF_OPT_LINE_FREQUENCY_def LMPROF_OPT_HASH_SIZE_def
  LMPROF_OPT_TRACE_COUNTERS_FREQ_def LMPROF_OPT_TRACE_IGNORE_YIELD_def LMPROF_OPT_TRACE_PROCESS_def
  LMPROF_OPT_TRACE_URL_def LMPROF_OPT_TRACE_NAME_def LMPROF_OPT_TRACE_DRAW_FRAME_def
  LMPROF_OPT_TRACE_LAYOUT_SPLIT_def LMPROF_OPT_TRACE_ABOUT_TRACING_def LMPROF_OPT_TRACE_PAGELIMIT_def
  LMPROF_OPT_TRACE_COMPRESS_def LMPROF_OPT_TRACE_THRESHOLD_def

lemma set_option_index:
  "lmprof_set_option args t = Inr t' \<Longrightarrow>
   \<exists>i. luaL_checkoption None (lua_arg args 1) lmprof_option_strings = Inr i"
  by (auto simp: lmprof_set_option_def split: sum.splits)

lemma set_option_bool:
  assumes ck: "luaL_checkoption None (lua_arg args 1) lmprof_option_strings = Inr i"
    and b: "lmprof_option_codes ! i \<in> set lib_bool_options"
    and set: "lmprof_set_option args t = Inr t'"
  shows "\<exists>bv c. lua_arg args 2 = LBool bv \<and>
           t' = lmprof_setlibi t LMPROF_FLAGS
                  (uint (if bv then BITFIELD_SET c (lmprof_option_codes ! i)
                         else BITFIELD_CLEAR c (lmprof_option_codes ! i)))"
  using set ck b by (auto simp: lmprof_set_option_def Let_def split: lua_value.splits sum.splits)

lemma get_option_bool:
  assumes ck: "luaL_checkoption None (lua_arg args 1) lmprof_option_strings = Inr i"
    and b: "lmprof_option_codes ! i \<in> set lib_bool_options"
  shows "lmprof_get_option args t =
           map_sum id (\<lambda>c. [LBool (BITFIELD_TEST (word_of_int c :: flags32) (lmprof_option_codes ! i))])
             (lmprof_getlibi t LMPROF_FLAGS 0)"
  using ck b by (simp add: lmprof_get_option_def Let_def)

lemma get_option_arg1:
  "lua_arg args 1 = lua_arg args' 1 \<Longrightarrow> lmprof_get_option args t = lmprof_get_option args' t"
  by (simp add: lmprof_get_option_def)

lemma bool_options_nonzero: "0 \<notin> set lib_bool_options"
  by (simp add: option_code_defs)

lemma set_get_bool_roundtrip:
  assumes ck: "luaL_checkoption None (lua_arg args 1) lmprof_option_strings = Inr i"
    and b: "lmprof_option_codes ! i \<in> set lib_bool_options"
    and set: "lmprof_set_option args t = Inr t'"
  shows "lmprof_get_option args t' = Inr [lua_arg args 2]"
proof -
  obtain bv c where v: "lua_arg args 2 = LBool bv"
    and t': "t' = lmprof_setlibi t LMPROF_FLAGS
                  (uint (if bv then BITFIELD_SET c (lmprof_option_codes ! i)
                         else BITFIELD_CLEAR c (lmprof_option_codes ! i)))"
    using set_option_bool [OF ck b set] by blast
  have nz: "lmprof_option_codes ! i \<noteq> 0" using b bool_options_nonzero by metis
  show ?thesis
    using nz by (simp add: get_option_bool [OF ck b] t' v lmprof_getlibi_def lmprof_setlibi_def
                           luaL_checkinteger_def)
qed

text \<open>
  C37 (roundtrip): for every library option except \<^verbatim>\<open>hash_size\<close>, \<^verbatim>\<open>url\<close>
  and \<^verbatim>\<open>name\<close>, \<^verbatim>\<open>lmprof.get_option\<close> returns the boolean or integer that a successful
  \<^verbatim>\<open>lmprof.set_option\<close> stored.
\<close>

theorem set_get_option_roundtrip:
  assumes v: "v \<in> range LBool \<union> range LInt" and nm: "nm \<notin> {''hash_size'', ''url'', ''name''}"
    and set: "lmprof_set_option [LStr nm, v] t = Inr t'"
  shows "lmprof_get_option [LStr nm] t' = Inr [v]"
proof -
  obtain i where i: "list_index nm lmprof_option_strings = Some i"
    using set_option_index [OF set] by (auto simp: lua_arg_def checkoption_LStr)
  then have i20: "i < 20" and nmi: "nm = lmprof_option_strings ! i"
    using list_index_Some [OF i] by (auto simp: lmprof_option_strings_def)
  have ck: "luaL_checkoption None (lua_arg [LStr nm, v] 1) lmprof_option_strings = Inr i"
    using i checkoption_LStr by (simp add: lua_arg_def)
  have ex: "i \<noteq> 8" "i \<noteq> 12" "i \<noteq> 13"
    using nm nmi by (auto simp: lmprof_option_strings_def)
  have idx: "i \<in> {0, 1, 2, 4, 5, 6, 7, 10, 14, 15, 16, 18} \<or> i \<in> {3, 9, 11, 17, 19}"
    using i20 ex unfolding insert_iff empty_iff by presburger
  have "i \<in> {0, 1, 2, 4, 5, 6, 7, 10, 14, 15, 16, 18} \<Longrightarrow> lmprof_option_codes ! i \<in> set lib_bool_options"
    by (auto simp: option_code_defs)
  with idx consider "lmprof_option_codes ! i \<in> set lib_bool_options" | "i \<in> {3, 9, 11, 17, 19}"
    by blast
  then show ?thesis
  proof cases
    case 1
    then show ?thesis
      using set_get_bool_roundtrip [OF ck 1 set] get_option_arg1 [of "[LStr nm]" "[LStr nm, v]" t']
      by (simp add: lua_arg_def)
  next
    case 2
    then show ?thesis
      using set v ck
      by (auto simp: lmprof_set_option_def lmprof_get_option_def lua_arg_def option_code_defs
          lmprof_getlibi_def lmprof_setlibi_def luaL_checkinteger_def split: sum.splits if_splits)
  qed
qed

lemmas mode_defs = LMPROF_MODE_NONE_def LMPROF_MODE_TIME_def LMPROF_MODE_INSTRUMENT_def
  LMPROF_MODE_SAMPLE_def LMPROF_MODE_MEMORY_def LMPROF_MODE_TRACE_def LMPROF_MODE_LINE_def
  LMPROF_MODE_SINGLE_THREAD_def LMPROF_MODE_EXT_CALLBACK_def LMPROF_CALLBACK_MASK_def
  LMPROF_LUA_MODE_MASK_def

lemma parsemode_checks:
  assumes "lmprof_parsemode args = Inr m"
  shows "BITFIELD_TEST m LMPROF_LUA_MODE_MASK" "\<not> NOT_ONLY_MODE m LMPROF_MODE_TIME"
    "\<not> (BITFIELD_IS m (LMPROF_MODE_SAMPLE OR LMPROF_MODE_MEMORY) \<and> \<not> BITFIELD_TEST m LMPROF_MODE_INSTRUMENT)"
    "\<not> (BITFIELD_IS m (LMPROF_MODE_SAMPLE OR LMPROF_MODE_LINE) \<and> \<not> BITFIELD_TEST m LMPROF_MODE_INSTRUMENT)"
  using assms by (auto simp: lmprof_parsemode_def split: sum.splits if_splits)

lemma time_others: "NOT LMPROF_MODE_TIME AND LMPROF_LUA_MODE_MASK =
    LMPROF_MODE_INSTRUMENT OR LMPROF_MODE_SAMPLE OR LMPROF_MODE_MEMORY OR LMPROF_MODE_TRACE"
  by (simp add: mode_defs)

lemma mode_single_bits:
  "BITFIELD_IS m LMPROF_MODE_SAMPLE \<longleftrightarrow> BITFIELD_TEST m LMPROF_MODE_SAMPLE"
  "BITFIELD_IS m LMPROF_MODE_MEMORY \<longleftrightarrow> BITFIELD_TEST m LMPROF_MODE_MEMORY"
  "BITFIELD_IS m LMPROF_MODE_LINE \<longleftrightarrow> BITFIELD_TEST m LMPROF_MODE_LINE"
  using BITFIELD_IS_pow2 [of 2 m] BITFIELD_IS_pow2 [of 3 m] BITFIELD_IS_pow2 [of 5 m]
  by (simp_all add: mode_defs)

text \<open>
  C36 (safety): a mode word \<^verbatim>\<open>lmprof_parsemode\<close> accepts has a script-visible mode, \<^verbatim>\<open>time\<close>
  excludes the other script-visible modes, and \<^verbatim>\<open>sample\<close> without \<^verbatim>\<open>instrument\<close> excludes
  \<^verbatim>\<open>memory\<close> and \<^verbatim>\<open>lines\<close>.
\<close>

theorem parsemode_valid:
  assumes "lmprof_parsemode args = Inr m"
  shows "BITFIELD_TEST m LMPROF_LUA_MODE_MASK \<and>
    (BITFIELD_TEST m LMPROF_MODE_TIME \<longrightarrow>
       \<not> BITFIELD_TEST m LMPROF_MODE_INSTRUMENT \<and> \<not> BITFIELD_TEST m LMPROF_MODE_SAMPLE \<and>
       \<not> BITFIELD_TEST m LMPROF_MODE_MEMORY \<and> \<not> BITFIELD_TEST m LMPROF_MODE_TRACE) \<and>
    (BITFIELD_TEST m LMPROF_MODE_SAMPLE \<and> \<not> BITFIELD_TEST m LMPROF_MODE_INSTRUMENT \<longrightarrow>
       \<not> BITFIELD_TEST m LMPROF_MODE_MEMORY \<and> \<not> BITFIELD_TEST m LMPROF_MODE_LINE)"
proof -
  note c = parsemode_checks [OF assms]
  have time: "\<not> BITFIELD_TEST m (LMPROF_MODE_INSTRUMENT OR LMPROF_MODE_SAMPLE OR LMPROF_MODE_MEMORY OR LMPROF_MODE_TRACE)"
    if "BITFIELD_TEST m LMPROF_MODE_TIME"
    using c(2) that unfolding NOT_ONLY_MODE_def time_others by blast
  have sub: "BITFIELD_TEST m x \<Longrightarrow> x AND (LMPROF_MODE_INSTRUMENT OR LMPROF_MODE_SAMPLE OR LMPROF_MODE_MEMORY OR LMPROF_MODE_TRACE) = x
             \<Longrightarrow> BITFIELD_TEST m (LMPROF_MODE_INSTRUMENT OR LMPROF_MODE_SAMPLE OR LMPROF_MODE_MEMORY OR LMPROF_MODE_TRACE)" for x
    by (rule BITFIELD_TEST_mono)
  have "BITFIELD_TEST m LMPROF_MODE_TIME \<longrightarrow>
       \<not> BITFIELD_TEST m LMPROF_MODE_INSTRUMENT \<and> \<not> BITFIELD_TEST m LMPROF_MODE_SAMPLE \<and>
       \<not> BITFIELD_TEST m LMPROF_MODE_MEMORY \<and> \<not> BITFIELD_TEST m LMPROF_MODE_TRACE"
    using time sub [of LMPROF_MODE_INSTRUMENT] sub [of LMPROF_MODE_SAMPLE] sub [of LMPROF_MODE_MEMORY]
      sub [of LMPROF_MODE_TRACE] by (auto simp: mode_defs)
  moreover have "BITFIELD_TEST m LMPROF_MODE_SAMPLE \<and> \<not> BITFIELD_TEST m LMPROF_MODE_INSTRUMENT \<longrightarrow>
       \<not> BITFIELD_TEST m LMPROF_MODE_MEMORY \<and> \<not> BITFIELD_TEST m LMPROF_MODE_LINE"
    using c(3) c(4) unfolding BITFIELD_IS_OR mode_single_bits by blast
  ultimately show ?thesis using c(1) by blast
qed

theorem parsemode_valid_witness:
  "lmprof_parsemode [LStr ''instrument'', LStr ''memory''] = Inr 10 \<and>
   BITFIELD_TEST (10::flags32) LMPROF_LUA_MODE_MASK"
  using parsemode_valid [of "[LStr ''instrument'', LStr ''memory'']" 10]
  by (simp add: lmprof_parsemode_def luaL_checkoption_def luaL_checkstring_def lmprof_mode_strings_def
      lmprof_mode_codes_def mode_defs NOT_ONLY_MODE_def BITFIELD_TEST_def BITFIELD_IS_def)

lemma checkoption_errors:
  "luaL_checkoption d v lst = Inl e \<Longrightarrow> e \<in> {''invalid option'', ''string expected''}"
  by (auto simp: luaL_checkoption_def luaL_checkstring_def split: lua_value.splits option.splits sum.splits)

lemma checkoption_Inr: "luaL_checkoption d v lst = Inr i \<Longrightarrow> i < length lst"
  by (auto simp: luaL_checkoption_def dest!: list_index_Some split: sum.splits option.splits)

lemma mode_codes_no_ext: "i < length lmprof_mode_codes \<Longrightarrow> \<not> BITFIELD_TEST (lmprof_mode_codes ! i) LMPROF_MODE_EXT_CALLBACK"
  unfolding less_Suc_eq numeral_eq_Suc
  by (auto simp: lmprof_mode_codes_def mode_defs BITFIELD_TEST_def less_Suc_eq)

lemma parsemode_args_no_ext:
  "parsemode_args m vs = Inr m' \<Longrightarrow> \<not> BITFIELD_TEST m LMPROF_MODE_EXT_CALLBACK \<Longrightarrow>
   \<not> BITFIELD_TEST m' LMPROF_MODE_EXT_CALLBACK"
proof (induction vs arbitrary: m)
  case Nil
  then show ?case by simp
next
  case (Cons v vs)
  then obtain i where i: "luaL_checkoption (Some []) v lmprof_mode_strings = Inr i"
    and r: "parsemode_args (m OR lmprof_mode_codes ! i) vs = Inr m'"
    by (auto split: sum.splits)
  have "i < length lmprof_mode_codes"
    using checkoption_Inr [OF i] by (simp add: lmprof_mode_strings_def lmprof_mode_codes_def)
  then have "\<not> BITFIELD_TEST (m OR lmprof_mode_codes ! i) LMPROF_MODE_EXT_CALLBACK"
    using mode_codes_no_ext Cons.prems(2) by (simp add: BITFIELD_TEST_def bit.conj_disj_distrib2)
  then show ?case using Cons.IH r by blast
qed

lemma parsemode_args_errors:
  "parsemode_args m vs = Inl e \<Longrightarrow> e \<in> {''invalid option'', ''string expected''}"
  by (induction vs arbitrary: m) (auto split: sum.splits dest: checkoption_errors)

text \<open>
  The check that \<^verbatim>\<open>trace\<close> with \<^verbatim>\<open>sample\<close> needs \<^verbatim>\<open>single_thread\<close> never
  fires: it tests \<^verbatim>\<open>BITFIELD_IS(mode, LMPROF_CALLBACK_MASK | LMPROF_MODE_SAMPLE)\<close>, which needs
  the \<^verbatim>\<open>EXT_CALLBACK\<close> bit no mode string sets.
\<close>

theorem parsemode_trace_sample_unchecked:
  "lmprof_parsemode args \<noteq> Inl ''trace + sample instrumentation is only configured for single thread profiling''"
proof
  assume a: "lmprof_parsemode args = Inl ''trace + sample instrumentation is only configured for single thread profiling''"
  show False
  proof (cases "parsemode_args 0 (if args = [] then [LNil] else args)")
    case (Inl e)
    then show False using a parsemode_args_errors [OF Inl] by (simp add: lmprof_parsemode_def)
  next
    case (Inr m)
    have "\<not> BITFIELD_TEST m LMPROF_MODE_EXT_CALLBACK"
      using parsemode_args_no_ext [OF Inr] by (simp add: BITFIELD_TEST_def)
    then have "\<not> BITFIELD_IS m (LMPROF_CALLBACK_MASK OR LMPROF_MODE_SAMPLE)"
      using BITFIELD_IS_TEST [of m LMPROF_MODE_EXT_CALLBACK]
      by (auto simp: LMPROF_CALLBACK_MASK_def BITFIELD_IS_OR LMPROF_MODE_EXT_CALLBACK_def)
    then show False using a Inr by (simp add: lmprof_parsemode_def split: if_splits)
  qed
qed

text \<open>
  \<^verbatim>\<open>lmprof.get_option("hash_size")\<close> returns the stored instruction count,
  not the hashtable size a successful \<^verbatim>\<open>lmprof.set_option("hash_size", n)\<close> stored.
\<close>

theorem get_option_hash_size_reads_hook_count:
  assumes "lmprof_set_option [LStr ''hash_size'', v] t = Inr t'"
  shows "lmprof_get_option [LStr ''hash_size''] t' = Inr [t LMPROF_HOOK_COUNT] \<and>
         (\<exists>n. 1 \<le> n \<and> n \<le> int LMPROF_HASH_MAXSIZE \<and> t' LMPROF_HASHTABLE_SIZE = LInt n)"
  using assms
  by (auto simp: lmprof_set_option_def lmprof_get_option_def lua_arg_def luaL_checkoption_def
      luaL_checkstring_def lmprof_option_strings_def option_code_defs lmprof_setlibi_def
      LMPROF_HOOK_COUNT_def LMPROF_HASHTABLE_SIZE_def luaL_checkinteger_def
      split: sum.splits if_splits lua_value.splits option.splits)

theorem get_option_hash_size_reads_hook_count_witness:
  "lmprof_set_option [LStr ''hash_size'', LInt 100] (\<lambda>_. LNil) = Inr ((\<lambda>_. LNil)(LMPROF_HASHTABLE_SIZE := LInt 100)) \<and>
   lmprof_get_option [LStr ''hash_size''] ((\<lambda>_. LNil)(LMPROF_HASHTABLE_SIZE := LInt 100)) = Inr [LNil]"
proof -
  have s: "lmprof_set_option [LStr ''hash_size'', LInt 100] (\<lambda>_. LNil) = Inr ((\<lambda>_. LNil)(LMPROF_HASHTABLE_SIZE := LInt 100))"
    by (simp add: lmprof_set_option_def lua_arg_def luaL_checkoption_def luaL_checkstring_def
        lmprof_option_strings_def option_code_defs lmprof_setlibi_def luaL_checkinteger_def LMPROF_HASH_MAXSIZE_def)
  show ?thesis
    using get_option_hash_size_reads_hook_count [OF s] s by (simp add: LMPROF_HOOK_COUNT_def LMPROF_HASHTABLE_SIZE_def)
qed
theorem set_get_option_roundtrip_witness:
  "lmprof_set_option [LStr ''instructions'', LInt 5] (\<lambda>_. LNil) = Inr ((\<lambda>_. LNil)(LMPROF_HOOK_COUNT := LInt 5)) \<and>
   lmprof_get_option [LStr ''instructions''] ((\<lambda>_. LNil)(LMPROF_HOOK_COUNT := LInt 5)) = Inr [LInt 5]"
proof -
  have s: "lmprof_set_option [LStr ''instructions'', LInt 5] (\<lambda>_. LNil) = Inr ((\<lambda>_. LNil)(LMPROF_HOOK_COUNT := LInt 5))"
    by (simp add: lmprof_set_option_def lua_arg_def luaL_checkoption_def luaL_checkstring_def
        lmprof_option_strings_def option_code_defs lmprof_setlibi_def luaL_checkinteger_def)
  show ?thesis
    using set_get_option_roundtrip [OF _ _ s] s by simp
qed

end
