(* ===== verification/Profiler_State.thy ===== *)
theory Profiler_State
  imports Config Timeline
begin

text \<open>
  The profiler object \<^verbatim>\<open>lmprof_State\<close> (\<^verbatim>\<open>src/src/lmprof_state.h\<close>) and the parts
  of the host interpreter it changes, with the operations of \<^verbatim>\<open>src/src/lmprof.c\<close>
  and \<^verbatim>\<open>src/src/lmprof_lib.c\<close> that create, start, stop and tear it down.
  The host (\<open>lua_host\<close>) is the running thread, the registry entries the profiler
  reads and writes (library options, singleton, thread stacks), the garbage collector
  switch, the allocator slot and the debug hook of the running thread. Function
  pointers the code stores are datatypes of the functions the sources install. A Lua
  error (\<^verbatim>\<open>lua_error\<close>, \<^verbatim>\<open>luaL_error\<close>, \<^verbatim>\<open>lmprof_error\<close>) is an \<open>Inl\<close> carrying the
  message and the host and profiler as they are when the error propagates.
\<close>

unbundle bit_operations_syntax

section \<open>State flags and start-up codes (lmprof_state.h)\<close>

definition LMPROF_STATE_NONE :: flags32 where "LMPROF_STATE_NONE = 0x0"
definition LMPROF_STATE_PERSISTENT :: flags32 where "LMPROF_STATE_PERSISTENT = 0x1"
definition LMPROF_STATE_SETTING_UP :: flags32 where "LMPROF_STATE_SETTING_UP = 0x2"
definition LMPROF_STATE_RUNNING :: flags32 where "LMPROF_STATE_RUNNING = 0x4"
definition LMPROF_STATE_ERROR :: flags32 where "LMPROF_STATE_ERROR = 0x8"
definition LMPROF_STATE_IGNORE_ALLOC :: flags32 where "LMPROF_STATE_IGNORE_ALLOC = 0x10"
definition LMPROF_STATE_IGNORE_CALL :: flags32 where "LMPROF_STATE_IGNORE_CALL = 0x20"
definition LMPROF_STATE_GC_WAS_RUNNING :: flags32 where "LMPROF_STATE_GC_WAS_RUNNING = 0x40"

definition LMPROF_STARTUP_OK :: nat where "LMPROF_STARTUP_OK = 0x0"
definition LMPROF_STARTUP_ERROR :: nat where "LMPROF_STARTUP_ERROR = 0x1"
definition LMPROF_STARTUP_ERROR_RUNNING :: nat where "LMPROF_STARTUP_ERROR_RUNNING = 0x2"
definition LMPROF_STARTUP_ERROR_SINGLETON :: nat where "LMPROF_STARTUP_ERROR_SINGLETON = 0x4"

text \<open>The debug-hook event masks of the host (\<^verbatim>\<open>lua.h\<close>).\<close>

definition LUA_MASKCALL :: flags32 where "LUA_MASKCALL = 0x1"
definition LUA_MASKRET :: flags32 where "LUA_MASKRET = 0x2"
definition LUA_MASKLINE :: flags32 where "LUA_MASKLINE = 0x4"
definition LUA_MASKCOUNT :: flags32 where "LUA_MASKCOUNT = 0x8"

text \<open>Thread identifiers of the trace output (\<^verbatim>\<open>lmprof_traceevent.h\<close>).\<close>

definition LMPROF_THREAD_SAMPLE_TIMELINE :: int where "LMPROF_THREAD_SAMPLE_TIMELINE = 2"

definition LMPROF_THREAD_OFFSET :: "int \<Rightarrow> int" where
  "LMPROF_THREAD_OFFSET x = x + LMPROF_THREAD_SAMPLE_TIMELINE + 1"

text \<open>Defaults of the registry options (\<^verbatim>\<open>lmprof.h\<close>).\<close>

definition TRACE_EVENT_COUNTER_FREQ :: int where "TRACE_EVENT_COUNTER_FREQ = 20"
definition TRACE_EVENT_DEFAULT_THRESHOLD :: int where "TRACE_EVENT_DEFAULT_THRESHOLD = 1"

section \<open>Function pointers, host and profiler state\<close>

text \<open>
  The error handlers the sources pass to \<^verbatim>\<open>lmprof_new\<close> and the debug hooks they
  install; \<open>NULL\<close> is a constructor of its own.
\<close>

datatype lmprof_error_fn = ERROR_FN_NULL | LMPROF_DEFAULT_ERROR

datatype lmprof_hook_fn = HOOK_NULL | GRAPH_INSTRUMENT | GRAPH_SAMPLE | TRACEEVENT_INSTRUMENT

text \<open>The registry's singleton slot: empty, this profiler, or another one.\<close>

datatype singleton_slot = SINGLETON_NONE | SINGLETON_SELF | SINGLETON_OTHER

text \<open>
  The host: the running thread \<^verbatim>\<open>L\<close> and the main thread (threads are numbers),
  the library's registry subtable, the singleton slot, whether the collector runs,
  whether the allocator slot holds the profiler's trampoline, the debug hook of the
  running thread with its mask and count, the thread-stack table
  (\<^verbatim>\<open>LMPROF_TAB_THREAD_STACKS\<close>) in the order \<^verbatim>\<open>lua_next\<close> visits it, and the
  identifiers \<^verbatim>\<open>lmprof_thread_identifier\<close> assigns.
\<close>

record lua_host =
  h_current :: nat
  h_main :: nat
  h_lib :: lib_table
  h_singleton :: singleton_slot
  h_gc_running :: bool
  h_allocf_hooked :: bool
  h_hook :: lmprof_hook_fn
  h_hook_mask :: flags32
  h_hook_count :: int
  h_thread_stacks :: "(nat \<times> lmprof_stack) list"
  h_thread_ids :: "nat \<Rightarrow> int"

text \<open>
  \<^verbatim>\<open>struct lmprof_State\<close>: the \<^verbatim>\<open>hook\<close>, \<^verbatim>\<open>thread\<close> and \<^verbatim>\<open>i\<close> sub-structures
  are flattened with their prefix. The thread pointers are thread numbers; the call
  stack is the key of its entry in the host's stack table. The trace interface is the
  timeline its \<^verbatim>\<open>arg\<close> points to. Records live in the store \<open>i_store\<close>.
\<close>

record lmprof_state =
  mode :: flags32
  conf :: flags32
  state :: flags32
  on_error :: lmprof_error_fn
  hook_l_hook :: lmprof_hook_fn
  hook_flags :: flags32
  hook_line_count :: int
  thread_main :: "nat option"
  thread_mainproc :: event_process
  thread_r :: event_measurement
  thread_state :: "nat option"
  thread_call_stack :: "nat option"
  i_mask_count :: int
  i_instr_count :: lu_size
  i_hash_size :: lu_size
  i_calibration :: lu_time
  i_url :: "string option"
  i_name :: "string option"
  i_page_limit :: int
  i_counter_freq :: int
  i_event_threshold :: lu_time
  i_record_count :: lu_addr
  i_hash :: "lmprof_hash option"
  i_trace :: "timeline option"
  i_store :: record_store

text \<open>A raised Lua error: the message and the host and profiler when it propagates.\<close>

type_synonym 'a lres = "(string \<times> lua_host \<times> lmprof_state) + 'a"

text \<open>Sequencing of the fallible registry reads.\<close>

definition rbind :: "'a result \<Rightarrow> ('a \<Rightarrow> 'b result) \<Rightarrow> 'b result" where
  "rbind r f = (case r of Inl e \<Rightarrow> Inl e | Inr x \<Rightarrow> f x)"

section \<open>Creating the state (lmprof.c)\<close>

text \<open>
  \<^verbatim>\<open>lmprof_initialize_state(L, st, mode, error)\<close> over the memory \<open>st0\<close>: the fields
  it does not write (the trace interface outside the callback modes, the record store)
  keep what \<open>st0\<close> holds. With a thread (\<open>Some h\<close>) it reads the library's options
  from the registry, each read failing when the entry is not a number, and marks the
  next hook call to be ignored.
\<close>

definition lmprof_state_reset :: "lmprof_state \<Rightarrow> flags32 \<Rightarrow> lmprof_error_fn \<Rightarrow> lmprof_state" where
  "lmprof_state_reset st0 m err =
     (let mainproc = \<lparr>pid = LMPROF_PROCESS_MAIN, tid = LMPROF_THREAD_OFFSET 0\<rparr>
      in st0\<lparr>on_error := err, conf := 0, state := 0,
             hook_l_hook := HOOK_NULL, hook_flags := 0, hook_line_count := 0,
             thread_main := None, thread_mainproc := mainproc, thread_state := None,
             thread_call_stack := None,
             thread_r := \<lparr>proc = mainproc, s = unit_clear (s (thread_r st0)), overhead = 0\<rparr>,
             mode := (if BITFIELD_TEST m LMPROF_MODE_SINGLE_THREAD
                      then BITFIELD_CLEAR m LMPROF_MODE_MEMORY else m),
             i_mask_count := 0, i_instr_count := 0, i_hash_size := 0, i_calibration := 0,
             i_url := None, i_name := None, i_page_limit := 0, i_counter_freq := 0,
             i_event_threshold := 0, i_record_count := 0, i_hash := None,
             i_trace := (if BITFIELD_TEST m LMPROF_CALLBACK_MASK then None else i_trace st0)\<rparr>)"

definition lmprof_initialize_state ::
  "lua_host option \<Rightarrow> lmprof_state \<Rightarrow> flags32 \<Rightarrow> lmprof_error_fn \<Rightarrow> lmprof_state result" where
  "lmprof_initialize_state L st0 m err =
     (let st1 = lmprof_state_reset st0 m err
      in case L of
           None \<Rightarrow> Inr st1
         | Some h \<Rightarrow>
             let t = h_lib h;
                 lib_str = (\<lambda>k. case t k of LStr v \<Rightarrow> Some v | _ \<Rightarrow> None)
             in rbind (lmprof_getlibi t LMPROF_FLAGS (uint LMPROF_OPT_DEFAULT)) (\<lambda>c.
                rbind (lmprof_getlibi t LMPROF_PROCESS LMPROF_PROCESS_MAIN) (\<lambda>p.
                rbind (lmprof_getlibi t LMPROF_PAGE_LIMIT 0) (\<lambda>pl.
                rbind (lmprof_getlibi t LMPROF_COUNTERS_FREQ TRACE_EVENT_COUNTER_FREQ) (\<lambda>cf.
                rbind (lmprof_getlibi t LMPROF_HASHTABLE_SIZE (int LMPROF_HASH_SIZE)) (\<lambda>hs.
                rbind (lmprof_getlibi t LMPROF_THRESHOLD TRACE_EVENT_DEFAULT_THRESHOLD) (\<lambda>th.
                rbind (lmprof_getlibi t LMPROF_HOOK_COUNT 0) (\<lambda>hc.
                  let cnf = (word_of_int c :: flags32);
                      mp = \<lparr>pid = p, tid = (if BITFIELD_TEST cnf LMPROF_OPT_TRACE_LAYOUT_SPLIT
                                           then h_thread_ids h (h_main h) else LMPROF_THREAD_OFFSET 0)\<rparr>
                  in Inr (st1\<lparr>conf := cnf, thread_mainproc := mp,
                              thread_r := (thread_r st1)\<lparr>proc := mp\<rparr>,
                              i_page_limit := pl, i_counter_freq := cf, i_hash_size := word_of_int hs,
                              i_event_threshold := word_of_int th,
                              i_mask_count := sint (word_of_int hc :: 32 word),
                              i_calibration := 0, i_instr_count := 0,
                              i_url := lib_str LMPROF_URL, i_name := lib_str LMPROF_PROFILE_NAME,
                              state := BITFIELD_SET (state st1) LMPROF_STATE_IGNORE_CALL\<rparr>)))))))))"

section \<open>Registry singleton (lmprof.c)\<close>

text \<open>
  \<^verbatim>\<open>lmprof_check_can_profile\<close> refuses a second profiler and a thread that already
  has a debug hook; \<^verbatim>\<open>lmprof_register_singleton\<close> takes the empty slot and clears
  the thread-stack table; \<^verbatim>\<open>lmprof_clear_singleton\<close> empties both. Caching and
  restoring \<^verbatim>\<open>debug.sethook\<close> and sweeping the thread tables change nothing modelled.
\<close>

definition lmprof_check_can_profile :: "lua_host \<Rightarrow> unit result" where
  "lmprof_check_can_profile h =
     (if h_singleton h \<noteq> SINGLETON_NONE then Inl ''calling lmprof start function twice''
      else if h_hook h \<noteq> HOOK_NULL then Inl ''cannot safely debug.sethook''
      else Inr ())"

definition lmprof_register_singleton :: "lua_host \<Rightarrow> lua_host option" where
  "lmprof_register_singleton h =
     (if h_singleton h = SINGLETON_NONE then Some (h\<lparr>h_singleton := SINGLETON_SELF, h_thread_stacks := []\<rparr>)
      else None)"

definition lmprof_clear_singleton :: "lua_host \<Rightarrow> lua_host" where
  "lmprof_clear_singleton h = h\<lparr>h_singleton := SINGLETON_NONE, h_thread_stacks := []\<rparr>"

section \<open>Tearing down (lmprof.c, lmprof_lib.c)\<close>

text \<open>
  \<^verbatim>\<open>lmprof_clear_state\<close> frees the hashtable; a persistent profiler keeps its
  configuration and only forgets its thread, anything else is reset as by
  \<^verbatim>\<open>lmprof_initialize_state(NULL, st, 0, NULL)\<close> after freeing its strings.
\<close>

definition lmprof_clear_state :: "lmprof_state \<Rightarrow> lmprof_state" where
  "lmprof_clear_state st =
     (let st1 = st\<lparr>i_hash := None\<rparr>
      in if BITFIELD_TEST (state st1) LMPROF_STATE_PERSISTENT
         then st1\<lparr>thread_state := None, thread_call_stack := None,
                  thread_r := (thread_r st1)\<lparr>overhead := 0, proc := thread_mainproc st1,
                                            s := unit_clear (s (thread_r st1))\<rparr>\<rparr>
         else lmprof_state_reset (st1\<lparr>i_name := None, i_url := None\<rparr>) 0 ERROR_FN_NULL)"

text \<open>
  \<^verbatim>\<open>lmprof_clear_thread(L, st, NULL)\<close> for the running thread: when its hook is the
  profiler's, the thread's stack entry is removed and the hook reset.
\<close>

definition lmprof_clear_thread :: "lua_host \<Rightarrow> lmprof_state \<Rightarrow> lua_host" where
  "lmprof_clear_thread h st =
     (if h_hook h = hook_l_hook st
      then h\<lparr>h_thread_stacks := filter (\<lambda>e. fst e \<noteq> h_current h) (h_thread_stacks h),
             h_hook := HOOK_NULL, h_hook_mask := 0, h_hook_count := 0\<rparr>
      else h)"

text \<open>
  \<^verbatim>\<open>pop_remaining_stacks\<close>: in the graph modes every stack of the table is popped to
  empty through \<^verbatim>\<open>lmprof_stack_measured_pop\<close>, with the clock sample \<open>t\<close>. The
  inner loop runs \<^verbatim>\<open>head\<close> times, the fuel it is given; \<open>None\<close> is a pop the
  C code makes on a frame without a record (undefined behaviour).
\<close>

fun pop_stack_all ::
  "nat \<Rightarrow> lmprof_stack \<Rightarrow> record_store \<Rightarrow> event_unit \<Rightarrow> (lmprof_stack \<times> record_store) option" where
  "pop_stack_all 0 stk st u = Some (stk, st)"
| "pop_stack_all (Suc n) stk st u =
     (if head stk = 0 then Some (stk, st)
      else case lmprof_stack_measured_pop stk st u of
             None \<Rightarrow> None
           | Some (stk', st', _) \<Rightarrow> pop_stack_all n stk' st' u)"

fun pop_thread_stacks ::
  "(nat \<times> lmprof_stack) list \<Rightarrow> record_store \<Rightarrow> event_unit \<Rightarrow> ((nat \<times> lmprof_stack) list \<times> record_store) option" where
  "pop_thread_stacks [] st u = Some ([], st)"
| "pop_thread_stacks ((k, stk) # ts) st u =
     (case pop_stack_all (head stk) stk st u of
        None \<Rightarrow> None
      | Some (stk', st') \<Rightarrow>
          (case pop_thread_stacks ts st' u of
             None \<Rightarrow> None
           | Some (ts', st'') \<Rightarrow> Some ((k, stk') # ts', st'')))"

definition pop_remaining_stacks :: "lu_time \<Rightarrow> lua_host \<Rightarrow> lmprof_state \<Rightarrow> (lua_host \<times> lmprof_state) option" where
  "pop_remaining_stacks t h st =
     (if BITFIELD_TEST (mode st) LMPROF_MODE_TIME then Some (h, st)
      else if BITFIELD_TEST (mode st) LMPROF_CALLBACK_MASK then Some (h, st)
      else if BITFIELD_TEST (mode st) (LMPROF_MODE_INSTRUMENT OR LMPROF_MODE_MEMORY OR LMPROF_MODE_SAMPLE) then
        (let st1 = st\<lparr>thread_r := (thread_r st)\<lparr>s := (s (thread_r st))\<lparr>time := t\<rparr>\<rparr>\<rparr>
         in case pop_thread_stacks (h_thread_stacks h) (i_store st1) (s (thread_r st1)) of
              None \<Rightarrow> None
            | Some (ts, store) \<Rightarrow> Some (h\<lparr>h_thread_stacks := ts\<rparr>, st1\<lparr>i_store := store\<rparr>))
      else Some (h, st))"

text \<open>
  The part of \<^verbatim>\<open>lmprof_finalize_profiler\<close> after the optional popping: restore the
  allocator when it is the profiler's, restart a collector the profiler stopped, drop
  the running flags and detach the running thread's hook.
\<close>

definition lmprof_finalize_body :: "lua_host \<Rightarrow> lmprof_state \<Rightarrow> lua_host \<times> lmprof_state" where
  "lmprof_finalize_body h st =
     (let h1 = (if h_allocf_hooked h \<and> BITFIELD_TEST (mode st) LMPROF_MODE_MEMORY
                then h\<lparr>h_allocf_hooked := False\<rparr> else h);
          h2 = (if BITFIELD_TEST (state st) LMPROF_STATE_GC_WAS_RUNNING
                then h1\<lparr>h_gc_running := True\<rparr> else h1);
          st1 = st\<lparr>state := BITFIELD_CLEAR (state st)
                      (LMPROF_STATE_RUNNING OR LMPROF_STATE_SETTING_UP OR LMPROF_STATE_GC_WAS_RUNNING)\<rparr>;
          h3 = (if hook_l_hook st1 \<noteq> HOOK_NULL then lmprof_clear_thread h2 st1 else h2)
      in (h3, st1))"

definition lmprof_finalize_profiler ::
  "bool \<Rightarrow> lu_time \<Rightarrow> lua_host \<Rightarrow> lmprof_state \<Rightarrow> (lua_host \<times> lmprof_state) option" where
  "lmprof_finalize_profiler pop_remaining t h st =
     (if BITFIELD_TEST (state st) LMPROF_STATE_RUNNING then
        (if pop_remaining
         then map_option (\<lambda>(h1, st1). lmprof_finalize_body h1 st1) (pop_remaining_stacks t h st)
         else Some (lmprof_finalize_body h st))
      else Some (h, st))"

text \<open>\<^verbatim>\<open>lmprof_finalize_profiler(L, st, 0)\<close>, which never pops and so always returns.\<close>

definition lmprof_finalize_nopop :: "lua_host \<Rightarrow> lmprof_state \<Rightarrow> lua_host \<times> lmprof_state" where
  "lmprof_finalize_nopop h st =
     (if BITFIELD_TEST (state st) LMPROF_STATE_RUNNING then lmprof_finalize_body h st else (h, st))"

text \<open>\<^verbatim>\<open>lmprof_shutdown_profiler\<close>: free the trace interface, clear the state, and give up the singleton.\<close>

definition lmprof_shutdown_profiler :: "lua_host \<Rightarrow> lmprof_state \<Rightarrow> lua_host \<times> lmprof_state" where
  "lmprof_shutdown_profiler h st =
     (let st1 = (if BITFIELD_TEST (mode st) LMPROF_CALLBACK_MASK then st\<lparr>i_trace := None\<rparr> else st);
          st2 = lmprof_clear_state st1
      in (if h_singleton h = SINGLETON_SELF then lmprof_clear_singleton h else h, st2))"

definition lmprof_default_error :: "lua_host \<Rightarrow> lmprof_state \<Rightarrow> lua_host \<times> lmprof_state" where
  "lmprof_default_error h st =
     (let (h1, st1) = lmprof_finalize_nopop h st;
          (h2, st2) = lmprof_shutdown_profiler h1 st1
      in (h2, if BITFIELD_TEST (state st2) LMPROF_STATE_PERSISTENT
              then st2\<lparr>state := BITFIELD_CLEAR (state st2) LMPROF_STATE_ERROR\<rparr> else st2))"

text \<open>
  \<^verbatim>\<open>lmprof_error\<close>: mark the profiler as failed, run its error handler, then raise;
  \<^verbatim>\<open>luaL_error\<close> raises without touching the profiler.
\<close>

definition lmprof_error :: "lua_host \<Rightarrow> lmprof_state \<Rightarrow> string \<Rightarrow> 'a lres" where
  "lmprof_error h st msg =
     (let st1 = st\<lparr>state := BITFIELD_SET (state st) (LMPROF_STATE_ERROR OR LMPROF_STATE_IGNORE_ALLOC)\<rparr>
      in case on_error st1 of
           ERROR_FN_NULL \<Rightarrow> Inl (msg, h, st1)
         | LMPROF_DEFAULT_ERROR \<Rightarrow> (let (h2, st2) = lmprof_default_error h st1 in Inl (msg, h2, st2)))"

definition luaL_error :: "lua_host \<Rightarrow> lmprof_state \<Rightarrow> string \<Rightarrow> 'a lres" where
  "luaL_error h st msg = Inl (msg, h, st)"

section \<open>Thread stacks (lmprof.c)\<close>

text \<open>
  What the interpreter shows \<^verbatim>\<open>lmprof_thread_stacktable_get\<close> when it builds a stack:
  the memory \<^verbatim>\<open>lmprof_stack_new\<close> obtains, the fetch environment of the root record,
  and the traceback from \<^verbatim>\<open>lua_lastlevel\<close> down to level 0, each level with the
  identifier \<^verbatim>\<open>lmprof_record_id\<close> derives (\<open>None\<close> when \<^verbatim>\<open>lua_getstack\<close>
  fails), its tail-call flag and the fetch environment of its record.
\<close>

record load_frame =
  lf_fid :: "lu_addr option"
  lf_tail :: bool
  lf_env :: fetch_env

record stack_env =
  se_raw :: lmprof_stack
  se_root :: fetch_env
  se_frames :: "load_frame list"

definition host_stack :: "lua_host \<Rightarrow> nat \<Rightarrow> lmprof_stack option" where
  "host_stack h k = map_of (h_thread_stacks h) k"

text \<open>\<^verbatim>\<open>lua_rawset\<close> of a thread's stack: replaces its entry, or appends a new one.\<close>

definition host_set_stack :: "lua_host \<Rightarrow> nat \<Rightarrow> lmprof_stack \<Rightarrow> lua_host" where
  "host_set_stack h k stk =
     h\<lparr>h_thread_stacks :=
         (if k \<in> fst ` set (h_thread_stacks h)
          then map (\<lambda>e. if fst e = k then (k, stk) else e) (h_thread_stacks h)
          else h_thread_stacks h @ [(k, stk)])\<rparr>"

text \<open>
  \<^verbatim>\<open>lmprof_fetch_record\<close> on the profiler's table and counter. A missing table
  (\<^verbatim>\<open>lmprof_hash_create\<close> failed and nobody checked) is dereferenced: \<open>None\<close>.
  A failed allocation raises through \<^verbatim>\<open>lmprof_error\<close>.
\<close>

definition st_fetch_record ::
  "fetch_env \<Rightarrow> lu_addr \<Rightarrow> lu_addr \<Rightarrow> lua_host \<Rightarrow> lmprof_state \<Rightarrow> (lmprof_state \<times> ref) lres option" where
  "st_fetch_record e fid parent h st =
     (case i_hash st of
        None \<Rightarrow> None
      | Some hs \<Rightarrow>
          Some (case lmprof_fetch_record e (i_store st) hs (i_record_count st) fid parent of
                  Inl msg \<Rightarrow> lmprof_error h st msg
                | Inr (store', hs', rc', r) \<Rightarrow>
                    Inr (st\<lparr>i_store := store', i_hash := Some hs', i_record_count := rc'\<rparr>, r)))"

text \<open>The push \<^verbatim>\<open>lmprof_thread_stacktable_get\<close> makes: a trace or a graph frame; a full stack drops it.\<close>

definition stack_push_record :: "lmprof_stack \<Rightarrow> ref \<Rightarrow> lmprof_state \<Rightarrow> bool \<Rightarrow> lmprof_stack" where
  "stack_push_record stk r st tail =
     (if callback_api stk then fst (lmprof_stack_event_push stk r (thread_r st) tail)
      else fst (lmprof_stack_measured_push stk r (s (thread_r st)) tail))"

fun load_stack_frames ::
  "load_frame list \<Rightarrow> lu_addr \<Rightarrow> lua_host \<Rightarrow> lmprof_state \<Rightarrow> nat \<Rightarrow> lmprof_stack
   \<Rightarrow> (lmprof_state \<times> lmprof_stack) lres option" where
  "load_stack_frames [] last_fid h st k stk = Some (Inr (st, stk))"
| "load_stack_frames (f # fs) last_fid h st k stk =
     (let fid = (case lf_fid f of Some x \<Rightarrow> x | None \<Rightarrow> LMPROF_RECORD_ID_UNKNOWN)
      in case st_fetch_record (lf_env f) fid last_fid (host_set_stack h k stk) st of
           None \<Rightarrow> None
         | Some (Inl err) \<Rightarrow> Some (Inl err)
         | Some (Inr (st1, r)) \<Rightarrow> load_stack_frames fs fid h st1 k (stack_push_record stk r st1 (lf_tail f)))"

text \<open>
  \<^verbatim>\<open>lmprof_thread_stacktable_get(L, st)\<close>: the running thread's stack, created on
  first sight with the root record pushed and, under \<^verbatim>\<open>LMPROF_OPT_LOAD_STACK\<close>, the
  thread's traceback. The result is the key of the stack in the table.
\<close>

definition lmprof_thread_stacktable_get ::
  "stack_env \<Rightarrow> lua_host \<Rightarrow> lmprof_state \<Rightarrow> (lua_host \<times> lmprof_state \<times> nat) lres option" where
  "lmprof_thread_stacktable_get e h st =
     (let k = h_current h in
      if host_stack h k \<noteq> None then Some (Inr (h, st, k))
      else
        let cb = BITFIELD_TEST (mode st) LMPROF_CALLBACK_MASK;
            stk0 = the (setup_stack (Some (se_raw e)) (h_thread_ids h k) cb);
            stk1 = stk0\<lparr>instr_last := time (s (thread_r st))\<rparr>
        in case st_fetch_record (se_root e) LMPROF_RECORD_ID_ROOT LMPROF_RECORD_ID_ROOT
                  (host_set_stack h k stk1) st of
             None \<Rightarrow> None
           | Some (Inl err) \<Rightarrow> Some (Inl err)
           | Some (Inr (st1, r)) \<Rightarrow>
               let stk2 = stack_push_record stk1 r st1 False
               in if BITFIELD_TEST (conf st1) LMPROF_OPT_LOAD_STACK then
                    (case load_stack_frames (se_frames e) LMPROF_RECORD_ID_ROOT h st1 k stk2 of
                       None \<Rightarrow> None
                     | Some (Inl err) \<Rightarrow> Some (Inl err)
                     | Some (Inr (st2, stk3)) \<Rightarrow> Some (Inr (host_set_stack h k stk3, st2, k)))
                  else Some (Inr (host_set_stack h k stk2, st1, k)))"

text \<open>
  \<^verbatim>\<open>lmprof_initialize_thread(L, st, NULL)\<close> for the running thread: unless its hook
  is already the profiler's, preallocate its stack when instrumenting and install the
  hook. The thread identifier it changes around the allocation is restored before it
  returns.
\<close>

definition lmprof_initialize_thread ::
  "stack_env \<Rightarrow> lua_host \<Rightarrow> lmprof_state \<Rightarrow> (lua_host \<times> lmprof_state) lres option" where
  "lmprof_initialize_thread e h st =
     (if h_hook h = hook_l_hook st then Some (Inr (h, st))
      else
        let sethook = (\<lambda>h1. h1\<lparr>h_hook := hook_l_hook st, h_hook_mask := hook_flags st,
                               h_hook_count := hook_line_count st\<rparr>)
        in if BITFIELD_TEST (mode st) LMPROF_MODE_INSTRUMENT then
             (case lmprof_thread_stacktable_get e h st of
                None \<Rightarrow> None
              | Some (Inl err) \<Rightarrow> Some (Inl err)
              | Some (Inr (h1, st1, _)) \<Rightarrow> Some (Inr (sethook h1, st1)))
           else Some (Inr (sethook h, st)))"

section \<open>Starting (lmprof_lib.c)\<close>

text \<open>
  \<^verbatim>\<open>lmprof_initialize_profiler(L, st, idx, fhook, ahook)\<close> with the clock sample \<open>t\<close>:
  refuse a running or failed profiler and a taken singleton, otherwise set the state
  flags, stop the collector when asked, compute the hook mask from the mode and install
  the hook on the running thread, and take the allocator in memory mode. The
  \<^verbatim>\<open>LMPROF_OPT_GC_COUNT_INIT\<close> block is not modelled (the macro is not defined),
  nor are the threads other than the running one that \<^verbatim>\<open>EACH_THREAD\<close> visits. The
  trace sampler is present exactly when the timeline is.
\<close>

definition lmprof_hook_mask :: "lmprof_state \<Rightarrow> flags32 \<times> int" where
  "lmprof_hook_mask st =
     (let m = mode st;
          f1 = (if BITFIELD_TEST m (LMPROF_MODE_INSTRUMENT OR LMPROF_MODE_MEMORY)
                then LUA_MASKCALL OR LUA_MASKRET else 0);
          f2 = (if BITFIELD_TEST m LMPROF_MODE_LINE then f1 OR LUA_MASKLINE else f1);
          valid = (0 < i_mask_count st \<and>
                   (BITFIELD_TEST m LMPROF_CALLBACK_MASK \<longrightarrow>
                      i_trace st \<noteq> None \<and> BITFIELD_TEST m LMPROF_MODE_SINGLE_THREAD))
      in if BITFIELD_TEST m LMPROF_MODE_SAMPLE \<and> valid then (f2 OR LUA_MASKCOUNT, i_mask_count st)
         else (f2, 0))"

text \<open>
  The steps of \<^verbatim>\<open>lmprof_initialize_profiler\<close> after the singleton is registered:
  the state flags, the clock re-initialisation, the main thread, the first clock
  sample and the timeline's base time; then stopping the collector; at the end taking
  the allocator and leaving the set-up phase.
\<close>

definition startup_prepare :: "lu_time \<Rightarrow> lua_host \<Rightarrow> lmprof_state \<Rightarrow> lmprof_state" where
  "startup_prepare t h st =
     (let st1 = st\<lparr>state := BITFIELD_SET (BITFIELD_CLEAR (state st)
                         (LMPROF_STATE_GC_WAS_RUNNING OR LMPROF_STATE_IGNORE_ALLOC OR LMPROF_STATE_IGNORE_CALL))
                         (LMPROF_STATE_RUNNING OR LMPROF_STATE_SETTING_UP)\<rparr>;
          st2 = (if BITFIELD_TEST (conf st1) LMPROF_OPT_CLOCK_INIT
                 then st1\<lparr>conf := BITFIELD_CLEAR (conf st1) LMPROF_OPT_CLOCK_INIT\<rparr> else st1)
      in st2\<lparr>thread_main := Some (h_current h),
             thread_r := (thread_r st2)\<lparr>s := (s (thread_r st2))\<lparr>time := t\<rparr>\<rparr>,
             i_trace := (if BITFIELD_TEST (mode st2) LMPROF_MODE_TRACE
                         then map_option (\<lambda>tm. tm\<lparr>base_time := t\<rparr>) (i_trace st2)
                         else i_trace st2)\<rparr>)"

definition startup_gc :: "lua_host \<Rightarrow> lmprof_state \<Rightarrow> lua_host \<times> lmprof_state" where
  "startup_gc h st =
     (if BITFIELD_TEST (conf st) LMPROF_OPT_GC_DISABLE \<and> h_gc_running h
      then (h\<lparr>h_gc_running := False\<rparr>, st\<lparr>state := BITFIELD_SET (state st) LMPROF_STATE_GC_WAS_RUNNING\<rparr>)
      else (h, st))"

definition startup_finish :: "bool \<Rightarrow> lua_host \<Rightarrow> lmprof_state \<Rightarrow> nat \<times> lua_host \<times> lmprof_state" where
  "startup_finish ahook h st =
     (LMPROF_STARTUP_OK,
      (if BITFIELD_TEST (mode st) LMPROF_MODE_MEMORY then h\<lparr>h_allocf_hooked := ahook\<rparr> else h),
      st\<lparr>state := BITFIELD_CLEAR (state st) LMPROF_STATE_SETTING_UP\<rparr>)"

definition lmprof_initialize_profiler ::
  "stack_env \<Rightarrow> lu_time \<Rightarrow> lmprof_hook_fn \<Rightarrow> bool \<Rightarrow> lua_host \<Rightarrow> lmprof_state
   \<Rightarrow> (nat \<times> lua_host \<times> lmprof_state) lres option" where
  "lmprof_initialize_profiler e t fhook ahook h st =
     (if BITFIELD_TEST (state st) LMPROF_STATE_RUNNING then Some (Inr (LMPROF_STARTUP_ERROR_RUNNING, h, st))
      else if BITFIELD_TEST (state st) LMPROF_STATE_ERROR then Some (Inr (LMPROF_STARTUP_ERROR_RUNNING, h, st))
      else case lmprof_register_singleton h of
        None \<Rightarrow> Some (Inr (LMPROF_STARTUP_ERROR_SINGLETON, h, st))
      | Some h1 \<Rightarrow>
          (case startup_gc h1 (startup_prepare t h1 st) of
             (h2, st4) \<Rightarrow>
               if fhook \<noteq> HOOK_NULL then
                 (case lmprof_hook_mask st4 of
                    (fl, lc) \<Rightarrow>
                      (case lmprof_initialize_thread e h2
                              (st4\<lparr>hook_l_hook := fhook, hook_flags := fl, hook_line_count := lc\<rparr>) of
                         None \<Rightarrow> None
                       | Some (Inl err) \<Rightarrow> Some (Inl err)
                       | Some (Inr (h3, st6)) \<Rightarrow> Some (Inr (startup_finish ahook h3 st6))))
               else Some (Inr (startup_finish ahook h2 st4))))"

text \<open>
  What the interpreter decides while \<^verbatim>\<open>lmprof_initialize_default\<close> runs: the clock
  sample, whether the hashtable and the timeline allocations succeed, and the stack
  environment of the running thread.
\<close>

record start_env =
  sv_time :: lu_time
  sv_hash_ok :: bool
  sv_list_ok :: bool
  sv_page_ok :: bool
  sv_stack :: stack_env

text \<open>
  \<^verbatim>\<open>lmprof_initialize_only_hooks\<close>: choose the hooks for the mode, create the
  hashtable when there is none (its allocation is not checked), start, and turn a
  start-up code into a Lua error.
\<close>

definition lmprof_initialize_only_hooks ::
  "start_env \<Rightarrow> lua_host \<Rightarrow> lmprof_state \<Rightarrow> (lua_host \<times> lmprof_state) lres option" where
  "lmprof_initialize_only_hooks e h st =
     (let m = mode st;
          mk_hash = (\<lambda>st0. if i_hash st0 = None
                          then st0\<lparr>i_hash := lmprof_hash_create (sv_hash_ok e) (unat (i_hash_size st0))\<rparr> else st0);
          hooks = (if BITFIELD_TEST m LMPROF_MODE_TIME then Inr (HOOK_NULL, False, st)
                   else if BITFIELD_TEST m LMPROF_CALLBACK_MASK then
                     (if BITFIELD_TEST m (LMPROF_MODE_INSTRUMENT OR LMPROF_MODE_MEMORY OR LMPROF_MODE_SAMPLE)
                      then Inr (TRACEEVENT_INSTRUMENT, BITFIELD_TEST m LMPROF_MODE_MEMORY, mk_hash st)
                      else Inl ''Unknown trace mode'')
                   else if BITFIELD_TEST m (LMPROF_MODE_INSTRUMENT OR LMPROF_MODE_MEMORY OR LMPROF_MODE_SAMPLE) then
                     Inr (if BITFIELD_TEST m LMPROF_MODE_SAMPLE \<and> \<not> BITFIELD_TEST m LMPROF_MODE_INSTRUMENT
                          then GRAPH_SAMPLE else GRAPH_INSTRUMENT,
                          BITFIELD_TEST m LMPROF_MODE_MEMORY, mk_hash st)
                   else Inl ''Unknown profile mode'')
      in case hooks of
           Inl msg \<Rightarrow> Some (lmprof_error h st msg)
         | Inr (call, memory, st1) \<Rightarrow>
             (case lmprof_initialize_profiler (sv_stack e) (sv_time e) call memory h st1 of
                None \<Rightarrow> None
              | Some (Inl err) \<Rightarrow> Some (Inl err)
              | Some (Inr (code, h2, st2)) \<Rightarrow>
                  Some (if code = LMPROF_STARTUP_ERROR then luaL_error h2 st2 ''profiler in an invalid state''
                        else if code = LMPROF_STARTUP_ERROR_RUNNING then luaL_error h2 st2 ''profiler state already running''
                        else if code = LMPROF_STARTUP_ERROR_SINGLETON
                        then luaL_error h2 st2 ''could not register profiler singleton''
                        else Inr (h2, st2))))"

text \<open>
  \<^verbatim>\<open>lmprof_initialize_default\<close>: in trace mode create the timeline first (its
  \<^verbatim>\<open>baseTime\<close>, left unset by \<^verbatim>\<open>timeline_new\<close>, is written before it is read).
\<close>

definition lmprof_initialize_default ::
  "start_env \<Rightarrow> lua_host \<Rightarrow> lmprof_state \<Rightarrow> (lua_host \<times> lmprof_state) lres option" where
  "lmprof_initialize_default e h st =
     (if BITFIELD_TEST (mode st) LMPROF_MODE_TIME then lmprof_initialize_only_hooks e h st
      else if BITFIELD_TEST (mode st) LMPROF_MODE_TRACE then
        (case timeline_new (sv_list_ok e) (sv_page_ok e) (word_of_int (i_page_limit st)) 0 of
           None \<Rightarrow> Some (lmprof_error h st ''Unable to create a TraceEvent list'')
         | Some tm \<Rightarrow> lmprof_initialize_only_hooks e h (st\<lparr>i_trace := Some tm\<rparr>))
      else if BITFIELD_TEST (mode st) (LMPROF_MODE_INSTRUMENT OR LMPROF_MODE_MEMORY OR LMPROF_MODE_SAMPLE)
      then lmprof_initialize_only_hooks e h st
      else Some (lmprof_error h st ''Unknown profile mode''))"

section \<open>Library and profiler-object entry points (lmprof_lib.c)\<close>

text \<open>
  \<^verbatim>\<open>lmprof_new\<close> initialises fresh userdata memory \<open>st0\<close> with the default error
  handler. \<^verbatim>\<open>lmprof.create\<close> makes a persistent profiler, \<^verbatim>\<open>lmprof.start\<close> a
  transient one and starts it. Stopping (\<^verbatim>\<open>stop_profiler\<close>, lmprof_lib.c lines 828--834) runs
  \<^verbatim>\<open>lmprof_finalize_profiler(L, st, 1)\<close>, the report, and the shutdown. The report
  is the parameter \<open>report\<close> (\<^verbatim>\<open>lmprof_report\<close> of lmprof_report.c, composed in
  theory Lifecycle with its output argument): the value it leaves on the stack and the
  profiler afterwards, or the error it raises. A raised error leaves \<^verbatim>\<open>stop_profiler\<close>
  before the shutdown, with the finalised profiler still owning the singleton. Quitting
  skips the popping and the report.
\<close>

definition lmprof_new :: "lua_host \<Rightarrow> lmprof_state \<Rightarrow> flags32 \<Rightarrow> lmprof_state result" where
  "lmprof_new h st0 m = lmprof_initialize_state (Some h) st0 m LMPROF_DEFAULT_ERROR"

definition lmprof_create :: "lua_value list \<Rightarrow> lua_host \<Rightarrow> lmprof_state \<Rightarrow> lmprof_state result" where
  "lmprof_create args h st0 =
     rbind (lmprof_parsemode args) (\<lambda>m.
     rbind (lmprof_new h st0 m) (\<lambda>st.
       Inr (st\<lparr>state := BITFIELD_SET (state st) LMPROF_STATE_PERSISTENT\<rparr>)))"

definition lmprof_start ::
  "start_env \<Rightarrow> lua_value list \<Rightarrow> lua_host \<Rightarrow> lmprof_state \<Rightarrow> (lua_host \<times> lmprof_state) lres option" where
  "lmprof_start e args h st0 =
     (case rbind (lmprof_parsemode args) (\<lambda>m.
           rbind (lmprof_check_can_profile h) (\<lambda>_. lmprof_new h st0 m)) of
        Inl msg \<Rightarrow> Some (luaL_error h st0 msg)
      | Inr st \<Rightarrow> lmprof_initialize_default e h (st\<lparr>state := BITFIELD_CLEAR (state st) LMPROF_STATE_PERSISTENT\<rparr>))"

definition stop_profiler ::
  "(lmprof_state \<Rightarrow> ('v \<times> lmprof_state) result option) \<Rightarrow> lu_time \<Rightarrow> lua_host \<Rightarrow> lmprof_state
   \<Rightarrow> ('v \<times> lua_host \<times> lmprof_state) lres option" where
  "stop_profiler report t h st =
     (case lmprof_finalize_profiler True t h st of
        None \<Rightarrow> None
      | Some (h1, st1) \<Rightarrow>
          (case report st1 of
             None \<Rightarrow> None
           | Some (Inl msg) \<Rightarrow> Some (luaL_error h1 st1 msg)
           | Some (Inr (v, st2)) \<Rightarrow> Some (Inr (v, lmprof_shutdown_profiler h1 st2))))"

definition quit_profiler :: "lua_host \<Rightarrow> lmprof_state \<Rightarrow> lua_host \<times> lmprof_state" where
  "quit_profiler h st = (let (h1, st1) = lmprof_finalize_nopop h st in lmprof_shutdown_profiler h1 st1)"

definition state_get_valid :: "lua_host \<Rightarrow> lmprof_state \<Rightarrow> unit lres" where
  "state_get_valid h st =
     (if BITFIELD_TEST (state st) LMPROF_STATE_ERROR then luaL_error h st ''profiler in an invalid state.''
      else Inr ())"

definition state_start :: "start_env \<Rightarrow> lua_host \<Rightarrow> lmprof_state \<Rightarrow> (lua_host \<times> lmprof_state) lres option" where
  "state_start e h st =
     (case state_get_valid h st of
        Inl err \<Rightarrow> Some (Inl err)
      | Inr _ \<Rightarrow> (case lmprof_check_can_profile h of
                   Inl msg \<Rightarrow> Some (luaL_error h st msg)
                 | Inr _ \<Rightarrow> lmprof_initialize_default e h st))"

definition state_stop ::
  "(lmprof_state \<Rightarrow> ('v \<times> lmprof_state) result option) \<Rightarrow> lu_time \<Rightarrow> lua_host \<Rightarrow> lmprof_state
   \<Rightarrow> ('v \<times> lua_host \<times> lmprof_state) lres option" where
  "state_stop report t h st =
     (if h_singleton h = SINGLETON_SELF then stop_profiler report t h st
      else Some (luaL_error h st ''Could not stop profiler: profiler state inactive''))"

definition state_quit :: "lua_host \<Rightarrow> lmprof_state \<Rightarrow> lua_host \<times> lmprof_state" where
  "state_quit h st = (if h_singleton h = SINGLETON_SELF then quit_profiler h st else (h, st))"

definition state_gc :: "lua_host \<Rightarrow> lmprof_state \<Rightarrow> lua_host \<times> lmprof_state" where
  "state_gc h st =
     (let st1 = st\<lparr>state := BITFIELD_CLEAR (state st) LMPROF_STATE_PERSISTENT\<rparr>
      in quit_profiler h st1)"

text \<open>
  The profiler object's methods take the object as argument 1; \<open>args\<close> are the
  arguments after it, so C's argument \<open>k\<close> is \<open>lua_arg args (k - 1)\<close>.
  \<^verbatim>\<open>state_setmode\<close> ORs the codes of the mode names without the checks of
  \<^verbatim>\<open>lmprof_parsemode\<close>.
\<close>

definition state_setmode :: "lua_value list \<Rightarrow> lua_host \<Rightarrow> lmprof_state \<Rightarrow> lmprof_state lres" where
  "state_setmode args h st =
     (case state_get_valid h st of
        Inl err \<Rightarrow> Inl err
      | Inr _ \<Rightarrow>
          (case parsemode_args 0 (lua_arg args 1 # drop 1 args) of
             Inl msg \<Rightarrow> luaL_error h st msg
           | Inr m \<Rightarrow> Inr (st\<lparr>mode := m\<rparr>)))"

text \<open>The boolean options of \<^verbatim>\<open>state_setoption\<close> and \<^verbatim>\<open>state_getoption\<close>.\<close>

definition state_bool_options :: "flags32 list" where
  "state_bool_options =
     [LMPROF_OPT_GC_DISABLE, LMPROF_OPT_CLOCK_INIT, LMPROF_OPT_CLOCK_MICRO, LMPROF_OPT_LOAD_STACK,
      LMPROF_OPT_STACK_MISMATCH, LMPROF_OPT_COMPRESS_GRAPH, LMPROF_OPT_REPORT_VERBOSE,
      LMPROF_OPT_REPORT_STRING, LMPROF_OPT_LINE_FREQUENCY, LMPROF_OPT_TRACE_IGNORE_YIELD,
      LMPROF_OPT_TRACE_DRAW_FRAME, LMPROF_OPT_TRACE_LAYOUT_SPLIT, LMPROF_OPT_TRACE_ABOUT_TRACING,
      LMPROF_OPT_TRACE_COMPRESS]"

text \<open>\<^verbatim>\<open>lua_tostring\<close>: strings and numbers, \<open>NULL\<close> otherwise.\<close>

definition lua_tostring :: "lua_value \<Rightarrow> string option" where
  "lua_tostring v = (case v of LStr str \<Rightarrow> Some str | LInt i \<Rightarrow> Some (int_str i) | _ \<Rightarrow> None)"

definition state_setoption :: "lua_value list \<Rightarrow> lua_host \<Rightarrow> lmprof_state \<Rightarrow> lmprof_state lres" where
  "state_setoption args h st =
     (case state_get_valid h st of
        Inl err \<Rightarrow> Inl err
      | Inr _ \<Rightarrow>
      (case luaL_checkoption None (lua_arg args 1) lmprof_option_strings of
        Inl msg \<Rightarrow> luaL_error h st msg
      | Inr i \<Rightarrow>
          let opt = lmprof_option_codes ! i; v = lua_arg args 2;
              chk = (\<lambda>r f. case r of Inl msg \<Rightarrow> luaL_error h st msg | Inr x \<Rightarrow> f x)
          in if opt \<in> set state_bool_options then
               (case v of
                  LBool b \<Rightarrow> Inr (st\<lparr>conf := (if b then BITFIELD_SET (conf st) opt else BITFIELD_CLEAR (conf st) opt)\<rparr>)
                | _ \<Rightarrow> luaL_error h st ''boolean expected'')
             else if opt = LMPROF_OPT_INSTRUCTION_COUNT then
               chk (luaL_checkinteger v) (\<lambda>cnt.
                 if cnt > 0 then Inr (st\<lparr>i_mask_count := sint (word_of_int cnt :: 32 word)\<rparr>)
                 else luaL_error h st ''instruction count less-than/equal to zero'')
             else if opt = LMPROF_OPT_HASH_SIZE then
               chk (luaL_checkinteger v) (\<lambda>cnt.
                 if 1 \<le> cnt \<and> cnt \<le> int LMPROF_HASH_MAXSIZE then Inr (st\<lparr>i_hash_size := word_of_int cnt\<rparr>)
                 else luaL_error h st ''hashtable size is less-than/equal to zero'')
             else if opt = LMPROF_OPT_TRACE_PROCESS then
               chk (luaL_checkinteger v) (\<lambda>p. Inr (st\<lparr>thread_mainproc := (thread_mainproc st)\<lparr>pid := p\<rparr>\<rparr>))
             else if opt = LMPROF_OPT_TRACE_URL then Inr (st\<lparr>i_url := lua_tostring v\<rparr>)
             else if opt = LMPROF_OPT_TRACE_NAME then Inr (st\<lparr>i_name := lua_tostring v\<rparr>)
             else if opt = LMPROF_OPT_TRACE_PAGELIMIT then
               chk (luaL_checkinteger v) (\<lambda>pl. Inr (st\<lparr>i_page_limit := sint (word_of_int pl :: 64 word)\<rparr>))
             else if opt = LMPROF_OPT_TRACE_COUNTERS_FREQ then
               chk (luaL_checkinteger v) (\<lambda>cf. Inr (st\<lparr>i_counter_freq := cf\<rparr>))
             else if opt = LMPROF_OPT_TRACE_THRESHOLD then
               chk (luaL_checkinteger (lua_arg args 1)) (\<lambda>th.
                 if 0 \<le> th \<and> th \<le> 1024 * 1024 then Inr (st\<lparr>i_event_threshold := word_of_int th\<rparr>)
                 else luaL_error h st ''threshold not within [0, 1048576]'')
             else Inr st))"

definition state_getoption :: "lua_value list \<Rightarrow> lmprof_state \<Rightarrow> lua_value result" where
  "state_getoption args st =
     (case luaL_checkoption None (lua_arg args 1) lmprof_option_strings of
        Inl msg \<Rightarrow> Inl msg
      | Inr i \<Rightarrow>
          let opt = lmprof_option_codes ! i in
          Inr (if opt \<in> set state_bool_options then LBool (BITFIELD_TEST (conf st) opt)
               else if opt = LMPROF_OPT_INSTRUCTION_COUNT then LInt (i_mask_count st)
               else if opt = LMPROF_OPT_HASH_SIZE then LInt (sint (i_hash_size st))
               else if opt = LMPROF_OPT_TRACE_PROCESS then LInt (pid (thread_mainproc st))
               else if opt = LMPROF_OPT_TRACE_URL then LStr (case i_url st of None \<Rightarrow> [] | Some u \<Rightarrow> u)
               else if opt = LMPROF_OPT_TRACE_NAME then LStr (case i_name st of None \<Rightarrow> [] | Some u \<Rightarrow> u)
               else if opt = LMPROF_OPT_TRACE_PAGELIMIT then LInt (i_page_limit st)
               else if opt = LMPROF_OPT_TRACE_COUNTERS_FREQ then LInt (i_counter_freq st)
               else if opt = LMPROF_OPT_TRACE_THRESHOLD then LInt (sint (i_event_threshold st))
               else LNil))"

text \<open>
  The fetches \<^verbatim>\<open>lmprof_fetch_record\<close> makes change only the record store, the
  hashtable and the record counter of the profiler.
\<close>

definition fetch_upd :: "lmprof_state \<Rightarrow> lmprof_state \<Rightarrow> bool" where
  "fetch_upd st st' \<longleftrightarrow> (\<exists>a b c. st' = st\<lparr>i_store := a, i_hash := b, i_record_count := c\<rparr>)"

text \<open>A small host and a persistent memory-mode profiler, for the witnesses.\<close>

definition example_host :: lua_host where
  "example_host = \<lparr>h_current = 0, h_main = 0, h_lib = (\<lambda>_. LNil), h_singleton = SINGLETON_NONE,
     h_gc_running = True, h_allocf_hooked = False, h_hook = HOOK_NULL, h_hook_mask = 0, h_hook_count = 0,
     h_thread_stacks = [], h_thread_ids = (\<lambda>_. 3)\<rparr>"

definition example_profiler :: lmprof_state where
  "example_profiler = \<lparr>mode = LMPROF_MODE_MEMORY, conf = 0, state = LMPROF_STATE_PERSISTENT,
     on_error = LMPROF_DEFAULT_ERROR, hook_l_hook = HOOK_NULL, hook_flags = 0, hook_line_count = 0,
     thread_main = None, thread_mainproc = \<lparr>pid = 1, tid = 3\<rparr>,
     thread_r = \<lparr>proc = \<lparr>pid = 1, tid = 3\<rparr>, s = unit_zero, overhead = 0\<rparr>,
     thread_state = None, thread_call_stack = None, i_mask_count = 0, i_instr_count = 0,
     i_hash_size = 257, i_calibration = 0, i_url = None, i_name = None, i_page_limit = 0,
     i_counter_freq = 20, i_event_threshold = 1, i_record_count = 0,
     i_hash = Some \<lparr>bucket_count = 1, buckets = [[]]\<rparr>, i_trace = None, i_store = Map.empty\<rparr>"

section \<open>Lemmas\<close>

lemmas state_flag_defs = LMPROF_STATE_PERSISTENT_def LMPROF_STATE_SETTING_UP_def LMPROF_STATE_RUNNING_def
  LMPROF_STATE_ERROR_def LMPROF_STATE_IGNORE_ALLOC_def LMPROF_STATE_IGNORE_CALL_def LMPROF_STATE_GC_WAS_RUNNING_def

lemma finalize_nopop_state:
  "lmprof_finalize_nopop h st = (h', st') \<Longrightarrow>
   \<not> BITFIELD_TEST (state st') LMPROF_STATE_RUNNING \<and>
   (BITFIELD_TEST (state st') LMPROF_STATE_PERSISTENT \<longleftrightarrow> BITFIELD_TEST (state st) LMPROF_STATE_PERSISTENT)"
  by (auto simp: lmprof_finalize_nopop_def lmprof_finalize_body_def Let_def state_flag_defs
      BITFIELD_TEST_CLEAR_sub BITFIELD_TEST_CLEAR_other split: if_splits)

lemma shutdown_state:
  "lmprof_shutdown_profiler h st = (h', st') \<Longrightarrow>
   i_hash st' = None \<and> h_singleton h' \<noteq> SINGLETON_SELF \<and>
   (BITFIELD_TEST (state st) LMPROF_STATE_PERSISTENT \<longrightarrow> state st' = state st) \<and>
   (\<not> BITFIELD_TEST (state st) LMPROF_STATE_PERSISTENT \<longrightarrow> state st' = 0)"
  by (auto simp: lmprof_shutdown_profiler_def lmprof_clear_state_def lmprof_state_reset_def
      lmprof_clear_singleton_def Let_def split: if_splits)

text \<open>
  C30 (error): an error raised through \<^verbatim>\<open>lmprof_error\<close> with the default handler tears
  the profiler down as a stop without report does: it is no longer running, its
  hashtable is freed and the singleton released, and the \<^verbatim>\<open>ERROR\<close> flag is clear
  again, so the profiler is not left in an Error state.
\<close>

theorem lmprof_error_default_teardown:
  assumes "on_error st = LMPROF_DEFAULT_ERROR"
  shows "\<exists>h' st'. (lmprof_error h st msg :: 'a lres) = Inl (msg, h', st') \<and>
     \<not> BITFIELD_TEST (state st') LMPROF_STATE_RUNNING \<and> \<not> BITFIELD_TEST (state st') LMPROF_STATE_ERROR \<and>
     i_hash st' = None \<and> h_singleton h' \<noteq> SINGLETON_SELF"
proof -
  define st1 where "st1 = st\<lparr>state := BITFIELD_SET (state st) (LMPROF_STATE_ERROR OR LMPROF_STATE_IGNORE_ALLOC)\<rparr>"
  obtain h2 st2 where f: "lmprof_finalize_nopop h st1 = (h2, st2)" by fastforce
  obtain h3 st3 where sd: "lmprof_shutdown_profiler h2 st2 = (h3, st3)" by fastforce
  note F = finalize_nopop_state [OF f] and S = shutdown_state [OF sd]
  have e: "(lmprof_error h st msg :: 'a lres) = Inl (msg, h3,
      if BITFIELD_TEST (state st3) LMPROF_STATE_PERSISTENT
      then st3\<lparr>state := BITFIELD_CLEAR (state st3) LMPROF_STATE_ERROR\<rparr> else st3)"
  proof -
    have o: "on_error st1 = LMPROF_DEFAULT_ERROR" using assms by (simp add: st1_def)
    show ?thesis using o f sd by (simp add: lmprof_error_def lmprof_default_error_def st1_def[symmetric])
  qed
  show ?thesis
  proof (cases "BITFIELD_TEST (state st2) LMPROF_STATE_PERSISTENT")
    case True
    then show ?thesis using e F S by (simp add: state_flag_defs)
  next
    case False
    then show ?thesis using e F S by (simp add: BITFIELD_TEST_def)
  qed
qed


text \<open>
  The debug-hook mask \<^verbatim>\<open>lmprof_initialize_profiler\<close> installs asks for
  call and return events exactly in instrument or memory mode, for line events exactly in
  line mode, and for count events (with the instruction count) exactly in sample mode with
  a positive count and, for the callback modes, a sampler and single-thread profiling.
\<close>

theorem hook_mask_spec:
  "(BITFIELD_TEST (fst (lmprof_hook_mask st)) LUA_MASKCALL \<longleftrightarrow>
      BITFIELD_TEST (mode st) (LMPROF_MODE_INSTRUMENT OR LMPROF_MODE_MEMORY)) \<and>
   (BITFIELD_TEST (fst (lmprof_hook_mask st)) LUA_MASKLINE \<longleftrightarrow> BITFIELD_TEST (mode st) LMPROF_MODE_LINE) \<and>
   (BITFIELD_TEST (fst (lmprof_hook_mask st)) LUA_MASKCOUNT \<longleftrightarrow>
      BITFIELD_TEST (mode st) LMPROF_MODE_SAMPLE \<and> 0 < i_mask_count st \<and>
      (BITFIELD_TEST (mode st) LMPROF_CALLBACK_MASK \<longrightarrow>
         i_trace st \<noteq> None \<and> BITFIELD_TEST (mode st) LMPROF_MODE_SINGLE_THREAD)) \<and>
   snd (lmprof_hook_mask st) = (if BITFIELD_TEST (fst (lmprof_hook_mask st)) LUA_MASKCOUNT then i_mask_count st else 0)"
  by (auto simp: lmprof_hook_mask_def Let_def LUA_MASKCALL_def LUA_MASKRET_def LUA_MASKLINE_def LUA_MASKCOUNT_def
       BITFIELD_TEST_def bit.conj_disj_distrib2)

lemma fetch_upd_refl: "fetch_upd st st"
  unfolding fetch_upd_def by (rule exI[of _ "i_store st"], rule exI[of _ "i_hash st"], rule exI[of _ "i_record_count st"]) simp

lemma fetch_upd_trans: "fetch_upd a b \<Longrightarrow> fetch_upd b c \<Longrightarrow> fetch_upd a c"
  unfolding fetch_upd_def by (clarsimp, blast)

lemma st_fetch_record_Inr: "st_fetch_record e f p h st = Some (Inr (st', r)) \<Longrightarrow> fetch_upd st st'"
  by (auto simp: st_fetch_record_def fetch_upd_def lmprof_error_def Let_def
      split: option.splits sum.splits prod.splits lmprof_error_fn.splits)

lemma load_stack_frames_Inr:
  "load_stack_frames fs lf h st k stk = Some (Inr (st', stk')) \<Longrightarrow> fetch_upd st st'"
proof (induction fs arbitrary: lf st stk)
  case Nil
  then show ?case by (simp add: fetch_upd_refl)
next
  case (Cons f fs)
  then show ?case
    by (auto simp: Let_def split: option.splits sum.splits
        intro: fetch_upd_trans dest: st_fetch_record_Inr)
qed

lemma host_set_stack_sel [simp]:
  "h_current (host_set_stack h k stk) = h_current h" "h_singleton (host_set_stack h k stk) = h_singleton h"
  "h_hook (host_set_stack h k stk) = h_hook h" "h_gc_running (host_set_stack h k stk) = h_gc_running h"
  "h_allocf_hooked (host_set_stack h k stk) = h_allocf_hooked h"
  by (simp_all add: host_set_stack_def)

lemma stacktable_get_Inr:
  "lmprof_thread_stacktable_get e h st = Some (Inr (h', st', k)) \<Longrightarrow>
   fetch_upd st st' \<and> h_current h' = h_current h \<and> h_singleton h' = h_singleton h \<and>
   h_hook h' = h_hook h \<and> h_gc_running h' = h_gc_running h \<and> h_allocf_hooked h' = h_allocf_hooked h"
  by (auto simp: lmprof_thread_stacktable_get_def Let_def fetch_upd_refl
      split: if_splits option.splits sum.splits dest: st_fetch_record_Inr)
     (meson fetch_upd_trans st_fetch_record_Inr load_stack_frames_Inr)+

lemma initialize_thread_Inr:
  "lmprof_initialize_thread e h st = Some (Inr (h', st')) \<Longrightarrow>
   fetch_upd st st' \<and> h_current h' = h_current h \<and> h_singleton h' = h_singleton h \<and>
   h_hook h' = hook_l_hook st \<and> h_gc_running h' = h_gc_running h"
  by (auto simp: lmprof_initialize_thread_def Let_def fetch_upd_refl
      split: if_splits option.splits sum.splits dest: stacktable_get_Inr)

lemma fetch_upd_sel:
  "fetch_upd st st' \<Longrightarrow> state st' = state st \<and> mode st' = mode st \<and> conf st' = conf st \<and>
     thread_main st' = thread_main st \<and> hook_l_hook st' = hook_l_hook st \<and> on_error st' = on_error st"
  by (auto simp: fetch_upd_def)

lemma startup_prepare_sel:
  "BITFIELD_TEST (state (startup_prepare t h st)) LMPROF_STATE_RUNNING"
  "thread_main (startup_prepare t h st) = Some (h_current h)"
  "mode (startup_prepare t h st) = mode st" "on_error (startup_prepare t h st) = on_error st"
  by (simp_all add: startup_prepare_def Let_def BITFIELD_TEST_SET_sub state_flag_defs)

lemma startup_gc_sel:
  "startup_gc h st = (h', st') \<Longrightarrow>
   h_singleton h' = h_singleton h \<and> h_current h' = h_current h \<and> thread_main st' = thread_main st \<and>
   mode st' = mode st \<and> (BITFIELD_TEST (state st) LMPROF_STATE_RUNNING \<longrightarrow> BITFIELD_TEST (state st') LMPROF_STATE_RUNNING)"
  by (auto simp: startup_gc_def BITFIELD_TEST_SET_mono split: if_splits)

lemma startup_finish_sel:
  "startup_finish ah h st = (c, h', st') \<Longrightarrow>
   c = LMPROF_STARTUP_OK \<and> h_singleton h' = h_singleton h \<and> h_hook h' = h_hook h \<and> thread_main st' = thread_main st \<and>
   \<not> BITFIELD_TEST (state st') LMPROF_STATE_SETTING_UP \<and>
   (BITFIELD_TEST (state st') LMPROF_STATE_RUNNING \<longleftrightarrow> BITFIELD_TEST (state st) LMPROF_STATE_RUNNING)"
  by (auto simp: startup_finish_def state_flag_defs split: if_splits)

lemma initialize_profiler_ok:
  assumes run: "lmprof_initialize_profiler e t fh ah h st = Some (Inr (c, h', st'))"
    and nr: "\<not> BITFIELD_TEST (state st) LMPROF_STATE_RUNNING" "\<not> BITFIELD_TEST (state st) LMPROF_STATE_ERROR"
    and sg: "h_singleton h = SINGLETON_NONE"
  shows "c = LMPROF_STARTUP_OK \<and> h_singleton h' = SINGLETON_SELF \<and>
       BITFIELD_TEST (state st') LMPROF_STATE_RUNNING \<and> \<not> BITFIELD_TEST (state st') LMPROF_STATE_SETTING_UP \<and>
       thread_main st' = Some (h_current h) \<and> (fh \<noteq> HOOK_NULL \<longrightarrow> h_hook h' = fh)"
proof -
  define h1 where "h1 = h\<lparr>h_singleton := SINGLETON_SELF, h_thread_stacks := []\<rparr>"
  have reg: "lmprof_register_singleton h = Some h1" using sg by (simp add: lmprof_register_singleton_def h1_def)
  obtain h2 st4 where g: "startup_gc h1 (startup_prepare t h1 st) = (h2, st4)" by fastforce
  note G = startup_gc_sel [OF g] and P = startup_prepare_sel [of t h1 st]
  have st4: "h_singleton h2 = SINGLETON_SELF" "h_current h2 = h_current h" "thread_main st4 = Some (h_current h)"
    "BITFIELD_TEST (state st4) LMPROF_STATE_RUNNING"
    using G P by (simp_all add: h1_def)
  show ?thesis
  proof (cases "fh = HOOK_NULL")
    case True
    then have "startup_finish ah h2 st4 = (c, h', st')" using run nr by (simp add: lmprof_initialize_profiler_def reg g)
    then show ?thesis using st4 True by (auto dest: startup_finish_sel)
  next
    case False
    obtain fl lc where hm: "lmprof_hook_mask st4 = (fl, lc)" by fastforce
    define st5 where "st5 = st4\<lparr>hook_l_hook := fh, hook_flags := fl, hook_line_count := lc\<rparr>"
    from run nr False obtain h3 st6 where it: "lmprof_initialize_thread e h2 st5 = Some (Inr (h3, st6))"
      and fin: "startup_finish ah h3 st6 = (c, h', st')"
      by (auto simp: lmprof_initialize_profiler_def reg g hm st5_def[symmetric] split: option.splits sum.splits)
    note I = initialize_thread_Inr [OF it]
    have "state st6 = state st5" "thread_main st6 = thread_main st5" using fetch_upd_sel I by blast+
    then show ?thesis using startup_finish_sel [OF fin] I st4 by (simp add: st5_def)
  qed
qed

text \<open>
  C29 (functional): \<^verbatim>\<open>lmprof_initialize_profiler\<close> never returns
  \<^verbatim>\<open>LMPROF_STARTUP_ERROR\<close>: a failed profiler is reported as already running; it starts
  exactly when it is neither running nor failed and the singleton slot is free, and then
  it owns the singleton, runs, has left the set-up phase, records its main thread and has
  its hook installed on the running thread.
\<close>

theorem initialize_profiler_codes:
  assumes run: "lmprof_initialize_profiler e t fh ah h st = Some (Inr (c, h', st'))"
  shows "c \<noteq> LMPROF_STARTUP_ERROR \<and>
    (c = LMPROF_STARTUP_ERROR_RUNNING \<longleftrightarrow>
       BITFIELD_TEST (state st) LMPROF_STATE_RUNNING \<or> BITFIELD_TEST (state st) LMPROF_STATE_ERROR) \<and>
    (c = LMPROF_STARTUP_OK \<longleftrightarrow>
       \<not> BITFIELD_TEST (state st) LMPROF_STATE_RUNNING \<and> \<not> BITFIELD_TEST (state st) LMPROF_STATE_ERROR \<and>
       h_singleton h = SINGLETON_NONE) \<and>
    (c = LMPROF_STARTUP_OK \<longrightarrow>
       h_singleton h' = SINGLETON_SELF \<and>
       BITFIELD_TEST (state st') LMPROF_STATE_RUNNING \<and> \<not> BITFIELD_TEST (state st') LMPROF_STATE_SETTING_UP \<and>
       thread_main st' = Some (h_current h) \<and> (fh \<noteq> HOOK_NULL \<longrightarrow> h_hook h' = fh))"
proof (cases "BITFIELD_TEST (state st) LMPROF_STATE_RUNNING \<or> BITFIELD_TEST (state st) LMPROF_STATE_ERROR")
  case True
  then have "lmprof_initialize_profiler e t fh ah h st = Some (Inr (LMPROF_STARTUP_ERROR_RUNNING, h, st))"
    by (cases "BITFIELD_TEST (state st) LMPROF_STATE_RUNNING") (simp_all add: lmprof_initialize_profiler_def)
  then have "c = LMPROF_STARTUP_ERROR_RUNNING" using run by simp
  then show ?thesis using True
    by (auto simp: LMPROF_STARTUP_ERROR_RUNNING_def LMPROF_STARTUP_ERROR_def LMPROF_STARTUP_OK_def)
next
  case nr: False
  show ?thesis
  proof (cases "h_singleton h = SINGLETON_NONE")
    case False
    then have "c = LMPROF_STARTUP_ERROR_SINGLETON" using run nr
      by (auto simp: lmprof_initialize_profiler_def lmprof_register_singleton_def)
    then show ?thesis using nr False
      by (simp add: LMPROF_STARTUP_ERROR_SINGLETON_def LMPROF_STARTUP_ERROR_RUNNING_def
          LMPROF_STARTUP_ERROR_def LMPROF_STARTUP_OK_def)
  next
    case True
    then show ?thesis using initialize_profiler_ok [OF run] nr
      by (simp add: LMPROF_STARTUP_ERROR_RUNNING_def LMPROF_STARTUP_ERROR_def LMPROF_STARTUP_OK_def)
  qed
qed
lemma ex_run: "\<exists>c h' st'. lmprof_initialize_profiler undefined 7 GRAPH_INSTRUMENT True example_host example_profiler
      = Some (Inr (c, h', st'))"
  by (simp add: lmprof_initialize_profiler_def example_host_def example_profiler_def state_flag_defs
      BITFIELD_TEST_def lmprof_register_singleton_def startup_gc_def startup_prepare_def Let_def
      lmprof_initialize_thread_def lmprof_hook_mask_def mode_defs LMPROF_OPT_GC_DISABLE_def
      LMPROF_OPT_CLOCK_INIT_def BITFIELD_SET_def BITFIELD_CLEAR_def startup_finish_def split: prod.splits)

theorem initialize_profiler_codes_witness:
  "\<exists>h' st'. lmprof_initialize_profiler undefined 7 GRAPH_INSTRUMENT True example_host example_profiler
      = Some (Inr (LMPROF_STARTUP_OK, h', st')) \<and> h_hook h' = GRAPH_INSTRUMENT \<and>
      BITFIELD_TEST (state st') LMPROF_STATE_RUNNING"
proof -
  obtain c h' st' where r: "lmprof_initialize_profiler undefined 7 GRAPH_INSTRUMENT True example_host example_profiler
      = Some (Inr (c, h', st'))" using ex_run by blast
  have pre: "\<not> BITFIELD_TEST (state example_profiler) LMPROF_STATE_RUNNING"
    "\<not> BITFIELD_TEST (state example_profiler) LMPROF_STATE_ERROR" "h_singleton example_host = SINGLETON_NONE"
    by (simp_all add: example_profiler_def example_host_def state_flag_defs BITFIELD_TEST_def)
  show ?thesis using initialize_profiler_codes [OF r] pre r by auto
qed

theorem lmprof_error_default_teardown_witness:
  "\<exists>h' st'. (lmprof_error example_host example_profiler ''profiler stack overflow'' :: unit lres)
      = Inl (''profiler stack overflow'', h', st') \<and> \<not> BITFIELD_TEST (state st') LMPROF_STATE_ERROR"
  using lmprof_error_default_teardown [of example_profiler example_host "''profiler stack overflow''"]
  by (auto simp: example_profiler_def)
lemma state_setoption_index:
  "state_setoption args h st = Inr st' \<Longrightarrow>
   \<exists>i. luaL_checkoption None (lua_arg args 1) lmprof_option_strings = Inr i"
  by (cases "state_get_valid h st"; cases "luaL_checkoption None (lua_arg args 1) lmprof_option_strings")
     (simp_all add: state_setoption_def luaL_error_def)

lemma state_setoption_valid:
  "state_setoption args h st = Inr st' \<Longrightarrow> state_get_valid h st = Inr ()"
  by (cases "state_get_valid h st") (simp_all add: state_setoption_def)

lemma state_getoption_arg1:
  "lua_arg args 1 = lua_arg args' 1 \<Longrightarrow> state_getoption args st = state_getoption args' st"
  by (simp add: state_getoption_def)

lemma state_bool_options_nonzero: "0 \<notin> set state_bool_options"
  by (simp add: state_bool_options_def option_code_defs LMPROF_OPT_COMPRESS_GRAPH_def LMPROF_OPT_REPORT_STRING_def)

lemma state_setoption_bool:
  assumes ck: "luaL_checkoption None (lua_arg args 1) lmprof_option_strings = Inr i"
    and b: "lmprof_option_codes ! i \<in> set state_bool_options"
    and set: "state_setoption args h st = Inr st'"
  shows "\<exists>bv. lua_arg args 2 = LBool bv \<and>
           st' = st\<lparr>conf := (if bv then BITFIELD_SET (conf st) (lmprof_option_codes ! i)
                              else BITFIELD_CLEAR (conf st) (lmprof_option_codes ! i))\<rparr>"
proof -
  show ?thesis using state_setoption_valid [OF set]
    using set ck b by (cases "lua_arg args 2") (simp_all add: state_setoption_def luaL_error_def Let_def)
qed

lemma state_set_get_bool_roundtrip:
  assumes ck: "luaL_checkoption None (lua_arg args 1) lmprof_option_strings = Inr i"
    and b: "lmprof_option_codes ! i \<in> set state_bool_options"
    and set: "state_setoption args h st = Inr st'"
  shows "state_getoption args st' = Inr (lua_arg args 2)"
proof -
  obtain bv where v: "lua_arg args 2 = LBool bv"
    and st': "st' = st\<lparr>conf := (if bv then BITFIELD_SET (conf st) (lmprof_option_codes ! i)
                              else BITFIELD_CLEAR (conf st) (lmprof_option_codes ! i))\<rparr>"
    using state_setoption_bool [OF ck b set] by blast
  have nz: "lmprof_option_codes ! i \<noteq> 0" using b state_bool_options_nonzero by metis
  show ?thesis
    using ck b nz by (simp add: state_getoption_def st' v Let_def BITFIELD_TEST_SET_sub BITFIELD_TEST_CLEAR_sub)
qed


lemma state_set_get_int_roundtrip:
  assumes set: "state_setoption [LStr nm, LInt n] h st = Inr st'"
    and ck1: "luaL_checkoption None (LStr nm) lmprof_option_strings = Inr i"
    and n: "- (2 ^ 31) \<le> n" "n < 2 ^ 31" and i: "i \<in> {3, 8, 9, 11, 17}"
  shows "state_getoption [LStr nm] st' = Inr (LInt n)"
proof -
  have nb: "lmprof_option_codes ! i \<notin> set state_bool_options"
    using i by (auto simp: option_code_defs state_bool_options_def LMPROF_OPT_COMPRESS_GRAPH_def LMPROF_OPT_REPORT_STRING_def)
  from i consider "i = 3" | "i = 8" | "i = 9" | "i = 11" | "i = 17" by blast
  then show ?thesis using set ck1 n nb
    by cases (auto simp: state_setoption_def state_getoption_def lua_arg_def state_get_valid_def Let_def luaL_error_def
          luaL_checkinteger_def option_code_defs sint_small LMPROF_HASH_MAXSIZE_def split: if_splits)
qed

text \<open>
  On a live profiler, every option of \<^verbatim>\<open>profiler:set_option\<close> except
  \<^verbatim>\<open>url\<close>, \<^verbatim>\<open>name\<close> and \<^verbatim>\<open>threshold\<close> reads back, through
  \<^verbatim>\<open>profiler:get_option\<close>, the boolean or the 32-bit integer that was set successfully.
\<close>

theorem state_set_get_option_roundtrip:
  assumes v: "v \<in> range LBool \<union> LInt ` {- (2 ^ 31)..<2 ^ 31}"
    and nm: "nm \<notin> {''url'', ''name'', ''threshold''}"
    and set: "state_setoption [LStr nm, v] h st = Inr st'"
  shows "state_getoption [LStr nm] st' = Inr v"
proof -
  obtain i where ck: "luaL_checkoption None (lua_arg [LStr nm, v] 1) lmprof_option_strings = Inr i"
    using state_setoption_index [OF set] by blast
  then have i: "list_index nm lmprof_option_strings = Some i"
    by (simp add: lua_arg_def checkoption_LStr)
  then have i20: "i < 20" and nmi: "nm = lmprof_option_strings ! i"
    using list_index_Some [OF i] by (auto simp: lmprof_option_strings_def)
  have ex: "i \<noteq> 12" "i \<noteq> 13" "i \<noteq> 19"
    using nm nmi by (auto simp: lmprof_option_strings_def)
  have idx: "i \<in> {0, 1, 2, 4, 5, 6, 7, 10, 14, 15, 16, 18} \<or> i \<in> {3, 8, 9, 11, 17}"
    using i20 ex unfolding insert_iff empty_iff by presburger
  have "i \<in> {0, 1, 2, 4, 5, 6, 7, 10, 14, 15, 16, 18} \<Longrightarrow> lmprof_option_codes ! i \<in> set state_bool_options"
    by (auto simp: option_code_defs state_bool_options_def)
  with idx consider "lmprof_option_codes ! i \<in> set state_bool_options" | "i \<in> {3, 8, 9, 11, 17}"
    by blast
  then show ?thesis
  proof cases
    case 1
    then show ?thesis
      using state_set_get_bool_roundtrip [OF ck 1 set] state_getoption_arg1 [of "[LStr nm]" "[LStr nm, v]" st']
      by (simp add: lua_arg_def)
  next
    case 2
    have nb: "lmprof_option_codes ! i \<notin> set state_bool_options"
      using 2 by (auto simp: option_code_defs state_bool_options_def LMPROF_OPT_COMPRESS_GRAPH_def LMPROF_OPT_REPORT_STRING_def)
    have "v \<notin> range LBool"
    proof
      assume "v \<in> range LBool"
      then obtain b where "v = LBool b" by blast
      then obtain b where b: "v = LBool b" by blast
      from 2 consider "i = 3" | "i = 8" | "i = 9" | "i = 11" | "i = 17" by blast
      then show False using set ck nb b state_setoption_valid [OF set]
        by cases (simp_all add: state_setoption_def lua_arg_def Let_def luaL_error_def luaL_checkinteger_def
            option_code_defs)
    qed
    with v obtain n where "v = LInt n" "- (2 ^ 31) \<le> n" "n < 2 ^ 31" by auto
    then show ?thesis
      using state_set_get_int_roundtrip [of nm n h st st' i] set ck 2 by (simp add: lua_arg_def)
  qed
qed
text \<open>
  \<^verbatim>\<open>profiler:set_option("threshold", v)\<close> always fails on a valid
  profiler: the setter reads the option name (argument 2) instead of the value (argument 3) as
  the integer, and raises \<open>number expected\<close> whatever \<open>v\<close> is, leaving the state unchanged.
\<close>

theorem state_setoption_threshold_unusable:
  assumes ok: "\<not> BITFIELD_TEST (state st) LMPROF_STATE_ERROR"
  shows "state_setoption [LStr ''threshold'', v] h st = Inl (''number expected, got string'', h, st)"
proof -
  have "lua_str_integer ''threshold'' = None" by code_simp
  then show ?thesis using ok
    by (simp add: state_setoption_def state_get_valid_def lua_arg_def luaL_checkoption_def luaL_checkstring_def
        lmprof_option_strings_def option_code_defs state_bool_options_def LMPROF_OPT_COMPRESS_GRAPH_def
        LMPROF_OPT_REPORT_STRING_def luaL_checkinteger_def luaL_error_def)
qed

lemma valid_example: "state_get_valid example_host example_profiler = Inr ()"
  by (simp add: state_get_valid_def example_profiler_def state_flag_defs BITFIELD_TEST_def)

theorem state_set_get_option_roundtrip_witness:
  "state_setoption [LStr ''instructions'', LInt 5] example_host example_profiler = Inr (example_profiler\<lparr>i_mask_count := 5\<rparr>) \<and>
   state_getoption [LStr ''instructions''] (example_profiler\<lparr>i_mask_count := 5\<rparr>) = Inr (LInt 5)"
proof -
  have s: "state_setoption [LStr ''instructions'', LInt 5] example_host example_profiler = Inr (example_profiler\<lparr>i_mask_count := 5\<rparr>)"
    using valid_example by (simp add: state_setoption_def lua_arg_def luaL_checkoption_def
        luaL_checkstring_def lmprof_option_strings_def option_code_defs state_bool_options_def LMPROF_OPT_COMPRESS_GRAPH_def
        LMPROF_OPT_REPORT_STRING_def luaL_checkinteger_def)
  show ?thesis
    using state_set_get_option_roundtrip [OF _ _ s] s by simp
qed

theorem state_setoption_threshold_unusable_witness:
  "\<not> BITFIELD_TEST (state example_profiler) LMPROF_STATE_ERROR \<and>
   state_setoption [LStr ''threshold'', LInt 5] example_host example_profiler =
     Inl (''number expected, got string'', example_host, example_profiler)"
proof -
  have ok: "\<not> BITFIELD_TEST (state example_profiler) LMPROF_STATE_ERROR"
    by (simp add: example_profiler_def state_flag_defs BITFIELD_TEST_def)
  show ?thesis using state_setoption_threshold_unusable [OF ok] ok by simp
qed

theorem hook_mask_spec_witness:
  "BITFIELD_TEST (fst (lmprof_hook_mask (example_profiler\<lparr>mode := LMPROF_MODE_SAMPLE, i_mask_count := 5\<rparr>))) LUA_MASKCOUNT \<and>
   \<not> BITFIELD_TEST (fst (lmprof_hook_mask (example_profiler\<lparr>mode := LMPROF_MODE_SAMPLE, i_mask_count := 5\<rparr>))) LUA_MASKCALL \<and>
   snd (lmprof_hook_mask (example_profiler\<lparr>mode := LMPROF_MODE_SAMPLE, i_mask_count := 5\<rparr>)) = 5"
  using hook_mask_spec [of "example_profiler\<lparr>mode := LMPROF_MODE_SAMPLE, i_mask_count := 5\<rparr>"]
  by (simp add: mode_defs BITFIELD_TEST_def)

end
