(* ===== verification/Graph_Hook.thy ===== *)
theory Graph_Hook
  imports Profiler_State
begin

text \<open>
  The debug hooks of the graph modes (lmprof_lib.c, Graph Interface): \<^verbatim>\<open>graph_prehook\<close>,
  which every hook call passes first, \<^verbatim>\<open>graph_instrument\<close> (the hook of the
  instrument and memory modes) with its call, return, count and line events, the unwinding
  loop of the return event and \<^verbatim>\<open>check_stack_mismatch\<close>, and \<^verbatim>\<open>graph_sample\<close> with
  \<^verbatim>\<open>lmprof_sample_stack\<close> (the hook of the sampling mode). A hook call maps the host and
  the profiler to new ones, raises through \<^verbatim>\<open>lmprof_error\<close> (\<open>Inl\<close>), or dereferences
  a missing pointer (\<open>None\<close>). The profile stack of the running thread lives in the
  host's thread-stack table under the key \<^verbatim>\<open>st->thread.call_stack\<close> holds.
  The model follows Lua 5.4: \<^verbatim>\<open>LUA_HOOKTAILCALL\<close> exists and \<^verbatim>\<open>LUA_HOOKTAILRET\<close>
  does not, so a tail return is recognised by the tail-call flag of the popped frame.
\<close>

section \<open>What the interpreter shows a hook\<close>

text \<open>The events of \<^verbatim>\<open>lua_Debug.event\<close> a hook is called with.\<close>

datatype hook_event = LUA_HOOKCALL | LUA_HOOKRET | LUA_HOOKLINE | LUA_HOOKCOUNT | LUA_HOOKTAILCALL

text \<open>
  One level of the traceback \<^verbatim>\<open>lmprof_sample_stack\<close> walks: the activation
  \<^verbatim>\<open>lua_getstack\<close> gives (\<open>None\<close> when it fails), its current line and the outcome
  of fetching its record.
\<close>

record sample_level =
  sl_view :: "debug_view option"
  sl_currentline :: int
  sl_fetch :: fetch_env

text \<open>
  A hook call: the \<^verbatim>\<open>lua_Debug\<close> record (event, the activation seen by
  \<^verbatim>\<open>lmprof_record_id\<close>, tail-call flag, current line), the outcomes of the record
  fetches and stack allocation it makes, the traceback for sampling (from
  \<^verbatim>\<open>lua_lastlevel\<close> down to level 0), the addresses of \<^verbatim>\<open>lmprof_stop\<close> and
  \<^verbatim>\<open>state_stop\<close>, whether the timeline pages the trace hook asks for can be
  allocated, and the clock samples \<^verbatim>\<open>LMPROF_TIME\<close> returns on entry, after
  fetching a new stack, and on exit.
\<close>

record hook_ar =
  ar_event :: hook_event
  ar_view :: debug_view
  ar_istailcall :: bool
  ar_currentline :: int
  ar_fetch :: fetch_env
  ar_stack :: stack_env
  ar_root_fetch :: fetch_env
  ar_levels :: "sample_level list"
  ar_stop_fns :: "lu_addr list"
  ar_page_ok :: bool
  ar_t_enter :: lu_time
  ar_t_adjust :: lu_time
  ar_t_exit :: lu_time

definition LUA_IS_TAILCALL :: "hook_ar \<Rightarrow> bool" where
  "LUA_IS_TAILCALL a \<longleftrightarrow> ar_event a = LUA_HOOKTAILCALL \<or> ar_istailcall a"

definition PROFILE_IS_STOP :: "lu_addr list \<Rightarrow> lu_addr option \<Rightarrow> bool" where
  "PROFILE_IS_STOP stops f \<longleftrightarrow> (case f of None \<Rightarrow> False | Some fn \<Rightarrow> fn \<in> set stops)"

text \<open>\<^verbatim>\<open>P_ID\<close>: the parent identifier of a record, read through its pointer.\<close>

definition P_ID :: "lmprof_state \<Rightarrow> ref \<Rightarrow> lu_addr option" where
  "P_ID st r =
     map_option (\<lambda>x. if BITFIELD_TEST (conf st) LMPROF_OPT_COMPRESS_GRAPH then f_id x else r_id x) (i_store st r)"

text \<open>\<^verbatim>\<open>PROFILE_ADJUST_OVERHEAD\<close>: the time since the last sample is overhead.\<close>

definition PROFILE_ADJUST_OVERHEAD :: "lu_time \<Rightarrow> lmprof_state \<Rightarrow> lmprof_state" where
  "PROFILE_ADJUST_OVERHEAD t st =
     st\<lparr>thread_r := (thread_r st)\<lparr>overhead := overhead (thread_r st) + (t - time (s (thread_r st))),
                                  s := (s (thread_r st))\<lparr>time := t\<rparr>\<rparr>\<rparr>"

section \<open>The prehook\<close>

text \<open>
  \<^verbatim>\<open>graph_prehook\<close>: the flag says whether the hook goes on. A missing, stopped,
  failed or differently configured profiler resets the thread's hook; another thread
  under single-thread profiling and a pending ignore are skipped. Otherwise the clock
  is sampled, the calibration charged, allocations ignored, and on a thread switch the
  new thread's stack is fetched (instrument mode only). Another profiler object owning
  the singleton is outside the model (\<open>None\<close>).
\<close>

text \<open>
  What the prehook does to a profiler it lets through: sample the clock, charge the
  calibrated call overhead, and ignore the allocations the hook makes.
\<close>

definition prehook_enter :: "hook_ar \<Rightarrow> lmprof_state \<Rightarrow> lmprof_state" where
  "prehook_enter a st =
     st\<lparr>thread_r := (thread_r st)\<lparr>s := (s (thread_r st))\<lparr>time := ar_t_enter a\<rparr>,
                                  overhead := overhead (thread_r st) + i_calibration st\<rparr>,
        state := BITFIELD_SET (state st) LMPROF_STATE_IGNORE_ALLOC\<rparr>"

definition graph_prehook :: "hook_ar \<Rightarrow> lua_host \<Rightarrow> lmprof_state \<Rightarrow> (lua_host \<times> lmprof_state \<times> bool) lres option" where
  "graph_prehook a h st =
     (if h_singleton h = SINGLETON_OTHER then None
      else if h_singleton h = SINGLETON_NONE
              \<or> BITFIELD_TEST (mode st) (LMPROF_CALLBACK_MASK OR LMPROF_MODE_TIME)
              \<or> BITFIELD_TEST (state st) LMPROF_STATE_ERROR
              \<or> \<not> BITFIELD_TEST (state st) LMPROF_STATE_RUNNING
      then Some (Inr (h\<lparr>h_hook := HOOK_NULL, h_hook_mask := 0, h_hook_count := 0\<rparr>, st, False))
      else if BITFIELD_TEST (mode st) LMPROF_MODE_SINGLE_THREAD \<and> thread_main st \<noteq> Some (h_current h)
      then Some (Inr (h, st, False))
      else if BITFIELD_TEST (state st) LMPROF_STATE_IGNORE_CALL
      then Some (Inr (h, st\<lparr>state := BITFIELD_CLEAR (state st) LMPROF_STATE_IGNORE_CALL\<rparr>, False))
      else
        let st1 = prehook_enter a st
        in if thread_state st1 = Some (h_current h) then Some (Inr (h, st1, True))
           else
             let st2 = st1\<lparr>thread_state := Some (h_current h), thread_call_stack := None\<rparr>
             in if BITFIELD_TEST (mode st2) LMPROF_MODE_INSTRUMENT then
                  (case lmprof_thread_stacktable_get (ar_stack a) h st2 of
                     None \<Rightarrow> None
                   | Some (Inl err) \<Rightarrow> Some (Inl err)
                   | Some (Inr (h3, st3, k)) \<Rightarrow>
                       (case host_stack h3 k of
                          None \<Rightarrow> Some (lmprof_error h3 st3 ''could not allocate local stack'')
                        | Some stk \<Rightarrow>
                            let st4 = st3\<lparr>thread_call_stack := Some k,
                                          thread_r := (thread_r st3)\<lparr>proc := (proc (thread_r st3))\<lparr>tid := thread_identifier stk\<rparr>\<rparr>\<rparr>
                            in Some (Inr (h3, PROFILE_ADJUST_OVERHEAD (ar_t_adjust a) st4, True))))
                else Some (Inr (h, st2, True)))"

section \<open>The events of graph_instrument\<close>

text \<open>
  The call event: the identifier of the called function; a call of a stop function is
  not recorded; otherwise the record under the parent's identifier is fetched and a
  frame pushed, and a full stack raises \<open>profiler stack overflow\<close>.
\<close>

definition graph_instrument_call ::
  "hook_ar \<Rightarrow> lua_host \<Rightarrow> nat \<Rightarrow> lmprof_state \<Rightarrow> lmprof_stack \<Rightarrow> (lmprof_state \<times> lmprof_stack) lres option" where
  "graph_instrument_call a h k st stk =
     (let (fid, result) = lmprof_record_id (ar_view a) (BITFIELD_TEST (conf st) LMPROF_OPT_GC_DISABLE)
      in if PROFILE_IS_STOP (ar_stop_fns a) result then Some (Inr (st, stk))
         else
           (case (case lmprof_stack_peek stk of
                    None \<Rightarrow> Some LMPROF_RECORD_ID_ROOT
                  | Some i \<Rightarrow> (case g_record (stack stk ! i) of None \<Rightarrow> None | Some r \<Rightarrow> P_ID st r)) of
              None \<Rightarrow> None
            | Some p_fid \<Rightarrow>
                (case st_fetch_record (ar_fetch a) fid p_fid (host_set_stack h k stk) st of
                   None \<Rightarrow> None
                 | Some (Inl err) \<Rightarrow> Some (Inl err)
                 | Some (Inr (st1, r)) \<Rightarrow>
                     (case lmprof_stack_measured_push stk r (s (thread_r st1)) (LUA_IS_TAILCALL a) of
                        (stk1, None) \<Rightarrow> Some (lmprof_error (host_set_stack h k stk1) st1 ''profiler stack overflow'')
                      | (stk1, Some _) \<Rightarrow> Some (Inr (st1, stk1))))))"

text \<open>
  \<^verbatim>\<open>check_stack_mismatch\<close>: with \<open>allow_nil\<close> a missing frame is accepted; without
  \<^verbatim>\<open>LMPROF_OPT_STACK_MISMATCH\<close> a missing frame raises; otherwise the frame is cleared.
\<close>

definition check_stack_mismatch ::
  "lua_host \<Rightarrow> nat \<Rightarrow> lmprof_state \<Rightarrow> lmprof_stack \<Rightarrow> nat option \<Rightarrow> bool \<Rightarrow> (lmprof_state \<times> lmprof_stack) lres" where
  "check_stack_mismatch h k st stk inst allow_nil =
     (if allow_nil \<and> inst = None then Inr (st, stk)
      else if \<not> BITFIELD_TEST (conf st) LMPROF_OPT_STACK_MISMATCH \<and> inst = None
      then lmprof_error (host_set_stack h k stk) st ''stop was not called at the same level as start''
      else Inr (st, stack_clear_instance stk inst))"

text \<open>
  The pop of the return event, \<^verbatim>\<open>(stack->head > 1) ? lmprof_stack_measured_pop(...) : NULL\<close>:
  the root frame is never popped.
\<close>

definition graph_ret_pop :: "lmprof_state \<Rightarrow> lmprof_stack \<Rightarrow> (lmprof_state \<times> lmprof_stack \<times> nat option) option" where
  "graph_ret_pop st stk =
     (if 1 < head stk then
        (case lmprof_stack_measured_pop stk (i_store st) (s (thread_r st)) of
           None \<Rightarrow> None
         | Some (stk1, store1, i) \<Rightarrow> Some (st\<lparr>i_store := store1\<rparr>, stk1, Some i))
      else Some (st, stk, None))"

text \<open>
  The loop condition \<^verbatim>\<open>inst->tail_call || (!tail_return && inst->graph.record->f_id != fid)\<close>,
  with C's short-circuit: the record is read only when it is needed.
\<close>

definition unwind_more :: "bool \<Rightarrow> lu_addr \<Rightarrow> lmprof_state \<Rightarrow> lmprof_stack \<Rightarrow> nat \<Rightarrow> bool option" where
  "unwind_more tr fid st stk i =
     (if tail_call (stack stk ! i) then Some True
      else if tr then Some False
      else (case g_record (stack stk ! i) of
              None \<Rightarrow> None
            | Some r \<Rightarrow> map_option (\<lambda>x. f_id x \<noteq> fid) (i_store st r)))"

text \<open>
  The unwinding \<^verbatim>\<open>for\<close> loop of the return event: while the popped frame is a tail
  call, or (outside a tail return) belongs to another function, clear it and pop the
  next one. Every round pops a frame, so the loop ends.
\<close>

function graph_unwind ::
  "lua_host \<Rightarrow> nat \<Rightarrow> bool \<Rightarrow> lu_addr \<Rightarrow> lmprof_state \<Rightarrow> lmprof_stack \<Rightarrow> nat option
   \<Rightarrow> (lmprof_state \<times> lmprof_stack \<times> nat option) lres option" where
  "graph_unwind h k tr fid st stk None = Some (Inr (st, stk, None))"
| "graph_unwind h k tr fid st stk (Some i) =
     (case unwind_more tr fid st stk i of
        None \<Rightarrow> None
      | Some False \<Rightarrow> Some (Inr (st, stk, Some i))
      | Some True \<Rightarrow>
          (case check_stack_mismatch h k st stk (Some i) False of
             Inl err \<Rightarrow> Some (Inl err)
           | Inr (st1, stk1) \<Rightarrow>
               (case graph_ret_pop st1 stk1 of
                  None \<Rightarrow> None
                | Some (st2, stk2, io) \<Rightarrow> graph_unwind h k tr fid st2 stk2 io)))"
  by pat_completeness auto
termination
  by (relation "measure (\<lambda>(h, k, tr, fid, st, stk, io). head stk + (if io = None then 0 else 1))")
     (auto simp: check_stack_mismatch_def stack_clear_instance_def inst_upd_def graph_ret_pop_def lmprof_error_def
           split: if_splits option.splits sum.splits dest!: measured_pop_head)

text \<open>
  The return event: pop the returning frame, recognise a tail return by its flag,
  otherwise derive the returning function's identifier, unwind, and clear the frame
  the loop stopped at.
\<close>

definition graph_instrument_ret ::
  "hook_ar \<Rightarrow> lua_host \<Rightarrow> nat \<Rightarrow> lmprof_state \<Rightarrow> lmprof_stack \<Rightarrow> (lmprof_state \<times> lmprof_stack) lres option" where
  "graph_instrument_ret a h k st stk =
     (case graph_ret_pop st stk of
        None \<Rightarrow> None
      | Some (st1, stk1, io) \<Rightarrow>
          let tr = (case io of None \<Rightarrow> False | Some i \<Rightarrow> tail_call (stack stk1 ! i));
              fid = (if tr then 0 else fst (lmprof_record_id (ar_view a) (BITFIELD_TEST (conf st1) LMPROF_OPT_GC_DISABLE)))
          in (case graph_unwind h k tr fid st1 stk1 io of
                None \<Rightarrow> None
              | Some (Inl err) \<Rightarrow> Some (Inl err)
              | Some (Inr (st2, stk2, io2)) \<Rightarrow> Some (check_stack_mismatch h k st2 stk2 io2 True)))"

text \<open>
  What the return event is meant to do, stated over the frames above the root from
  the top down: pop frames while they are tail calls or (outside a tail return)
  belong to another function than the returning one, and then the frame where that
  stops. \<open>pop_count\<close> counts the frames popped for the list of loop conditions.
\<close>

definition pop_count :: "bool list \<Rightarrow> nat" where
  "pop_count bs = length (takeWhile id bs) + length (take 1 (dropWhile id bs))"

definition unwind_cond :: "bool \<Rightarrow> lu_addr \<Rightarrow> record_store \<Rightarrow> stack_inst \<Rightarrow> bool" where
  "unwind_cond tr fid store inst \<longleftrightarrow>
     tail_call inst \<or> (\<not> tr \<and> map_option f_id (Option.bind (g_record inst) store) \<noteq> Some fid)"

definition ret_unwind_ref :: "hook_ar \<Rightarrow> lmprof_state \<Rightarrow> lmprof_stack \<Rightarrow> nat" where
  "ret_unwind_ref a st stk =
     (let fr = map ((!) (stack stk)) (rev [1..<head stk]);
          tr = (fr \<noteq> [] \<and> tail_call (hd fr));
          fid = fst (lmprof_record_id (ar_view a) (BITFIELD_TEST (conf st) LMPROF_OPT_GC_DISABLE))
      in pop_count (map (unwind_cond tr fid (i_store st)) fr))"

text \<open>The count event: the instruction counters of the profiler and the stack grow by the mask count.\<close>

definition graph_instrument_count :: "lmprof_state \<Rightarrow> lmprof_stack \<Rightarrow> lmprof_state \<times> lmprof_stack" where
  "graph_instrument_count st stk =
     (st\<lparr>i_instr_count := i_instr_count st + word_of_int (i_mask_count st)\<rparr>,
      stk\<lparr>instr_count := instr_count stk + word_of_int (i_mask_count st), instr_last := time (s (thread_r st))\<rparr>)"

text \<open>
  The line-frequency update of a record at a current line: inside the allocated array,
  and, when \<open>only_first\<close>, only for a line not seen yet.
\<close>

definition line_freq_incr :: "int \<Rightarrow> bool \<Rightarrow> lmprof_record \<Rightarrow> lmprof_record" where
  "line_freq_incr line only_first x =
     (let lf = graph_line_freq x; diff = line - linedefined (info x)
      in if lf \<noteq> [] \<and> 0 < linedefined (info x) \<and> 0 \<le> diff \<and> diff < int (length lf)
            \<and> (\<not> only_first \<or> lf ! nat diff = 0)
         then x\<lparr>graph_line_freq := lf[nat diff := lf ! nat diff + 1]\<rparr>
         else x)"

text \<open>The line event: the top frame remembers the line and the instruction count, and the line is counted.\<close>

definition graph_instrument_line ::
  "hook_ar \<Rightarrow> lmprof_state \<Rightarrow> lmprof_stack \<Rightarrow> (lmprof_state \<times> lmprof_stack) option" where
  "graph_instrument_line a st stk =
     (case lmprof_stack_peek stk of
        None \<Rightarrow> Some (st, stk)
      | Some i \<Rightarrow>
          let stk1 = inst_upd i (\<lambda>inst. inst\<lparr>last_line := (if 0 \<le> ar_currentline a then ar_currentline a else 0),
                                              last_line_instructions := instr_count stk\<rparr>) stk
          in (case g_record (stack stk ! i) of
                None \<Rightarrow> None
              | Some r \<Rightarrow>
                  (case i_store st r of
                     None \<Rightarrow> None
                   | Some x \<Rightarrow> Some (st\<lparr>i_store := (i_store st)(r \<mapsto> line_freq_incr (ar_currentline a) False x)\<rparr>, stk1))))"

text \<open>
  After every event: allocations count again, and the time the hook spent is overhead
  of the thread and of the top frame.
\<close>

definition graph_instrument_post :: "hook_ar \<Rightarrow> lmprof_state \<Rightarrow> lmprof_stack \<Rightarrow> lmprof_state \<times> lmprof_stack" where
  "graph_instrument_post a st stk =
     (let st1 = st\<lparr>state := BITFIELD_CLEAR (state st) LMPROF_STATE_IGNORE_ALLOC\<rparr>;
          amount = ar_t_exit a - time (s (thread_r st1))
      in (PROFILE_ADJUST_OVERHEAD (ar_t_exit a) st1,
          case lmprof_stack_peek stk of
            None \<Rightarrow> stk
          | Some i \<Rightarrow> inst_upd i (\<lambda>inst. inst\<lparr>g_overhead := g_overhead inst + amount\<rparr>) stk))"

text \<open>
  \<^verbatim>\<open>graph_instrument\<close>: every event reads the thread's stack through
  \<^verbatim>\<open>st->thread.call_stack\<close>, which is \<^verbatim>\<open>NULL\<close> (\<open>None\<close> here) when the prehook did
  not fetch it.
\<close>

definition graph_instrument :: "hook_ar \<Rightarrow> lua_host \<Rightarrow> lmprof_state \<Rightarrow> (lua_host \<times> lmprof_state) lres option" where
  "graph_instrument a h st =
     (case graph_prehook a h st of
        None \<Rightarrow> None
      | Some (Inl err) \<Rightarrow> Some (Inl err)
      | Some (Inr (h1, st1, go)) \<Rightarrow>
          if \<not> go then Some (Inr (h1, st1))
          else
            (case thread_call_stack st1 of
               None \<Rightarrow> None
             | Some k \<Rightarrow>
                 (case host_stack h1 k of
                    None \<Rightarrow> None
                  | Some stk \<Rightarrow>
                      (case (case ar_event a of
                               LUA_HOOKCALL \<Rightarrow> graph_instrument_call a h1 k st1 stk
                             | LUA_HOOKTAILCALL \<Rightarrow> graph_instrument_call a h1 k st1 stk
                             | LUA_HOOKRET \<Rightarrow> graph_instrument_ret a h1 k st1 stk
                             | LUA_HOOKCOUNT \<Rightarrow> Some (Inr (graph_instrument_count st1 stk))
                             | LUA_HOOKLINE \<Rightarrow> map_option Inr (graph_instrument_line a st1 stk)) of
                         None \<Rightarrow> None
                       | Some (Inl err) \<Rightarrow> Some (Inl err)
                       | Some (Inr (st2, stk2)) \<Rightarrow>
                           (let (st3, stk3) = graph_instrument_post a st2 stk2
                            in Some (Inr (host_set_stack h1 k stk3, st3)))))))"

section \<open>Sampling\<close>

text \<open>
  The traceback loop of \<^verbatim>\<open>lmprof_sample_stack\<close>, from the outermost level down to
  level 0: each level's record under the previous level's identifier is counted once
  (the leaf always), its current line likewise; a failing \<^verbatim>\<open>lua_getstack\<close> ends it.
\<close>

fun sample_levels :: "sample_level list \<Rightarrow> lu_addr \<Rightarrow> lua_host \<Rightarrow> lmprof_state \<Rightarrow> lmprof_state lres option" where
  "sample_levels [] last_fid h st = Some (Inr st)"
| "sample_levels (l # ls) last_fid h st =
     (case sl_view l of
        None \<Rightarrow> Some (Inr st)
      | Some v \<Rightarrow>
          let fid = fst (lmprof_record_id v (BITFIELD_TEST (conf st) LMPROF_OPT_GC_DISABLE));
              level = length ls
          in (case st_fetch_record (sl_fetch l) fid last_fid h st of
                None \<Rightarrow> None
              | Some (Inl err) \<Rightarrow> Some (Inl err)
              | Some (Inr (st1, r)) \<Rightarrow>
                  (case i_store st1 r of
                     None \<Rightarrow> None
                   | Some x \<Rightarrow>
                       let x1 = (if level = 0 \<or> (0 < level \<and> graph_count x = 0)
                                 then x\<lparr>graph_count := graph_count x + 1\<rparr> else x);
                           x2 = line_freq_incr (sl_currentline l) (level \<noteq> 0) x1;
                           st2 = st1\<lparr>i_store := (i_store st1)(r \<mapsto> x2)\<rparr>;
                           last = (if BITFIELD_TEST (conf st2) LMPROF_OPT_COMPRESS_GRAPH then fid else r_id x2)
                       in sample_levels ls last h st2)))"

definition lmprof_sample_stack :: "hook_ar \<Rightarrow> lua_host \<Rightarrow> lmprof_state \<Rightarrow> lmprof_state lres option" where
  "lmprof_sample_stack a h st =
     (case st_fetch_record (ar_root_fetch a) LMPROF_RECORD_ID_ROOT LMPROF_RECORD_ID_ROOT h st of
        None \<Rightarrow> None
      | Some (Inl err) \<Rightarrow> Some (Inl err)
      | Some (Inr (st1, r)) \<Rightarrow>
          (case i_store st1 r of
             None \<Rightarrow> None
           | Some x \<Rightarrow>
               let last_fid = (if BITFIELD_TEST (conf st1) LMPROF_OPT_COMPRESS_GRAPH then LMPROF_RECORD_ID_ROOT else r_id x);
                   st2 = (if graph_count x = 0
                          then st1\<lparr>i_store := (i_store st1)(r \<mapsto> x\<lparr>graph_count := graph_count x + 1\<rparr>)\<rparr>
                          else st1)
               in sample_levels (ar_levels a) last_fid h st2))"

text \<open>\<^verbatim>\<open>graph_sample\<close>: only the count event samples; every call ends like the instrument hook.\<close>

definition graph_sample :: "hook_ar \<Rightarrow> lua_host \<Rightarrow> lmprof_state \<Rightarrow> (lua_host \<times> lmprof_state) lres option" where
  "graph_sample a h st =
     (case graph_prehook a h st of
        None \<Rightarrow> None
      | Some (Inl err) \<Rightarrow> Some (Inl err)
      | Some (Inr (h1, st1, go)) \<Rightarrow>
          if \<not> go then Some (Inr (h1, st1))
          else
            (case (if ar_event a = LUA_HOOKCOUNT
                   then lmprof_sample_stack a h1 (st1\<lparr>i_instr_count := i_instr_count st1 + word_of_int (i_mask_count st1)\<rparr>)
                   else Some (Inr st1)) of
               None \<Rightarrow> None
             | Some (Inl err) \<Rightarrow> Some (Inl err)
             | Some (Inr st2) \<Rightarrow>
                 Some (Inr (h1, PROFILE_ADJUST_OVERHEAD (ar_t_exit a)
                                  (st2\<lparr>state := BITFIELD_CLEAR (state st2) LMPROF_STATE_IGNORE_ALLOC\<rparr>)))))"

section \<open>Example configurations\<close>

text \<open>
  A graph stack of two frames, the root and one call, over two stored records, and an
  instrumenting profiler running on thread 0 with that stack.
\<close>

definition example_stack :: lmprof_stack where
  "example_stack = \<lparr>callback_api = False, thread_identifier = 3, instr_count = 0, instr_last = 0,
     head = 2, size_stk = 2,
     stack = [stack_inst_zero\<lparr>g_record := Some 0\<rparr>, stack_inst_zero\<lparr>g_record := Some 1\<rparr>]\<rparr>"

definition example_running :: lmprof_state where
  "example_running = example_profiler\<lparr>mode := LMPROF_MODE_INSTRUMENT,
     state := LMPROF_STATE_PERSISTENT OR LMPROF_STATE_RUNNING,
     thread_state := Some 0, thread_call_stack := Some 0, i_store := [0 \<mapsto> record_zero, 1 \<mapsto> record_zero]\<rparr>"

definition example_running_host :: lua_host where
  "example_running_host = example_host\<lparr>h_singleton := SINGLETON_SELF, h_hook := GRAPH_INSTRUMENT,
     h_thread_stacks := [(0, example_stack)]\<rparr>"

section \<open>Lemmas\<close>

lemma prehook_stop:
  assumes "h_singleton h \<noteq> SINGLETON_OTHER"
    and "h_singleton h = SINGLETON_NONE \<or> \<not> BITFIELD_TEST (state st) LMPROF_STATE_RUNNING \<or>
         BITFIELD_TEST (state st) LMPROF_STATE_ERROR"
  shows "graph_prehook a h st = Some (Inr (h\<lparr>h_hook := HOOK_NULL, h_hook_mask := 0, h_hook_count := 0\<rparr>, st, False))"
  using assms by (auto simp: graph_prehook_def)

lemma check_stack_mismatch_Some [simp]:
  "check_stack_mismatch h k st stk (Some i) nil = Inr (st, stack_clear_instance stk (Some i))"
  by (simp add: check_stack_mismatch_def)

lemma check_stack_mismatch_nil [simp]:
  "check_stack_mismatch h k st stk io True = Inr (st, stack_clear_instance stk io)"
  by (cases io) (simp_all add: check_stack_mismatch_def stack_clear_instance_def)

lemma graph_unwind_no_raise: "graph_unwind h k tr fid st stk io \<noteq> Some (Inl err)"
  by (induction h k tr fid st stk io rule: graph_unwind.induct)
     (auto split: option.splits bool.splits prod.splits)

lemma prehook_go:
  assumes "h_singleton h = SINGLETON_SELF" "BITFIELD_TEST (state st) LMPROF_STATE_RUNNING"
    "\<not> BITFIELD_TEST (state st) LMPROF_STATE_ERROR" "\<not> BITFIELD_TEST (state st) LMPROF_STATE_IGNORE_CALL"
    "\<not> BITFIELD_TEST (mode st) (LMPROF_CALLBACK_MASK OR LMPROF_MODE_TIME)"
    "\<not> BITFIELD_TEST (mode st) LMPROF_MODE_SINGLE_THREAD \<or> thread_main st = Some (h_current h)"
  shows "thread_state st = Some (h_current h) \<Longrightarrow> graph_prehook a h st = Some (Inr (h, prehook_enter a st, True))"
    and "thread_state st \<noteq> Some (h_current h) \<Longrightarrow> \<not> BITFIELD_TEST (mode st) LMPROF_MODE_INSTRUMENT \<Longrightarrow>
           graph_prehook a h st = Some (Inr (h, (prehook_enter a st)\<lparr>thread_state := Some (h_current h), thread_call_stack := None\<rparr>, True))"
  using assms by (auto simp: graph_prehook_def prehook_enter_def)

lemma graph_instrument_null_stack:
  "graph_prehook a h st = Some (Inr (h1, st1, True)) \<Longrightarrow> thread_call_stack st1 = None \<Longrightarrow>
   graph_instrument a h st = None"
  by (simp add: graph_instrument_def)

lemma pop_count_simps [simp]:
  "pop_count [] = 0"
  "pop_count (b # bs) = (if b then Suc (pop_count bs) else 1)"
  by (simp_all add: pop_count_def)

lemma map_eq_nth: "map f xs = map f ys \<Longrightarrow> j < length xs \<Longrightarrow> f (xs ! j) = f (ys ! j)"
  by (metis length_map nth_map)

lemma unwind_more_cond:
  "g_record (stack stk ! i) = Some r \<Longrightarrow> r \<in> dom (i_store st) \<Longrightarrow>
   unwind_more tr fid st stk i = Some (unwind_cond tr fid (i_store st) (stack stk ! i))"
  by (auto simp: unwind_more_def unwind_cond_def)

lemma measured_pop_ex:
  assumes "0 < head stk" "g_record (stack stk ! (head stk - 1)) = Some r" "r \<in> dom store"
  shows "\<exists>stk' store'. lmprof_stack_measured_pop stk store u = Some (stk', store', head stk - 1)"
  using assms by (auto simp: lmprof_stack_measured_pop_def Let_def)

lemma clear_instance_frames:
  "head (stack_clear_instance stk (Some i)) = head stk"
  "length (stack (stack_clear_instance stk (Some i))) = length (stack stk)"
  "j \<noteq> i \<Longrightarrow> stack (stack_clear_instance stk (Some i)) ! j = stack stk ! j"
  by (simp_all add: stack_clear_instance_def inst_upd_def)

lemma clear_instance_head [simp]: "head (stack_clear_instance stk io) = head stk"
  by (cases io) (simp_all add: stack_clear_instance_def inst_upd_def)

lemma pop_frame_view:
  assumes pop: "lmprof_stack_measured_pop stk store u = Some (stk', store', i)"
    and j: "j < length (stack stk)"
  shows "g_record (stack stk' ! j) = g_record (stack stk ! j)"
    and "unwind_cond tr fid store' (stack stk' ! j) = unwind_cond tr fid store (stack stk ! j)"
proof -
  note fr = measured_pop_frames [OF pop] and rec = measured_pop_records [OF pop]
  show g: "g_record (stack stk' ! j) = g_record (stack stk ! j)"
    using rec j by (metis map_eq_nth)
  have t: "tail_call (stack stk' ! j) = tail_call (stack stk ! j)"
    using fr j by (metis map_eq_nth)
  have "map_option f_id (store' r) = map_option f_id (store r)" for r
    using fr by (metis comp_apply)
  then show "unwind_cond tr fid store' (stack stk' ! j) = unwind_cond tr fid store (stack stk ! j)"
    using g t by (cases "g_record (stack stk ! j)") (simp_all add: unwind_cond_def)
qed

lemma graph_unwind_spec:
  assumes "head stk = i" "0 < i" "i < length (stack stk)"
    and "\<forall>j \<le> i. \<exists>r. g_record (stack stk ! j) = Some r \<and> r \<in> dom (i_store st)"
  shows "\<exists>st' stk' io'. graph_unwind h k tr fid st stk (Some i) = Some (Inr (st', stk', io')) \<and>
           head stk' = Suc i - pop_count (map (\<lambda>j. unwind_cond tr fid (i_store st) (stack stk ! j)) (rev [1..<Suc i]))"
  using assms
proof (induction i arbitrary: st stk)
  case 0
  then show ?case by simp
next
  case (Suc n)
  let ?c = "unwind_cond tr fid (i_store st)"
  obtain r where r: "g_record (stack stk ! Suc n) = Some r" "r \<in> dom (i_store st)"
    using Suc.prems by blast
  have um: "unwind_more tr fid st stk (Suc n) = Some (?c (stack stk ! Suc n))"
    using unwind_more_cond [OF r] .
  have rv: "rev [1..<Suc (Suc n)] = Suc n # rev [1..<Suc n]" by simp
  show ?case
  proof (cases "?c (stack stk ! Suc n)")
    case False
    then show ?thesis using um Suc.prems rv by simp
  next
    case True
    define stk1 where "stk1 = stack_clear_instance stk (Some (Suc n))"
    have s1: "head stk1 = Suc n" "length (stack stk1) = length (stack stk)"
             "\<And>j. j \<noteq> Suc n \<Longrightarrow> stack stk1 ! j = stack stk ! j"
      using Suc.prems by (simp_all add: stk1_def clear_instance_frames)
    show ?thesis
    proof (cases "n = 0")
      case True
      then show ?thesis using um \<open>?c (stack stk ! Suc n)\<close> Suc.prems
        by (simp add: graph_ret_pop_def clear_instance_frames)
    next
      case False
      obtain r' where r': "g_record (stack stk ! n) = Some r'" "r' \<in> dom (i_store st)"
        using Suc.prems(4) le_SucI by blast
      obtain stk2 store2 where pop: "lmprof_stack_measured_pop stk1 (i_store st) (s (thread_r st)) = Some (stk2, store2, n)"
        using measured_pop_ex [of stk1 r' "i_store st" "s (thread_r st)"] s1 r' by auto
      define st2 where "st2 = st\<lparr>i_store := store2\<rparr>"
      note hd = measured_pop_head [OF pop] and rec = measured_pop_records [OF pop]
      have pre: "head stk2 = n" "0 < n" "n < length (stack stk2)"
        using hd s1 False Suc.prems(3) by auto
      have recs: "\<forall>j \<le> n. \<exists>r. g_record (stack stk2 ! j) = Some r \<and> r \<in> dom (i_store st2)"
      proof (intro allI impI)
        fix j assume j: "j \<le> n"
        then have jl: "j < length (stack stk1)" using Suc.prems s1 by simp
        have "g_record (stack stk2 ! j) = g_record (stack stk ! j)"
          using pop_frame_view(1) [OF pop jl] s1(3) [of j] j by simp
        moreover obtain r where "g_record (stack stk ! j) = Some r" "r \<in> dom (i_store st)"
          using Suc.prems(4) j le_SucI by blast
        ultimately show "\<exists>r. g_record (stack stk2 ! j) = Some r \<and> r \<in> dom (i_store st2)"
          using rec by (simp add: st2_def)
      qed
      obtain st' stk' io' where ih: "graph_unwind h k tr fid st2 stk2 (Some n) = Some (Inr (st', stk', io'))"
        and ih2: "head stk' = Suc n - pop_count (map (\<lambda>j. unwind_cond tr fid (i_store st2) (stack stk2 ! j)) (rev [1..<Suc n]))"
        using Suc.IH [OF pre recs] by blast
      have eqc: "map (\<lambda>j. unwind_cond tr fid (i_store st2) (stack stk2 ! j)) (rev [1..<Suc n]) =
                 map (\<lambda>j. ?c (stack stk ! j)) (rev [1..<Suc n])"
        using Suc.prems s1 pop_frame_view(2) [OF pop] by (auto simp: st2_def)
      have "graph_unwind h k tr fid st stk (Some (Suc n)) = graph_unwind h k tr fid st2 stk2 (Some n)"
        using um True pop Suc.prems False by (simp add: graph_ret_pop_def stk1_def st2_def clear_instance_frames)
      then show ?thesis unfolding rv using ih ih2 [unfolded eqc] True by (simp del: graph_unwind.simps upt_Suc)
    qed
  qed
qed

text \<open>
  C14 (safety): a graph hook called while no profiler owns the singleton, or while the
  profiler is stopped or has failed, removes itself from the thread and changes nothing else
  (\<^verbatim>\<open>graph_prehook\<close>, the debug-hook inheritance case).
\<close>

theorem graph_hooks_inactive:
  assumes "h_singleton h \<noteq> SINGLETON_OTHER"
    and "h_singleton h = SINGLETON_NONE \<or> \<not> BITFIELD_TEST (state st) LMPROF_STATE_RUNNING \<or>
         BITFIELD_TEST (state st) LMPROF_STATE_ERROR"
  shows "graph_instrument a h st = Some (Inr (h\<lparr>h_hook := HOOK_NULL, h_hook_mask := 0, h_hook_count := 0\<rparr>, st)) \<and>
         graph_sample a h st = Some (Inr (h\<lparr>h_hook := HOOK_NULL, h_hook_mask := 0, h_hook_count := 0\<rparr>, st))"
  using prehook_stop [OF assms] by (simp add: graph_instrument_def graph_sample_def)

text \<open>
  C12 (equivalence): on a well-formed graph stack the return event of
  \<^verbatim>\<open>graph_instrument\<close> always completes and pops exactly the frames the declarative
  unwinding \<open>ret_unwind_ref\<close> names: the frames above the root, from the top, while
  they are tail calls or (outside a tail return) belong to another function, and the
  frame where that stops.
\<close>

theorem graph_ret_unwind_equiv:
  assumes inv: "graph_stack_inv (i_store st) stk"
  shows "\<exists>st' stk'. graph_instrument_ret a h k st stk = Some (Inr (st', stk')) \<and>
                    head stk' = head stk - ret_unwind_ref a st stk"
proof (cases "1 < head stk")
  case False
  then have "rev [1..<head stk] = []" by simp
  then show ?thesis using False
    by (simp add: graph_instrument_ret_def graph_ret_pop_def ret_unwind_ref_def)
next
  case True
  define i where "i = head stk - 1"
  have hi: "head stk = Suc i" "0 < i" using True by (simp_all add: i_def)
  have len: "i < length (stack stk)"
    using inv hi by (auto simp: graph_stack_inv_def stack_inv_def)
  have recs0: "\<forall>j < head stk. \<exists>r. g_record (stack stk ! j) = Some r \<and> r \<in> dom (i_store st)"
    using inv by (simp add: graph_stack_inv_def)
  obtain r where r: "g_record (stack stk ! (head stk - 1)) = Some r" "r \<in> dom (i_store st)"
    using recs0 True by (meson diff_less zero_less_one order.strict_trans)
  obtain stk1 store1 where pop: "lmprof_stack_measured_pop stk (i_store st) (s (thread_r st)) = Some (stk1, store1, i)"
    using measured_pop_ex [of stk r "i_store st" "s (thread_r st)"] r True by (auto simp: i_def)
  define st1 where "st1 = st\<lparr>i_store := store1\<rparr>"
  note hd = measured_pop_head [OF pop] and rec = measured_pop_records [OF pop]
  define tr where "tr = tail_call (stack stk ! i)"
  define fid where "fid = (if tr then 0 else fst (lmprof_record_id (ar_view a) (BITFIELD_TEST (conf st) LMPROF_OPT_GC_DISABLE)))"
  have tr1: "tail_call (stack stk1 ! i) = tr"
    using measured_pop_frames [OF pop] len by (metis map_eq_nth tr_def)
  have pre: "head stk1 = i" "0 < i" "i < length (stack stk1)"
    using hd hi len by auto
  have recs: "\<forall>j \<le> i. \<exists>r. g_record (stack stk1 ! j) = Some r \<and> r \<in> dom (i_store st1)"
  proof (intro allI impI)
    fix j assume j: "j \<le> i"
    then have "g_record (stack stk1 ! j) = g_record (stack stk ! j)"
      using pop_frame_view(1) [OF pop] len by simp
    moreover obtain r where "g_record (stack stk ! j) = Some r" "r \<in> dom (i_store st)"
      using recs0 j hi by (metis le_imp_less_Suc)
    ultimately show "\<exists>r. g_record (stack stk1 ! j) = Some r \<and> r \<in> dom (i_store st1)"
      using rec by (simp add: st1_def)
  qed
  obtain st' stk' io' where u: "graph_unwind h k tr fid st1 stk1 (Some i) = Some (Inr (st', stk', io'))"
    and u2: "head stk' = Suc i - pop_count (map (\<lambda>j. unwind_cond tr fid (i_store st1) (stack stk1 ! j)) (rev [1..<Suc i]))"
    using graph_unwind_spec [OF pre recs] by blast
  have ret: "graph_instrument_ret a h k st stk = Some (Inr (st', stack_clear_instance stk' io'))"
    using pop u tr1 True
    by (cases tr) (simp_all add: graph_instrument_ret_def graph_ret_pop_def st1_def fid_def Let_def i_def del: graph_unwind.simps)
  have eqc: "map (\<lambda>j. unwind_cond tr fid (i_store st1) (stack stk1 ! j)) (rev [1..<Suc i]) =
             map (unwind_cond tr fid (i_store st)) (map ((!) (stack stk)) (rev [1..<head stk]))"
    using pop_frame_view(2) [OF pop] len hi by (auto simp: st1_def)
  have hdfr: "hd (map ((!) (stack stk)) (rev [1..<head stk])) = stack stk ! i"
    using hi by (simp add: hd_rev)
  have "unwind_cond tr fid (i_store st) =
        unwind_cond tr (fst (lmprof_record_id (ar_view a) (BITFIELD_TEST (conf st) LMPROF_OPT_GC_DISABLE))) (i_store st)"
    by (simp add: fun_eq_iff unwind_cond_def fid_def)
  then have ref: "ret_unwind_ref a st stk = pop_count (map (unwind_cond tr fid (i_store st)) (map ((!) (stack stk)) (rev [1..<head stk])))"
    using hdfr True by (simp add: ret_unwind_ref_def Let_def tr_def)
  show ?thesis
    using ret u2 [unfolded eqc] ref hi by simp
qed

text \<open>
  C13 (error): the return event never raises: \<^verbatim>\<open>check_stack_mismatch\<close> sees a
  missing frame only when \<open>allow_nil\<close> is set, so the error
  \<open>stop was not called at the same level as start\<close> is unreachable, whatever
  \<^verbatim>\<open>LMPROF_OPT_STACK_MISMATCH\<close> says.
\<close>

theorem graph_ret_mismatch_never_raised: "graph_instrument_ret a h k st stk \<noteq> Some (Inl err)"
  using graph_unwind_no_raise
  by (auto simp: graph_instrument_ret_def Let_def simp del: graph_unwind.simps
      split: option.splits prod.splits sum.splits)

text \<open>
  C15 (safety): in memory mode without instrumentation, \<^verbatim>\<open>graph_instrument\<close> is the
  installed hook but the prehook never fetches a stack, so every event the hook goes on
  with dereferences the \<open>NULL\<close> call stack.
\<close>

theorem memory_only_null_stack:
  assumes run: "h_singleton h = SINGLETON_SELF" "BITFIELD_TEST (state st) LMPROF_STATE_RUNNING"
      "\<not> BITFIELD_TEST (state st) LMPROF_STATE_ERROR" "\<not> BITFIELD_TEST (state st) LMPROF_STATE_IGNORE_CALL"
    and m: "BITFIELD_TEST (mode st) LMPROF_MODE_MEMORY" "\<not> BITFIELD_TEST (mode st) LMPROF_MODE_INSTRUMENT"
      "\<not> BITFIELD_TEST (mode st) (LMPROF_CALLBACK_MASK OR LMPROF_MODE_TIME)"
      "\<not> BITFIELD_TEST (mode st) LMPROF_MODE_SINGLE_THREAD"
    and ns: "thread_call_stack st = None"
  shows "graph_instrument a h st = None"
proof (cases "thread_state st = Some (h_current h)")
  case True
  then show ?thesis
    using prehook_go(1) [of h st a] run m ns graph_instrument_null_stack by (simp add: prehook_enter_def)
next
  case False
  then show ?thesis
    using prehook_go(2) [of h st a] run m ns graph_instrument_null_stack by simp
qed

text \<open>
  C16 (functional): a count event on the running thread adds the instruction count to the
  profiler and the stack, and charges the whole time the hook ran, from the entry sample
  to the exit sample, plus the calibration, as overhead of the thread; the same time is
  charged to the top frame, and allocations count again afterwards.
\<close>

theorem graph_count_overhead:
  assumes run: "h_singleton h = SINGLETON_SELF" "BITFIELD_TEST (state st) LMPROF_STATE_RUNNING"
      "\<not> BITFIELD_TEST (state st) LMPROF_STATE_ERROR" "\<not> BITFIELD_TEST (state st) LMPROF_STATE_IGNORE_CALL"
    and m: "\<not> BITFIELD_TEST (mode st) (LMPROF_CALLBACK_MASK OR LMPROF_MODE_TIME)"
      "\<not> BITFIELD_TEST (mode st) LMPROF_MODE_SINGLE_THREAD"
    and th: "thread_state st = Some (h_current h)" "thread_call_stack st = Some k" "host_stack h k = Some stk"
    and top: "0 < head stk" "head stk \<le> length (stack stk)"
    and ev: "ar_event a = LUA_HOOKCOUNT"
  shows "\<exists>stk' st'. graph_instrument a h st = Some (Inr (host_set_stack h k stk', st')) \<and>
     overhead (thread_r st') = overhead (thread_r st) + i_calibration st + (ar_t_exit a - ar_t_enter a) \<and>
     time (s (thread_r st')) = ar_t_exit a \<and>
     g_overhead (stack stk' ! (head stk - 1)) = g_overhead (stack stk ! (head stk - 1)) + (ar_t_exit a - ar_t_enter a) \<and>
     i_instr_count st' = i_instr_count st + word_of_int (i_mask_count st) \<and>
     instr_count stk' = instr_count stk + word_of_int (i_mask_count st) \<and>
     \<not> BITFIELD_TEST (state st') LMPROF_STATE_IGNORE_ALLOC"
  using prehook_go(1) [of h st a] run m th top ev
  apply (simp add: graph_instrument_def Let_def prehook_enter_def graph_instrument_count_def graph_instrument_post_def
      PROFILE_ADJUST_OVERHEAD_def lmprof_stack_peek_def inst_upd_def BITFIELD_TEST_CLEAR_sub)
  apply (rule exI, rule conjI, rule refl)
  apply simp
  done

lemma example_running_flags:
  "h_singleton example_running_host = SINGLETON_SELF"
  "BITFIELD_TEST (state example_running) LMPROF_STATE_RUNNING"
  "\<not> BITFIELD_TEST (state example_running) LMPROF_STATE_ERROR"
  "\<not> BITFIELD_TEST (state example_running) LMPROF_STATE_IGNORE_CALL"
  "\<not> BITFIELD_TEST (mode example_running) (LMPROF_CALLBACK_MASK OR LMPROF_MODE_TIME)"
  "\<not> BITFIELD_TEST (mode example_running) LMPROF_MODE_SINGLE_THREAD"
  by (simp_all add: example_running_host_def example_running_def example_profiler_def state_flag_defs mode_defs
      BITFIELD_TEST_def)

theorem graph_hooks_inactive_witness:
  "graph_instrument undefined example_host example_profiler =
     Some (Inr (example_host\<lparr>h_hook := HOOK_NULL, h_hook_mask := 0, h_hook_count := 0\<rparr>, example_profiler)) \<and>
   graph_sample undefined example_host example_profiler =
     Some (Inr (example_host\<lparr>h_hook := HOOK_NULL, h_hook_mask := 0, h_hook_count := 0\<rparr>, example_profiler))"
proof -
  have "h_singleton example_host \<noteq> SINGLETON_OTHER" "h_singleton example_host = SINGLETON_NONE"
    by (simp_all add: example_host_def)
  then show ?thesis using graph_hooks_inactive [of example_host example_profiler undefined] by blast
qed

theorem graph_ret_unwind_equiv_witness:
  "\<exists>st' stk'. graph_instrument_ret undefined example_running_host 0 example_running example_stack = Some (Inr (st', stk')) \<and>
     head stk' = 1"
proof -
  have inv: "graph_stack_inv (i_store example_running) example_stack"
    by (auto simp: graph_stack_inv_def stack_inv_def example_stack_def example_running_def less_Suc_eq nth_Cons')
  have "ret_unwind_ref undefined example_running example_stack = 1"
    by (simp add: ret_unwind_ref_def example_stack_def numeral_2_eq_2)
  then show ?thesis using graph_ret_unwind_equiv [OF inv, of undefined example_running_host 0]
    by (simp add: example_stack_def)
qed

theorem memory_only_null_stack_witness:
  "graph_instrument undefined example_running_host
     (example_running\<lparr>mode := LMPROF_MODE_MEMORY, thread_call_stack := None\<rparr>) = None"
proof -
  have "\<not> BITFIELD_TEST LMPROF_MODE_MEMORY (LMPROF_CALLBACK_MASK OR LMPROF_MODE_TIME)"
    "\<not> BITFIELD_TEST LMPROF_MODE_MEMORY LMPROF_MODE_SINGLE_THREAD"
    "\<not> BITFIELD_TEST LMPROF_MODE_MEMORY LMPROF_MODE_INSTRUMENT" "BITFIELD_TEST LMPROF_MODE_MEMORY LMPROF_MODE_MEMORY"
    by (simp_all add: mode_defs BITFIELD_TEST_def)
  then show ?thesis
    using memory_only_null_stack [of example_running_host "example_running\<lparr>mode := LMPROF_MODE_MEMORY, thread_call_stack := None\<rparr>"]
      example_running_flags by simp
qed

theorem graph_count_overhead_witness:
  "\<exists>stk' st'. graph_instrument (undefined\<lparr>ar_event := LUA_HOOKCOUNT, ar_t_enter := 10, ar_t_exit := 15\<rparr>)
       example_running_host example_running = Some (Inr (host_set_stack example_running_host 0 stk', st')) \<and>
     overhead (thread_r st') = 5 \<and> g_overhead (stack stk' ! 1) = 5"
proof -
  have th: "thread_state example_running = Some (h_current example_running_host)"
    "thread_call_stack example_running = Some 0" "host_stack example_running_host 0 = Some example_stack"
    by (simp_all add: example_running_def example_running_host_def example_host_def host_stack_def)
  have top: "0 < head example_stack" "head example_stack \<le> length (stack example_stack)"
    by (simp_all add: example_stack_def)
  have z: "overhead (thread_r example_running) = 0" "i_calibration example_running = 0"
    "g_overhead (stack example_stack ! 1) = 0"
    by (simp_all add: example_running_def example_profiler_def example_stack_def stack_inst_zero_def)
  show ?thesis
    using graph_count_overhead [OF example_running_flags th top, of "undefined\<lparr>ar_event := LUA_HOOKCOUNT, ar_t_enter := 10, ar_t_exit := 15\<rparr>"]
      z by (simp add: example_stack_def) blast
qed

end
