(* ===== verification/Trace_Hook.thy ===== *)
theory Trace_Hook
  imports Graph_Hook
begin

text \<open>
  The debug hook of the trace-event modes (lmprof_lib.c, Trace Event Interface):
  \<^verbatim>\<open>traceevent_prehook\<close>, which closes the scopes of the previous thread and opens
  those of the new one on a thread switch (\<^verbatim>\<open>traceevent_clear_stack\<close>,
  \<^verbatim>\<open>traceevent_append_stack\<close>), \<^verbatim>\<open>traceevent_instrument\<close> with its call, return,
  count and line events, the pause and resume callbacks, and the frame markers
  (\<^verbatim>\<open>traceevent_frame\<close> behind \<^verbatim>\<open>profiler:begin_frame\<close> and
  \<^verbatim>\<open>profiler:end_frame\<close>). The trace interface of the profiler is the one
  \<^verbatim>\<open>lmprof_initialize_default\<close> installs (\<^verbatim>\<open>traceevent_iroutine\<close>,
  \<^verbatim>\<open>traceevent_iscope\<close>, \<^verbatim>\<open>traceevent_isample\<close> over the timeline of theory
  Timeline); the outcome of every page allocation one hook call makes is the flag
  \<open>ok\<close>. \<^verbatim>\<open>LMPROF_STATE_PAUSED\<close>, used here but defined in no header of the
  repository, is given the free bit \<open>0x80\<close>. A trace frame's \<^verbatim>\<open>graph.record\<close> and
  \<^verbatim>\<open>trace.record\<close> are the first member of the frame's union and alias: where the
  code reads \<^verbatim>\<open>parent->graph.record\<close> of a trace frame the model reads its trace record.
\<close>

section \<open>Error codes (lmprof_traceevent.h, lmprof_collections.c)\<close>

definition TRACE_EVENT_ERRARG :: nat where "TRACE_EVENT_ERRARG = 1"
definition TRACE_EVENT_ERRMEM :: nat where "TRACE_EVENT_ERRMEM = 3"
definition TRACE_EVENT_ERRSTACKFULL :: nat where "TRACE_EVENT_ERRSTACKFULL = 4"
definition TRACE_EVENT_ERRSTACKEMPTY :: nat where "TRACE_EVENT_ERRSTACKEMPTY = 5"
definition TRACE_EVENT_ERRPROCESS :: nat where "TRACE_EVENT_ERRPROCESS = 6"
definition TRACE_EVENT_ERRTHREAD :: nat where "TRACE_EVENT_ERRTHREAD = 7"
definition TRACE_EVENT_ERRFUNCINFO :: nat where "TRACE_EVENT_ERRFUNCINFO = 8"

definition traceevent_strerror :: "nat \<Rightarrow> string" where
  "traceevent_strerror e =
     (if e = TRACE_EVENT_ERRARG then ''Invalid TraceEvent list configuration''
      else if e = TRACE_EVENT_ERRPAGEFULL then ''TraceEvent list is full''
      else if e = TRACE_EVENT_ERRMEM then ''Could not allocate TraceEvent compression stack''
      else if e = TRACE_EVENT_ERRSTACKFULL then ''Maximum ENTER_SCOPE limit reached''
      else if e = TRACE_EVENT_ERRSTACKEMPTY then ''Handled EXIT_SCOPE TraceEvent without associated ENTER_SCOPE''
      else if e = TRACE_EVENT_ERRPROCESS then ''Process identifier mismatch for ENTER_SCOPE/EXIT_SCOPE pairing''
      else if e = TRACE_EVENT_ERRTHREAD then ''Thread identifier mismatch for ENTER_SCOPE/EXIT_SCOPE pairing''
      else if e = TRACE_EVENT_ERRFUNCINFO
      then ''Mismatch in function information handles (yield[C] != resume[C] only accepted)''
      else ''Unknown Error'')"

definition LMPROF_STATE_PAUSED :: flags32 where "LMPROF_STATE_PAUSED = 0x80"

section \<open>The trace interface and its checked wrappers\<close>

text \<open>
  \<^verbatim>\<open>traceevent_routine\<close> through \<^verbatim>\<open>traceevent_iroutine\<close>: a begin or end routine
  event measured by \<^verbatim>\<open>st->thread.r\<close>; the thread argument is unused. A failed
  append raises. \<open>k\<close> and \<open>stk\<close> are the stack being worked on and its key, which
  the raised error sees written back.
\<close>

definition traceevent_routine ::
  "bool \<Rightarrow> lua_host \<Rightarrow> nat \<Rightarrow> lmprof_state \<Rightarrow> lmprof_stack \<Rightarrow> bool \<Rightarrow> lmprof_state lres option" where
  "traceevent_routine ok h k st stk begin =
     (case i_trace st of
        None \<Rightarrow> None
      | Some tm \<Rightarrow>
          let (tm1, e) = (if begin then traceevent_beginroutine ok tm (thread_r st)
                          else traceevent_endroutine ok tm (thread_r st));
              st1 = st\<lparr>i_trace := Some tm1\<rparr>
          in Some (if e \<noteq> TRACE_EVENT_OK
                   then lmprof_error (host_set_stack h k stk) st1 (''Error: '' @ traceevent_strerror e)
                   else Inr st1))"

text \<open>
  \<^verbatim>\<open>traceevent_scope\<close> on the frame \<open>i\<close> through \<^verbatim>\<open>traceevent_iscope\<close>: frames of
  ignored functions are skipped; otherwise the frame takes the measurement \<open>r\<close> and an
  enter or exit scope event is appended, a failed append raising.
\<close>

definition traceevent_scope ::
  "bool \<Rightarrow> lua_host \<Rightarrow> nat \<Rightarrow> lmprof_state \<Rightarrow> lmprof_stack \<Rightarrow> nat \<Rightarrow> event_measurement \<Rightarrow> bool
   \<Rightarrow> (lmprof_state \<times> stack_inst) lres option" where
  "traceevent_scope ok h k st stk i r enter =
     (let inst = stack stk ! i in
      case t_record inst of
        None \<Rightarrow> None
      | Some rf \<Rightarrow>
          (case i_store st rf of
             None \<Rightarrow> None
           | Some x \<Rightarrow>
               if BITFIELD_TEST (event (info x)) LMPROF_RECORD_IGNORED then Some (Inr (st, inst))
               else
                 let inst1 = inst\<lparr>t_call := r\<rparr>
                 in (case i_trace st of
                       None \<Rightarrow> None
                     | Some tm \<Rightarrow>
                         let (tm1, inst2, e) =
                               (if enter then traceevent_enterscope ok tm inst1
                                else let (tm', e') = traceevent_exitscope ok tm inst1 in (tm', inst1, e'));
                             st1 = st\<lparr>i_trace := Some tm1\<rparr>
                         in Some (if e \<noteq> TRACE_EVENT_OK
                                  then lmprof_error (host_set_stack h k (inst_upd i (\<lambda>_. inst2) stk)) st1
                                         (''Error: '' @ traceevent_strerror e)
                                  else Inr (st1, inst2)))))"

text \<open>A scope event for each of the frames \<open>is\<close>, in that order, all with the measurement \<open>r\<close>.\<close>

fun traceevent_scopes ::
  "bool \<Rightarrow> lua_host \<Rightarrow> nat \<Rightarrow> event_measurement \<Rightarrow> bool \<Rightarrow> nat list \<Rightarrow> lmprof_state \<Rightarrow> lmprof_stack
   \<Rightarrow> (lmprof_state \<times> lmprof_stack) lres option" where
  "traceevent_scopes ok h k r enter [] st stk = Some (Inr (st, stk))"
| "traceevent_scopes ok h k r enter (i # is) st stk =
     (case traceevent_scope ok h k st stk i r enter of
        None \<Rightarrow> None
      | Some (Inl err) \<Rightarrow> Some (Inl err)
      | Some (Inr (st1, inst)) \<Rightarrow> traceevent_scopes ok h k r enter is st1 (inst_upd i (\<lambda>_. inst) stk))"

text \<open>The browser-frame measurement: the current one on the main process's browser thread.\<close>

definition browser_frame :: "lmprof_state \<Rightarrow> event_measurement \<Rightarrow> event_measurement" where
  "browser_frame st u = u\<lparr>proc := \<lparr>pid = pid (thread_mainproc st), tid = LMPROF_THREAD_BROWSER\<rparr>\<rparr>"

text \<open>The timeline update of an emitter whose status the code ignores.\<close>

definition trace_emit :: "(timeline \<Rightarrow> timeline \<times> nat) \<Rightarrow> lmprof_state \<Rightarrow> lmprof_state option" where
  "trace_emit f st = map_option (\<lambda>tm. st\<lparr>i_trace := Some (fst (f tm))\<rparr>) (i_trace st)"

text \<open>
  \<^verbatim>\<open>traceevent_append_stack\<close>: a begin frame when drawing frames in trace mode,
  then, unless the layout is split, a begin routine and an enter scope for every frame
  from the bottom up, all measured by the entry measurement.
\<close>

definition traceevent_append_stack ::
  "bool \<Rightarrow> lua_host \<Rightarrow> nat \<Rightarrow> lmprof_state \<Rightarrow> lmprof_stack \<Rightarrow> (lmprof_state \<times> lmprof_stack) lres option" where
  "traceevent_append_stack ok h k st stk =
     (let u = thread_r st;
          st1 = (if BITFIELD_TEST (mode st) LMPROF_MODE_TRACE \<and> BITFIELD_TEST (conf st) LMPROF_OPT_TRACE_DRAW_FRAME
                 then trace_emit (\<lambda>tm. traceevent_beginframe ok tm (browser_frame st u)) st else Some st)
      in (case st1 of
            None \<Rightarrow> None
          | Some st1 \<Rightarrow>
              if \<not> BITFIELD_TEST (conf st1) LMPROF_OPT_TRACE_LAYOUT_SPLIT then
                (case traceevent_routine ok h k st1 stk True of
                   None \<Rightarrow> None
                 | Some (Inl err) \<Rightarrow> Some (Inl err)
                 | Some (Inr st2) \<Rightarrow> traceevent_scopes ok h k u True [0..<head stk] st2 stk)
              else Some (Inr (st1, stk))))"

text \<open>
  \<^verbatim>\<open>traceevent_clear_stack\<close>: unless the layout is split, an exit scope for every
  frame, from the bottom up, then an end routine; then an end frame when drawing frames.
\<close>

definition traceevent_clear_stack ::
  "bool \<Rightarrow> lua_host \<Rightarrow> nat \<Rightarrow> lmprof_state \<Rightarrow> lmprof_stack \<Rightarrow> (lmprof_state \<times> lmprof_stack) lres option" where
  "traceevent_clear_stack ok h k st stk =
     (let u = thread_r st;
          body = (if \<not> BITFIELD_TEST (conf st) LMPROF_OPT_TRACE_LAYOUT_SPLIT then
                    (case traceevent_scopes ok h k u False [0..<head stk] st stk of
                       None \<Rightarrow> None
                     | Some (Inl err) \<Rightarrow> Some (Inl err)
                     | Some (Inr (st1, stk1)) \<Rightarrow>
                         (case traceevent_routine ok h k st1 stk1 False of
                            None \<Rightarrow> None
                          | Some (Inl err) \<Rightarrow> Some (Inl err)
                          | Some (Inr st2) \<Rightarrow> Some (Inr (st2, stk1))))
                  else Some (Inr (st, stk)))
      in (case body of
            Some (Inr (st2, stk2)) \<Rightarrow>
              if BITFIELD_TEST (mode st2) LMPROF_MODE_TRACE \<and> BITFIELD_TEST (conf st2) LMPROF_OPT_TRACE_DRAW_FRAME
              then map_option (\<lambda>st3. Inr (st3, stk2)) (trace_emit (\<lambda>tm. traceevent_endframe ok tm (browser_frame st2 u)) st2)
              else Some (Inr (st2, stk2))
          | r \<Rightarrow> r))"

section \<open>The prehook\<close>

text \<open>
  \<^verbatim>\<open>traceevent_prehook\<close>, like \<^verbatim>\<open>graph_prehook\<close>, with two differences: a paused
  profiler raises, and on a switch to another thread in instrument mode the old thread's
  scopes are closed and the new thread's opened. The overhead of the prehook is always
  charged at its end.
\<close>

definition traceevent_prehook ::
  "hook_ar \<Rightarrow> lua_host \<Rightarrow> lmprof_state \<Rightarrow> (lua_host \<times> lmprof_state \<times> bool) lres option" where
  "traceevent_prehook a h st =
     (if h_singleton h = SINGLETON_OTHER then None
      else if h_singleton h = SINGLETON_NONE
              \<or> \<not> BITFIELD_TEST (mode st) LMPROF_CALLBACK_MASK
              \<or> BITFIELD_TEST (state st) LMPROF_STATE_ERROR
              \<or> \<not> BITFIELD_TEST (state st) LMPROF_STATE_RUNNING
      then Some (Inr (h\<lparr>h_hook := HOOK_NULL, h_hook_mask := 0, h_hook_count := 0\<rparr>, st, False))
      else if BITFIELD_TEST (mode st) LMPROF_MODE_SINGLE_THREAD \<and> thread_main st \<noteq> Some (h_current h)
      then Some (Inr (h, st, False))
      else if BITFIELD_TEST (state st) LMPROF_STATE_PAUSED
      then Some (lmprof_error h st ''profiler in a deferred state'')
      else if BITFIELD_TEST (state st) LMPROF_STATE_IGNORE_CALL
      then Some (Inr (h, st\<lparr>state := BITFIELD_CLEAR (state st) LMPROF_STATE_IGNORE_CALL\<rparr>, False))
      else
        let st1 = prehook_enter a st; ok = ar_page_ok a;
            fin = (\<lambda>h' st'. Some (Inr (h', PROFILE_ADJUST_OVERHEAD (ar_t_adjust a) st', True)))
        in if thread_state st1 \<noteq> Some (h_current h) \<and> BITFIELD_TEST (mode st1) LMPROF_MODE_INSTRUMENT then
             (case (case thread_call_stack st1 of
                      None \<Rightarrow> Some (Inr (h, st1))
                    | Some k0 \<Rightarrow>
                        (case host_stack h k0 of
                           None \<Rightarrow> None
                         | Some stk0 \<Rightarrow>
                             (case traceevent_clear_stack ok h k0 st1 stk0 of
                                None \<Rightarrow> None
                              | Some (Inl err) \<Rightarrow> Some (Inl err)
                              | Some (Inr (st2, stk2)) \<Rightarrow> Some (Inr (host_set_stack h k0 stk2, st2))))) of
                None \<Rightarrow> None
              | Some (Inl err) \<Rightarrow> Some (Inl err)
              | Some (Inr (h2, st2)) \<Rightarrow>
                  (case lmprof_thread_stacktable_get (ar_stack a) h2 st2 of
                     None \<Rightarrow> None
                   | Some (Inl err) \<Rightarrow> Some (Inl err)
                   | Some (Inr (h3, st3, k)) \<Rightarrow>
                       (case host_stack h3 k of
                          None \<Rightarrow> Some (lmprof_error h3 st3 ''could not allocate local stack'')
                        | Some stk \<Rightarrow>
                            let st4 = st3\<lparr>thread_state := Some (h_current h), thread_call_stack := Some k\<rparr>;
                                st5 = (if BITFIELD_TEST (conf st4) LMPROF_OPT_TRACE_LAYOUT_SPLIT
                                       then st4\<lparr>thread_r := (thread_r st4)\<lparr>proc := (proc (thread_r st4))\<lparr>tid := thread_identifier stk\<rparr>\<rparr>\<rparr>
                                       else st4)
                            in (case traceevent_append_stack ok h3 k st5 stk of
                                  None \<Rightarrow> None
                                | Some (Inl err) \<Rightarrow> Some (Inl err)
                                | Some (Inr (st6, stk6)) \<Rightarrow> fin (host_set_stack h3 k stk6) st6))))
           else if thread_state st1 \<noteq> Some (h_current h)
           then fin h (st1\<lparr>thread_state := Some (h_current h), thread_call_stack := None\<rparr>)
           else fin h st1)"

section \<open>The events of traceevent_instrument\<close>

text \<open>
  The call event: as in the graph hook, but the parent identifier is always the parent's
  function identifier, the frame is a trace frame, and an enter scope is appended.
\<close>

definition trace_instrument_call ::
  "hook_ar \<Rightarrow> lua_host \<Rightarrow> nat \<Rightarrow> lmprof_state \<Rightarrow> lmprof_stack \<Rightarrow> (lmprof_state \<times> lmprof_stack) lres option" where
  "trace_instrument_call a h k st stk =
     (let (fid, result) = lmprof_record_id (ar_view a) (BITFIELD_TEST (conf st) LMPROF_OPT_GC_DISABLE)
      in if PROFILE_IS_STOP (ar_stop_fns a) result then Some (Inr (st, stk))
         else
           (case (case lmprof_stack_peek stk of
                    None \<Rightarrow> Some LMPROF_RECORD_ID_ROOT
                  | Some i \<Rightarrow> (case t_record (stack stk ! i) of
                               None \<Rightarrow> None
                             | Some r \<Rightarrow> map_option f_id (i_store st r))) of
              None \<Rightarrow> None
            | Some p_fid \<Rightarrow>
                (case st_fetch_record (ar_fetch a) fid p_fid (host_set_stack h k stk) st of
                   None \<Rightarrow> None
                 | Some (Inl err) \<Rightarrow> Some (Inl err)
                 | Some (Inr (st1, r)) \<Rightarrow>
                     (case lmprof_stack_event_push stk r (thread_r st1) (LUA_IS_TAILCALL a) of
                        (stk1, None) \<Rightarrow> Some (lmprof_error (host_set_stack h k stk1) st1 ''profiler stack overflow'')
                      | (stk1, Some i) \<Rightarrow>
                          (case traceevent_scope (ar_page_ok a) h k st1 stk1 i (thread_r st1) True of
                             None \<Rightarrow> None
                           | Some (Inl err) \<Rightarrow> Some (Inl err)
                           | Some (Inr (st2, inst)) \<Rightarrow> Some (Inr (st2, inst_upd i (\<lambda>_. inst) stk1)))))))"

text \<open>The pop of the return event: never the root frame.\<close>

definition trace_ret_pop :: "lmprof_stack \<Rightarrow> lmprof_stack \<times> nat option" where
  "trace_ret_pop stk = (if 1 < head stk then lmprof_stack_pop stk else (stk, None))"

definition trace_unwind_more :: "bool \<Rightarrow> lu_addr \<Rightarrow> lmprof_state \<Rightarrow> lmprof_stack \<Rightarrow> nat \<Rightarrow> bool option" where
  "trace_unwind_more tr fid st stk i =
     (if tail_call (stack stk ! i) then Some True
      else if tr then Some False
      else (case t_record (stack stk ! i) of
              None \<Rightarrow> None
            | Some r \<Rightarrow> map_option (\<lambda>x. f_id x \<noteq> fid) (i_store st r)))"

text \<open>
  The unwinding loop of the return event: every frame it pops gets an exit scope and is
  cleared.
\<close>

function trace_unwind ::
  "bool \<Rightarrow> lua_host \<Rightarrow> nat \<Rightarrow> bool \<Rightarrow> lu_addr \<Rightarrow> lmprof_state \<Rightarrow> lmprof_stack \<Rightarrow> nat option
   \<Rightarrow> (lmprof_state \<times> lmprof_stack \<times> nat option) lres option" where
  "trace_unwind ok h k tr fid st stk None = Some (Inr (st, stk, None))"
| "trace_unwind ok h k tr fid st stk (Some i) =
     (case trace_unwind_more tr fid st stk i of
        None \<Rightarrow> None
      | Some False \<Rightarrow> Some (Inr (st, stk, Some i))
      | Some True \<Rightarrow>
          (case traceevent_scope ok h k st stk i (thread_r st) False of
             None \<Rightarrow> None
           | Some (Inl err) \<Rightarrow> Some (Inl err)
           | Some (Inr (st1, inst)) \<Rightarrow>
               let stk1 = stack_clear_instance (inst_upd i (\<lambda>_. inst) stk) (Some i);
                   (stk2, io) = trace_ret_pop stk1
               in trace_unwind ok h k tr fid st1 stk2 io))"
  by pat_completeness auto
termination
  by (relation "measure (\<lambda>(ok, h, k, tr, fid, st, stk, io). head stk + (if io = None then 0 else 1))")
     (auto simp: trace_ret_pop_def lmprof_stack_pop_def stack_clear_instance_def stack_simps split: if_splits)

definition trace_instrument_ret ::
  "hook_ar \<Rightarrow> lua_host \<Rightarrow> nat \<Rightarrow> lmprof_state \<Rightarrow> lmprof_stack \<Rightarrow> (lmprof_state \<times> lmprof_stack) lres option" where
  "trace_instrument_ret a h k st stk =
     (let (stk1, io) = trace_ret_pop stk;
          tr = (case io of None \<Rightarrow> False | Some i \<Rightarrow> tail_call (stack stk1 ! i));
          fid = (if tr then 0 else fst (lmprof_record_id (ar_view a) (BITFIELD_TEST (conf st) LMPROF_OPT_GC_DISABLE)))
      in (case trace_unwind (ar_page_ok a) h k tr fid st stk1 io of
            None \<Rightarrow> None
          | Some (Inl err) \<Rightarrow> Some (Inl err)
          | Some (Inr (st2, stk2, None)) \<Rightarrow> Some (Inr (st2, stk2))
          | Some (Inr (st2, stk2, Some i)) \<Rightarrow>
              (case traceevent_scope (ar_page_ok a) h k st2 stk2 i (thread_r st2) False of
                 None \<Rightarrow> None
               | Some (Inl err) \<Rightarrow> Some (Inl err)
               | Some (Inr (st3, inst)) \<Rightarrow>
                   Some (check_stack_mismatch h k st3 (inst_upd i (\<lambda>_. inst) stk2) (Some i) True))))"

text \<open>
  The count and line events: the counters grow and the top frame is sampled; the status
  of the sample is not checked.
\<close>

definition trace_instrument_count :: "hook_ar \<Rightarrow> lmprof_state \<Rightarrow> lmprof_stack \<Rightarrow> (lmprof_state \<times> lmprof_stack) option" where
  "trace_instrument_count a st stk =
     (let st1 = st\<lparr>i_instr_count := i_instr_count st + word_of_int (i_mask_count st)\<rparr>;
          stk1 = stk\<lparr>instr_count := instr_count stk + word_of_int (i_mask_count st)\<rparr>;
          st2 = (case lmprof_stack_peek stk1 of
                   None \<Rightarrow> Some st1
                 | Some i \<Rightarrow> trace_emit (\<lambda>tm. traceevent_sample (ar_page_ok a) tm (stack stk1 ! i) (thread_r st1) (-1)) st1)
      in map_option (\<lambda>st2. (st2, stk1\<lparr>instr_last := time (s (thread_r st2))\<rparr>)) st2)"

definition trace_instrument_line :: "hook_ar \<Rightarrow> lmprof_state \<Rightarrow> lmprof_stack \<Rightarrow> (lmprof_state \<times> lmprof_stack) option" where
  "trace_instrument_line a st stk =
     (case lmprof_stack_peek stk of
        None \<Rightarrow> Some (st, stk)
      | Some i \<Rightarrow>
          map_option (\<lambda>st1. (st1, inst_upd i (\<lambda>inst. inst\<lparr>last_line := (if 0 \<le> ar_currentline a then ar_currentline a else 0),
                                                      last_line_instructions := i_instr_count st1\<rparr>) stk))
            (trace_emit (\<lambda>tm. traceevent_sample (ar_page_ok a) tm (stack stk ! i) (thread_r st) (ar_currentline a)) st))"

definition traceevent_instrument :: "hook_ar \<Rightarrow> lua_host \<Rightarrow> lmprof_state \<Rightarrow> (lua_host \<times> lmprof_state) lres option" where
  "traceevent_instrument a h st =
     (case traceevent_prehook a h st of
        None \<Rightarrow> None
      | Some (Inl err) \<Rightarrow> Some (Inl err)
      | Some (Inr (h1, st1, go)) \<Rightarrow>
          if \<not> go then Some (Inr (h1, st1))
          else
            (case thread_call_stack st1 of
               None \<Rightarrow> None
             | Some k \<Rightarrow>
                 (case host_stack h1 k of
                    None \<Rightarrow> None
                  | Some stk \<Rightarrow>
                      (case (case ar_event a of
                               LUA_HOOKCALL \<Rightarrow> trace_instrument_call a h1 k st1 stk
                             | LUA_HOOKTAILCALL \<Rightarrow> trace_instrument_call a h1 k st1 stk
                             | LUA_HOOKRET \<Rightarrow> trace_instrument_ret a h1 k st1 stk
                             | LUA_HOOKCOUNT \<Rightarrow> map_option Inr (trace_instrument_count a st1 stk)
                             | LUA_HOOKLINE \<Rightarrow> map_option Inr (trace_instrument_line a st1 stk)) of
                         None \<Rightarrow> None
                       | Some (Inl err) \<Rightarrow> Some (Inl err)
                       | Some (Inr (st2, stk2)) \<Rightarrow>
                           Some (Inr (host_set_stack h1 k stk2,
                                      PROFILE_ADJUST_OVERHEAD (ar_t_exit a)
                                        (st2\<lparr>state := BITFIELD_CLEAR (state st2) LMPROF_STATE_IGNORE_ALLOC\<rparr>)))))))"

section \<open>Pausing and resuming\<close>

text \<open>
  \<^verbatim>\<open>lmprof_resume_execution\<close> and \<^verbatim>\<open>lmprof_pause_execution\<close> with the clock
  sample \<open>t\<close>: on a paused (or running) instrumenting trace profiler with a stack,
  reopen (or close) the scopes of the stack and clear (or set) the paused flag; the
  result is whether they acted.
\<close>

definition lmprof_resume_execution ::
  "bool \<Rightarrow> lu_time \<Rightarrow> lua_host \<Rightarrow> lmprof_state \<Rightarrow> (int \<times> lua_host \<times> lmprof_state) lres option" where
  "lmprof_resume_execution ok t h st =
     (case thread_call_stack st of
        Some k \<Rightarrow>
          if BITFIELD_TEST (state st) LMPROF_STATE_PAUSED \<and> BITFIELD_TEST (mode st) LMPROF_MODE_INSTRUMENT
             \<and> BITFIELD_TEST (mode st) LMPROF_CALLBACK_MASK then
            (case host_stack h k of
               None \<Rightarrow> None
             | Some stk \<Rightarrow>
                 (case traceevent_append_stack ok h k (st\<lparr>thread_r := (thread_r st)\<lparr>s := (s (thread_r st))\<lparr>time := t\<rparr>\<rparr>\<rparr>) stk of
                    None \<Rightarrow> None
                  | Some (Inl err) \<Rightarrow> Some (Inl err)
                  | Some (Inr (st1, stk1)) \<Rightarrow>
                      Some (Inr (1, host_set_stack h k stk1,
                                 st1\<lparr>state := BITFIELD_CLEAR (state st1) LMPROF_STATE_PAUSED\<rparr>))))
          else Some (Inr (0, h, st))
      | None \<Rightarrow> Some (Inr (0, h, st)))"

definition lmprof_pause_execution ::
  "bool \<Rightarrow> lu_time \<Rightarrow> lua_host \<Rightarrow> lmprof_state \<Rightarrow> (int \<times> lua_host \<times> lmprof_state) lres option" where
  "lmprof_pause_execution ok t h st =
     (case thread_call_stack st of
        Some k \<Rightarrow>
          if \<not> BITFIELD_TEST (state st) LMPROF_STATE_PAUSED \<and> BITFIELD_TEST (mode st) LMPROF_MODE_INSTRUMENT
             \<and> BITFIELD_TEST (mode st) LMPROF_CALLBACK_MASK then
            (case host_stack h k of
               None \<Rightarrow> None
             | Some stk \<Rightarrow>
                 (case traceevent_clear_stack ok h k (st\<lparr>thread_r := (thread_r st)\<lparr>s := (s (thread_r st))\<lparr>time := t\<rparr>\<rparr>\<rparr>) stk of
                    None \<Rightarrow> None
                  | Some (Inl err) \<Rightarrow> Some (Inl err)
                  | Some (Inr (st1, stk1)) \<Rightarrow>
                      Some (Inr (1, host_set_stack h k stk1,
                                 st1\<lparr>state := BITFIELD_SET (state st1) LMPROF_STATE_PAUSED\<rparr>))))
          else Some (Inr (0, h, st))
      | None \<Rightarrow> Some (Inr (0, h, st)))"

section \<open>Frame markers\<close>

text \<open>
  \<^verbatim>\<open>traceevent_frame\<close> with the clock sample \<open>t\<close>: in trace mode a begin or end
  frame on the browser thread, appended when \<^verbatim>\<open>LMPROF_OPT_TRACE_DRAW_FRAME\<close> is
  clear; allocations are ignored meanwhile and count again afterwards.
\<close>

definition traceevent_frame :: "bool \<Rightarrow> lu_time \<Rightarrow> lmprof_state \<Rightarrow> bool \<Rightarrow> lmprof_state option" where
  "traceevent_frame ok t st begin_frame =
     (if BITFIELD_TEST (mode st) LMPROF_MODE_TRACE then
        let st1 = st\<lparr>state := BITFIELD_SET (state st) LMPROF_STATE_IGNORE_ALLOC\<rparr>;
            u = browser_frame st1 (thread_r st1);
            frame = u\<lparr>s := (s u)\<lparr>time := t\<rparr>\<rparr>;
            st2 = (if \<not> BITFIELD_TEST (conf st1) LMPROF_OPT_TRACE_DRAW_FRAME
                   then trace_emit (\<lambda>tm. if begin_frame then traceevent_beginframe ok tm frame
                                         else traceevent_endframe ok tm frame) st1
                   else Some st1)
        in map_option (\<lambda>st2. st2\<lparr>state := BITFIELD_CLEAR (state st2) LMPROF_STATE_IGNORE_ALLOC\<rparr>) st2
      else Some st)"

text \<open>\<^verbatim>\<open>profiler:begin_frame()\<close> and \<^verbatim>\<open>profiler:end_frame()\<close>: only on a running profiler.\<close>

definition state_event_beginframe ::
  "bool \<Rightarrow> lu_time \<Rightarrow> lua_host \<Rightarrow> lmprof_state \<Rightarrow> lmprof_state lres option" where
  "state_event_beginframe ok t h st =
     (case state_get_valid h st of
        Inl err \<Rightarrow> Some (Inl err)
      | Inr _ \<Rightarrow>
          if BITFIELD_TEST (state st) LMPROF_STATE_RUNNING then map_option Inr (traceevent_frame ok t st True)
          else Some (luaL_error h st ''invalid profiler state''))"

definition state_event_endframe ::
  "bool \<Rightarrow> lu_time \<Rightarrow> lua_host \<Rightarrow> lmprof_state \<Rightarrow> lmprof_state lres option" where
  "state_event_endframe ok t h st =
     (case state_get_valid h st of
        Inl err \<Rightarrow> Some (Inl err)
      | Inr _ \<Rightarrow>
          if BITFIELD_TEST (state st) LMPROF_STATE_RUNNING then map_option Inr (traceevent_frame ok t st False)
          else Some (luaL_error h st ''invalid profiler state''))"

text \<open>
  \<^verbatim>\<open>lchrome.trace_event_beginframe()\<close> and \<^verbatim>\<open>..._endframe()\<close>: on the
  profiler owning the singleton, running and not failed.
\<close>

definition lchrome_trace_event_beginframe ::
  "bool \<Rightarrow> lu_time \<Rightarrow> lua_host \<Rightarrow> lmprof_state \<Rightarrow> lmprof_state lres option" where
  "lchrome_trace_event_beginframe ok t h st =
     (if h_singleton h = SINGLETON_SELF \<and> BITFIELD_TEST (state st) LMPROF_STATE_RUNNING
         \<and> \<not> BITFIELD_TEST (state st) LMPROF_STATE_ERROR
      then map_option Inr (traceevent_frame ok t st True)
      else Some (luaL_error h st ''invalid profiler state''))"

definition lchrome_trace_event_endframe ::
  "bool \<Rightarrow> lu_time \<Rightarrow> lua_host \<Rightarrow> lmprof_state \<Rightarrow> lmprof_state lres option" where
  "lchrome_trace_event_endframe ok t h st =
     (if h_singleton h = SINGLETON_SELF \<and> BITFIELD_TEST (state st) LMPROF_STATE_RUNNING
         \<and> \<not> BITFIELD_TEST (state st) LMPROF_STATE_ERROR
      then map_option Inr (traceevent_frame ok t st False)
      else Some (luaL_error h st ''invalid profiler state''))"

text \<open>A running instrumenting trace profiler whose layout is split, over the stack of Graph_Hook.\<close>

definition example_trace :: lmprof_state where
  "example_trace = example_running\<lparr>mode := LMPROF_MODE_INSTRUMENT OR LMPROF_MODE_TRACE,
     conf := LMPROF_OPT_TRACE_LAYOUT_SPLIT\<rparr>"

section \<open>Lemmas\<close>

lemma lmprof_error_case [simp]:
  "(case lmprof_error h st m of Inl e \<Rightarrow> f e | Inr x \<Rightarrow> g x) = f (projl (lmprof_error h st m))"
  "Inl (projl (lmprof_error h st m)) = lmprof_error h st m"
  "lmprof_error h st m \<noteq> Inr x"
  by (simp_all add: lmprof_error_def Let_def split: lmprof_error_fn.split prod.split)

lemma PAUSED_disjoint [simp]:
  "LMPROF_STATE_PAUSED AND LMPROF_STATE_RUNNING = 0"
  "LMPROF_STATE_PAUSED AND LMPROF_STATE_ERROR = 0"
  "LMPROF_STATE_PAUSED \<noteq> 0"
  by (simp_all add: LMPROF_STATE_PAUSED_def state_flag_defs)

lemma BITFIELD_CLEAR_SET:
  fixes x m :: "'a::len word"
  assumes "\<not> BITFIELD_TEST x m"
  shows "BITFIELD_CLEAR (BITFIELD_SET x m) m = x"
  unfolding BITFIELD_CLEAR_def BITFIELD_SET_def
proof (rule bit_word_eqI)
  fix i assume i: "i < LENGTH('a)"
  have "bit (x AND m) i = bit (0::'a word) i" using assms by (simp add: BITFIELD_TEST_def)
  then have "\<not> (bit x i \<and> bit m i)" by (simp add: bit_and_iff)
  with i show "bit ((x OR m) AND NOT m) i = bit x i" by (auto simp: bit_and_iff bit_or_iff bit_not_iff)
qed

text \<open>The trace wrappers change the profiler only in its timeline.\<close>

lemma i_trace_self [simp, intro]: "\<exists>tm. st = st\<lparr>i_trace := tm\<rparr>"
  by (rule exI [of _ "i_trace st"]) simp

lemma trace_emit_keeps:
  "trace_emit f st = Some st1 \<Longrightarrow> \<exists>tm. st1 = st\<lparr>i_trace := tm\<rparr>"
  by (auto simp: trace_emit_def)

lemma traceevent_routine_keeps:
  "traceevent_routine ok h k st stk b = Some (Inr st1) \<Longrightarrow> \<exists>tm. st1 = st\<lparr>i_trace := tm\<rparr>"
  by (auto simp: traceevent_routine_def Let_def split: option.splits prod.splits if_splits)

lemma traceevent_scope_keeps:
  "traceevent_scope ok h k st stk i r e = Some (Inr (st1, inst)) \<Longrightarrow>
   (\<exists>tm. st1 = st\<lparr>i_trace := tm\<rparr>) \<and> t_record inst = t_record (stack stk ! i)"
  by (auto simp: traceevent_scope_def traceevent_enterscope_def Let_def
           split: option.splits prod.splits if_splits)

lemma map_inst_upd_same:
  "p inst = p (stack stk ! i) \<Longrightarrow> map p (stack (inst_upd i (\<lambda>_. inst) stk)) = map p (stack stk)"
  by (simp add: inst_upd_def map_update)

lemma traceevent_scopes_keeps:
  "traceevent_scopes ok h k r e is st stk = Some (Inr (st1, stk1)) \<Longrightarrow>
   (\<exists>tm. st1 = st\<lparr>i_trace := tm\<rparr>) \<and> head stk1 = head stk \<and> map t_record (stack stk1) = map t_record (stack stk)"
proof (induction "is" arbitrary: st stk)
  case Nil then show ?case by auto
next
  case (Cons i "is")
  then obtain st2 inst where sc: "traceevent_scope ok h k st stk i r e = Some (Inr (st2, inst))"
    and rest: "traceevent_scopes ok h k r e is st2 (inst_upd i (\<lambda>_. inst) stk) = Some (Inr (st1, stk1))"
    by (auto split: option.splits sum.splits prod.splits)
  obtain tm where st2: "st2 = st\<lparr>i_trace := tm\<rparr>" and rec: "t_record inst = t_record (stack stk ! i)"
    using traceevent_scope_keeps [OF sc] by blast
  have "(\<exists>tm. st1 = st2\<lparr>i_trace := tm\<rparr>)"
    and "head stk1 = head stk" "map t_record (stack stk1) = map t_record (stack (inst_upd i (\<lambda>_. inst) stk))"
    using Cons.IH [OF rest] by (simp_all add: stack_simps)
  then show ?case using map_inst_upd_same [of t_record, OF rec] st2 by auto
qed

lemma traceevent_clear_stack_keeps:
  assumes "traceevent_clear_stack ok h k st stk = Some (Inr (st1, stk1))"
  shows "(\<exists>tm. st1 = st\<lparr>i_trace := tm\<rparr>) \<and> head stk1 = head stk \<and> map t_record (stack stk1) = map t_record (stack stk)"
  using assms unfolding traceevent_clear_stack_def Let_def
  by (auto split: if_splits option.splits sum.splits prod.splits
           dest!: traceevent_scopes_keeps traceevent_routine_keeps trace_emit_keeps)

lemma traceevent_append_stack_keeps:
  assumes "traceevent_append_stack ok h k st stk = Some (Inr (st1, stk1))"
  shows "(\<exists>tm. st1 = st\<lparr>i_trace := tm\<rparr>) \<and> head stk1 = head stk \<and> map t_record (stack stk1) = map t_record (stack stk)"
  using assms unfolding traceevent_append_stack_def Let_def
  by (auto split: if_splits option.splits sum.splits prod.splits
           dest!: traceevent_scopes_keeps traceevent_routine_keeps trace_emit_keeps)

lemma host_stack_set_same [simp]:
  "host_stack (host_set_stack h k stk) k = Some stk"
proof -
  have "k \<in> fst ` set xs \<Longrightarrow> map_of (map (\<lambda>e. if fst e = k then (k, stk) else e) xs) k = Some stk" for xs
    by (induction xs) auto
  moreover have "k \<notin> fst ` set xs \<Longrightarrow> map_of (xs @ [(k, stk)]) k = Some stk" for xs
    by (simp add: map_add_def map_of_eq_None_iff [symmetric] split: option.split)
  ultimately show ?thesis by (simp add: host_stack_def host_set_stack_def)
qed

text \<open>The prehook of a paused profiler that owns the hooks and is running raises.\<close>

lemma trace_prehook_paused:
  assumes "h_singleton h = SINGLETON_SELF" "BITFIELD_TEST (mode st) LMPROF_CALLBACK_MASK"
    "BITFIELD_TEST (state st) LMPROF_STATE_RUNNING" "\<not> BITFIELD_TEST (state st) LMPROF_STATE_ERROR"
    "\<not> BITFIELD_TEST (mode st) LMPROF_MODE_SINGLE_THREAD" "BITFIELD_TEST (state st) LMPROF_STATE_PAUSED"
  shows "traceevent_instrument a h st = Some (lmprof_error h st ''profiler in a deferred state'')"
  using assms apply (simp add: traceevent_instrument_def traceevent_prehook_def cong: if_weak_cong)
  apply (subst lmprof_error_case(1))
  apply simp
  done

text \<open>What a pause that acted did: the stack it closed and the profiler it paused.\<close>

lemma pause_acted:
  assumes "lmprof_pause_execution ok t h st = Some (Inr (1, h1, st1))"
  obtains k stk stk1 tm where "thread_call_stack st = Some k" "host_stack h k = Some stk"
    "\<not> BITFIELD_TEST (state st) LMPROF_STATE_PAUSED" "BITFIELD_TEST (mode st) LMPROF_MODE_INSTRUMENT"
    "BITFIELD_TEST (mode st) LMPROF_CALLBACK_MASK"
    "h1 = host_set_stack h k stk1" "head stk1 = head stk" "map t_record (stack stk1) = map t_record (stack stk)"
    "st1 = st\<lparr>thread_r := (thread_r st)\<lparr>s := (s (thread_r st))\<lparr>time := t\<rparr>\<rparr>, i_trace := tm,
              state := BITFIELD_SET (state st) LMPROF_STATE_PAUSED\<rparr>"
  using assms unfolding lmprof_pause_execution_def
  by (auto split: option.splits if_splits sum.splits prod.splits dest!: traceevent_clear_stack_keeps)

lemma resume_acted:
  assumes "lmprof_resume_execution ok t h st = Some (Inr (n, h1, st1))"
    and "thread_call_stack st = Some k" "BITFIELD_TEST (state st) LMPROF_STATE_PAUSED"
    "BITFIELD_TEST (mode st) LMPROF_MODE_INSTRUMENT" "BITFIELD_TEST (mode st) LMPROF_CALLBACK_MASK"
  obtains stk stk1 tm where "n = 1" "host_stack h k = Some stk"
    "h1 = host_set_stack h k stk1" "head stk1 = head stk" "map t_record (stack stk1) = map t_record (stack stk)"
    "st1 = st\<lparr>thread_r := (thread_r st)\<lparr>s := (s (thread_r st))\<lparr>time := t\<rparr>\<rparr>, i_trace := tm,
              state := BITFIELD_CLEAR (state st) LMPROF_STATE_PAUSED\<rparr>"
  using assms unfolding lmprof_resume_execution_def
  by (auto split: option.splits if_splits sum.splits prod.splits dest!: traceevent_append_stack_keeps)

text \<open>
  A trace hook that fires while the profiler owning the hooks is running but
  paused does not record anything: \<^verbatim>\<open>traceevent_prehook\<close> raises
  ``profiler in a deferred state'' through \<^verbatim>\<open>lmprof_error\<close>, which tears the
  profiler down, whatever the event.
\<close>

theorem trace_paused_hook_raises:
  assumes "h_singleton h = SINGLETON_SELF" "BITFIELD_TEST (mode st) LMPROF_CALLBACK_MASK"
    "BITFIELD_TEST (state st) LMPROF_STATE_RUNNING" "\<not> BITFIELD_TEST (state st) LMPROF_STATE_ERROR"
    "\<not> BITFIELD_TEST (mode st) LMPROF_MODE_SINGLE_THREAD" "BITFIELD_TEST (state st) LMPROF_STATE_PAUSED"
  shows "traceevent_instrument a h st = Some (lmprof_error h st ''profiler in a deferred state'')"
  using trace_prehook_paused [OF assms] .

text \<open>
  C17 (safety): once \<^verbatim>\<open>lmprof_pause_execution\<close> has acted on a running profiler that
  owns the hooks, the profiler is flagged paused and the next trace hook event raises
  ``profiler in a deferred state'': a pause must be paired with removing the hooks.
\<close>

theorem trace_pause_blocks_hooks:
  assumes "lmprof_pause_execution ok t h st = Some (Inr (1, h', st'))"
    and "h_singleton h = SINGLETON_SELF" "BITFIELD_TEST (state st) LMPROF_STATE_RUNNING"
    "\<not> BITFIELD_TEST (state st) LMPROF_STATE_ERROR" "\<not> BITFIELD_TEST (mode st) LMPROF_MODE_SINGLE_THREAD"
  shows "BITFIELD_TEST (state st') LMPROF_STATE_PAUSED \<and>
         traceevent_instrument a h' st' = Some (lmprof_error h' st' ''profiler in a deferred state'')"
proof -
  obtain k stk1 tm where "BITFIELD_TEST (mode st) LMPROF_CALLBACK_MASK" "h' = host_set_stack h k stk1"
    "st' = st\<lparr>thread_r := (thread_r st)\<lparr>s := (s (thread_r st))\<lparr>time := t\<rparr>\<rparr>, i_trace := tm,
              state := BITFIELD_SET (state st) LMPROF_STATE_PAUSED\<rparr>"
    using assms(1) by (rule pause_acted)
  with assms(2-5) show ?thesis by (simp add: trace_prehook_paused)
qed

text \<open>
  C18 (roundtrip): \<^verbatim>\<open>lmprof_resume_execution\<close> after a \<^verbatim>\<open>lmprof_pause_execution\<close>
  that acted also acts, and restores the profiler's state flags, mode, options and current
  stack; the stack keeps its height and the record of every frame, only the trace events of
  the frames (closed by the pause, reopened by the resume) change.
\<close>

theorem trace_pause_resume_roundtrip:
  assumes "lmprof_pause_execution ok t h st = Some (Inr (1, h1, st1))"
    and "lmprof_resume_execution ok' t' h1 st1 = Some (Inr (n, h2, st2))"
  shows "n = 1 \<and> state st2 = state st \<and> mode st2 = mode st \<and> conf st2 = conf st \<and>
         thread_call_stack st2 = thread_call_stack st \<and>
         (\<exists>k stk stk2. thread_call_stack st = Some k \<and> host_stack h k = Some stk \<and> host_stack h2 k = Some stk2 \<and>
            head stk2 = head stk \<and> map t_record (stack stk2) = map t_record (stack stk))"
proof -
  obtain k stk stk1 tm where k: "thread_call_stack st = Some k" and stk: "host_stack h k = Some stk"
    and np: "\<not> BITFIELD_TEST (state st) LMPROF_STATE_PAUSED" and ins: "BITFIELD_TEST (mode st) LMPROF_MODE_INSTRUMENT"
    and cb: "BITFIELD_TEST (mode st) LMPROF_CALLBACK_MASK"
    and h1: "h1 = host_set_stack h k stk1" and hd1: "head stk1 = head stk"
    and r1: "map t_record (stack stk1) = map t_record (stack stk)"
    and st1: "st1 = st\<lparr>thread_r := (thread_r st)\<lparr>s := (s (thread_r st))\<lparr>time := t\<rparr>\<rparr>, i_trace := tm,
              state := BITFIELD_SET (state st) LMPROF_STATE_PAUSED\<rparr>"
    using assms(1) by (rule pause_acted)
  have k1: "thread_call_stack st1 = Some k" and p1: "BITFIELD_TEST (state st1) LMPROF_STATE_PAUSED"
    and i1: "BITFIELD_TEST (mode st1) LMPROF_MODE_INSTRUMENT" and c1: "BITFIELD_TEST (mode st1) LMPROF_CALLBACK_MASK"
    using k ins cb by (simp_all add: st1)
  obtain stk' stk2 tm' where n: "n = 1" and stk': "host_stack h1 k = Some stk'"
    and h2: "h2 = host_set_stack h1 k stk2" and "head stk2 = head stk'" "map t_record (stack stk2) = map t_record (stack stk')"
    and st2: "st2 = st1\<lparr>thread_r := (thread_r st1)\<lparr>s := (s (thread_r st1))\<lparr>time := t'\<rparr>\<rparr>, i_trace := tm',
              state := BITFIELD_CLEAR (state st1) LMPROF_STATE_PAUSED\<rparr>"
    by (rule resume_acted [OF assms(2) k1 p1 i1 c1])
  moreover have "stk' = stk1" using stk' h1 by simp
  moreover have "state st2 = state st" using np by (simp add: st2 st1 BITFIELD_CLEAR_SET)
  ultimately show ?thesis using k stk hd1 r1 by (simp add: st2 st1)
qed

text \<open>
  C19 (functional): with \<^verbatim>\<open>LMPROF_OPT_TRACE_DRAW_FRAME\<close> set (frames drawn at each
  coroutine resume and yield), \<^verbatim>\<open>traceevent_frame\<close>, behind
  \<^verbatim>\<open>profiler:begin_frame()\<close> and \<^verbatim>\<open>profiler:end_frame()\<close>, changes nothing: the
  user's frame markers are dropped.
\<close>

theorem trace_frame_draw_frame_ignored:
  assumes "BITFIELD_TEST (conf st) LMPROF_OPT_TRACE_DRAW_FRAME" "\<not> BITFIELD_TEST (state st) LMPROF_STATE_IGNORE_ALLOC"
  shows "traceevent_frame ok t st b = Some st"
proof -
  have "BITFIELD_TEST (conf (st\<lparr>state := BITFIELD_SET (state st) LMPROF_STATE_IGNORE_ALLOC\<rparr>)) LMPROF_OPT_TRACE_DRAW_FRAME"
    using assms(1) by simp
  then show ?thesis
    unfolding traceevent_frame_def Let_def using assms(2)
    by (simp add: BITFIELD_CLEAR_SET cong: if_weak_cong)
qed

lemmas example_trace_defs = example_trace_def example_running_def example_profiler_def example_running_host_def
  example_host_def mode_defs state_flag_defs LMPROF_STATE_PAUSED_def LMPROF_OPT_TRACE_LAYOUT_SPLIT_def
  LMPROF_OPT_TRACE_DRAW_FRAME_def BITFIELD_TEST_def

lemma example_pause_resume:
  "\<exists>h1 st1 h2 st2. lmprof_pause_execution True 5 example_running_host example_trace = Some (Inr (1, h1, st1)) \<and>
     lmprof_resume_execution True 7 h1 st1 = Some (Inr (1, h2, st2))"
  by (simp add: lmprof_pause_execution_def lmprof_resume_execution_def traceevent_clear_stack_def
      traceevent_append_stack_def host_stack_def host_set_stack_def example_trace_defs Let_def BITFIELD_SET_def)

theorem trace_paused_hook_raises_witness:
  "traceevent_instrument undefined example_running_host
     (example_trace\<lparr>state := state example_trace OR LMPROF_STATE_PAUSED\<rparr>) =
   Some (lmprof_error example_running_host (example_trace\<lparr>state := state example_trace OR LMPROF_STATE_PAUSED\<rparr>)
     ''profiler in a deferred state'')"
  by (rule trace_paused_hook_raises) (simp_all add: example_trace_defs)

theorem trace_pause_blocks_hooks_witness:
  "\<exists>h' st'. lmprof_pause_execution True 5 example_running_host example_trace = Some (Inr (1, h', st')) \<and>
     BITFIELD_TEST (state st') LMPROF_STATE_PAUSED \<and>
     traceevent_instrument undefined h' st' = Some (lmprof_error h' st' ''profiler in a deferred state'')"
proof -
  obtain h' st' where p: "lmprof_pause_execution True 5 example_running_host example_trace = Some (Inr (1, h', st'))"
    using example_pause_resume by blast
  have "h_singleton example_running_host = SINGLETON_SELF"
    "BITFIELD_TEST (state example_trace) LMPROF_STATE_RUNNING"
    "\<not> BITFIELD_TEST (state example_trace) LMPROF_STATE_ERROR"
    "\<not> BITFIELD_TEST (mode example_trace) LMPROF_MODE_SINGLE_THREAD"
    by (simp_all add: example_trace_defs)
  with p show ?thesis using trace_pause_blocks_hooks [OF p, of undefined] by blast
qed

theorem trace_pause_resume_roundtrip_witness:
  "\<exists>h1 st1 h2 st2. lmprof_pause_execution True 5 example_running_host example_trace = Some (Inr (1, h1, st1)) \<and>
     lmprof_resume_execution True 7 h1 st1 = Some (Inr (1, h2, st2)) \<and> state st2 = state example_trace"
proof -
  obtain h1 st1 h2 st2 where p: "lmprof_pause_execution True 5 example_running_host example_trace = Some (Inr (1, h1, st1))"
    and r: "lmprof_resume_execution True 7 h1 st1 = Some (Inr (1, h2, st2))"
    using example_pause_resume by blast
  have "state st2 = state example_trace" using trace_pause_resume_roundtrip [OF p r] by simp
  then show ?thesis using p r by blast
qed

theorem trace_frame_draw_frame_ignored_witness:
  "traceevent_frame True 5 (example_trace\<lparr>conf := LMPROF_OPT_TRACE_DRAW_FRAME\<rparr>) True =
   Some (example_trace\<lparr>conf := LMPROF_OPT_TRACE_DRAW_FRAME\<rparr>)"
  by (rule trace_frame_draw_frame_ignored) (simp_all add: example_trace_defs)

end
