(* ===== verification/Report.thy ===== *)
theory Report
  imports Profiler_State "HOL-Library.AList"
begin

text \<open>
  The graph half of the report emitter, \<^verbatim>\<open>src/src/lmprof_report.c\<close>
  (\<^verbatim>\<open>profiler_header\<close>, \<^verbatim>\<open>graph_hash_callback\<close>, \<^verbatim>\<open>graph_report\<close>) with the
  hashtable walk \<^verbatim>\<open>lmprof_hash_report\<close> of \<^verbatim>\<open>lmprof_collections.c\<close>. A Lua
  table the emitter builds is a \<open>report_value\<close>: string-keyed fields in the order the
  code sets them, integer-keyed slots in the order \<^verbatim>\<open>lua_rawseti\<close> fills them, or
  a table with both.
  A file the emitter writes is the string of everything \<^verbatim>\<open>fprintf\<close> wrote; the
  \<^verbatim>\<open>printf\<close> conversions are the printers \<open>nat_str\<close>, \<open>int_str\<close> and
  \<open>hex_nat\<close>. The build is the 64-bit one for Lua 5.4 with the clock of
  \<^verbatim>\<open>lmprof_clock_sample\<close>; whether \<^verbatim>\<open>LMPROF_FILE_API\<close> is defined is the
  parameter \<open>io\<close>.
\<close>

unbundle bit_operations_syntax

section \<open>Codes, kinds and values\<close>

definition LUA_OK :: int where "LUA_OK = 0"

definition LMPROF_REPORT_FAILURE :: int where "LMPROF_REPORT_FAILURE = -1"
definition LMPROF_REPORT_DISABLED_IO :: int where "LMPROF_REPORT_DISABLED_IO = -2"
definition LMPROF_REPORT_UNKNOWN_TYPE :: int where "LMPROF_REPORT_UNKNOWN_TYPE = -3"

datatype lmprof_report_type = lTable | lFile | lBuffer

datatype report_value =
  RV lua_value
| RT "(string \<times> report_value) list"
| RI "(int \<times> report_value) list"
| RM "(string \<times> report_value) list" "(int \<times> report_value) list"

text \<open>
  \<^verbatim>\<open>lmprof_Report\<close>. Of the Lua stack the emitter sees the table at
  \<^verbatim>\<open>t.table_index\<close> (\<open>rp_table\<close>) and the array the record callbacks append to
  (\<open>rp_records\<close>); of the file union member the text written, the pending delimiter
  and the indentation.
\<close>

record lmprof_Report =
  rp_st :: lmprof_state
  rp_type :: lmprof_report_type
  rp_table :: "(string \<times> report_value) list"
  rp_records :: "(int \<times> report_value) list"
  rp_array_count :: int
  rp_file :: string
  rp_delim :: bool
  rp_indent :: string

section \<open>Printing\<close>

definition NL :: string where "NL = [CHR 0x0A]"
definition TAB :: string where "TAB = [CHR 0x09]"
definition QUOTE :: string where "QUOTE = [CHR 0x22]"

definition digit_char :: "nat \<Rightarrow> char" where
  "digit_char d = (if d < 10 then char_of (48 + d) else char_of (87 + d))"

text \<open>
  \<^verbatim>\<open>%x\<close>: lowercase hexadecimal without prefix. The decimal conversions are
  \<open>nat_str\<close> and \<open>int_str\<close> of Config.
\<close>

function hex_nat :: "nat \<Rightarrow> string" where
  "hex_nat n = (if n < 16 then [digit_char n] else hex_nat (n div 16) @ [digit_char (n mod 16)])"
  by pat_completeness auto
termination by (relation "measure id") auto

declare nat_str.simps [simp del] hex_nat.simps [simp del]

definition bool_str :: "bool \<Rightarrow> string" where
  "bool_str b = (if b then ''true'' else ''false'')"

text \<open>\<^verbatim>\<open>LMPROF_PRINTF(F, L, I, ...)\<close>: the indentation, a tab, the line, a comma.\<close>

definition lmprof_printf :: "string \<Rightarrow> string \<Rightarrow> string" where
  "lmprof_printf indent l = indent @ TAB @ l @ '','' @ NL"

definition LMPROF_RECORD_NAME_UNKNOWN :: string where "LMPROF_RECORD_NAME_UNKNOWN = ''?''"

definition opt_name :: "string option \<Rightarrow> string" where
  "opt_name n = (case n of None \<Rightarrow> LMPROF_RECORD_NAME_UNKNOWN | Some x \<Rightarrow> x)"

text \<open>\<^verbatim>\<open>snprintf(..., "%" PRIluADDR, id)\<close> with \<^verbatim>\<open>PRIluADDR = PRIxPTR\<close>.\<close>

definition addr_str :: "lu_addr \<Rightarrow> string" where
  "addr_str a = hex_nat (unat a)"

text \<open>
  \<^verbatim>\<open>LMPROF_TIME_ID\<close> and \<^verbatim>\<open>LMPROF_TIME_ADJ\<close> of the 64-bit \<^verbatim>\<open>clock_sample\<close>
  build (\<^verbatim>\<open>LU_TIME_NANO(T) = T\<close>, \<^verbatim>\<open>LU_TIME_MICRO(T) = T / 1000\<close>).
\<close>

definition LMPROF_TIME_ID :: "flags32 \<Rightarrow> string" where
  "LMPROF_TIME_ID c = (if c AND LMPROF_OPT_CLOCK_MICRO \<noteq> 0 then ''micro'' else ''nano'')"

definition LMPROF_TIME_ADJ :: "lu_time \<Rightarrow> flags32 \<Rightarrow> lu_time" where
  "LMPROF_TIME_ADJ t c = (if c AND LMPROF_OPT_CLOCK_MICRO \<noteq> 0 then t div 1000 else t)"

text \<open>\<^verbatim>\<open>l_cast(lua_Integer, x)\<close> of an unsigned 64-bit value: two's complement.\<close>

definition lua_int :: "64 word \<Rightarrow> report_value" where
  "lua_int w = RV (LInt (sint w))"

section \<open>The graph format\<close>

text \<open>
  \<^verbatim>\<open>profiler_header\<close> (lines 81--122). In a table report it sets its fields on the
  table on top of the stack: they are returned. In a file report each field is an
  \<^verbatim>\<open>LMPROF_PRINTF\<close> line.
\<close>

definition header_fields :: "lmprof_state \<Rightarrow> (string \<times> report_value) list" where
  "header_fields st =
     [(''clockid'', RV (LStr (LMPROF_TIME_ID (conf st)))),
      (''instrument'', RV (LBool (BITFIELD_TEST (mode st) LMPROF_MODE_INSTRUMENT))),
      (''memory'', RV (LBool (BITFIELD_TEST (mode st) LMPROF_MODE_MEMORY))),
      (''sample'', RV (LBool (BITFIELD_TEST (mode st) LMPROF_MODE_SAMPLE))),
      (''callback'', RV (LBool (BITFIELD_TEST (mode st) LMPROF_CALLBACK_MASK))),
      (''single_thread'', RV (LBool (BITFIELD_TEST (mode st) LMPROF_MODE_SINGLE_THREAD))),
      (''mismatch'', RV (LBool (BITFIELD_TEST (conf st) LMPROF_OPT_STACK_MISMATCH))),
      (''line_freq'', RV (LBool (BITFIELD_TEST (conf st) LMPROF_OPT_LINE_FREQUENCY))),
      (''sampler_count'', RV (LInt (i_mask_count st))),
      (''instr_count'', lua_int (i_instr_count st)),
      (''profile_overhead'', lua_int (LMPROF_TIME_ADJ (overhead (thread_r st)) (conf st))),
      (''calibration'', lua_int (LMPROF_TIME_ADJ (i_calibration st) (conf st)))]"

definition header_lines :: "lmprof_state \<Rightarrow> (string \<times> string) list" where
  "header_lines st =
     [(''clockid'', QUOTE @ LMPROF_TIME_ID (conf st) @ QUOTE),
      (''instrument'', bool_str (BITFIELD_TEST (mode st) LMPROF_MODE_INSTRUMENT)),
      (''memory'', bool_str (BITFIELD_TEST (mode st) LMPROF_MODE_MEMORY)),
      (''sample'', bool_str (BITFIELD_TEST (mode st) LMPROF_MODE_SAMPLE)),
      (''callback'', bool_str (BITFIELD_TEST (mode st) LMPROF_CALLBACK_MASK)),
      (''single_thread'', bool_str (BITFIELD_TEST (mode st) LMPROF_MODE_SINGLE_THREAD)),
      (''mismatch'', bool_str (BITFIELD_TEST (conf st) LMPROF_OPT_STACK_MISMATCH)),
      (''line_freq'', bool_str (BITFIELD_TEST (conf st) LMPROF_OPT_LINE_FREQUENCY)),
      (''sampler_count'', int_str (i_mask_count st)),
      (''instr_count'', int_str (sint (i_instr_count st))),
      (''profile_overhead'', int_str (sint (LMPROF_TIME_ADJ (overhead (thread_r st)) (conf st)))),
      (''calibration'', int_str (sint (LMPROF_TIME_ADJ (i_calibration st) (conf st))))]"

text \<open>A run of \<^verbatim>\<open>LMPROF_PRINTF(f, "key = ...", indent, ...)\<close> lines.\<close>

definition print_fields :: "string \<Rightarrow> (string \<times> string) list \<Rightarrow> string" where
  "print_fields indent fs = concat (map (\<lambda>(k, v). lmprof_printf indent (k @ '' = '' @ v)) fs)"

definition profiler_header ::
  "bool \<Rightarrow> lmprof_Report \<Rightarrow> int \<times> (string \<times> report_value) list \<times> lmprof_Report" where
  "profiler_header io R =
     (if rp_type R = lTable then (LUA_OK, header_fields (rp_st R), R)
      else if rp_type R = lFile then
        (if io then (LUA_OK, [], R\<lparr>rp_file := rp_file R @ print_fields (rp_indent R) (header_lines (rp_st R))\<rparr>)
         else (LMPROF_REPORT_DISABLED_IO, [], R))
      else (LMPROF_REPORT_UNKNOWN_TYPE, [], R))"

text \<open>
  A record of the graph report, table branch of \<^verbatim>\<open>graph_hash_callback\<close>
  (lines 141--186): header, statistics (times under instrument mode, memory under memory
  mode), the function metadata, and the line-frequency array (lines 188--204), which is
  indexed from 1.
\<close>

definition graph_record_lines :: "lmprof_record \<Rightarrow> (string \<times> report_value) list" where
  "graph_record_lines x =
     (if graph_line_freq x \<noteq> []
      then [(''lines'', RI (zip [1..int (length (graph_line_freq x))] (map lua_int (graph_line_freq x))))]
      else [])"

definition graph_record_fields :: "flags32 \<Rightarrow> flags32 \<Rightarrow> lmprof_record \<Rightarrow> (string \<times> report_value) list" where
  "graph_record_fields m c x =
     [(''id'', RV (LStr (addr_str (r_id x)))),
      (''func'', RV (LStr (addr_str (f_id x)))),
      (''parent'', RV (LStr (addr_str (p_id x)))),
      (''parent_line'', RV (LInt (p_currentline x))),
      (''ignored'', RV (LBool (BITFIELD_TEST (event (info x)) LMPROF_RECORD_IGNORED))),
      (''name'', RV (LStr (opt_name (name (info x))))),
      (''what'', RV (LStr (what (info x)))),
      (''source'', RV (LStr (opt_name (source (info x))))),
      (''count'', lua_int (graph_count x))] @
     (if BITFIELD_TEST m LMPROF_MODE_INSTRUMENT
      then [(''time'', lua_int (LMPROF_TIME_ADJ (time (graph_node x)) c)),
            (''total_time'', lua_int (LMPROF_TIME_ADJ (time (graph_path x)) c))]
      else []) @
     (if BITFIELD_TEST m LMPROF_MODE_MEMORY
      then [(''allocated'', lua_int (allocated (graph_node x))),
            (''deallocated'', lua_int (deallocated (graph_node x))),
            (''total_allocated'', lua_int (allocated (graph_path x))),
            (''total_deallocated'', lua_int (deallocated (graph_path x)))]
      else []) @
     [(''linedefined'', RV (LInt (linedefined (info x)))),
      (''lastlinedefined'', RV (LInt (lastlinedefined (info x)))),
      (''nups'', RV (LInt (uint (nups (info x))))),
      (''nparams'', RV (LInt (uint (nparams (info x))))),
      (''isvararg'', RV (LBool (isvararg (info x)))),
      (''istailcall'', RV (LBool (istailcall (info x)))),
      (''ftransfer'', RV (LInt (uint (ftransfer (info x))))),
      (''ntransfer'', RV (LInt (uint (ntransfer (info x)))))] @
     graph_record_lines x"

text \<open>
  The file branch (lines 208--274): the same fields as \<^verbatim>\<open>LMPROF_PRINTF\<close> lines, the
  unsigned statistics with \<^verbatim>\<open>%zu\<close> and \<^verbatim>\<open>PRIu64\<close>, the two flags with
  \<^verbatim>\<open>%d\<close>, the frequencies as one \<^verbatim>\<open>lines = {...}\<close> line.
\<close>

definition graph_file_fields :: "flags32 \<Rightarrow> flags32 \<Rightarrow> lmprof_record \<Rightarrow> (string \<times> string) list" where
  "graph_file_fields m c x =
     [(''id'', QUOTE @ addr_str (r_id x) @ QUOTE),
      (''func'', QUOTE @ addr_str (f_id x) @ QUOTE),
      (''parent'', QUOTE @ addr_str (p_id x) @ QUOTE),
      (''parent_line'', int_str (p_currentline x)),
      (''ignored'', bool_str (BITFIELD_TEST (event (info x)) LMPROF_RECORD_IGNORED)),
      (''name'', QUOTE @ opt_name (name (info x)) @ QUOTE),
      (''what'', QUOTE @ what (info x) @ QUOTE),
      (''source'', QUOTE @ opt_name (source (info x)) @ QUOTE),
      (''count'', nat_str (unat (graph_count x)))] @
     (if BITFIELD_TEST m LMPROF_MODE_INSTRUMENT
      then [(''time'', nat_str (unat (LMPROF_TIME_ADJ (time (graph_node x)) c))),
            (''total_time'', nat_str (unat (LMPROF_TIME_ADJ (time (graph_path x)) c)))]
      else []) @
     (if BITFIELD_TEST m LMPROF_MODE_MEMORY
      then [(''allocated'', nat_str (unat (allocated (graph_node x)))),
            (''deallocated'', nat_str (unat (deallocated (graph_node x)))),
            (''total_allocated'', nat_str (unat (allocated (graph_path x)))),
            (''total_deallocated'', nat_str (unat (deallocated (graph_path x))))]
      else []) @
     [(''linedefined'', int_str (linedefined (info x))),
      (''lastlinedefined'', int_str (lastlinedefined (info x))),
      (''nups'', nat_str (unat (nups (info x)))),
      (''nparams'', nat_str (unat (nparams (info x)))),
      (''isvararg'', nat_str (if isvararg (info x) then 1 else 0)),
      (''istailcall'', nat_str (if istailcall (info x) then 1 else 0)),
      (''ftransfer'', nat_str (unat (ftransfer (info x)))),
      (''ntransfer'', nat_str (unat (ntransfer (info x))))] @
     (if graph_line_freq x \<noteq> []
      then [(''lines'', ''{'' @ nat_str (unat (hd (graph_line_freq x))) @
                         concat (map (\<lambda>f. '', '' @ nat_str (unat f)) (tl (graph_line_freq x))) @ ''}'')]
      else [])"

definition graph_record_file :: "string \<Rightarrow> flags32 \<Rightarrow> flags32 \<Rightarrow> lmprof_record \<Rightarrow> string" where
  "graph_record_file indent m c x =
     indent @ ''{'' @ NL @ print_fields indent (graph_file_fields m c x) @ indent @ ''},'' @ NL"

text \<open>
  \<^verbatim>\<open>graph_hash_callback\<close> (lines 135--277): a table report appends the record's table
  at \<^verbatim>\<open>array_count++\<close>; a file report writes it.
\<close>

definition graph_hash_callback :: "bool \<Rightarrow> lmprof_Report \<Rightarrow> lmprof_record \<Rightarrow> int \<times> lmprof_Report" where
  "graph_hash_callback io R x =
     (let m = mode (rp_st R); c = conf (rp_st R) in
      if rp_type R = lTable then
        (LUA_OK, R\<lparr>rp_records := rp_records R @ [(rp_array_count R, RT (graph_record_fields m c x))],
                   rp_array_count := rp_array_count R + 1\<rparr>)
      else if rp_type R = lFile then
        (if io then (LUA_OK, R\<lparr>rp_file := rp_file R @ graph_record_file (rp_indent R) m c x\<rparr>)
         else (LMPROF_REPORT_DISABLED_IO, R))
      else (LMPROF_REPORT_UNKNOWN_TYPE, R))"

section \<open>Walking the hashtable\<close>

text \<open>
  \<^verbatim>\<open>lmprof_hash_report\<close>: every chain of every bucket in order, stopping at the first
  callback result other than \<^verbatim>\<open>LUA_OK\<close>. A chained pointer with no record behind it
  is undefined behaviour.
\<close>

fun hash_report_chain ::
  "('s \<Rightarrow> lmprof_record \<Rightarrow> int \<times> 's) \<Rightarrow> record_store \<Rightarrow> ref list \<Rightarrow> 's \<Rightarrow> (int \<times> 's) option" where
  "hash_report_chain cb rs [] a = Some (LUA_OK, a)"
| "hash_report_chain cb rs (r # c) a =
     (case rs r of
        None \<Rightarrow> None
      | Some x \<Rightarrow> (case cb a x of
          (res, a') \<Rightarrow> if res \<noteq> LUA_OK then Some (res, a') else hash_report_chain cb rs c a'))"

fun hash_report_buckets ::
  "('s \<Rightarrow> lmprof_record \<Rightarrow> int \<times> 's) \<Rightarrow> record_store \<Rightarrow> ref list list \<Rightarrow> 's \<Rightarrow> (int \<times> 's) option" where
  "hash_report_buckets cb rs [] a = Some (LUA_OK, a)"
| "hash_report_buckets cb rs (c # cs) a =
     (case hash_report_chain cb rs c a of
        None \<Rightarrow> None
      | Some (res, a') \<Rightarrow> if res \<noteq> LUA_OK then Some (res, a') else hash_report_buckets cb rs cs a')"

definition lmprof_hash_report ::
  "('s \<Rightarrow> lmprof_record \<Rightarrow> int \<times> 's) \<Rightarrow> record_store \<Rightarrow> lmprof_hash \<Rightarrow> 's \<Rightarrow> 's option" where
  "lmprof_hash_report cb rs h a =
     map_option snd (hash_report_buckets cb rs (map (\<lambda>i. buckets h ! i) [0..<bucket_count h]) a)"

section \<open>The graph report\<close>

text \<open>
  \<^verbatim>\<open>graph_report\<close> (lines 279--317). The table report sets \<^verbatim>\<open>header\<close> (with the
  \<^verbatim>\<open>debug\<close> subtable of \<^verbatim>\<open>lmprof_hash_debug\<close> under \<^verbatim>\<open>report_verbose\<close>, whose
  floating-point bucket statistics \<open>dbg\<close> are taken as given) and \<^verbatim>\<open>records\<close> on
  the report table; the file report writes a Lua chunk returning both. The results of
  the header and of the walk are ignored.
\<close>

definition graph_report ::
  "bool \<Rightarrow> (string \<times> report_value) list \<Rightarrow> lmprof_Report \<Rightarrow> (int \<times> lmprof_Report) option" where
  "graph_report io dbg R =
     (let st = rp_st R in
      if rp_type R = lTable then
        (case i_hash st of
           None \<Rightarrow> None
         | Some h \<Rightarrow>
             (case profiler_header io R of
                (_, hdr, R1) \<Rightarrow>
                  let hdr' = hdr @ (if BITFIELD_TEST (conf st) LMPROF_OPT_REPORT_VERBOSE \<and>
                                       \<not> BITFIELD_TEST (mode st) LMPROF_CALLBACK_MASK
                                    then [(''debug'', RT dbg)] else []);
                      R2 = R1\<lparr>rp_table := AList.update ''header'' (RT hdr') (rp_table R1),
                              rp_records := []\<rparr>
                  in map_option
                       (\<lambda>R3. (LUA_OK, R3\<lparr>rp_table := AList.update ''records'' (RI (rp_records R3)) (rp_table R3)\<rparr>))
                       (lmprof_hash_report (graph_hash_callback io) (i_store st) h R2)))
      else if rp_type R = lFile then
        (if \<not> io then Some (LMPROF_REPORT_DISABLED_IO, R)
         else
           (case i_hash st of
              None \<Rightarrow> None
            | Some h \<Rightarrow>
                let R1 = R\<lparr>rp_indent := TAB,
                           rp_file := rp_file R @ ''return {'' @ NL @ TAB @ ''header = {'' @ NL\<rparr>;
                    R2 = snd (snd (profiler_header io R1));
                    R3 = R2\<lparr>rp_indent := TAB @ TAB,
                            rp_file := rp_file R2 @ TAB @ ''},'' @ NL @ TAB @ ''records = {'' @ NL\<rparr>
                in map_option
                     (\<lambda>R4. (LUA_OK, R4\<lparr>rp_file := rp_file R4 @ TAB @ ''}'' @ NL @ ''}'' @ NL\<rparr>))
                     (lmprof_hash_report (graph_hash_callback io) (i_store st) h R3)))
      else Some (LMPROF_REPORT_FAILURE, R))"

section \<open>Reading a report\<close>

text \<open>
  What a reader of the report sees: the Lua literal syntax of a value (the syntax the
  file report writes), the Lua type of a value, and the field types the
  \<^verbatim>\<open>GRAPH_FORMAT\<close> comment of \<^verbatim>\<open>lmprof_report.h\<close> documents for a record.
\<close>

fun lua_literal :: "lua_value \<Rightarrow> string" where
  "lua_literal LNil = ''nil''"
| "lua_literal (LBool b) = bool_str b"
| "lua_literal (LInt i) = int_str i"
| "lua_literal (LStr str) = QUOTE @ str @ QUOTE"

fun lua_render :: "report_value \<Rightarrow> string" where
  "lua_render (RV v) = lua_literal v"
| "lua_render (RT fs) = ''{'' @ concat (map (\<lambda>(k, v). k @ '' = '' @ lua_render v @ '', '') fs) @ ''}''"
| "lua_render (RI []) = ''{}''"
| "lua_render (RI ((_, v) # vs)) = ''{'' @ lua_render v @ concat (map (\<lambda>(_, w). '', '' @ lua_render w) vs) @ ''}''"
| "lua_render (RM fs kvs) =
     ''{'' @ concat (map (\<lambda>(_, w). lua_render w @ '', '') kvs) @
     concat (map (\<lambda>(k, v). k @ '' = '' @ lua_render v @ '', '') fs) @ ''}''"

fun lua_type_of :: "report_value \<Rightarrow> string" where
  "lua_type_of (RV LNil) = ''nil''"
| "lua_type_of (RV (LBool _)) = ''boolean''"
| "lua_type_of (RV (LInt _)) = ''number''"
| "lua_type_of (RV (LStr _)) = ''string''"
| "lua_type_of (RT _) = ''table''"
| "lua_type_of (RI _) = ''table''"
| "lua_type_of (RM _ _) = ''table''"

definition graph_format_type :: "string \<Rightarrow> string" where
  "graph_format_type k =
     (if k \<in> set [''id'', ''func'', ''parent'', ''parent_line'', ''name'', ''what'', ''source''] then ''string''
      else if k \<in> set [''ignored'', ''isvararg'', ''istailcall''] then ''boolean''
      else if k = ''lines'' then ''table''
      else ''number'')"

text \<open>
  The unsigned statistics of a record fit \<^verbatim>\<open>lua_Integer\<close>: each is below
  \<open>2 ^ 63\<close>.
\<close>

definition graph_fits :: "lmprof_record \<Rightarrow> bool" where
  "graph_fits x \<longleftrightarrow>
     unat (graph_count x) < 2 ^ 63 \<and>
     unat (time (graph_node x)) < 2 ^ 63 \<and> unat (time (graph_path x)) < 2 ^ 63 \<and>
     unat (allocated (graph_node x)) < 2 ^ 63 \<and> unat (deallocated (graph_node x)) < 2 ^ 63 \<and>
     unat (allocated (graph_path x)) < 2 ^ 63 \<and> unat (deallocated (graph_path x)) < 2 ^ 63 \<and>
     list_all (\<lambda>f. unat f < 2 ^ 63) (graph_line_freq x)"

text \<open>The two \<^verbatim>\<open>char\<close> flags the file report prints with \<^verbatim>\<open>%d\<close>.\<close>

definition graph_flag_key :: "string \<Rightarrow> bool" where
  "graph_flag_key k \<longleftrightarrow> k = ''isvararg'' \<or> k = ''istailcall''"

text \<open>
  The rows a table report appends for a list of records, the integer keys
  \<^verbatim>\<open>array_count++\<close> gives them from a start value, and the \<^verbatim>\<open>debug\<close>
  entry of a verbose header.
\<close>

definition graph_rows :: "flags32 \<Rightarrow> flags32 \<Rightarrow> record_store \<Rightarrow> ref list \<Rightarrow> report_value list" where
  "graph_rows m c rs t = map (\<lambda>r. RT (graph_record_fields m c (the (rs r)))) t"

definition array_from :: "int \<Rightarrow> 'v list \<Rightarrow> (int \<times> 'v) list" where
  "array_from n vs = zip (map (\<lambda>i. n + int i) [0..<length vs]) vs"

definition graph_verbose_debug ::
  "lmprof_state \<Rightarrow> (string \<times> report_value) list \<Rightarrow> (string \<times> report_value) list" where
  "graph_verbose_debug st dbg =
     (if BITFIELD_TEST (conf st) LMPROF_OPT_REPORT_VERBOSE \<and> \<not> BITFIELD_TEST (mode st) LMPROF_CALLBACK_MASK
      then [(''debug'', RT dbg)] else [])"

text \<open>A profiler with one record in a one-bucket table, and a fresh table report of it.\<close>

definition example_report_state :: lmprof_state where
  "example_report_state =
     example_profiler\<lparr>mode := LMPROF_MODE_INSTRUMENT,
                      i_hash := Some \<lparr>bucket_count = 1, buckets = [[0]]\<rparr>,
                      i_store := [0 \<mapsto> record_zero\<lparr>r_id := 0x2a, f_id := 7, p_id := 5, graph_count := 3\<rparr>]\<rparr>"

definition example_table_report :: lmprof_Report where
  "example_table_report =
     \<lparr>rp_st = example_report_state, rp_type = lTable, rp_table = [], rp_records = [],
      rp_array_count = 1, rp_file = [], rp_delim = False, rp_indent = []\<rparr>"

section \<open>Lemmas\<close>

subsection \<open>Printing\<close>

lemma sint64_unat:
  "sint (w::64 word) = int (unat w) - (if 2 ^ 63 \<le> unat w then 2 ^ 64 else 0)"
proof -
  define k where "k = uint w"
  have k0: "0 \<le> k" and k1: "k < 2 ^ 64"
    unfolding k_def using uint_bounded[of w] by simp_all
  have tb: "take_bit 64 k = k"
    using k0 k1 by (simp add: take_bit_int_eq_self)
  have bit: "bit k 63 \<longleftrightarrow> 2 ^ 63 \<le> k"
  proof (cases "k < 2 ^ 63")
    case True
    then have "k div 2 ^ 63 = 0" using k0 by (simp add: div_pos_pos_trivial)
    with True show ?thesis by (simp add: bit_iff_odd)
  next
    case False
    have "k = 2 ^ 63 + (k - 2 ^ 63)" by simp
    moreover have "(k - 2 ^ 63) div 2 ^ 63 = 0" using False k1 by (simp add: div_pos_pos_trivial)
    ultimately have "k div 2 ^ 63 = 1"
      by (metis div_add_self1 add.commute add_0 zero_neq_numeral power_eq_0_iff)
    with False show ?thesis by (simp add: bit_iff_odd)
  qed
  have "sint w = take_bit 64 k - 2 ^ 64 * of_bool (bit k 63)"
    unfolding k_def sint_uint by (simp add: signed_take_bit_eq_take_bit_minus)
  also have "\<dots> = k - (if 2 ^ 63 \<le> k then 2 ^ 64 else 0)"
    using tb bit by simp
  finally have h1: "sint w = k - (if 2 ^ 63 \<le> k then 2 ^ 64 else 0)" .
  have h2: "k = int (unat w)"
    unfolding k_def by (rule uint_nat)
  have h3: "(2::int) ^ 63 \<le> int (unat w) \<longleftrightarrow> 2 ^ 63 \<le> unat w"
    by (metis of_nat_le_iff of_nat_numeral of_nat_power)
  show ?thesis
    unfolding h1 h2 h3 ..
qed

lemma sint64_small: "unat (w::64 word) < 2 ^ 63 \<Longrightarrow> sint w = int (unat w)"
  by (simp add: sint64_unat)

lemma int_str_of_nat [simp]: "int_str (int n) = nat_str n"
  by (simp add: int_str_def)

lemma int_str_uint [simp]: "int_str (uint w) = nat_str (unat w)"
  by (metis int_str_of_nat uint_nat)

lemma int_str_sint_small: "unat (w::64 word) < 2 ^ 63 \<Longrightarrow> int_str (sint w) = nat_str (unat w)"
  by (metis sint64_small int_str_of_nat)

lemma unat_TIME_ADJ_le: "unat (LMPROF_TIME_ADJ t c) \<le> unat t"
  by (simp add: LMPROF_TIME_ADJ_def unat_div)

lemma render_lua_int_small: "unat w < 2 ^ 63 \<Longrightarrow> lua_render (lua_int w) = nat_str (unat w)"
  by (simp add: lua_int_def int_str_sint_small)

lemma map_case_zip:
  "length ks = length vs \<Longrightarrow> map (\<lambda>(_, w). g w) (zip ks vs) = map g vs"
  by (induction ks vs rule: list_induct2) auto

lemma render_freqs:
  assumes "fs \<noteq> []" and "list_all (\<lambda>f. unat f < 2 ^ 63) fs"
  shows "lua_render (RI (zip [1..int (length fs)] (map lua_int fs))) =
         ''{'' @ nat_str (unat (hd fs)) @ concat (map (\<lambda>f. '', '' @ nat_str (unat f)) (tl fs)) @ ''}''"
proof -
  obtain f fs' where fs: "fs = f # fs'" using assms(1) by (cases fs) auto
  have up: "[1..int (length fs)] = 1 # [2..int (length fs)]"
    using fs by (simp add: upto_rec1)
  have len: "length [2..int (length fs)] = length fs'"
    using fs by simp
  have "map (\<lambda>(_, w). '', '' @ lua_render w) (zip [2..int (length fs)] (map lua_int fs')) =
        map (\<lambda>w. '', '' @ lua_render w) (map lua_int fs')"
    using len by (intro map_case_zip) simp
  also have "\<dots> = map (\<lambda>f. '', '' @ nat_str (unat f)) fs'"
    using assms(2) fs by (auto simp: render_lua_int_small list_all_iff)
  finally show ?thesis
    using assms(2) fs up by (simp add: render_lua_int_small)
qed

subsection \<open>The hashtable walk\<close>

lemma hash_report_chain_inv:
  assumes cb: "\<And>a x. P a \<Longrightarrow> fst (cb a x) = LUA_OK \<and> P (snd (cb a x))"
    and "set c \<subseteq> dom rs" and "P a"
  shows "hash_report_chain cb rs c a = Some (LUA_OK, fold (\<lambda>r a. snd (cb a (the (rs r)))) c a) \<and>
         P (fold (\<lambda>r a. snd (cb a (the (rs r)))) c a)"
  using assms(2,3)
proof (induction c arbitrary: a)
  case Nil
  then show ?case by simp
next
  case (Cons r c)
  then obtain x where x: "rs r = Some x" by auto
  obtain a' where a': "cb a x = (LUA_OK, a')" "P a'"
    using cb[OF Cons.prems(2), of x] by (cases "cb a x") auto
  show ?case
    using Cons.IH[of a'] Cons.prems a' x by simp
qed

lemma hash_report_buckets_inv:
  assumes cb: "\<And>a x. P a \<Longrightarrow> fst (cb a x) = LUA_OK \<and> P (snd (cb a x))"
    and "set (concat cs) \<subseteq> dom rs" and "P a"
  shows "hash_report_buckets cb rs cs a = Some (LUA_OK, fold (\<lambda>r a. snd (cb a (the (rs r)))) (concat cs) a) \<and>
         P (fold (\<lambda>r a. snd (cb a (the (rs r)))) (concat cs) a)"
  using assms(2,3)
proof (induction cs arbitrary: a)
  case Nil
  then show ?case by simp
next
  case (Cons c cs)
  have c: "set c \<subseteq> dom rs" and cs: "set (concat cs) \<subseteq> dom rs"
    using Cons.prems(1) by auto
  note ch = hash_report_chain_inv[where P = P and cb = cb, OF cb c Cons.prems(2)]
  show ?case
    using Cons.IH[OF cs conjunct2[OF ch]] conjunct1[OF ch] by simp
qed

lemma hash_inv_traversal_dom: "hash_inv rs h \<Longrightarrow> set (hash_traversal h) \<subseteq> dom rs"
  by (fastforce simp: hash_inv_def hash_traversal_def rec_key_def)

lemma lmprof_hash_report_inv:
  assumes "hash_inv rs h"
    and "\<And>a x. P a \<Longrightarrow> fst (cb a x) = LUA_OK \<and> P (snd (cb a x))" and "P a"
  shows "lmprof_hash_report cb rs h a = Some (fold (\<lambda>r a. snd (cb a (the (rs r)))) (hash_traversal h) a)"
  using hash_report_buckets_inv[where P = P and cb = cb and rs = rs and a = a and
                                 cs = "map (\<lambda>i. buckets h ! i) [0..<bucket_count h]"]
        assms hash_inv_traversal_dom[OF assms(1)]
  by (simp add: lmprof_hash_report_def hash_traversal_def)

lemma hash_report_fold:
  assumes "hash_inv rs h" and "\<forall>a x. fst (cb a x) = LUA_OK"
  shows "lmprof_hash_report cb rs h a = Some (fold (\<lambda>r a. snd (cb a (the (rs r)))) (hash_traversal h) a)"
  using lmprof_hash_report_inv[where P = "\<lambda>_. True" and cb = cb and rs = rs and h = h and a = a] assms
  by simp

text \<open>Whatever the walk returns keeps every property the callback keeps.\<close>

lemma hash_report_chain_keeps:
  "hash_report_chain cb rs c a = Some (res, a') \<Longrightarrow> (\<And>a x. P a \<Longrightarrow> P (snd (cb a x))) \<Longrightarrow> P a \<Longrightarrow> P a'"
proof (induction c arbitrary: a)
  case (Cons r c)
  obtain x where x: "rs r = Some x" using Cons.prems(1) by (auto split: option.splits)
  obtain res1 a1 where cba: "cb a x = (res1, a1)" by fastforce
  have p1: "P a1" using Cons.prems(2)[OF Cons.prems(3), of x] cba by simp
  show ?case
  proof (cases "res1 = LUA_OK")
    case True
    then have "hash_report_chain cb rs c a1 = Some (res, a')" using Cons.prems(1) x cba by simp
    then show ?thesis using Cons.IH Cons.prems(2) p1 by blast
  next
    case False
    then show ?thesis using Cons.prems(1) x cba p1 by simp
  qed
qed simp

lemma hash_report_buckets_keeps:
  "hash_report_buckets cb rs cs a = Some (res, a') \<Longrightarrow> (\<And>a x. P a \<Longrightarrow> P (snd (cb a x))) \<Longrightarrow> P a \<Longrightarrow> P a'"
proof (induction cs arbitrary: a)
  case (Cons c cs)
  obtain res1 a1 where ch: "hash_report_chain cb rs c a = Some (res1, a1)"
    using Cons.prems(1) by (auto split: option.splits)
  have p1: "P a1" using hash_report_chain_keeps[OF ch Cons.prems(2,3)] .
  show ?case
  proof (cases "res1 = LUA_OK")
    case True
    then have "hash_report_buckets cb rs cs a1 = Some (res, a')" using Cons.prems(1) ch by simp
    then show ?thesis using Cons.IH Cons.prems(2) p1 by blast
  next
    case False
    then show ?thesis using Cons.prems(1) ch p1 by simp
  qed
qed simp

lemma lmprof_hash_report_keeps:
  "lmprof_hash_report cb rs h a = Some a' \<Longrightarrow> (\<And>a x. P a \<Longrightarrow> P (snd (cb a x))) \<Longrightarrow> P a \<Longrightarrow> P a'"
  by (auto simp: lmprof_hash_report_def intro: hash_report_buckets_keeps)

text \<open>The graph report leaves the profiler as it was.\<close>

lemma graph_walk_st:
  "lmprof_hash_report (graph_hash_callback io) rs h a = Some a' \<Longrightarrow> rp_st a' = rp_st a"
  by (erule lmprof_hash_report_keeps[where P = "\<lambda>b. rp_st b = rp_st a"])
     (simp_all add: graph_hash_callback_def Let_def)

lemma graph_report_st:
  "graph_report io dbg R = Some (r, R') \<Longrightarrow> rp_st R' = rp_st R"
  by (auto simp: graph_report_def profiler_header_def Let_def dest!: graph_walk_st
           split: option.splits if_splits)

lemma array_from_Cons: "array_from n (v # vs) = (n, v) # array_from (n + 1) vs"
  by (simp add: array_from_def upt_conv_Cons map_Suc_upt[symmetric] del: upt_Suc) (simp add: comp_def add.assoc)

lemma graph_callback_table:
  "rp_type R = lTable \<Longrightarrow>
   fold (\<lambda>r a. snd (graph_hash_callback io a (the (rs r)))) t R =
   R\<lparr>rp_records := rp_records R @
       array_from (rp_array_count R) (graph_rows (mode (rp_st R)) (conf (rp_st R)) rs t),
     rp_array_count := rp_array_count R + int (length t)\<rparr>"
proof (induction t arbitrary: R)
  case Nil
  then show ?case by (simp add: array_from_def graph_rows_def)
next
  case (Cons r t)
  then show ?case
    by (simp add: graph_hash_callback_def graph_rows_def array_from_Cons Let_def algebra_simps)
qed

lemma graph_callback_table_ok:
  "rp_type a = lTable \<Longrightarrow> fst (graph_hash_callback io a x) = LUA_OK \<and> rp_type (snd (graph_hash_callback io a x)) = lTable"
  by (simp add: graph_hash_callback_def Let_def)

lemma graph_callback_file:
  "rp_type R = lFile \<Longrightarrow>
   fold (\<lambda>r a. snd (graph_hash_callback True a (the (rs r)))) t R =
   R\<lparr>rp_file := rp_file R @
       concat (map (\<lambda>r. graph_record_file (rp_indent R) (mode (rp_st R)) (conf (rp_st R)) (the (rs r))) t)\<rparr>"
  by (induction t arbitrary: R) (simp_all add: graph_hash_callback_def Let_def)

subsection \<open>The graph report\<close>

text \<open>
  The header a file report writes is the Lua rendering of the header a table report
  builds, field for field.
\<close>

lemma header_file_table: "header_lines st = map (\<lambda>(k, v). (k, lua_render v)) (header_fields st)"
  by (simp add: header_lines_def header_fields_def lua_int_def)

text \<open>Times are present exactly under instrument mode, memory under memory mode.\<close>

lemma graph_fields_present:
  "(map_of (graph_record_fields m c x) ''time'' \<noteq> None) = BITFIELD_TEST m LMPROF_MODE_INSTRUMENT \<and>
   (map_of (graph_record_fields m c x) ''allocated'' \<noteq> None) = BITFIELD_TEST m LMPROF_MODE_MEMORY \<and>
   (map_of (graph_record_fields m c x) ''lines'' \<noteq> None) = (graph_line_freq x \<noteq> [])"
  by (cases "BITFIELD_TEST m LMPROF_MODE_INSTRUMENT"; cases "BITFIELD_TEST m LMPROF_MODE_MEMORY";
      cases "graph_line_freq x = []") (simp_all add: graph_record_fields_def graph_record_lines_def)

lemma graph_report_file_text:
  assumes "rp_type R = lFile" and "i_hash (rp_st R) = Some h" and "hash_inv (i_store (rp_st R)) h"
  shows "\<exists>R'. graph_report True dbg R = Some (LUA_OK, R') \<and>
           rp_file R' = rp_file R @ ''return {'' @ NL @ TAB @ ''header = {'' @ NL @
             print_fields TAB (header_lines (rp_st R)) @ TAB @ ''},'' @ NL @ TAB @ ''records = {'' @ NL @
             concat (map (\<lambda>r. graph_record_file (TAB @ TAB) (mode (rp_st R)) (conf (rp_st R))
                                 (the (i_store (rp_st R) r))) (hash_traversal h)) @
             TAB @ ''}'' @ NL @ ''}'' @ NL"
proof -
  define st where "st = rp_st R"
  define R3 where "R3 = R\<lparr>rp_indent := TAB @ TAB,
                    rp_file := rp_file R @ ''return {'' @ NL @ TAB @ ''header = {'' @ NL @
                       print_fields TAB (header_lines st) @ TAB @ ''},'' @ NL @ TAB @ ''records = {'' @ NL\<rparr>"
  have walk: "lmprof_hash_report (graph_hash_callback True) (i_store st) h R3 =
              Some (fold (\<lambda>r a. snd (graph_hash_callback True a (the (i_store st r)))) (hash_traversal h) R3)"
    apply (rule lmprof_hash_report_inv[where P = "\<lambda>a. rp_type a = lFile", OF assms(3)[folded st_def]])
    using assms(1) by (simp_all add: R3_def graph_hash_callback_def Let_def)
  show ?thesis
    using assms(1,2) walk
    by (simp add: graph_report_def profiler_header_def graph_callback_file R3_def st_def Let_def)
qed

text \<open>
  The table report of a graph profiler whose hashtable is well formed completes, keeps the
  profiler, and has one row per hashtable entry in bucket order, at consecutive keys from
  \<^verbatim>\<open>array_count\<close>, with the profiler header under \<^verbatim>\<open>header\<close>.
\<close>

lemma graph_report_table_rows:
  assumes "rp_type R = lTable" and "i_hash (rp_st R) = Some h" and "hash_inv (i_store (rp_st R)) h"
  shows "\<exists>R'. graph_report io dbg R = Some (LUA_OK, R') \<and> rp_st R' = rp_st R \<and>
           map_of (rp_table R') ''header'' =
             Some (RT (header_fields (rp_st R) @ graph_verbose_debug (rp_st R) dbg)) \<and>
           map_of (rp_table R') ''records'' =
             Some (RI (array_from (rp_array_count R)
                         (graph_rows (mode (rp_st R)) (conf (rp_st R)) (i_store (rp_st R)) (hash_traversal h))))"
proof -
  define st where "st = rp_st R"
  define R2 where "R2 = R\<lparr>rp_table := AList.update ''header'' (RT (header_fields st @ graph_verbose_debug st dbg)) (rp_table R),
                          rp_records := []\<rparr>"
  have walk: "lmprof_hash_report (graph_hash_callback io) (i_store st) h R2 =
              Some (fold (\<lambda>r a. snd (graph_hash_callback io a (the (i_store st r)))) (hash_traversal h) R2)"
    apply (rule lmprof_hash_report_inv[where P = "\<lambda>a. rp_type a = lTable", OF assms(3)[folded st_def]])
    using assms(1) by (simp_all add: R2_def graph_callback_table_ok)
  show ?thesis
    using assms(1,2) walk
    by (simp add: graph_report_def profiler_header_def graph_callback_table R2_def st_def
                  graph_verbose_debug_def update_conv' Let_def)
qed

lemma example_report_hash_inv:
  "hash_inv (i_store (rp_st example_table_report)) \<lparr>bucket_count = 1, buckets = [[0]]\<rparr>"
  by (simp add: hash_inv_def example_table_report_def example_report_state_def rec_key_def to_bucket_def)

text \<open>
  C25 (type): every record row has distinct keys and each field has the Lua type the
  \<^verbatim>\<open>GRAPH_FORMAT\<close> comment documents, except \<^verbatim>\<open>parent_line\<close>, documented as a
  string and emitted as a number; the \<^verbatim>\<open>lines\<close> array holds numbers.
\<close>

lemma graph_record_typed:
  "distinct (map fst (graph_record_fields m c x)) \<and>
   list_all (\<lambda>(k, v). lua_type_of v = (if k = ''parent_line'' then ''number'' else graph_format_type k))
     (graph_record_fields m c x) \<and>
   list_all (\<lambda>(i, v). lua_type_of v = ''number'')
     (case map_of (graph_record_fields m c x) ''lines'' of Some (RI kvs) \<Rightarrow> kvs | _ \<Rightarrow> [])"
  by (cases "BITFIELD_TEST m LMPROF_MODE_INSTRUMENT"; cases "BITFIELD_TEST m LMPROF_MODE_MEMORY";
      cases "graph_line_freq x = []")
     (auto simp: graph_record_fields_def graph_record_lines_def graph_format_type_def lua_int_def
                 list_all_iff set_zip)

text \<open>
  C26 (equivalence): when the record's unsigned statistics fit \<^verbatim>\<open>lua_Integer\<close>, the fields a file
  report writes for it are the Lua rendering of the fields the table report builds, in
  the same order, apart from the two flags \<^verbatim>\<open>isvararg\<close> and \<^verbatim>\<open>istailcall\<close>.
\<close>

lemma graph_file_table:
  assumes "graph_fits x"
  shows "filter (\<lambda>(k, _). \<not> graph_flag_key k) (graph_file_fields m c x) =
         map (\<lambda>(k, v). (k, lua_render v)) (filter (\<lambda>(k, _). \<not> graph_flag_key k) (graph_record_fields m c x))"
proof -
  have t: "unat (LMPROF_TIME_ADJ (time (graph_node x)) c) < 2 ^ 63"
          "unat (LMPROF_TIME_ADJ (time (graph_path x)) c) < 2 ^ 63"
    using assms unat_TIME_ADJ_le unfolding graph_fits_def by (meson le_less_trans)+
  have l: "graph_record_lines x = [] \<and> graph_line_freq x = [] \<or>
           (graph_line_freq x \<noteq> [] \<and> map (\<lambda>(k, v). (k, lua_render v)) (graph_record_lines x) =
              [(''lines'', ''{'' @ nat_str (unat (hd (graph_line_freq x))) @
                 concat (map (\<lambda>f. '', '' @ nat_str (unat f)) (tl (graph_line_freq x))) @ ''}'')])"
    using assms render_freqs[of "graph_line_freq x"] unfolding graph_fits_def graph_record_lines_def
    by auto
  show ?thesis
    using assms t l
    by (auto simp: graph_file_fields_def graph_record_fields_def graph_flag_key_def graph_fits_def
                   render_lua_int_small)
qed

lemma graph_file_table_witness:
  "graph_fits (the (i_store example_report_state 0)) \<and>
   filter (\<lambda>(k, _). \<not> graph_flag_key k)
     (graph_file_fields LMPROF_MODE_INSTRUMENT 0 (the (i_store example_report_state 0))) =
   map (\<lambda>(k, v). (k, lua_render v))
     (filter (\<lambda>(k, _). \<not> graph_flag_key k)
        (graph_record_fields LMPROF_MODE_INSTRUMENT 0 (the (i_store example_report_state 0))))"
proof -
  have f: "graph_fits (the (i_store example_report_state 0))"
    by (simp add: graph_fits_def example_report_state_def record_zero_def unit_zero_def)
  show ?thesis
    using f graph_file_table[OF f] by blast
qed

end
