(* ===== verification/Report_Trace.thy ===== *)
theory Report_Trace
  imports Report Timeline_Passes
begin

text \<open>
  The trace-event half of the report emitter, \<^verbatim>\<open>src/src/lmprof_report.c\<close>: the
  Chrome trace-event builders (\<^verbatim>\<open>__metaProcess\<close> to \<^verbatim>\<open>__eventUpdateCounters\<close>),
  the metadata header \<^verbatim>\<open>tracevent_table_header\<close>, the event walk
  \<^verbatim>\<open>traceevent_table_events\<close> (after \<^verbatim>\<open>timeline_adjust\<close> and
  \<^verbatim>\<open>timeline_compress\<close> of Timeline_Passes), \<^verbatim>\<open>traceevent_report\<close>, and the entry
  points \<^verbatim>\<open>lmprof_push_report\<close> and \<^verbatim>\<open>lmprof_report\<close>. Each builder gives the table
  it pushes in a table report and the JSON text it writes in a file report;
  \<^verbatim>\<open>REPORT_TABLE_APPEND\<close> stores the pushed table at
  \<^verbatim>\<open>t.table_index[array_count++]\<close>. The thread-name table of the registry
  (\<^verbatim>\<open>LMPROF_TAB_THREAD_NAMES\<close>) is the parameter \<open>names\<close>, its entries in
  \<^verbatim>\<open>lua_next\<close> order; the floating-point \<^verbatim>\<open>pageusage\<close> of the header is the parameter
  \<open>usage\<close>.
\<close>

unbundle bit_operations_syntax

section \<open>Constants\<close>

definition LMPROF_PROCESS_MAIN :: int where "LMPROF_PROCESS_MAIN = 1"
definition LMPROF_THREAD_BROWSER :: int where "LMPROF_THREAD_BROWSER = 1"
definition LMPROF_THREAD_SAMPLE_TIMELINE :: int where "LMPROF_THREAD_SAMPLE_TIMELINE = 2"
definition TRACE_EVENT_COUNTER_FREQ :: nat where "TRACE_EVENT_COUNTER_FREQ = 20"
definition TRACE_EVENT_DEFAULT_NAME :: string where "TRACE_EVENT_DEFAULT_NAME = []"
definition TRACE_EVENT_DEFAULT_URL :: string where "TRACE_EVENT_DEFAULT_URL = []"
definition LMPROF :: string where "LMPROF = ''lmprof''"
definition LUA_VERSION :: string where "LUA_VERSION = ''Lua 5.4''"

definition CHROME_META_BEGIN :: string where "CHROME_META_BEGIN = ''B''"
definition CHROME_META_END :: string where "CHROME_META_END = ''E''"
definition CHROME_META_PROCESS :: string where "CHROME_META_PROCESS = ''process_name''"
definition CHROME_META_THREAD :: string where "CHROME_META_THREAD = ''thread_name''"
definition CHROME_META_TICK :: string where "CHROME_META_TICK = ''Routine''"
definition CHROME_NAME_MAIN :: string where "CHROME_NAME_MAIN = ''Main''"
definition CHROME_NAME_PROCESS :: string where "CHROME_NAME_PROCESS = ''Process''"
definition CHROME_NAME_BROWSER :: string where "CHROME_NAME_BROWSER = ''Browser''"
definition CHROME_NAME_SAMPLER :: string where "CHROME_NAME_SAMPLER = ''Instruction Sampling''"
definition CHROME_NAME_CR_BROWSER :: string where "CHROME_NAME_CR_BROWSER = ''CrBrowserMain''"
definition CHROME_NAME_CR_RENDERER :: string where "CHROME_NAME_CR_RENDERER = ''CrRendererMain''"
definition CHROME_USER_TIMING :: string where "CHROME_USER_TIMING = ''blink.user_timing''"
definition CHROME_TIMLINE :: string where "CHROME_TIMLINE = ''disabled-by-default-devtools.timeline''"
definition CHROME_TIMELINE_FRAME :: string where
  "CHROME_TIMELINE_FRAME = ''disabled-by-default-devtools.timeline.frame''"

definition CHROME_OPT_NAME :: "string option \<Rightarrow> string \<Rightarrow> string" where
  "CHROME_OPT_NAME n dflt = (case n of None \<Rightarrow> dflt | Some x \<Rightarrow> x)"

section \<open>JSON text\<close>

text \<open>
  \<^verbatim>\<open>JSON_STRING\<close>, \<^verbatim>\<open>JSON_ASSIGN\<close> and an object of assignments separated by
  \<^verbatim>\<open>JSON_DELIM\<close>, the shape of every sequence of \<^verbatim>\<open>fprintf\<close> calls below.
\<close>

definition JSON_DELIM :: string where "JSON_DELIM = '', ''"

definition JSON_STRING :: "string \<Rightarrow> string" where "JSON_STRING x = QUOTE @ x @ QUOTE"

definition JSON_ASSIGN :: "string \<Rightarrow> string \<Rightarrow> string" where
  "JSON_ASSIGN k v = QUOTE @ k @ QUOTE @ '':'' @ v"

fun join_with :: "string \<Rightarrow> string list \<Rightarrow> string" where
  "join_with d [] = []"
| "join_with d [x] = x"
| "join_with d (x # xs) = x @ d @ join_with d xs"

definition json_obj :: "(string \<times> string) list \<Rightarrow> string" where
  "json_obj fs = ''{'' @ join_with JSON_DELIM (map (\<lambda>(k, v). JSON_ASSIGN k v) fs) @ ''}''"

text \<open>
  \<^verbatim>\<open>REPORT_ENSURE_DELIM\<close> followed by the object, which sets \<^verbatim>\<open>f.delim\<close>.
\<close>

definition json_emit :: "lmprof_Report \<Rightarrow> string \<Rightarrow> lmprof_Report" where
  "json_emit R obj =
     R\<lparr>rp_file := rp_file R @ (if rp_delim R then JSON_DELIM @ NL @ rp_indent R else []) @ obj,
       rp_delim := True\<rparr>"

section \<open>Builders\<close>

text \<open>
  A builder: the table it pushes in a table report, the object it writes in a file
  report, \<^verbatim>\<open>DISABLED_IO\<close> (or, for the builders whose \<^verbatim>\<open>#else\<close> branch is missing,
  \<^verbatim>\<open>UNKNOWN_TYPE\<close>, the code \<open>noio\<close>) without \<^verbatim>\<open>LMPROF_FILE_API\<close>.
\<close>

definition report_builder ::
  "bool \<Rightarrow> int \<Rightarrow> lmprof_Report \<Rightarrow> (string \<times> report_value) list \<Rightarrow> string
   \<Rightarrow> int \<times> (string \<times> report_value) list option \<times> lmprof_Report" where
  "report_builder io noio R tab obj =
     (if rp_type R = lTable then (LUA_OK, Some tab, R)
      else if rp_type R = lFile then
        (if io then (LUA_OK, None, json_emit R obj) else (noio, None, R))
      else (LMPROF_REPORT_UNKNOWN_TYPE, None, R))"

text \<open>\<^verbatim>\<open>REPORT_TABLE_APPEND(L, R, X)\<close>: run \<open>X\<close>, then in a table report store its table.\<close>

definition REPORT_TABLE_APPEND ::
  "int \<times> (string \<times> report_value) list option \<times> lmprof_Report \<Rightarrow> lmprof_Report" where
  "REPORT_TABLE_APPEND x =
     (case x of (_, tab, R) \<Rightarrow>
        if rp_type R = lTable
        then R\<lparr>rp_records := rp_records R @ [(rp_array_count R, RT (case tab of Some t \<Rightarrow> t | None \<Rightarrow> []))],
               rp_array_count := rp_array_count R + 1\<rparr>
        else R)"

definition lstr :: "string \<Rightarrow> report_value" where "lstr x = RV (LStr x)"
definition lint :: "int \<Rightarrow> report_value" where "lint i = RV (LInt i)"

text \<open>\<^verbatim>\<open>__metaProcess\<close> (lines 400--437).\<close>

definition meta_process ::
  "bool \<Rightarrow> lmprof_Report \<Rightarrow> event_process \<Rightarrow> string \<Rightarrow> string
   \<Rightarrow> int \<times> (string \<times> report_value) list option \<times> lmprof_Report" where
  "meta_process io R p nm pname =
     report_builder io LMPROF_REPORT_DISABLED_IO R
       [(''cat'', lstr ''__metadata''), (''name'', lstr nm), (''ph'', lstr ''M''), (''ts'', lint 0),
        (''pid'', lint (pid p)), (''tid'', lint (tid p)), (''args'', RT [(''name'', lstr pname)])]
       (json_obj [(''cat'', JSON_STRING ''__metadata''), (''name'', JSON_STRING nm), (''ph'', JSON_STRING ''M''),
                  (''ts'', ''0''), (''pid'', int_str (pid p)), (''tid'', int_str (tid p)),
                  (''args'', json_obj [(''name'', JSON_STRING pname)])])"

text \<open>
  \<^verbatim>\<open>__metaAbout\<close> (lines 439--474). The table sets \<^verbatim>\<open>command_line\<close> twice, so the
  second value replaces the first, as \<^verbatim>\<open>lua_setfield\<close> does.
\<close>

definition settabs :: "(string \<times> report_value) list \<Rightarrow> (string \<times> report_value) list" where
  "settabs fs = fold (\<lambda>(k, v) t. AList.update k v t) fs []"

definition meta_about_fields :: "string \<Rightarrow> string \<Rightarrow> (string \<times> report_value) list" where
  "meta_about_fields nm url =
     settabs [(''bitness'', lint 64), (''domain'', lstr ''WIN_QPC''), (''command_line'', lstr []),
              (''highres-ticks'', lint 1), (''physical-memory'', lint 0), (''user-agent'', lstr nm),
              (''command_line'', lstr url), (''v8-version'', lstr LUA_VERSION)]"

definition meta_about ::
  "bool \<Rightarrow> lmprof_Report \<Rightarrow> string \<Rightarrow> string \<Rightarrow> int \<times> (string \<times> report_value) list option \<times> lmprof_Report" where
  "meta_about io R nm url =
     report_builder io LMPROF_REPORT_DISABLED_IO R
       (meta_about_fields nm url)
       (JSON_ASSIGN ''metadata'' (''{'' @ NL) @
        JSON_ASSIGN ''bitness'' ''64'' @ JSON_DELIM @ NL @
        JSON_ASSIGN ''domain'' (JSON_STRING ''WIN_QPC'') @ JSON_DELIM @ NL @
        JSON_ASSIGN ''command_line'' (JSON_STRING []) @ JSON_DELIM @ NL @
        JSON_ASSIGN ''highres-ticks'' ''1'' @ JSON_DELIM @ NL @
        JSON_ASSIGN ''physical-memory'' ''0'' @ JSON_DELIM @ NL @
        JSON_ASSIGN ''user-agent'' (JSON_STRING nm) @ JSON_DELIM @ NL @
        JSON_ASSIGN ''command_line'' (JSON_STRING url) @ JSON_DELIM @ NL @
        JSON_ASSIGN ''v8-version'' (JSON_STRING LUA_VERSION) @ NL @ ''}'')"

text \<open>\<^verbatim>\<open>__metaTracingStarted\<close> (lines 476--533); its file branch has no \<^verbatim>\<open>#else\<close>.\<close>

definition meta_tracing_started ::
  "bool \<Rightarrow> lmprof_Report \<Rightarrow> event_process \<Rightarrow> string option \<Rightarrow> string option
   \<Rightarrow> int \<times> (string \<times> report_value) list option \<times> lmprof_Report" where
  "meta_tracing_started io R p nm url =
     (let u = CHROME_OPT_NAME url TRACE_EVENT_DEFAULT_URL; n = CHROME_OPT_NAME nm TRACE_EVENT_DEFAULT_NAME in
      report_builder io LMPROF_REPORT_UNKNOWN_TYPE R
       [(''cat'', lstr CHROME_TIMLINE), (''name'', lstr ''TracingStartedInBrowser''), (''ph'', lstr ''I''),
        (''pid'', lint (pid p)), (''tid'', lint (tid p)), (''ts'', lint 0),
        (''args'', RT [(''data'', RT [(''frameTreeNodeId'', lint 1), (''persistentIds'', RV (LBool True)),
           (''frames'', RI [(1, RT [(''frame'', lstr ''FADE''), (''url'', lstr u), (''name'', lstr n),
                                    (''processId'', lint (pid p))])])])])]
       (json_obj [(''cat'', JSON_STRING CHROME_TIMLINE), (''name'', JSON_STRING ''TracingStartedInBrowser''),
          (''ph'', JSON_STRING ''I''), (''pid'', int_str (pid p)), (''tid'', int_str (tid p)), (''ts'', ''0''),
          (''args'', json_obj [(''data'', json_obj [(''frameTreeNodeId'', ''1''), (''persistentIds'', ''true''),
             (''frames'', ''['' @ json_obj [(''frame'', JSON_STRING ''FADE''), (''url'', JSON_STRING u),
                 (''name'', JSON_STRING n), (''processId'', int_str (pid p))] @ '']'')])])]))"

text \<open>The timestamp every event carries, \<^verbatim>\<open>LMPROF_TIME_ADJ(event->call.s.time, conf)\<close>.\<close>

definition ev_ts :: "lmprof_state \<Rightarrow> trace_event \<Rightarrow> lu_time" where
  "ev_ts st ev = LMPROF_TIME_ADJ (time (s (ev_call ev))) (conf st)"

definition ev_pid :: "trace_event \<Rightarrow> int" where "ev_pid ev = pid (proc (ev_call ev))"
definition ev_tid :: "trace_event \<Rightarrow> int" where "ev_tid ev = tid (proc (ev_call ev))"

definition LAYER_TREE_NULL :: string where
  "LAYER_TREE_NULL = ''{'' @ JSON_ASSIGN ''layerTreeId'' ''null'' @ '' }''"

text \<open>\<^verbatim>\<open>__enterFrame\<close>, \<^verbatim>\<open>__exitFrame\<close>, \<^verbatim>\<open>__drawFrame\<close> (lines 535--648).\<close>

definition enter_frame ::
  "bool \<Rightarrow> lmprof_Report \<Rightarrow> trace_event \<Rightarrow> int \<times> (string \<times> report_value) list option \<times> lmprof_Report" where
  "enter_frame io R ev =
     report_builder io LMPROF_REPORT_UNKNOWN_TYPE R
       [(''cat'', lstr CHROME_TIMELINE_FRAME), (''name'', lstr ''BeginFrame''), (''s'', lstr ''t''),
        (''ph'', lstr ''I''), (''ts'', lua_int (ev_ts (rp_st R) ev)), (''pid'', lint (ev_pid ev)),
        (''tid'', lint (ev_tid ev))]
       (json_obj [(''cat'', JSON_STRING CHROME_TIMELINE_FRAME), (''name'', JSON_STRING ''BeginFrame''),
          (''s'', JSON_STRING ''t''), (''ph'', JSON_STRING ''I''), (''ts'', nat_str (unat (ev_ts (rp_st R) ev))),
          (''pid'', int_str (ev_pid ev)), (''tid'', int_str (ev_tid ev)), (''args'', LAYER_TREE_NULL)])"

definition exit_frame ::
  "bool \<Rightarrow> lmprof_Report \<Rightarrow> trace_event \<Rightarrow> int \<times> (string \<times> report_value) list option \<times> lmprof_Report" where
  "exit_frame io R ev =
     report_builder io LMPROF_REPORT_UNKNOWN_TYPE R
       [(''cat'', lstr CHROME_TIMELINE_FRAME), (''name'', lstr ''ActivateLayerTree''), (''s'', lstr ''t''),
        (''ph'', lstr ''I''), (''ts'', lua_int (ev_ts (rp_st R) ev)), (''pid'', lint (ev_pid ev)),
        (''tid'', lint (ev_tid ev)), (''args'', RT [(''frameId'', lua_int (ev_frame ev))])]
       (json_obj [(''cat'', JSON_STRING CHROME_TIMELINE_FRAME), (''name'', JSON_STRING ''ActivateLayerTree''),
          (''s'', JSON_STRING ''t''), (''ph'', JSON_STRING ''I''), (''ts'', nat_str (unat (ev_ts (rp_st R) ev))),
          (''pid'', int_str (ev_pid ev)), (''tid'', int_str (ev_tid ev)),
          (''args'', json_obj [(''frameId'', int_str (sint (ev_frame ev))), (''layerTreeId'', ''null'')])])"

definition draw_frame ::
  "bool \<Rightarrow> lmprof_Report \<Rightarrow> trace_event \<Rightarrow> int \<times> (string \<times> report_value) list option \<times> lmprof_Report" where
  "draw_frame io R ev =
     report_builder io LMPROF_REPORT_UNKNOWN_TYPE R
       [(''cat'', lstr CHROME_TIMELINE_FRAME), (''name'', lstr ''DrawFrame''), (''s'', lstr ''t''),
        (''ph'', lstr ''I''), (''ts'', lua_int (ev_ts (rp_st R) ev)), (''pid'', lint (ev_pid ev)),
        (''tid'', lint (ev_tid ev))]
       (json_obj [(''cat'', JSON_STRING CHROME_TIMELINE_FRAME), (''name'', JSON_STRING ''DrawFrame''),
          (''s'', JSON_STRING ''t''), (''ph'', JSON_STRING ''I''), (''ts'', nat_str (unat (ev_ts (rp_st R) ev))),
          (''pid'', int_str (ev_pid ev)), (''tid'', int_str (ev_tid ev)), (''args'', LAYER_TREE_NULL)])"

text \<open>
  \<^verbatim>\<open>__eventScope\<close> (lines 650--687): a routine is drawn on the main thread's track.
\<close>

definition event_scope ::
  "bool \<Rightarrow> lmprof_Report \<Rightarrow> trace_event \<Rightarrow> string \<Rightarrow> string
   \<Rightarrow> int \<times> (string \<times> report_value) list option \<times> lmprof_Report" where
  "event_scope io R ev ph nm =
     (let t = (if op_routine (ev_op ev) then tid (thread_mainproc (rp_st R)) else ev_tid ev) in
      report_builder io LMPROF_REPORT_DISABLED_IO R
       [(''cat'', lstr CHROME_USER_TIMING), (''name'', lstr nm), (''ph'', lstr ph),
        (''pid'', lint (ev_pid ev)), (''tid'', lint t), (''ts'', lua_int (ev_ts (rp_st R) ev))]
       (json_obj [(''cat'', JSON_STRING CHROME_USER_TIMING), (''name'', JSON_STRING nm), (''ph'', JSON_STRING ph),
          (''pid'', int_str (ev_pid ev)), (''tid'', int_str t), (''ts'', nat_str (unat (ev_ts (rp_st R) ev)))]))"

text \<open>
  \<^verbatim>\<open>__eventLineInstance\<close> (lines 689--723). The name is formatted from the source of
  the line's function (\<^verbatim>\<open>%s\<close> of \<^verbatim>\<open>NULL\<close> prints \<^verbatim>\<open>(null)\<close>); the table's format
  string ends in an extra \<^verbatim>\<open>\"\<close>.
\<close>

definition line_name :: "string option \<Rightarrow> int \<Rightarrow> string" where
  "line_name src l = CHROME_OPT_NAME src ''(null)'' @ '': Line '' @ int_str l"

definition line_instance ::
  "bool \<Rightarrow> lmprof_Report \<Rightarrow> trace_event \<Rightarrow> string option
   \<Rightarrow> int \<times> (string \<times> report_value) list option \<times> lmprof_Report" where
  "line_instance io R ev src =
     report_builder io LMPROF_REPORT_DISABLED_IO R
       [(''cat'', lstr CHROME_USER_TIMING), (''ph'', lstr ''I''), (''s'', lstr ''t''),
        (''pid'', lint (ev_pid ev)), (''tid'', lint (ev_tid ev)), (''ts'', lua_int (ev_ts (rp_st R) ev)),
        (''name'', lstr (line_name src (ev_line ev) @ QUOTE))]
       (json_obj [(''cat'', JSON_STRING CHROME_USER_TIMING), (''name'', JSON_STRING (line_name src (ev_line ev))),
          (''ph'', JSON_STRING ''I''), (''s'', JSON_STRING ''t''), (''ts'', nat_str (unat (ev_ts (rp_st R) ev))),
          (''pid'', int_str (ev_pid ev)), (''tid'', int_str (ev_tid ev))])"

text \<open>
  \<^verbatim>\<open>__eventSampleInstance\<close> (lines 725--759): a sample lasts until the next one, whose
  time it reads through \<^verbatim>\<open>data.sample.next\<close>; the duration wraps as a 64-bit
  difference.
\<close>

definition sample_instance ::
  "bool \<Rightarrow> lmprof_Report \<Rightarrow> trace_event \<Rightarrow> trace_event
   \<Rightarrow> int \<times> (string \<times> report_value) list option \<times> lmprof_Report" where
  "sample_instance io R ev nxt =
     (let dur = time (s (ev_call nxt)) - time (s (ev_call ev));
          d = LMPROF_TIME_ADJ dur (conf (rp_st R)) in
      report_builder io LMPROF_REPORT_DISABLED_IO R
       [(''cat'', lstr CHROME_TIMLINE), (''name'', lstr ''EvaluateScript''), (''ph'', lstr ''X''),
        (''pid'', lint (pid (thread_mainproc (rp_st R)))), (''tid'', lint LMPROF_THREAD_SAMPLE_TIMELINE),
        (''ts'', lua_int (ev_ts (rp_st R) ev)), (''dur'', lua_int d)]
       (json_obj [(''cat'', JSON_STRING CHROME_TIMLINE), (''name'', JSON_STRING ''EvaluateScript''),
          (''ph'', JSON_STRING ''X''), (''pid'', int_str (pid (thread_mainproc (rp_st R)))),
          (''tid'', int_str LMPROF_THREAD_SAMPLE_TIMELINE), (''ts'', nat_str (unat (ev_ts (rp_st R) ev))),
          (''dur'', nat_str (unat d))]))"

text \<open>\<^verbatim>\<open>__eventUpdateCounters\<close> (lines 761--810).\<close>

definition update_counters ::
  "bool \<Rightarrow> lmprof_Report \<Rightarrow> trace_event \<Rightarrow> int \<times> (string \<times> report_value) list option \<times> lmprof_Report" where
  "update_counters io R ev =
     report_builder io LMPROF_REPORT_DISABLED_IO R
       [(''cat'', lstr CHROME_TIMLINE), (''name'', lstr ''UpdateCounters''), (''ph'', lstr ''I''), (''s'', lstr ''g''),
        (''pid'', lint (ev_pid ev)), (''tid'', lint (ev_tid ev)), (''ts'', lua_int (ev_ts (rp_st R) ev)),
        (''args'', RT [(''data'', RT [(''jsHeapSizeUsed'', lua_int (unit_allocated (s (ev_call ev))))])])]
       (json_obj [(''cat'', JSON_STRING CHROME_TIMLINE), (''name'', JSON_STRING ''UpdateCounters''),
          (''ph'', JSON_STRING ''I''), (''s'', JSON_STRING ''g''), (''pid'', int_str (ev_pid ev)),
          (''tid'', int_str (ev_tid ev)), (''ts'', nat_str (unat (ev_ts (rp_st R) ev))),
          (''args'', json_obj [(''data'', json_obj [(''jsHeapSizeUsed'', nat_str (unat (unit_allocated (s (ev_call ev)))))])])])"

section \<open>The metadata header\<close>

text \<open>
  \<^verbatim>\<open>lmprof_thread_name\<close> (lmprof.c lines 805--814): the name the thread-name table
  gives the identifier, or the default when it has none (\<^verbatim>\<open>luaL_optstring\<close>).
\<close>

definition lmprof_thread_name :: "(lua_value \<times> lua_value) list \<Rightarrow> int \<Rightarrow> string \<Rightarrow> string result" where
  "lmprof_thread_name names t dflt =
     (case map_of names (LInt t) of None \<Rightarrow> Inr dflt | Some LNil \<Rightarrow> Inr dflt | Some v \<Rightarrow> luaL_checkstring v)"

text \<open>\<^verbatim>\<open>__threadName\<close> (lines 392--398).\<close>

definition thread_name :: "(lua_value \<times> lua_value) list \<Rightarrow> lmprof_state \<Rightarrow> trace_event \<Rightarrow> string result" where
  "thread_name names st ev =
     lmprof_thread_name names (ev_tid ev)
       (if ev_tid ev = tid (thread_mainproc st) then CHROME_NAME_MAIN else CHROME_META_TICK)"

text \<open>
  \<^verbatim>\<open>lua_isnumber\<close> and \<^verbatim>\<open>lua_tointeger\<close> of a key of the thread-name table. A value
  \<^verbatim>\<open>lua_tostring\<close> cannot convert would reach \<^verbatim>\<open>%s\<close> as \<^verbatim>\<open>NULL\<close>: \<open>None\<close>.
\<close>

definition lua_key_int :: "lua_value \<Rightarrow> int option" where
  "lua_key_int k = (case k of LInt i \<Rightarrow> Some i | LStr x \<Rightarrow> lua_str_integer x | _ \<Rightarrow> None)"

fun layout_threads :: "bool \<Rightarrow> (lua_value \<times> lua_value) list \<Rightarrow> lmprof_Report \<Rightarrow> lmprof_Report option" where
  "layout_threads io [] R = Some R"
| "layout_threads io ((k, v) # kvs) R =
     (case lua_key_int k of
        None \<Rightarrow> layout_threads io kvs R
      | Some t \<Rightarrow> (case lua_tostring v of
          None \<Rightarrow> None
        | Some nm \<Rightarrow> layout_threads io kvs
            (REPORT_TABLE_APPEND (meta_process io R \<lparr>pid = LMPROF_PROCESS_MAIN, tid = t\<rparr> CHROME_META_THREAD nm))))"

text \<open>
  \<^verbatim>\<open>tracevent_table_header\<close> (lines 816--850): the browser, its main thread, the
  renderer (the profiled main thread) and the sampler track, the TracingStarted record
  unless the about:tracing layout is chosen, and the named threads under
  \<^verbatim>\<open>layout_split\<close>.
\<close>

definition traceevent_default_meta :: "bool \<Rightarrow> lmprof_Report \<Rightarrow> lmprof_Report" where
  "traceevent_default_meta io R =
     (let st = rp_st R; mp = thread_mainproc st;
          browser = \<lparr>pid = pid mp, tid = LMPROF_THREAD_BROWSER\<rparr>;
          renderer = \<lparr>pid = pid mp, tid = tid mp\<rparr>;
          sampler = \<lparr>pid = pid mp, tid = LMPROF_THREAD_SAMPLE_TIMELINE\<rparr>;
          R1 = REPORT_TABLE_APPEND (meta_process io R browser CHROME_META_PROCESS CHROME_NAME_BROWSER);
          R2 = REPORT_TABLE_APPEND (meta_process io R1 browser CHROME_META_THREAD CHROME_NAME_CR_BROWSER);
          R3 = REPORT_TABLE_APPEND (meta_process io R2 renderer CHROME_META_THREAD CHROME_NAME_CR_RENDERER);
          R4 = REPORT_TABLE_APPEND (meta_process io R3 sampler CHROME_META_THREAD CHROME_NAME_SAMPLER)
      in if \<not> BITFIELD_TEST (conf st) LMPROF_OPT_TRACE_ABOUT_TRACING
         then REPORT_TABLE_APPEND (meta_tracing_started io R4 browser (i_name st) (i_url st))
         else R4)"

definition traceevent_table_header ::
  "bool \<Rightarrow> (lua_value \<times> lua_value) list \<Rightarrow> lmprof_Report \<Rightarrow> lmprof_Report option" where
  "traceevent_table_header io names R =
     (let R5 = traceevent_default_meta io R in
      if BITFIELD_TEST (conf (rp_st R)) LMPROF_OPT_TRACE_LAYOUT_SPLIT then layout_threads io names R5 else Some R5)"

section \<open>The event walk\<close>

text \<open>
  The locals of \<^verbatim>\<open>traceevent_table_events\<close>: the report, the timeline it walks (the
  walk writes \<^verbatim>\<open>data.sample.next\<close>), the previous sample and the scope counter.
\<close>

record trace_walk =
  tw_rep :: lmprof_Report
  tw_tm :: timeline
  tw_samples :: "event_ptr option"
  tw_counter :: nat

text \<open>\<^verbatim>\<open>CHROME_EVENT_NAME\<close>: the source of the event's function, through its record.\<close>

definition event_source :: "record_store \<Rightarrow> trace_event \<Rightarrow> string option option" where
  "event_source rs ev = (case ev_info ev of None \<Rightarrow> None | Some r \<Rightarrow> map_option (\<lambda>x. source (info x)) (rs r))"

text \<open>
  The \<^verbatim>\<open>UpdateCounters\<close> rule after a scope in memory mode: every scope when the
  frequency is 1, otherwise every \<open>freq\<close>-th scope, by the pre-incremented counter.
\<close>

definition counter_tick ::
  "bool \<Rightarrow> nat \<Rightarrow> lmprof_Report \<Rightarrow> trace_event \<Rightarrow> nat \<Rightarrow> lmprof_Report \<times> nat" where
  "counter_tick io freq R ev c =
     (if BITFIELD_TEST (mode (rp_st R)) LMPROF_MODE_MEMORY then
        (if freq = 1 \<or> (c + 1) mod freq = 0 then (REPORT_TABLE_APPEND (update_counters io R ev), 0)
         else (R, c + 1))
      else (R, c))"

text \<open>
  The effective event type: a scope of an ignored function counts as
  \<^verbatim>\<open>IGNORE_SCOPE\<close> (a scope without a record is undefined behaviour).
\<close>

definition walk_op :: "record_store \<Rightarrow> trace_event \<Rightarrow> trace_event_type option" where
  "walk_op rs ev =
     (if ev_op ev = ENTER_SCOPE \<or> ev_op ev = EXIT_SCOPE
      then map_option (\<lambda>ig. if ig then IGNORE_SCOPE else ev_op ev) (record_ignored rs (ev_info ev))
      else Some (ev_op ev))"

text \<open>One turn of the \<^verbatim>\<open>switch (op)\<close> of \<^verbatim>\<open>traceevent_table_events\<close> (lines 885--946).\<close>

definition trace_walk_step ::
  "bool \<Rightarrow> (lua_value \<times> lua_value) list \<Rightarrow> nat \<Rightarrow> trace_walk \<Rightarrow> event_ptr \<Rightarrow> trace_walk result option" where
  "trace_walk_step io names freq w p =
     (let R = tw_rep w; tm = tw_tm w; st = rp_st R; rs = i_store st; ev = tl_event tm p in
      case walk_op rs ev of
        None \<Rightarrow> None
      | Some BEGIN_FRAME \<Rightarrow> Some (Inr (w\<lparr>tw_rep := REPORT_TABLE_APPEND (enter_frame io R ev)\<rparr>))
      | Some END_FRAME \<Rightarrow>
          Some (Inr (w\<lparr>tw_rep := REPORT_TABLE_APPEND (draw_frame io (REPORT_TABLE_APPEND (exit_frame io R ev)) ev)\<rparr>))
      | Some BEGIN_ROUTINE \<Rightarrow>
          Some (map_sum id (\<lambda>nm. w\<lparr>tw_rep := REPORT_TABLE_APPEND (event_scope io R ev CHROME_META_BEGIN nm)\<rparr>)
                  (thread_name names st ev))
      | Some END_ROUTINE \<Rightarrow>
          Some (map_sum id (\<lambda>nm. w\<lparr>tw_rep := REPORT_TABLE_APPEND (event_scope io R ev CHROME_META_END nm)\<rparr>)
                  (thread_name names st ev))
      | Some LINE_SCOPE \<Rightarrow>
          map_option (\<lambda>src. Inr (w\<lparr>tw_rep := REPORT_TABLE_APPEND (line_instance io R ev src)\<rparr>)) (event_source rs ev)
      | Some SAMPLE_EVENT \<Rightarrow>
          (case tw_samples w of
             None \<Rightarrow> Some (Inr (w\<lparr>tw_samples := Some p\<rparr>))
           | Some q \<Rightarrow>
               let tm' = ev_upd q (\<lambda>e. e\<lparr>ev_sample_next := Some p\<rparr>) tm in
               Some (Inr (w\<lparr>tw_rep := REPORT_TABLE_APPEND (sample_instance io R (tl_event tm' q) (tl_event tm' p)),
                           tw_tm := tm', tw_samples := Some p\<rparr>)))
      | Some ENTER_SCOPE \<Rightarrow>
          map_option (\<lambda>src. let R1 = REPORT_TABLE_APPEND (event_scope io R ev CHROME_META_BEGIN
                                         (CHROME_OPT_NAME src LMPROF_RECORD_NAME_UNKNOWN));
                                Rc = counter_tick io freq R1 ev (tw_counter w)
                            in Inr (w\<lparr>tw_rep := fst Rc, tw_counter := snd Rc\<rparr>)) (event_source rs ev)
      | Some EXIT_SCOPE \<Rightarrow>
          map_option (\<lambda>src. let R1 = REPORT_TABLE_APPEND (event_scope io R ev CHROME_META_END
                                         (CHROME_OPT_NAME src LMPROF_RECORD_NAME_UNKNOWN));
                                Rc = counter_tick io freq R1 ev (tw_counter w)
                            in Inr (w\<lparr>tw_rep := fst Rc, tw_counter := snd Rc\<rparr>)) (event_source rs ev)
      | Some PROCESS \<Rightarrow>
          Some (Inr (w\<lparr>tw_rep := REPORT_TABLE_APPEND (meta_process io R (proc (ev_call ev)) CHROME_META_PROCESS
                                    (CHROME_OPT_NAME (ev_name ev) CHROME_NAME_PROCESS))\<rparr>))
      | Some THREAD \<Rightarrow>
          Some (Inr (w\<lparr>tw_rep := REPORT_TABLE_APPEND (meta_process io R (proc (ev_call ev)) CHROME_META_THREAD
                                    (CHROME_OPT_NAME (ev_name ev) CHROME_NAME_PROCESS))\<rparr>))
      | Some IGNORE_SCOPE \<Rightarrow> Some (Inr w))"

fun trace_walk_loop ::
  "bool \<Rightarrow> (lua_value \<times> lua_value) list \<Rightarrow> nat \<Rightarrow> event_ptr list \<Rightarrow> trace_walk \<Rightarrow> trace_walk result option" where
  "trace_walk_loop io names freq [] w = Some (Inr w)"
| "trace_walk_loop io names freq (p # ps) w =
     (case trace_walk_step io names freq w p of
        None \<Rightarrow> None
      | Some (Inl e) \<Rightarrow> Some (Inl e)
      | Some (Inr w') \<Rightarrow> trace_walk_loop io names freq ps w')"

text \<open>
  \<^verbatim>\<open>traceevent_table_events\<close> (lines 856--948): adjust the timeline, compress it under
  \<^verbatim>\<open>trace_compress\<close> (a failure raises), and walk its events in page order. The
  profiler keeps the rewritten timeline.
\<close>

definition trace_walk_run ::
  "bool \<Rightarrow> (lua_value \<times> lua_value) list \<Rightarrow> nat \<Rightarrow> lmprof_Report \<Rightarrow> timeline \<Rightarrow> lmprof_Report result option" where
  "trace_walk_run io names freq R tm =
     map_option (map_sum id (\<lambda>w. (tw_rep w)\<lparr>rp_st := (rp_st (tw_rep w))\<lparr>i_trace := Some (tw_tm w)\<rparr>\<rparr>))
       (trace_walk_loop io names freq (timeline_events tm)
          \<lparr>tw_rep = R, tw_tm = tm, tw_samples = None, tw_counter = 0\<rparr>)"

definition counter_frequency :: "lmprof_state \<Rightarrow> nat" where
  "counter_frequency st = (if 0 < i_counter_freq st then nat (i_counter_freq st) else TRACE_EVENT_COUNTER_FREQ)"

definition traceevent_table_events ::
  "bool \<Rightarrow> (lua_value \<times> lua_value) list \<Rightarrow> lmprof_Report \<Rightarrow> lmprof_Report result option" where
  "traceevent_table_events io names R =
     (let st = rp_st R in
      case i_trace st of
        None \<Rightarrow> None
      | Some tm0 \<Rightarrow>
          let tm1 = timeline_adjust tm0 in
          if BITFIELD_TEST (conf st) LMPROF_OPT_TRACE_COMPRESS then
            (case timeline_compress (i_store st) tm1
                    \<lparr>co_id = \<lparr>pid = 0, tid = 0\<rparr>, co_threshold = i_event_threshold st\<rparr> of
               None \<Rightarrow> None
             | Some (tm2, r) \<Rightarrow>
                 if r \<noteq> TRACE_EVENT_OK then Some (Inl (''trace event compression error: '' @ nat_str r))
                 else trace_walk_run io names (counter_frequency st) R tm2)
          else trace_walk_run io names (counter_frequency st) R tm1)"

section \<open>The trace-event report\<close>

text \<open>
  \<^verbatim>\<open>traceevent_report_header\<close> (lines 954--971): the profiler header and the
  timeline's geometry; \<^verbatim>\<open>pageusage\<close> (\<^verbatim>\<open>timeline_usage\<close>, a floating-point ratio) is
  the parameter \<open>usage\<close>.
\<close>

definition traceevent_header_fields ::
  "report_value \<Rightarrow> lmprof_state \<Rightarrow> timeline \<Rightarrow> (string \<times> report_value) list" where
  "traceevent_header_fields usage st tm =
     header_fields st @
     [(''compress'', RV (LBool (BITFIELD_TEST (conf st) LMPROF_OPT_TRACE_COMPRESS))),
      (''eventsize'', lint (int SIZEOF_TRACE_EVENT)),
      (''eventpages'', lint (int TRACE_EVENT_SIZE_ARRAY)),
      (''usedpages'', lua_int (page_count tm)),
      (''totalpages'', lua_int (page_limit tm)),
      (''pagelimit'', lua_int (page_limit tm * of_nat TRACE_EVENT_PAGE_SIZE)),
      (''pagesize'', lint (int TRACE_EVENT_PAGE_SIZE)),
      (''pageusage'', usage)]"

text \<open>
  \<^verbatim>\<open>traceevent_report\<close> (lines 973--1027). The table report sets \<^verbatim>\<open>header\<close> and
  \<^verbatim>\<open>records\<close>; every \<^verbatim>\<open>REPORT_TABLE_APPEND\<close> stores into the table at
  \<^verbatim>\<open>t.table_index\<close>, the records table, also in the about:tracing layout, where the
  \<^verbatim>\<open>traceEvents\<close> table pushed above it stays empty. The file report writes a JSON
  array, or an object with \<^verbatim>\<open>traceEvents\<close> and \<^verbatim>\<open>metadata\<close>.
\<close>

definition traceevent_report ::
  "bool \<Rightarrow> (lua_value \<times> lua_value) list \<Rightarrow> report_value \<Rightarrow> lmprof_Report \<Rightarrow> (int \<times> lmprof_Report) result option" where
  "traceevent_report io names usage R =
     (let st = rp_st R; about = BITFIELD_TEST (conf st) LMPROF_OPT_TRACE_ABOUT_TRACING in
      if rp_type R = lTable then
        (case i_trace st of
           None \<Rightarrow> None
         | Some tm \<Rightarrow>
             let R1 = R\<lparr>rp_table := AList.update ''header'' (RT (traceevent_header_fields usage st tm)) (rp_table R),
                        rp_records := []\<rparr>
             in (case traceevent_table_header io names R1 of
                   None \<Rightarrow> None
                 | Some R2 \<Rightarrow>
                     (case traceevent_table_events io names R2 of
                        None \<Rightarrow> None
                      | Some (Inl e) \<Rightarrow> Some (Inl e)
                      | Some (Inr R3) \<Rightarrow>
                          let recs = (if about
                                      then RM [(''traceEvents'', RI []), (''metadata'', RT (meta_about_fields LMPROF LUA_VERSION))]
                                              (rp_records R3)
                                      else RI (rp_records R3))
                          in Some (Inr (LUA_OK, R3\<lparr>rp_table := AList.update ''records'' recs (rp_table R3)\<rparr>)))))
      else if rp_type R = lFile then
        (if \<not> io then Some (Inr (LMPROF_REPORT_DISABLED_IO, R))
         else
           let R1 = R\<lparr>rp_file := rp_file R @ (if about then ''{'' @ JSON_STRING ''traceEvents'' @ '':['' @ NL
                                                 else ''['' @ NL)\<rparr>
           in (case traceevent_table_header io names R1 of
                 None \<Rightarrow> None
               | Some R2 \<Rightarrow>
                   (case traceevent_table_events io names R2 of
                      None \<Rightarrow> None
                    | Some (Inl e) \<Rightarrow> Some (Inl e)
                    | Some (Inr R3) \<Rightarrow>
                        Some (Inr (LUA_OK,
                          if about then
                            (let R4 = snd (snd (meta_about io (R3\<lparr>rp_delim := False, rp_file := rp_file R3 @ '']'' @ JSON_DELIM\<rparr>)
                                                  LMPROF LUA_VERSION))
                             in R4\<lparr>rp_file := rp_file R4 @ ''}'' @ NL\<rparr>)
                          else R3\<lparr>rp_file := rp_file R3 @ NL @ '']'' @ NL\<rparr>)))))
      else Some (Inr (LMPROF_REPORT_FAILURE, R)))"

section \<open>Entry points\<close>

text \<open>\<^verbatim>\<open>lmprof_push_report\<close> (lines 1038--1046): dispatch on the profiling mode.\<close>

definition lmprof_push_report ::
  "bool \<Rightarrow> (string \<times> report_value) list \<Rightarrow> (lua_value \<times> lua_value) list \<Rightarrow> report_value \<Rightarrow> lmprof_Report
   \<Rightarrow> (int \<times> lmprof_Report) result option" where
  "lmprof_push_report io dbg names usage R =
     (let m = mode (rp_st R) in
      if BITFIELD_TEST m (LMPROF_MODE_TIME OR LMPROF_MODE_EXT_CALLBACK) then Some (Inr (LMPROF_REPORT_FAILURE, R))
      else if BITFIELD_TEST m LMPROF_MODE_TRACE then traceevent_report io names usage R
      else if BITFIELD_TEST m (LMPROF_MODE_INSTRUMENT OR LMPROF_MODE_MEMORY OR LMPROF_MODE_SAMPLE)
      then map_option Inr (graph_report io dbg R)
      else Some (Inr (LMPROF_REPORT_FAILURE, R)))"

text \<open>A report of the given kind, fresh as \<^verbatim>\<open>lmprof_report\<close> sets it up.\<close>

definition new_report :: "lmprof_state \<Rightarrow> lmprof_report_type \<Rightarrow> lmprof_Report" where
  "new_report st ty =
     \<lparr>rp_st = st, rp_type = ty, rp_table = [], rp_records = [], rp_array_count = 1, rp_file = [],
      rp_delim = False, rp_indent = []\<rparr>"

text \<open>
  \<^verbatim>\<open>lmprof_report\<close> (lines 1069--1119): the value it leaves on the stack, the file it
  writes (path and contents) and the profiler afterwards. A time profiler reports the
  elapsed time since start (\<open>now\<close> is the clock sample); a table report is \<^verbatim>\<open>nil\<close>
  when the push fails; a file report is a boolean, \<^verbatim>\<open>false\<close> without a path or without
  \<^verbatim>\<open>LMPROF_FILE_API\<close>; \<open>ferr\<close> is the \<^verbatim>\<open>strerror\<close> text of a failed
  \<^verbatim>\<open>fopen\<close> (\<^verbatim>\<open>io_fud\<close>, which raises). Any other kind is \<^verbatim>\<open>nil\<close>.
\<close>

definition lmprof_report ::
  "bool \<Rightarrow> (string \<times> report_value) list \<Rightarrow> (lua_value \<times> lua_value) list \<Rightarrow> report_value \<Rightarrow> lu_time
   \<Rightarrow> string option \<Rightarrow> lmprof_state \<Rightarrow> lmprof_report_type \<Rightarrow> string option
   \<Rightarrow> (report_value \<times> (string \<times> string) option \<times> lmprof_state) result option" where
  "lmprof_report io dbg names usage now ferr st ty file =
     (if BITFIELD_TEST (mode st) LMPROF_MODE_TIME then
        Some (Inr (lua_int (LMPROF_TIME_ADJ (lmprof_clock_diff (time (s (thread_r st))) now) (conf st)), None, st))
      else if ty = lTable then
        (case lmprof_push_report io dbg names usage (new_report st lTable) of
           None \<Rightarrow> None
         | Some (Inl e) \<Rightarrow> Some (Inl e)
         | Some (Inr (r, R')) \<Rightarrow> Some (Inr (if r \<noteq> LUA_OK then RV LNil else RT (rp_table R'), None, rp_st R')))
      else if ty = lFile then
        (if \<not> io then Some (Inr (RV (LBool False), None, st))
         else (case file of
                 None \<Rightarrow> Some (Inr (RV (LBool False), None, st))
               | Some path \<Rightarrow>
                   (case ferr of
                      Some msg \<Rightarrow> Some (Inl (''cannot open file '' @ [CHR 0x27] @ path @ [CHR 0x27] @ '' ('' @ msg @ '')''))
                    | None \<Rightarrow>
                        (case lmprof_push_report io dbg names usage (new_report st lFile) of
                           None \<Rightarrow> None
                         | Some (Inl e) \<Rightarrow> Some (Inl e)
                         | Some (Inr (r, R')) \<Rightarrow>
                             Some (Inr (RV (LBool (r = LUA_OK)), Some (path, rp_file R'), rp_st R'))))))
      else Some (Inr (RV LNil, None, st)))"

section \<open>The report of \<^verbatim>\<open>profiler:stop\<close>\<close>

text \<open>
  \<^verbatim>\<open>report_type\<close> (lmprof_lib.c lines 813--826): a string argument is the output
  path of a file report; otherwise \<^verbatim>\<open>report_string\<close> asks for a buffer, and the
  default is a table. \<^verbatim>\<open>stop_profiler\<close> reads it before finalising, which changes no
  option.
\<close>

definition report_type :: "lmprof_state \<Rightarrow> lua_value \<Rightarrow> lmprof_report_type \<times> string option" where
  "report_type st arg =
     (case arg of
        LStr path \<Rightarrow> (lFile, Some path)
      | _ \<Rightarrow> (if BITFIELD_TEST (conf st) LMPROF_OPT_REPORT_STRING then (lBuffer, None) else (lTable, None)))"

text \<open>
  What the interpreter and the C library give the report of a stop: whether
  \<^verbatim>\<open>LMPROF_FILE_API\<close> is compiled in, the verbose bucket statistics, the thread-name
  table, the page usage ratio, and the \<^verbatim>\<open>strerror\<close> text of a failed \<^verbatim>\<open>fopen\<close>.
\<close>

record report_env =
  re_io :: bool
  re_dbg :: "(string \<times> report_value) list"
  re_names :: "(lua_value \<times> lua_value) list"
  re_usage :: report_value
  re_ferr :: "string option"

text \<open>
  The report step of \<^verbatim>\<open>stop_profiler(L, st, 2)\<close> (lmprof_lib.c lines 829--832): the
  report kind of the stop's argument, then \<^verbatim>\<open>lmprof_report\<close>. Its value is what
  stop returns and the file it writes.
\<close>

definition lmprof_stop_report ::
  "report_env \<Rightarrow> lu_time \<Rightarrow> lua_value \<Rightarrow> lmprof_state
   \<Rightarrow> ((report_value \<times> (string \<times> string) option) \<times> lmprof_state) result option" where
  "lmprof_stop_report e t arg st =
     (case report_type st arg of
        (ty, file) \<Rightarrow>
          map_option (map_sum id (\<lambda>(v, out, st'). ((v, out), st')))
            (lmprof_report (re_io e) (re_dbg e) (re_names e) (re_usage e) t (re_ferr e) st ty file))"

text \<open>Growth of a table report: the same kind, its records extended.\<close>

definition rep_grows :: "lmprof_Report \<Rightarrow> lmprof_Report \<Rightarrow> bool" where
  "rep_grows R R' \<longleftrightarrow> rp_type R' = rp_type R \<and> (\<exists>more. rp_records R' = rp_records R @ more)"

text \<open>An about:tracing table report of a trace profiler whose timeline holds no event.\<close>

definition example_trace_timeline :: timeline where
  "example_trace_timeline =
     \<lparr>page_count = 0, page_limit = 0, frame_count = 1, base_time = 0, pages = [], curr = 0\<rparr>"

definition example_trace_report :: lmprof_Report where
  "example_trace_report =
     new_report (example_report_state\<lparr>mode := LMPROF_MODE_TRACE, conf := LMPROF_OPT_TRACE_ABOUT_TRACING,
                                      i_trace := Some example_trace_timeline\<rparr>) lTable"

section \<open>Lemmas\<close>

lemma append_builder [simp]:
  "rp_type R = lTable \<Longrightarrow>
   REPORT_TABLE_APPEND (report_builder io c R tab obj) =
   R\<lparr>rp_records := rp_records R @ [(rp_array_count R, RT tab)], rp_array_count := rp_array_count R + 1\<rparr>"
  by (simp add: REPORT_TABLE_APPEND_def report_builder_def)

lemma rep_grows_refl [simp, intro]: "rep_grows R R"
  by (simp add: rep_grows_def)

lemma rep_grows_trans: "rep_grows R1 R2 \<Longrightarrow> rep_grows R2 R3 \<Longrightarrow> rep_grows R1 R3"
  by (auto simp: rep_grows_def)

lemma rep_grows_append [simp]:
  "rp_type R = lTable \<Longrightarrow> rep_grows R (REPORT_TABLE_APPEND (report_builder io c R tab obj))"
  by (simp add: rep_grows_def)

lemmas trace_builders = meta_process_def meta_about_def meta_tracing_started_def enter_frame_def
  exit_frame_def draw_frame_def event_scope_def line_instance_def sample_instance_def update_counters_def

lemma layout_threads_grows:
  "layout_threads io kvs R = Some R' \<Longrightarrow> rp_type R = lTable \<Longrightarrow> rep_grows R R'"
proof (induction io kvs R rule: layout_threads.induct)
  case (1 io R)
  then show ?case by simp
next
  case (2 io k v kvs R)
  show ?case
  proof (cases "lua_key_int k")
    case None
    with 2 show ?thesis by simp
  next
    case (Some t)
    then obtain nm where nm: "lua_tostring v = Some nm"
      using 2(3) by (cases "lua_tostring v") auto
    let ?R1 = "REPORT_TABLE_APPEND (meta_process io R \<lparr>pid = LMPROF_PROCESS_MAIN, tid = t\<rparr> CHROME_META_THREAD nm)"
    have g: "rep_grows R ?R1" and ty: "rp_type ?R1 = lTable"
      using 2(4) by (simp_all add: meta_process_def rep_grows_def)
    have "rep_grows ?R1 R'"
      using 2(2)[OF Some nm] 2(3) Some nm ty by simp
    with g show ?thesis by (rule rep_grows_trans)
  qed
qed

lemma default_meta_rows:
  "rp_type R = lTable \<Longrightarrow>
   rp_type (traceevent_default_meta io R) = lTable \<and> rp_st (traceevent_default_meta io R) = rp_st R \<and>
   (\<exists>more. rp_records (traceevent_default_meta io R) = rp_records R @ more \<and> 4 \<le> length more)"
  by (simp add: traceevent_default_meta_def Let_def meta_process_def meta_tracing_started_def)

lemma table_header_rows:
  assumes h: "traceevent_table_header io names R = Some R'" and t: "rp_type R = lTable"
  shows "rp_type R' = lTable \<and> (\<exists>more. rp_records R' = rp_records R @ more \<and> 4 \<le> length more)"
proof -
  define R5 where "R5 = traceevent_default_meta io R"
  have r5: "rp_type R5 = lTable" "\<exists>more. rp_records R5 = rp_records R @ more \<and> 4 \<le> length more"
    using default_meta_rows[OF t, of io] unfolding R5_def by blast+
  have "R' = R5 \<or> layout_threads io names R5 = Some R'"
    using h unfolding traceevent_table_header_def R5_def Let_def by (auto split: if_splits)
  then have "rep_grows R5 R'"
    using layout_threads_grows r5(1) by auto
  then show ?thesis
    using r5 by (auto simp: rep_grows_def)
qed

lemma rep_grows_upd [simp]:
  "rep_grows R (R\<lparr>rp_records := rp_records R @ xs, rp_array_count := n\<rparr>)"
  by (simp add: rep_grows_def)

lemma rep_grows_st [simp]: "rep_grows R (R'\<lparr>rp_st := x\<rparr>) = rep_grows R R'"
  by (simp add: rep_grows_def)

lemma counter_tick_grows:
  "rp_type R = lTable \<Longrightarrow> rep_grows R (fst (counter_tick io freq R ev c))"
  by (simp add: counter_tick_def update_counters_def)

lemma walk_step_grows:
  assumes st: "trace_walk_step io names freq w p = Some (Inr w')" and ty: "rp_type (tw_rep w) = lTable"
  shows "rep_grows (tw_rep w) (tw_rep w')"
proof -
  let ?R = "tw_rep w"
  let ?ev = "tl_event (tw_tm w) p"
  obtain op where op: "walk_op (i_store (rp_st ?R)) ?ev = Some op"
    using st by (cases "walk_op (i_store (rp_st ?R)) ?ev") (simp_all add: trace_walk_step_def Let_def)
  have tick: "\<And>R1 c. rep_grows ?R R1 \<Longrightarrow> rep_grows ?R (fst (counter_tick io freq R1 ?ev c))"
    using ty counter_tick_grows rep_grows_trans by (metis rep_grows_def)
  show ?thesis
    using st ty op tick
    by (cases op) (auto simp: trace_walk_step_def Let_def trace_builders split: option.splits)
qed

lemma walk_loop_grows:
  "trace_walk_loop io names freq ps w = Some (Inr w') \<Longrightarrow> rp_type (tw_rep w) = lTable \<Longrightarrow>
   rep_grows (tw_rep w) (tw_rep w')"
proof (induction ps arbitrary: w)
  case Nil
  then show ?case by simp
next
  case (Cons p ps)
  then obtain w1 where w1: "trace_walk_step io names freq w p = Some (Inr w1)"
    by (auto split: option.splits sum.splits)
  have g: "rep_grows (tw_rep w) (tw_rep w1)"
    using walk_step_grows[OF w1 Cons.prems(2)] .
  then have "rp_type (tw_rep w1) = lTable"
    using Cons.prems(2) by (simp add: rep_grows_def)
  with Cons.IH[of w1] Cons.prems(1) w1 g show ?case
    by (auto intro: rep_grows_trans)
qed

lemma walk_run_grows:
  "trace_walk_run io names freq R tm = Some (Inr R') \<Longrightarrow> rp_type R = lTable \<Longrightarrow> rep_grows R R'"
  using walk_loop_grows by (fastforce simp: trace_walk_run_def)

lemma table_events_grows:
  assumes "traceevent_table_events io names R = Some (Inr R')" and "rp_type R = lTable"
  shows "rep_grows R R'"
  using assms walk_run_grows
  by (auto simp: traceevent_table_events_def Let_def split: option.splits if_splits prod.splits)

subsection \<open>The report keeps the profiler\<close>

text \<open>
  A report changes the profiler only through the timeline it adjusts and compresses:
  every builder keeps \<open>rp_st\<close>, and so do the walks.
\<close>

lemma trace_frame_refl [simp]: "\<exists>tm. st = st\<lparr>i_trace := tm\<rparr>"
  by (rule exI[of _ "i_trace st"]) simp

lemma builder_st [simp]:
  "rp_st (REPORT_TABLE_APPEND (report_builder io c R tab obj)) = rp_st R"
  "rp_st (snd (snd (report_builder io c R tab obj))) = rp_st R"
  by (simp_all add: REPORT_TABLE_APPEND_def report_builder_def json_emit_def)

lemma counter_tick_st [simp]: "rp_st (fst (counter_tick io freq R ev c)) = rp_st R"
  by (simp add: counter_tick_def update_counters_def)

lemma walk_step_st:
  assumes st: "trace_walk_step io names freq w p = Some (Inr w')"
  shows "rp_st (tw_rep w') = rp_st (tw_rep w)"
proof -
  obtain op where op: "walk_op (i_store (rp_st (tw_rep w))) (tl_event (tw_tm w) p) = Some op"
    using st by (cases "walk_op (i_store (rp_st (tw_rep w))) (tl_event (tw_tm w) p)")
                (simp_all add: trace_walk_step_def Let_def)
  show ?thesis
    using st op by (cases op) (auto simp: trace_walk_step_def Let_def trace_builders split: option.splits)
qed

lemma walk_loop_st:
  "trace_walk_loop io names freq ps w = Some (Inr w') \<Longrightarrow> rp_st (tw_rep w') = rp_st (tw_rep w)"
proof (induction ps arbitrary: w)
  case (Cons p ps)
  then obtain w1 where w1: "trace_walk_step io names freq w p = Some (Inr w1)"
    by (auto split: option.splits sum.splits)
  then show ?case using Cons walk_step_st[OF w1] by simp
qed simp

lemma table_events_st:
  "traceevent_table_events io names R = Some (Inr R') \<Longrightarrow> \<exists>tm. rp_st R' = (rp_st R)\<lparr>i_trace := tm\<rparr>"
  by (auto simp: traceevent_table_events_def trace_walk_run_def Let_def dest!: walk_loop_st
           split: option.splits if_splits prod.splits)

lemma layout_threads_st:
  "layout_threads io kvs R = Some R' \<Longrightarrow> rp_st R' = rp_st R"
  by (induction io kvs R rule: layout_threads.induct)
     (auto simp: meta_process_def split: option.splits)

lemma table_header_st:
  "traceevent_table_header io names R = Some R' \<Longrightarrow> rp_st R' = rp_st R"
  by (auto simp: traceevent_table_header_def traceevent_default_meta_def Let_def meta_process_def
                 meta_tracing_started_def dest!: layout_threads_st split: if_splits)

lemma traceevent_report_st:
  "traceevent_report io names usage R = Some (Inr (r, R')) \<Longrightarrow> \<exists>tm. rp_st R' = (rp_st R)\<lparr>i_trace := tm\<rparr>"
  by (auto simp: traceevent_report_def Let_def meta_about_def dest!: table_header_st table_events_st
           split: option.splits sum.splits if_splits)

lemma push_report_st:
  "lmprof_push_report io dbg names usage R = Some (Inr (r, R')) \<Longrightarrow> \<exists>tm. rp_st R' = (rp_st R)\<lparr>i_trace := tm\<rparr>"
  by (auto simp: lmprof_push_report_def Let_def dest!: graph_report_st split: if_splits)
     (auto dest!: traceevent_report_st)

lemma lmprof_report_st:
  "lmprof_report io dbg names usage now ferr st ty file = Some (Inr (v, out, st')) \<Longrightarrow> \<exists>tm. st' = st\<lparr>i_trace := tm\<rparr>"
  by (auto simp: lmprof_report_def new_report_def dest!: push_report_st
           split: if_splits option.splits sum.splits prod.splits)

lemma stop_report_st:
  "lmprof_stop_report e t arg st = Some (Inr (v, st')) \<Longrightarrow> \<exists>tm. st' = st\<lparr>i_trace := tm\<rparr>"
  by (auto simp: lmprof_stop_report_def dest!: lmprof_report_st split: prod.splits)

lemma table_events_empty:
  assumes "i_trace (rp_st R) = Some tm" and "timeline_events tm = []"
    and "\<not> BITFIELD_TEST (conf (rp_st R)) LMPROF_OPT_TRACE_COMPRESS"
  shows "\<exists>R'. traceevent_table_events io names R = Some (Inr R')"
proof -
  have "timeline_adjust tm = tm"
    using assms(2) by (simp add: timeline_adjust_def)
  then show ?thesis
    using assms by (simp add: traceevent_table_events_def trace_walk_run_def)
qed

lemma header_no_split:
  "\<not> BITFIELD_TEST (conf (rp_st R)) LMPROF_OPT_TRACE_LAYOUT_SPLIT \<Longrightarrow>
   traceevent_table_header io names R = Some (traceevent_default_meta io R)"
  by (simp add: traceevent_table_header_def)

lemma report_table_empty_ok:
  assumes ty: "rp_type R = lTable" and tr: "i_trace (rp_st R) = Some tm" and ev: "timeline_events tm = []"
    and ns: "\<not> BITFIELD_TEST (conf (rp_st R)) LMPROF_OPT_TRACE_LAYOUT_SPLIT"
    and nc: "\<not> BITFIELD_TEST (conf (rp_st R)) LMPROF_OPT_TRACE_COMPRESS"
  shows "\<exists>x. traceevent_report io names usage R = Some (Inr x)"
proof -
  define R1 where "R1 = R\<lparr>rp_table := AList.update ''header''
                     (RT (traceevent_header_fields usage (rp_st R) tm)) (rp_table R), rp_records := []\<rparr>"
  have t1: "rp_type R1 = lTable" and s1: "rp_st R1 = rp_st R"
    using ty by (simp_all add: R1_def)
  have h: "traceevent_table_header io names R1 = Some (traceevent_default_meta io R1)"
    using ns s1 by (simp add: header_no_split)
  have "rp_st (traceevent_default_meta io R1) = rp_st R"
    using default_meta_rows[OF t1] s1 by simp
  then obtain R3 where e: "traceevent_table_events io names (traceevent_default_meta io R1) = Some (Inr R3)"
    using table_events_empty[OF _ ev] tr nc by metis
  show ?thesis
    using ty tr h e by (simp add: traceevent_report_def Let_def R1_def)
qed

lemma push_report_graph:
  assumes "\<not> BITFIELD_TEST (mode (rp_st R)) (LMPROF_MODE_TIME OR LMPROF_MODE_EXT_CALLBACK)"
    and "\<not> BITFIELD_TEST (mode (rp_st R)) LMPROF_MODE_TRACE"
    and "BITFIELD_TEST (mode (rp_st R)) (LMPROF_MODE_INSTRUMENT OR LMPROF_MODE_MEMORY OR LMPROF_MODE_SAMPLE)"
  shows "lmprof_push_report io dbg names usage R = map_option Inr (graph_report io dbg R)"
  using assms by (simp add: lmprof_push_report_def Let_def)

section \<open>Properties\<close>

text \<open>
  C27 (functional): with \<^verbatim>\<open>LMPROF_OPT_TRACE_ABOUT_TRACING\<close>, a table trace report
  that completes stores every event row (at least the four metadata rows) in the
  \<^verbatim>\<open>records\<close> table itself, beside \<^verbatim>\<open>traceEvents\<close> and \<^verbatim>\<open>metadata\<close>, and
  leaves the \<^verbatim>\<open>traceEvents\<close> array empty: \<^verbatim>\<open>t.table_index\<close> still names
  \<^verbatim>\<open>records\<close> when the events are appended.
\<close>
theorem traceevent_about_records_misplaced:
  assumes rep: "traceevent_report io names usage R = Some (Inr (r, R'))"
    and ty: "rp_type R = lTable"
    and ab: "BITFIELD_TEST (conf (rp_st R)) LMPROF_OPT_TRACE_ABOUT_TRACING"
  shows "r = LUA_OK \<and>
         (\<exists>rows. map_of (rp_table R') ''records'' =
                   Some (RM [(''traceEvents'', RI []), (''metadata'', RT (meta_about_fields LMPROF LUA_VERSION))] rows)
                 \<and> 4 \<le> length rows)"
proof -
  obtain tm where tm: "i_trace (rp_st R) = Some tm"
    using rep ty by (cases "i_trace (rp_st R)") (simp_all add: traceevent_report_def)
  define R1 where "R1 = R\<lparr>rp_table := AList.update ''header'' (RT (traceevent_header_fields usage (rp_st R) tm)) (rp_table R),
                           rp_records := []\<rparr>"
  obtain R2 where h: "traceevent_table_header io names R1 = Some R2"
    using rep ty tm by (cases "traceevent_table_header io names R1") (simp_all add: traceevent_report_def R1_def)
  obtain R3 where e: "traceevent_table_events io names R2 = Some (Inr R3)"
    and out: "r = LUA_OK"
      "R' = R3\<lparr>rp_table := AList.update ''records''
         (RM [(''traceEvents'', RI []), (''metadata'', RT (meta_about_fields LMPROF LUA_VERSION))] (rp_records R3))
         (rp_table R3)\<rparr>"
    using rep ty tm h ab
    by (auto simp: traceevent_report_def R1_def[symmetric] split: option.splits sum.splits)
  have t1: "rp_type R1 = lTable" and r1: "rp_records R1 = []"
    using ty by (simp_all add: R1_def)
  obtain more where m: "rp_records R2 = more" "4 \<le> length more" "rp_type R2 = lTable"
    using table_header_rows[OF h t1] r1 by auto
  obtain more' where "rp_records R3 = rp_records R2 @ more'"
    using table_events_grows[OF e m(3)] by (auto simp: rep_grows_def)
  with m out show ?thesis
    by (auto simp: update_conv')
qed

theorem traceevent_about_records_misplaced_witness:
  "\<exists>r R'. traceevent_report True [] (RV LNil) example_trace_report = Some (Inr (r, R')) \<and> r = LUA_OK \<and>
     (\<exists>rows. map_of (rp_table R') ''records'' =
               Some (RM [(''traceEvents'', RI []), (''metadata'', RT (meta_about_fields LMPROF LUA_VERSION))] rows)
             \<and> 4 \<le> length rows)"
proof -
  let ?st = "rp_st example_trace_report"
  have ty: "rp_type example_trace_report = lTable"
    and ab: "BITFIELD_TEST (conf ?st) LMPROF_OPT_TRACE_ABOUT_TRACING"
    and ns: "\<not> BITFIELD_TEST (conf ?st) LMPROF_OPT_TRACE_LAYOUT_SPLIT"
    and nc: "\<not> BITFIELD_TEST (conf ?st) LMPROF_OPT_TRACE_COMPRESS"
    and tr: "i_trace ?st = Some example_trace_timeline"
    by (simp_all add: example_trace_report_def new_report_def BITFIELD_TEST_def LMPROF_OPT_TRACE_ABOUT_TRACING_def
                      LMPROF_OPT_TRACE_LAYOUT_SPLIT_def LMPROF_OPT_TRACE_COMPRESS_def)
  have ev: "timeline_events example_trace_timeline = []"
    by (simp add: timeline_events_def example_trace_timeline_def)
  obtain r R' where rep: "traceevent_report True [] (RV LNil) example_trace_report = Some (Inr (r, R'))"
    using report_table_empty_ok[OF ty tr ev ns nc, of True "[]" "RV LNil"] by auto
  show ?thesis
    by (rule exI[of _ r], rule exI[of _ R'], rule conjI[OF rep traceevent_about_records_misplaced[OF rep ty ab]])
qed

text \<open>
  C24 (refinement): \<^verbatim>\<open>lmprof_report\<close> of a graph profiler (instrument, memory or
  sample mode, no time or callback bit, no trace bit) with a well-formed hashtable
  returns a table whose \<^verbatim>\<open>header\<close> is the profiler header and whose
  \<^verbatim>\<open>records\<close> is the array, from index 1, of one row per hashtable entry in bucket
  order; the profiler state is unchanged.
\<close>
theorem lmprof_report_graph_table:
  assumes m: "\<not> BITFIELD_TEST (mode st) (LMPROF_MODE_TIME OR LMPROF_MODE_EXT_CALLBACK)"
    "\<not> BITFIELD_TEST (mode st) LMPROF_MODE_TRACE"
    "BITFIELD_TEST (mode st) (LMPROF_MODE_INSTRUMENT OR LMPROF_MODE_MEMORY OR LMPROF_MODE_SAMPLE)"
    and h: "i_hash st = Some h" and inv: "hash_inv (i_store st) h"
  shows "\<exists>T. lmprof_report io dbg names usage now ferr st lTable file = Some (Inr (RT T, None, st)) \<and>
             map_of T ''header'' = Some (RT (header_fields st @ graph_verbose_debug st dbg)) \<and>
             map_of T ''records'' =
               Some (RI (array_from 1 (graph_rows (mode st) (conf st) (i_store st) (hash_traversal h))))"
proof -
  let ?R = "new_report st lTable"
  obtain R' where g: "graph_report io dbg ?R = Some (LUA_OK, R')" "rp_st R' = st"
    "map_of (rp_table R') ''header'' = Some (RT (header_fields st @ graph_verbose_debug st dbg))"
    "map_of (rp_table R') ''records'' =
       Some (RI (array_from 1 (graph_rows (mode st) (conf st) (i_store st) (hash_traversal h))))"
    using graph_report_table_rows[of ?R h io dbg] h inv by (auto simp: new_report_def)
  have p: "lmprof_push_report io dbg names usage ?R = Some (Inr (LUA_OK, R'))"
    using push_report_graph[of ?R] m g(1) by (simp add: new_report_def)
  have "\<not> BITFIELD_TEST (mode st) LMPROF_MODE_TIME"
    using m(1) by (simp add: BITFIELD_TEST_OR)
  then show ?thesis
    using p g(2-4) by (simp add: lmprof_report_def)
qed

theorem lmprof_report_graph_table_witness:
  "\<exists>T. lmprof_report True [] [] (RV LNil) 0 None example_report_state lTable None =
         Some (Inr (RT T, None, example_report_state)) \<and>
       map_of T ''header'' = Some (RT (header_fields example_report_state @ graph_verbose_debug example_report_state [])) \<and>
       map_of T ''records'' =
         Some (RI (array_from 1 (graph_rows (mode example_report_state) (conf example_report_state)
                                 (i_store example_report_state) (hash_traversal \<lparr>bucket_count = 1, buckets = [[0]]\<rparr>))))"
proof (rule lmprof_report_graph_table)
  show "\<not> BITFIELD_TEST (mode example_report_state) (LMPROF_MODE_TIME OR LMPROF_MODE_EXT_CALLBACK)"
    and "\<not> BITFIELD_TEST (mode example_report_state) LMPROF_MODE_TRACE"
    and "BITFIELD_TEST (mode example_report_state) (LMPROF_MODE_INSTRUMENT OR LMPROF_MODE_MEMORY OR LMPROF_MODE_SAMPLE)"
    and "i_hash example_report_state = Some \<lparr>bucket_count = 1, buckets = [[0]]\<rparr>"
    by (simp_all add: example_report_state_def BITFIELD_TEST_def mode_defs)
  show "hash_inv (i_store example_report_state) \<lparr>bucket_count = 1, buckets = [[0]]\<rparr>"
    using example_report_hash_inv by (simp add: example_table_report_def)
qed

text \<open>
  C28 (error): outside a time profiler, \<^verbatim>\<open>lmprof_report\<close> returns \<^verbatim>\<open>nil\<close> for a
  table report of an external-callback profiler and for a buffer report, and
  \<^verbatim>\<open>false\<close> for a file report without a path or without \<^verbatim>\<open>LMPROF_FILE_API\<close>,
  leaving the profiler as it was. A path \<^verbatim>\<open>fopen\<close> cannot open is not reported as
  \<^verbatim>\<open>false\<close>, as lmprof_lib.h (lines 96--98) documents for \<^verbatim>\<open>stop(output_path)\<close>:
  \<^verbatim>\<open>io_fud\<close> raises ``cannot open file'' with the \<^verbatim>\<open>strerror\<close> text.
\<close>

theorem lmprof_report_refused:
  assumes nt: "\<not> BITFIELD_TEST (mode st) LMPROF_MODE_TIME"
  shows "(BITFIELD_TEST (mode st) LMPROF_MODE_EXT_CALLBACK \<longrightarrow>
            lmprof_report io dbg names usage now ferr st lTable file = Some (Inr (RV LNil, None, st))) \<and>
         lmprof_report io dbg names usage now ferr st lBuffer file = Some (Inr (RV LNil, None, st)) \<and>
         lmprof_report io dbg names usage now ferr st lFile None = Some (Inr (RV (LBool False), None, st)) \<and>
         lmprof_report False dbg names usage now ferr st lFile file = Some (Inr (RV (LBool False), None, st)) \<and>
         lmprof_report True dbg names usage now (Some msg) st lFile (Some path) =
           Some (Inl (''cannot open file '' @ [CHR 0x27] @ path @ [CHR 0x27] @ '' ('' @ msg @ '')''))"
proof -
  have "BITFIELD_TEST (mode st) LMPROF_MODE_EXT_CALLBACK \<Longrightarrow>
        lmprof_push_report io dbg names usage (new_report st lTable) =
          Some (Inr (LMPROF_REPORT_FAILURE, new_report st lTable))"
    by (simp add: lmprof_push_report_def new_report_def BITFIELD_TEST_OR)
  then show ?thesis
    using nt by (simp add: lmprof_report_def new_report_def LMPROF_REPORT_FAILURE_def LUA_OK_def)
qed

theorem lmprof_report_refused_witness:
  "BITFIELD_TEST (mode (example_report_state\<lparr>mode := LMPROF_MODE_EXT_CALLBACK\<rparr>)) LMPROF_MODE_EXT_CALLBACK \<and>
   lmprof_report True [] [] (RV LNil) 0 None (example_report_state\<lparr>mode := LMPROF_MODE_EXT_CALLBACK\<rparr>) lTable None =
     Some (Inr (RV LNil, None, example_report_state\<lparr>mode := LMPROF_MODE_EXT_CALLBACK\<rparr>)) \<and>
   lmprof_report True [] [] (RV LNil) 0 None (example_report_state\<lparr>mode := LMPROF_MODE_EXT_CALLBACK\<rparr>) lBuffer None =
     Some (Inr (RV LNil, None, example_report_state\<lparr>mode := LMPROF_MODE_EXT_CALLBACK\<rparr>)) \<and>
   lmprof_report True [] [] (RV LNil) 0 None (example_report_state\<lparr>mode := LMPROF_MODE_EXT_CALLBACK\<rparr>) lFile None =
     Some (Inr (RV (LBool False), None, example_report_state\<lparr>mode := LMPROF_MODE_EXT_CALLBACK\<rparr>)) \<and>
   lmprof_report False [] [] (RV LNil) 0 None (example_report_state\<lparr>mode := LMPROF_MODE_EXT_CALLBACK\<rparr>) lFile None =
     Some (Inr (RV (LBool False), None, example_report_state\<lparr>mode := LMPROF_MODE_EXT_CALLBACK\<rparr>)) \<and>
   lmprof_report True [] [] (RV LNil) 0 (Some ''denied'') (example_report_state\<lparr>mode := LMPROF_MODE_EXT_CALLBACK\<rparr>) lFile
       (Some ''out.json'') =
     Some (Inl (''cannot open file '' @ [CHR 0x27] @ ''out.json'' @ [CHR 0x27] @ '' ('' @ ''denied'' @ '')''))"
proof -
  let ?st = "example_report_state\<lparr>mode := LMPROF_MODE_EXT_CALLBACK\<rparr>"
  have nt: "\<not> BITFIELD_TEST (mode ?st) LMPROF_MODE_TIME"
    and ext: "BITFIELD_TEST (mode ?st) LMPROF_MODE_EXT_CALLBACK"
    by (simp_all add: BITFIELD_TEST_def mode_defs)
  show ?thesis
    using lmprof_report_refused [OF nt, of True "[]" "[]" "RV LNil" 0 None None "''denied''" "''out.json''"] ext by simp
qed

end
