(* ===== verification/Lifecycle.thy ===== *)
theory Lifecycle
  imports Trace_Hook Report_Trace
begin

text \<open>
  The life of a persistent profiler object (\<^verbatim>\<open>lmprof.create\<close>) as the calls a script
  makes on it, one after the other, with every raised error caught by the caller.
\<close>

section \<open>Calls on a profiler object\<close>

text \<open>
  The methods of the profiler object that change it (\<^verbatim>\<open>lmprof_state_initialize\<close>'s
  table: start, stop, quit, set_mode, set_option, begin_frame, end_frame), the C
  callbacks \<^verbatim>\<open>lmprof_pause_execution\<close> and \<^verbatim>\<open>lmprof_resume_execution\<close> an
  embedding host calls, and the interpreter switching to another coroutine. A stop
  carries its argument (the output path, when it is a string) and what the interpreter
  and the C library give its report.
\<close>

datatype lc_op =
    LC_Start start_env
  | LC_Stop lu_time lua_value report_env
  | LC_Quit
  | LC_SetMode "lua_value list"
  | LC_SetOption "lua_value list"
  | LC_BeginFrame bool lu_time
  | LC_EndFrame bool lu_time
  | LC_Pause bool lu_time
  | LC_Resume bool lu_time
  | LC_Switch nat

text \<open>
  The host and profiler after a call, whether it returned or raised; \<open>None\<close> when the
  call has undefined behaviour.
\<close>

definition lc_apply :: "lc_op \<Rightarrow> lua_host \<Rightarrow> lmprof_state \<Rightarrow> (lua_host \<times> lmprof_state) option" where
  "lc_apply op h st =
     (case op of
        LC_Start e \<Rightarrow> map_option (case_sum snd id) (state_start e h st)
      | LC_Stop t arg e \<Rightarrow> map_option (case_sum snd snd) (state_stop (lmprof_stop_report e t arg) t h st)
      | LC_Quit \<Rightarrow> Some (state_quit h st)
      | LC_SetMode args \<Rightarrow> Some (case state_setmode args h st of Inl err \<Rightarrow> snd err | Inr st' \<Rightarrow> (h, st'))
      | LC_SetOption args \<Rightarrow> Some (case state_setoption args h st of Inl err \<Rightarrow> snd err | Inr st' \<Rightarrow> (h, st'))
      | LC_BeginFrame ok t \<Rightarrow> map_option (case_sum snd (\<lambda>st'. (h, st'))) (state_event_beginframe ok t h st)
      | LC_EndFrame ok t \<Rightarrow> map_option (case_sum snd (\<lambda>st'. (h, st'))) (state_event_endframe ok t h st)
      | LC_Pause ok t \<Rightarrow> map_option (case_sum snd snd) (lmprof_pause_execution ok t h st)
      | LC_Resume ok t \<Rightarrow> map_option (case_sum snd snd) (lmprof_resume_execution ok t h st)
      | LC_Switch c \<Rightarrow> Some (h\<lparr>h_current := c\<rparr>, st))"

section \<open>The lifecycle invariant\<close>

text \<open>
  Between calls a persistent profiler keeps its default error handler, is never left
  failed or setting up, and runs exactly when it owns the singleton slot.
\<close>

definition lc_inv :: "lua_host \<Rightarrow> lmprof_state \<Rightarrow> bool" where
  "lc_inv h st \<longleftrightarrow>
     BITFIELD_TEST (state st) LMPROF_STATE_PERSISTENT \<and> on_error st = LMPROF_DEFAULT_ERROR \<and>
     h_singleton h \<noteq> SINGLETON_OTHER \<and> \<not> BITFIELD_TEST (state st) LMPROF_STATE_ERROR \<and>
     \<not> BITFIELD_TEST (state st) LMPROF_STATE_SETTING_UP \<and>
     (BITFIELD_TEST (state st) LMPROF_STATE_RUNNING \<longleftrightarrow> h_singleton h = SINGLETON_SELF)"

text \<open>What holds inside a call when \<^verbatim>\<open>lmprof_error\<close> may be reached.\<close>

definition lc_pre :: "lua_host \<Rightarrow> lmprof_state \<Rightarrow> bool" where
  "lc_pre h st \<longleftrightarrow>
     BITFIELD_TEST (state st) LMPROF_STATE_PERSISTENT \<and> on_error st = LMPROF_DEFAULT_ERROR \<and>
     h_singleton h \<noteq> SINGLETON_OTHER \<and>
     (BITFIELD_TEST (state st) LMPROF_STATE_SETTING_UP \<longrightarrow> BITFIELD_TEST (state st) LMPROF_STATE_RUNNING) \<and>
     (BITFIELD_TEST (state st) LMPROF_STATE_RUNNING \<longleftrightarrow> h_singleton h = SINGLETON_SELF)"

text \<open>Two moments of a call agree on everything the invariant reads.\<close>

definition lc_same :: "lua_host \<Rightarrow> lmprof_state \<Rightarrow> lua_host \<Rightarrow> lmprof_state \<Rightarrow> bool" where
  "lc_same h st h' st' \<longleftrightarrow>
     h_singleton h' = h_singleton h \<and> on_error st' = on_error st \<and>
     (BITFIELD_TEST (state st') LMPROF_STATE_PERSISTENT \<longleftrightarrow> BITFIELD_TEST (state st) LMPROF_STATE_PERSISTENT) \<and>
     (BITFIELD_TEST (state st') LMPROF_STATE_RUNNING \<longleftrightarrow> BITFIELD_TEST (state st) LMPROF_STATE_RUNNING) \<and>
     (BITFIELD_TEST (state st') LMPROF_STATE_ERROR \<longleftrightarrow> BITFIELD_TEST (state st) LMPROF_STATE_ERROR) \<and>
     (BITFIELD_TEST (state st') LMPROF_STATE_SETTING_UP \<longleftrightarrow> BITFIELD_TEST (state st) LMPROF_STATE_SETTING_UP)"

text \<open>An error raised through \<^verbatim>\<open>lmprof_error\<close> at a moment that agrees with the call's start.\<close>

definition lc_raised :: "lua_host \<Rightarrow> lmprof_state \<Rightarrow> string \<times> lua_host \<times> lmprof_state \<Rightarrow> bool" where
  "lc_raised h st err \<longleftrightarrow> (\<exists>h'' st''. lc_same h st h'' st'' \<and> (lmprof_error h'' st'' (fst err) :: unit lres) = Inl err)"

text \<open>
  A stop of the running profiler whose report raises: the error leaves
  \<^verbatim>\<open>stop_profiler\<close> between the finalisation and the shutdown.
\<close>

definition lc_stop_raises :: "lc_op \<Rightarrow> lua_host \<Rightarrow> lmprof_state \<Rightarrow> bool" where
  "lc_stop_raises op h st =
     (case op of
        LC_Stop t arg e \<Rightarrow>
          h_singleton h = SINGLETON_SELF \<and>
          (case state_stop (lmprof_stop_report e t arg) t h st of Some (Inl _) \<Rightarrow> True | _ \<Rightarrow> False)
      | _ \<Rightarrow> False)"

text \<open>
  The profiler objects a script can hold: created while no profiler runs, then called,
  none of the calls being a stop whose report raises.
\<close>

inductive lc_reachable :: "lua_host \<Rightarrow> lmprof_state \<Rightarrow> bool" where
  create: "lmprof_create args h st0 = Inr st \<Longrightarrow> h_singleton h = SINGLETON_NONE \<Longrightarrow> lc_reachable h st"
| call: "lc_reachable h st \<Longrightarrow> \<not> lc_stop_raises op h st \<Longrightarrow> lc_apply op h st = Some (h', st') \<Longrightarrow>
         lc_reachable h' st'"

text \<open>
  A persistent instrumenting trace profiler running on the example host with its hook
  installed, and a start-up environment in which every allocation succeeds.
\<close>

definition example_lc_host :: lua_host where
  "example_lc_host = example_running_host\<lparr>h_hook := TRACEEVENT_INSTRUMENT\<rparr>"

definition example_lc_trace :: lmprof_state where
  "example_lc_trace = example_trace\<lparr>hook_l_hook := TRACEEVENT_INSTRUMENT, i_hash_size := 1\<rparr>"

text \<open>
  Stop environments: no file support (the file report answers \<^verbatim>\<open>false\<close>), and file
  support with a path \<^verbatim>\<open>fopen\<close> refuses.
\<close>

definition example_report_env :: report_env where
  "example_report_env = \<lparr>re_io = False, re_dbg = [], re_names = [], re_usage = RV LNil, re_ferr = None\<rparr>"

definition example_denied_env :: report_env where
  "example_denied_env = example_report_env\<lparr>re_io := True, re_ferr := Some ''Permission denied''\<rparr>"

definition example_start_env :: start_env where
  "example_start_env = \<lparr>sv_time = 11, sv_hash_ok = True, sv_list_ok = True, sv_page_ok = True,
     sv_stack = \<lparr>se_raw = example_stack,
                 se_root = \<lparr>fe_alloc_ok = True, fe_insert_ok = True, fe_fresh = 2, fe_info = info_zero,
                            fe_update = id, fe_ignored = False, fe_nlines = 0\<rparr>,
                 se_frames = []\<rparr>\<rparr>"

section \<open>Lemmas\<close>

lemma lc_inv_pre: "lc_inv h st \<Longrightarrow> lc_pre h st"
  by (simp add: lc_inv_def lc_pre_def)

lemma lc_flag_facts [simp]:
  "(LMPROF_STATE_ERROR OR LMPROF_STATE_IGNORE_ALLOC) AND LMPROF_STATE_PERSISTENT = 0"
  "(LMPROF_STATE_ERROR OR LMPROF_STATE_IGNORE_ALLOC) AND LMPROF_STATE_RUNNING = 0"
  "(LMPROF_STATE_ERROR OR LMPROF_STATE_IGNORE_ALLOC) AND LMPROF_STATE_SETTING_UP = 0"
  "LMPROF_STATE_ERROR AND (LMPROF_STATE_ERROR OR LMPROF_STATE_IGNORE_ALLOC) = LMPROF_STATE_ERROR"
  "(LMPROF_STATE_RUNNING OR LMPROF_STATE_SETTING_UP OR LMPROF_STATE_GC_WAS_RUNNING) AND LMPROF_STATE_PERSISTENT = 0"
  "(LMPROF_STATE_RUNNING OR LMPROF_STATE_SETTING_UP OR LMPROF_STATE_GC_WAS_RUNNING) AND LMPROF_STATE_ERROR = 0"
  "LMPROF_STATE_RUNNING AND (LMPROF_STATE_RUNNING OR LMPROF_STATE_SETTING_UP OR LMPROF_STATE_GC_WAS_RUNNING) = LMPROF_STATE_RUNNING"
  "LMPROF_STATE_SETTING_UP AND (LMPROF_STATE_RUNNING OR LMPROF_STATE_SETTING_UP OR LMPROF_STATE_GC_WAS_RUNNING) = LMPROF_STATE_SETTING_UP"
  "LMPROF_STATE_ERROR AND LMPROF_STATE_PERSISTENT = 0" "LMPROF_STATE_ERROR AND LMPROF_STATE_RUNNING = 0"
  "LMPROF_STATE_ERROR AND LMPROF_STATE_SETTING_UP = 0"
  "LMPROF_STATE_ERROR \<noteq> 0" "LMPROF_STATE_RUNNING \<noteq> 0" "LMPROF_STATE_SETTING_UP \<noteq> 0"
  "LMPROF_STATE_IGNORE_ALLOC AND LMPROF_STATE_PERSISTENT = 0" "LMPROF_STATE_IGNORE_ALLOC AND LMPROF_STATE_RUNNING = 0"
  "LMPROF_STATE_IGNORE_ALLOC AND LMPROF_STATE_ERROR = 0" "LMPROF_STATE_IGNORE_ALLOC AND LMPROF_STATE_SETTING_UP = 0"
  "LMPROF_STATE_IGNORE_CALL AND LMPROF_STATE_PERSISTENT = 0" "LMPROF_STATE_IGNORE_CALL AND LMPROF_STATE_RUNNING = 0"
  "LMPROF_STATE_IGNORE_CALL AND LMPROF_STATE_ERROR = 0" "LMPROF_STATE_IGNORE_CALL AND LMPROF_STATE_SETTING_UP = 0"
  "LMPROF_STATE_PAUSED AND LMPROF_STATE_PERSISTENT = 0" "LMPROF_STATE_PAUSED AND LMPROF_STATE_SETTING_UP = 0"
  by (simp_all add: state_flag_defs LMPROF_STATE_PAUSED_def)

lemma finalize_nopop_lc:
  assumes "lmprof_finalize_nopop h st = (h', st')"
    and "BITFIELD_TEST (state st) LMPROF_STATE_SETTING_UP \<longrightarrow> BITFIELD_TEST (state st) LMPROF_STATE_RUNNING"
  shows "h_singleton h' = h_singleton h \<and> on_error st' = on_error st \<and>
    \<not> BITFIELD_TEST (state st') LMPROF_STATE_RUNNING \<and> \<not> BITFIELD_TEST (state st') LMPROF_STATE_SETTING_UP \<and>
    (BITFIELD_TEST (state st') LMPROF_STATE_PERSISTENT \<longleftrightarrow> BITFIELD_TEST (state st) LMPROF_STATE_PERSISTENT) \<and>
    (BITFIELD_TEST (state st') LMPROF_STATE_ERROR \<longleftrightarrow> BITFIELD_TEST (state st) LMPROF_STATE_ERROR)"
  using assms
  by (auto simp: lmprof_finalize_nopop_def lmprof_finalize_body_def lmprof_clear_thread_def Let_def
      BITFIELD_TEST_CLEAR_sub split: if_splits)

lemma shutdown_lc:
  assumes "lmprof_shutdown_profiler h st = (h', st')" "BITFIELD_TEST (state st) LMPROF_STATE_PERSISTENT"
  shows "state st' = state st \<and> on_error st' = on_error st \<and>
    h_singleton h' = (if h_singleton h = SINGLETON_SELF then SINGLETON_NONE else h_singleton h)"
  using assms
  by (auto simp: lmprof_shutdown_profiler_def lmprof_clear_state_def lmprof_clear_singleton_def Let_def
      split: if_splits)

lemma lmprof_error_inv:
  assumes pre: "lc_pre h st" and err: "lmprof_error h st m = Inl (m', h', st')"
  shows "lc_inv h' st'"
proof -
  define st1 where "st1 = st\<lparr>state := BITFIELD_SET (state st) (LMPROF_STATE_ERROR OR LMPROF_STATE_IGNORE_ALLOC)\<rparr>"
  obtain h2 st2 where fin: "lmprof_finalize_nopop h st1 = (h2, st2)" by fastforce
  obtain h3 st3 where sd: "lmprof_shutdown_profiler h2 st2 = (h3, st3)" by fastforce
  have st1: "on_error st1 = LMPROF_DEFAULT_ERROR" "BITFIELD_TEST (state st1) LMPROF_STATE_PERSISTENT"
    "BITFIELD_TEST (state st1) LMPROF_STATE_SETTING_UP \<longrightarrow> BITFIELD_TEST (state st1) LMPROF_STATE_RUNNING"
    "BITFIELD_TEST (state st1) LMPROF_STATE_RUNNING \<longleftrightarrow> h_singleton h = SINGLETON_SELF"
    using pre by (auto simp: st1_def lc_pre_def)
  note F = finalize_nopop_lc [OF fin st1(3)]
  note S = shutdown_lc [OF sd] 
  have "h' = h3" "st' = st3\<lparr>state := BITFIELD_CLEAR (state st3) LMPROF_STATE_ERROR\<rparr>"
    using err st1 F S by (auto simp: lmprof_error_def lmprof_default_error_def fin sd st1_def [symmetric])
  moreover have "h_singleton h3 = SINGLETON_NONE"
    using pre F S st1(2,4) by (cases "h_singleton h") (auto simp: lc_pre_def)
  ultimately show ?thesis using F S st1
    by (simp add: lc_inv_def BITFIELD_TEST_CLEAR_other)
qed

lemma lc_same_refl [simp]: "lc_same h st h st"
  by (simp add: lc_same_def)

lemma lc_same_trans: "lc_same h st h1 st1 \<Longrightarrow> lc_same h1 st1 h2 st2 \<Longrightarrow> lc_same h st h2 st2"
  by (simp add: lc_same_def)

lemma lc_same_inv: "lc_same h st h' st' \<Longrightarrow> lc_inv h' st' = lc_inv h st"
  by (simp add: lc_same_def lc_inv_def)

lemma lc_same_pre: "lc_same h st h' st' \<Longrightarrow> lc_pre h' st' = lc_pre h st"
  by (simp add: lc_same_def lc_pre_def)

text \<open>Updates that leave the invariant's flags alone.\<close>

lemma lc_same_upd [simp]:
  "lc_same h st h (st\<lparr>i_trace := tm\<rparr>)" "lc_same h st h (st\<lparr>thread_r := u\<rparr>)"
  "lc_same h st h (st\<lparr>mode := m\<rparr>)" "lc_same h st h (st\<lparr>conf := c\<rparr>)"
  "lc_same h st (host_set_stack h k stk) st" "lc_same h st (h\<lparr>h_current := c'\<rparr>) st"
  by (simp_all add: lc_same_def)

lemma luaL_error_post: "luaL_error h st m = Inl (m', h', st') \<Longrightarrow> h' = h \<and> st' = st"
  by (simp add: luaL_error_def)

text \<open>The setters change neither the state flags nor the host; a refused call changes nothing.\<close>

lemma state_setmode_lc:
  "state_setmode args h st = Inr st' \<Longrightarrow> state st' = state st \<and> on_error st' = on_error st"
  "state_setmode args h st = Inl err \<Longrightarrow> snd err = (h, st)"
  by (auto simp: state_setmode_def state_get_valid_def luaL_error_def split: if_splits sum.splits)

lemma state_setoption_lc:
  "state_setoption args h st = Inr st' \<Longrightarrow> state st' = state st \<and> on_error st' = on_error st"
  "state_setoption args h st = Inl err \<Longrightarrow> snd err = (h, st)"
  by (cases "state_get_valid h st"; cases "luaL_checkoption None (lua_arg args 1) lmprof_option_strings";
      auto simp: state_setoption_def state_get_valid_def luaL_error_def Let_def
           split: if_splits sum.splits lua_value.splits)+

lemma lc_raised_inv: "lc_pre h st \<Longrightarrow> lc_raised h st err \<Longrightarrow> lc_inv (fst (snd err)) (snd (snd err))"
  unfolding lc_raised_def by (metis lc_same_pre lmprof_error_inv prod.collapse)

lemma lc_raised_trans: "lc_same h st h1 st1 \<Longrightarrow> lc_raised h1 st1 err \<Longrightarrow> lc_raised h st err"
  unfolding lc_raised_def by (blast intro: lc_same_trans)

lemma lc_raised_intro:
  "lmprof_error h1 st1 m = Inl err \<Longrightarrow> lc_same h st h1 st1 \<Longrightarrow> lc_raised h st err"
  unfolding lc_raised_def
  by (rule exI [of _ h1], rule exI [of _ st1])
     (auto simp: lmprof_error_def Let_def split: lmprof_error_fn.splits prod.splits)

lemma lc_raised_cong: "lc_same h st h' st' \<Longrightarrow> lc_raised h' st' err = lc_raised h st err"
  unfolding lc_raised_def lc_same_def by auto

lemma lc_raised_upd [simp]:
  "lc_raised h (st\<lparr>i_trace := tm\<rparr>) err = lc_raised h st err"
  "lc_raised h (st\<lparr>thread_r := u\<rparr>) err = lc_raised h st err"
  "lc_raised (host_set_stack h k stk) st err = lc_raised h st err"
  by (simp_all add: lc_raised_cong)

text \<open>The trace wrappers raise only through \<^verbatim>\<open>lmprof_error\<close>, on the profiler with its timeline updated.\<close>

lemma traceevent_routine_raised:
  "traceevent_routine ok h k st stk b = Some (Inl err) \<Longrightarrow> lc_raised h st err"
  by (auto simp: traceevent_routine_def Let_def lc_same_def split: option.splits prod.splits if_splits
           intro!: lc_raised_intro)

lemma traceevent_scope_raised:
  "traceevent_scope ok h k st stk i r e = Some (Inl err) \<Longrightarrow> lc_raised h st err"
  by (auto simp: traceevent_scope_def Let_def lc_same_def split: option.splits prod.splits if_splits
           intro!: lc_raised_intro)

lemma traceevent_scopes_raised:
  "traceevent_scopes ok h k r e is st stk = Some (Inl err) \<Longrightarrow> lc_raised h st err"
proof (induction "is" arbitrary: st stk)
  case Nil then show ?case by simp
next
  case (Cons i "is")
  show ?case
  proof (cases "traceevent_scope ok h k st stk i r e")
    case None
    with Cons.prems show ?thesis by simp
  next
    case (Some res)
    show ?thesis
    proof (cases res)
      case (Inl err')
      with Some Cons.prems show ?thesis by (auto dest: traceevent_scope_raised)
    next
      case (Inr p)
      obtain st1 inst where p: "p = (st1, inst)" by fastforce
      from Cons.prems Some Inr p have "traceevent_scopes ok h k r e is st1 (inst_upd i (\<lambda>_. inst) stk) = Some (Inl err)"
        by simp
      then have "lc_raised h st1 err" by (rule Cons.IH)
      moreover obtain tm where "st1 = st\<lparr>i_trace := tm\<rparr>"
        using traceevent_scope_keeps [of ok h k st stk i r e st1 inst] Some Inr p by blast
      ultimately show ?thesis by simp
    qed
  qed
qed

lemma traceevent_clear_stack_raised:
  "traceevent_clear_stack ok h k st stk = Some (Inl err) \<Longrightarrow> lc_raised h st err"
  unfolding traceevent_clear_stack_def Let_def
  by (auto split: if_splits option.splits sum.splits prod.splits
           dest!: traceevent_scopes_keeps dest: traceevent_scopes_raised traceevent_routine_raised)

lemma traceevent_append_stack_raised:
  "traceevent_append_stack ok h k st stk = Some (Inl err) \<Longrightarrow> lc_raised h st err"
  unfolding traceevent_append_stack_def Let_def
  by (auto split: if_splits option.splits sum.splits prod.splits
           dest!: traceevent_routine_keeps trace_emit_keeps dest: traceevent_scopes_raised traceevent_routine_raised)

text \<open>Fetching records and loading a thread's stack raise only through \<^verbatim>\<open>lmprof_error\<close>.\<close>

lemma fetch_upd_lc_same: "fetch_upd st st' \<Longrightarrow> lc_same h st h st'"
  by (auto simp: fetch_upd_def lc_same_def)

lemma st_fetch_record_raised:
  "st_fetch_record e f p h st = Some (Inl err) \<Longrightarrow> lc_raised h st err"
  by (auto simp: st_fetch_record_def split: option.splits sum.splits prod.splits intro!: lc_raised_intro)

lemma load_stack_frames_raised:
  "load_stack_frames fs lf h st k stk = Some (Inl err) \<Longrightarrow> lc_raised h st err"
proof (induction fs arbitrary: lf st stk)
  case Nil then show ?case by simp
next
  case (Cons f fs)
  then show ?case
    by (auto simp: Let_def split: option.splits sum.splits prod.splits dest: st_fetch_record_raised)
       (meson Cons.IH lc_raised_trans fetch_upd_lc_same st_fetch_record_Inr)+
qed

lemma stacktable_get_raised:
  "lmprof_thread_stacktable_get e h st = Some (Inl err) \<Longrightarrow> lc_raised h st err"
  by (auto simp: lmprof_thread_stacktable_get_def Let_def split: if_splits option.splits sum.splits prod.splits
      dest: st_fetch_record_raised st_fetch_record_Inr load_stack_frames_raised lc_raised_trans [OF fetch_upd_lc_same])

lemma initialize_thread_raised:
  "lmprof_initialize_thread e h st = Some (Inl err) \<Longrightarrow> lc_raised h st err"
  by (auto simp: lmprof_initialize_thread_def Let_def split: if_splits option.splits sum.splits prod.splits
      dest: stacktable_get_raised)

text \<open>Tearing down without popping, and stopping.\<close>

lemma pop_remaining_lc:
  "pop_remaining_stacks t h st = Some (h', st') \<Longrightarrow>
   h_singleton h' = h_singleton h \<and> state st' = state st \<and> on_error st' = on_error st"
  by (auto simp: pop_remaining_stacks_def Let_def split: if_splits option.splits prod.splits)

lemma finalize_profiler_lc:
  assumes "lmprof_finalize_profiler True t h st = Some (h', st')"
    and "BITFIELD_TEST (state st) LMPROF_STATE_SETTING_UP \<longrightarrow> BITFIELD_TEST (state st) LMPROF_STATE_RUNNING"
  shows "h_singleton h' = h_singleton h \<and> on_error st' = on_error st \<and>
    \<not> BITFIELD_TEST (state st') LMPROF_STATE_RUNNING \<and> \<not> BITFIELD_TEST (state st') LMPROF_STATE_SETTING_UP \<and>
    (BITFIELD_TEST (state st') LMPROF_STATE_PERSISTENT \<longleftrightarrow> BITFIELD_TEST (state st) LMPROF_STATE_PERSISTENT) \<and>
    (BITFIELD_TEST (state st') LMPROF_STATE_ERROR \<longleftrightarrow> BITFIELD_TEST (state st) LMPROF_STATE_ERROR)"
proof (cases "BITFIELD_TEST (state st) LMPROF_STATE_RUNNING")
  case True
  then obtain h1 st1 where p: "pop_remaining_stacks t h st = Some (h1, st1)"
    and b: "lmprof_finalize_body h1 st1 = (h', st')"
    using assms(1) by (auto simp: lmprof_finalize_profiler_def)
  note P = pop_remaining_lc [OF p]
  have n: "lmprof_finalize_nopop h1 st1 = (h', st')" using b P True by (simp add: lmprof_finalize_nopop_def)
  have pre1: "BITFIELD_TEST (state st1) LMPROF_STATE_SETTING_UP \<longrightarrow> BITFIELD_TEST (state st1) LMPROF_STATE_RUNNING"
    using P True by simp
  show ?thesis using finalize_nopop_lc [OF n pre1] P by simp
next
  case False
  then show ?thesis using assms by (simp add: lmprof_finalize_profiler_def)
qed

lemma quit_profiler_lc:
  assumes "lc_inv h st" "h_singleton h = SINGLETON_SELF"
  shows "lc_inv (fst (quit_profiler h st)) (snd (quit_profiler h st)) \<and>
    h_singleton (fst (quit_profiler h st)) = SINGLETON_NONE"
proof -
  obtain h1 st1 where f: "lmprof_finalize_nopop h st = (h1, st1)" by fastforce
  obtain h2 st2 where d: "lmprof_shutdown_profiler h1 st1 = (h2, st2)" by fastforce
  have q: "quit_profiler h st = (h2, st2)" by (simp add: quit_profiler_def f d)
  have pre: "BITFIELD_TEST (state st) LMPROF_STATE_SETTING_UP \<longrightarrow> BITFIELD_TEST (state st) LMPROF_STATE_RUNNING"
    using assms(1) by (simp add: lc_inv_def)
  note F = finalize_nopop_lc [OF f pre]
  have "BITFIELD_TEST (state st1) LMPROF_STATE_PERSISTENT" using F assms(1) by (simp add: lc_inv_def)
  note S = shutdown_lc [OF d this]
  show ?thesis using F S assms by (simp add: q lc_inv_def)
qed

lemma stop_profiler_lc:
  assumes "lc_inv h st" "h_singleton h = SINGLETON_SELF"
    and "stop_profiler (lmprof_stop_report e t arg) t h st = Some (Inr (v, h', st'))"
  shows "lc_inv h' st' \<and> h_singleton h' = SINGLETON_NONE"
proof -
  obtain h1 st1 st2 where f: "lmprof_finalize_profiler True t h st = Some (h1, st1)"
    and r: "lmprof_stop_report e t arg st1 = Some (Inr (v, st2))"
    and d: "lmprof_shutdown_profiler h1 st2 = (h', st')"
    using assms(3) by (auto simp: stop_profiler_def luaL_error_def split: option.splits sum.splits prod.splits)
  obtain tm where st2: "st2 = st1\<lparr>i_trace := tm\<rparr>" using stop_report_st [OF r] by blast
  have pre: "BITFIELD_TEST (state st) LMPROF_STATE_SETTING_UP \<longrightarrow> BITFIELD_TEST (state st) LMPROF_STATE_RUNNING"
    using assms(1) by (simp add: lc_inv_def)
  note F = finalize_profiler_lc [OF f pre]
  have "BITFIELD_TEST (state st2) LMPROF_STATE_PERSISTENT" using F assms(1) st2 by (simp add: lc_inv_def)
  note S = shutdown_lc [OF d this]
  show ?thesis using F S assms st2 by (simp add: lc_inv_def)
qed

text \<open>A raising report leaves the finalised profiler owning the singleton.\<close>

lemma stop_profiler_raise:
  assumes "lc_inv h st" "h_singleton h = SINGLETON_SELF" "stop_profiler rep t h st = Some (Inl err)"
  shows "h_singleton (fst (snd err)) = SINGLETON_SELF \<and> \<not> BITFIELD_TEST (state (snd (snd err))) LMPROF_STATE_RUNNING \<and>
    \<not> BITFIELD_TEST (state (snd (snd err))) LMPROF_STATE_ERROR"
proof -
  obtain h1 st1 msg where f: "lmprof_finalize_profiler True t h st = Some (h1, st1)"
    and e: "err = (msg, h1, st1)"
    using assms(3) by (auto simp: stop_profiler_def luaL_error_def split: option.splits sum.splits prod.splits)
  have pre: "BITFIELD_TEST (state st) LMPROF_STATE_SETTING_UP \<longrightarrow> BITFIELD_TEST (state st) LMPROF_STATE_RUNNING"
    using assms(1) by (simp add: lc_inv_def)
  show ?thesis using finalize_profiler_lc [OF f pre] assms(1,2) e by (simp add: lc_inv_def)
qed

text \<open>Starting.\<close>

lemma start_flag_facts [simp]:
  "(LMPROF_STATE_GC_WAS_RUNNING OR LMPROF_STATE_IGNORE_ALLOC OR LMPROF_STATE_IGNORE_CALL) AND LMPROF_STATE_PERSISTENT = 0"
  "(LMPROF_STATE_GC_WAS_RUNNING OR LMPROF_STATE_IGNORE_ALLOC OR LMPROF_STATE_IGNORE_CALL) AND LMPROF_STATE_ERROR = 0"
  "(LMPROF_STATE_GC_WAS_RUNNING OR LMPROF_STATE_IGNORE_ALLOC OR LMPROF_STATE_IGNORE_CALL) AND LMPROF_STATE_PAUSED = 0"
  "(LMPROF_STATE_RUNNING OR LMPROF_STATE_SETTING_UP) AND LMPROF_STATE_PERSISTENT = 0"
  "(LMPROF_STATE_RUNNING OR LMPROF_STATE_SETTING_UP) AND LMPROF_STATE_ERROR = 0"
  "(LMPROF_STATE_RUNNING OR LMPROF_STATE_SETTING_UP) AND LMPROF_STATE_PAUSED = 0"
  "LMPROF_STATE_GC_WAS_RUNNING AND LMPROF_STATE_PERSISTENT = 0"
  "LMPROF_STATE_GC_WAS_RUNNING AND LMPROF_STATE_ERROR = 0"
  "LMPROF_STATE_GC_WAS_RUNNING AND LMPROF_STATE_PAUSED = 0"
  "LMPROF_STATE_SETTING_UP AND LMPROF_STATE_PERSISTENT = 0"
  "LMPROF_STATE_SETTING_UP AND LMPROF_STATE_ERROR = 0"
  "LMPROF_STATE_SETTING_UP AND LMPROF_STATE_PAUSED = 0"
  "(LMPROF_STATE_RUNNING OR LMPROF_STATE_SETTING_UP OR LMPROF_STATE_GC_WAS_RUNNING) AND LMPROF_STATE_PAUSED = 0"
  by (simp_all add: state_flag_defs LMPROF_STATE_PAUSED_def)

text \<open>What start-up keeps: the flags other than the running ones, the handler, mode and stack.\<close>

lemma startup_keeps:
  "startup_gc h1 (startup_prepare t h1 st) = (h2, st4) \<Longrightarrow>
   (BITFIELD_TEST (state st4) LMPROF_STATE_PERSISTENT \<longleftrightarrow> BITFIELD_TEST (state st) LMPROF_STATE_PERSISTENT) \<and>
   (BITFIELD_TEST (state st4) LMPROF_STATE_ERROR \<longleftrightarrow> BITFIELD_TEST (state st) LMPROF_STATE_ERROR) \<and>
   (BITFIELD_TEST (state st4) LMPROF_STATE_PAUSED \<longleftrightarrow> BITFIELD_TEST (state st) LMPROF_STATE_PAUSED) \<and>
   on_error st4 = on_error st \<and> mode st4 = mode st \<and> thread_call_stack st4 = thread_call_stack st"
  by (auto simp: startup_gc_def startup_prepare_def Let_def split: if_splits)

lemma initialize_profiler_keeps:
  assumes run: "lmprof_initialize_profiler e t fh ah h st = Some (Inr (c, h', st'))"
  shows "(BITFIELD_TEST (state st') LMPROF_STATE_PERSISTENT \<longleftrightarrow> BITFIELD_TEST (state st) LMPROF_STATE_PERSISTENT) \<and>
         (BITFIELD_TEST (state st') LMPROF_STATE_ERROR \<longleftrightarrow> BITFIELD_TEST (state st) LMPROF_STATE_ERROR) \<and>
         (BITFIELD_TEST (state st') LMPROF_STATE_PAUSED \<longleftrightarrow> BITFIELD_TEST (state st) LMPROF_STATE_PAUSED) \<and>
         on_error st' = on_error st \<and> mode st' = mode st \<and> thread_call_stack st' = thread_call_stack st"
proof (cases "BITFIELD_TEST (state st) LMPROF_STATE_RUNNING \<or> BITFIELD_TEST (state st) LMPROF_STATE_ERROR
              \<or> lmprof_register_singleton h = None")
  case True
  then have "st' = st" using run by (auto simp: lmprof_initialize_profiler_def split: if_splits)
  then show ?thesis by simp
next
  case False
  then obtain h1 where reg: "lmprof_register_singleton h = Some h1" by blast
  obtain h2 st4 where g: "startup_gc h1 (startup_prepare t h1 st) = (h2, st4)" by fastforce
  note K = startup_keeps [OF g]
  show ?thesis
  proof (cases "fh = HOOK_NULL")
    case True
    then have "startup_finish ah h2 st4 = (c, h', st')" using run False
      by (simp add: lmprof_initialize_profiler_def reg g)
    then show ?thesis using K by (auto simp: startup_finish_def)
  next
    case nn: False
    obtain fl lc where hm: "lmprof_hook_mask st4 = (fl, lc)" by fastforce
    define st5 where "st5 = st4\<lparr>hook_l_hook := fh, hook_flags := fl, hook_line_count := lc\<rparr>"
    from run False nn obtain h3 st6 where it: "lmprof_initialize_thread e h2 st5 = Some (Inr (h3, st6))"
      and fin: "startup_finish ah h3 st6 = (c, h', st')"
      by (auto simp: lmprof_initialize_profiler_def reg g hm st5_def[symmetric] split: option.splits sum.splits)
    have "fetch_upd st5 st6" using initialize_thread_Inr [OF it] by blast
    then show ?thesis using K fin by (auto simp: fetch_upd_def st5_def startup_finish_def)
  qed
qed

lemma initialize_profiler_Inr_lc:
  assumes run: "lmprof_initialize_profiler e t fh ah h st = Some (Inr (c, h', st'))"
    and inv: "lc_inv h st" and sg: "h_singleton h = SINGLETON_NONE"
  shows "lc_inv h' st'"
proof -
  have "\<not> BITFIELD_TEST (state st) LMPROF_STATE_RUNNING" "\<not> BITFIELD_TEST (state st) LMPROF_STATE_ERROR"
    using inv sg by (simp_all add: lc_inv_def)
  from initialize_profiler_ok [OF run this sg] initialize_profiler_keeps [OF run] inv
  show ?thesis by (simp add: lc_inv_def)
qed

lemma initialize_profiler_Inl_lc:
  assumes run: "lmprof_initialize_profiler e t fh ah h st = Some (Inl err)"
    and inv: "lc_inv h st" and sg: "h_singleton h = SINGLETON_NONE"
  shows "lc_inv (fst (snd err)) (snd (snd err))"
proof -
  define h1 where "h1 = h\<lparr>h_singleton := SINGLETON_SELF, h_thread_stacks := []\<rparr>"
  have nr: "\<not> BITFIELD_TEST (state st) LMPROF_STATE_RUNNING" "\<not> BITFIELD_TEST (state st) LMPROF_STATE_ERROR"
    using inv sg by (simp_all add: lc_inv_def)
  have reg: "lmprof_register_singleton h = Some h1" using sg by (simp add: lmprof_register_singleton_def h1_def)
  obtain h2 st4 where g: "startup_gc h1 (startup_prepare t h1 st) = (h2, st4)" by fastforce
  obtain fl lc where hm: "lmprof_hook_mask st4 = (fl, lc)" by fastforce
  define st5 where "st5 = st4\<lparr>hook_l_hook := fh, hook_flags := fl, hook_line_count := lc\<rparr>"
  from run nr have it: "lmprof_initialize_thread e h2 st5 = Some (Inl err)"
    by (auto simp: lmprof_initialize_profiler_def reg g hm st5_def[symmetric] split: if_splits option.splits sum.splits)
  note G = startup_gc_sel [OF g] and P = startup_prepare_sel [of t h1 st] and K = startup_keeps [OF g]
  have "lc_pre h2 st5" using G P K inv by (simp add: lc_pre_def lc_inv_def st5_def h1_def)
  then show ?thesis using initialize_thread_raised [OF it] by (rule lc_raised_inv)
qed

lemma initialize_only_hooks_lc:
  assumes run: "lmprof_initialize_only_hooks e h st = Some r"
    and inv: "lc_inv h st" and sg: "h_singleton h = SINGLETON_NONE"
  shows "lc_inv (fst (case_sum snd id r)) (snd (case_sum snd id r))"
proof -
  have pre: "lc_pre h st" using inv by (rule lc_inv_pre)
  have hs: "lc_inv h (st\<lparr>i_hash := x\<rparr>)" for x using inv by (simp add: lc_inv_def)
  show ?thesis
    using run
    by (auto simp: lmprof_initialize_only_hooks_def Let_def luaL_error_def
        split: if_splits sum.splits prod.splits option.splits
        dest: lmprof_error_inv [OF pre] initialize_profiler_Inr_lc [OF _ _ sg] initialize_profiler_Inl_lc [OF _ _ sg] intro: inv hs)
qed

lemma lmprof_error_post:
  fixes f :: "'b \<Rightarrow> lua_host \<times> lmprof_state"
  assumes "lc_pre h st"
  shows "lc_inv (fst (case_sum snd f (lmprof_error h st m))) (snd (case_sum snd f (lmprof_error h st m)))"
proof -
  obtain err where e: "(lmprof_error h st m :: 'b lres) = Inl err"
    using lmprof_error_case(2) [symmetric] by blast
  have "lc_inv (fst (snd err)) (snd (snd err))"
    using lmprof_error_inv [OF assms] e by (metis prod.collapse)
  then show ?thesis by (simp add: e)
qed

lemma initialize_default_lc:
  assumes run: "lmprof_initialize_default e h st = Some r"
    and inv: "lc_inv h st" and sg: "h_singleton h = SINGLETON_NONE"
  shows "lc_inv (fst (case_sum snd id r)) (snd (case_sum snd id r))"
proof -
  have pre: "lc_pre h st" using inv by (rule lc_inv_pre)
  have tr: "lc_inv h (st\<lparr>i_trace := x\<rparr>)" for x using inv by (simp add: lc_inv_def)
  show ?thesis
    using run
    by (auto simp: lmprof_initialize_default_def split: if_splits option.splits
        intro: lmprof_error_post [OF pre] dest: initialize_only_hooks_lc [OF _ inv sg] initialize_only_hooks_lc [OF _ tr sg])
qed

lemma state_start_lc:
  assumes "lc_inv h st" "state_start e h st = Some r"
  shows "lc_inv (fst (case_sum snd id r)) (snd (case_sum snd id r))"
  using assms initialize_default_lc [OF _ assms(1)]
  by (auto simp: state_start_def state_get_valid_def lmprof_check_can_profile_def luaL_error_def lc_inv_def
      split: if_splits sum.splits)

lemma state_stop_lc:
  assumes "lc_inv h st" "state_stop (lmprof_stop_report e t arg) t h st = Some r"
    and "\<not> lc_stop_raises (LC_Stop t arg e) h st"
  shows "lc_inv (fst (case_sum snd snd r)) (snd (case_sum snd snd r))"
  using assms stop_profiler_lc [OF assms(1)]
  by (auto simp: state_stop_def luaL_error_def lc_stop_raises_def split: if_splits sum.splits)

lemma state_quit_lc: "lc_inv h st \<Longrightarrow> lc_inv (fst (state_quit h st)) (snd (state_quit h st))"
  using quit_profiler_lc by (simp add: state_quit_def)

text \<open>Frames, pausing and resuming touch only flags the invariant does not read.\<close>

lemma traceevent_frame_lc: "traceevent_frame ok t st b = Some st' \<Longrightarrow> lc_same h st h st'"
  by (auto simp: traceevent_frame_def Let_def lc_same_def split: if_splits dest!: trace_emit_keeps)

lemma state_event_frame_lc:
  assumes "lc_inv h st"
  shows "state_event_beginframe ok t h st = Some r \<Longrightarrow> lc_inv (fst (case_sum snd (\<lambda>st'. (h, st')) r)) (snd (case_sum snd (\<lambda>st'. (h, st')) r))"
    and "state_event_endframe ok t h st = Some r \<Longrightarrow> lc_inv (fst (case_sum snd (\<lambda>st'. (h, st')) r)) (snd (case_sum snd (\<lambda>st'. (h, st')) r))"
  using assms
  by (auto simp: state_event_beginframe_def state_event_endframe_def state_get_valid_def luaL_error_def
      split: if_splits sum.splits dest!: traceevent_frame_lc [of _ _ _ _ _ h] dest: lc_same_inv)

lemma pause_resume_raised:
  "lmprof_pause_execution ok t h st = Some (Inl err) \<Longrightarrow> lc_raised h st err"
  "lmprof_resume_execution ok t h st = Some (Inl err) \<Longrightarrow> lc_raised h st err"
  by (auto simp: lmprof_pause_execution_def lmprof_resume_execution_def
      split: option.splits if_splits sum.splits prod.splits
      dest: traceevent_clear_stack_raised traceevent_append_stack_raised)

lemma pause_resume_lc:
  assumes inv: "lc_inv h st"
  shows "lmprof_pause_execution ok t h st = Some r \<Longrightarrow> lc_inv (fst (case_sum snd snd r)) (snd (case_sum snd snd r))"
    and "lmprof_resume_execution ok t h st = Some r \<Longrightarrow> lc_inv (fst (case_sum snd snd r)) (snd (case_sum snd snd r))"
proof -
  have pre: "lc_pre h st" using inv by (rule lc_inv_pre)
  have upd: "lc_inv (host_set_stack h k stk) (st\<lparr>thread_r := u, i_trace := tm, state := BITFIELD_SET (state st) LMPROF_STATE_PAUSED\<rparr>)"
    "lc_inv (host_set_stack h k stk) (st\<lparr>thread_r := u, i_trace := tm, state := BITFIELD_CLEAR (state st) LMPROF_STATE_PAUSED\<rparr>)"
    for k stk u tm using inv by (simp_all add: lc_inv_def)
  show "lmprof_pause_execution ok t h st = Some r \<Longrightarrow> lc_inv (fst (case_sum snd snd r)) (snd (case_sum snd snd r))"
  proof (cases r)
    case (Inl err)
    assume "lmprof_pause_execution ok t h st = Some r"
    then show ?thesis using lc_raised_inv [OF pre pause_resume_raised(1)] Inl by simp
  next
    case (Inr x)
    assume "lmprof_pause_execution ok t h st = Some r"
    then show ?thesis using inv Inr
      by (auto simp: lmprof_pause_execution_def split: option.splits if_splits sum.splits prod.splits
          dest!: traceevent_clear_stack_keeps intro: upd)
  qed
  show "lmprof_resume_execution ok t h st = Some r \<Longrightarrow> lc_inv (fst (case_sum snd snd r)) (snd (case_sum snd snd r))"
  proof (cases r)
    case (Inl err)
    assume "lmprof_resume_execution ok t h st = Some r"
    then show ?thesis using lc_raised_inv [OF pre pause_resume_raised(2)] Inl by simp
  next
    case (Inr x)
    assume "lmprof_resume_execution ok t h st = Some r"
    then show ?thesis using inv Inr
      by (auto simp: lmprof_resume_execution_def split: option.splits if_splits sum.splits prod.splits
          dest!: traceevent_append_stack_keeps intro: upd)
  qed
qed

text \<open>Every call keeps the invariant.\<close>

lemma lc_apply_inv:
  assumes inv: "lc_inv h st" and ok: "\<not> lc_stop_raises op h st" and ap: "lc_apply op h st = Some (h', st')"
  shows "lc_inv h' st'"
proof (cases op)
  case (LC_Start e)
  then obtain r where "state_start e h st = Some r" "case_sum snd id r = (h', st')" using ap by (auto simp: lc_apply_def)
  then show ?thesis using state_start_lc [OF inv] by (metis fst_conv snd_conv)
next
  case (LC_Stop t arg e)
  then obtain r where "state_stop (lmprof_stop_report e t arg) t h st = Some r" "case_sum snd snd r = (h', st')"
    using ap by (auto simp: lc_apply_def)
  then show ?thesis using state_stop_lc [OF inv] ok LC_Stop by (metis fst_conv snd_conv)
next
  case LC_Quit
  then show ?thesis using ap state_quit_lc [OF inv] by (simp add: lc_apply_def)
next
  case (LC_SetMode args)
  then show ?thesis using ap inv state_setmode_lc [of args h st]
    by (auto simp: lc_apply_def lc_inv_def split: sum.splits)
next
  case (LC_SetOption args)
  then show ?thesis using ap inv state_setoption_lc [of args h st]
    by (auto simp: lc_apply_def lc_inv_def split: sum.splits)
next
  case (LC_BeginFrame ok t)
  then obtain r where "state_event_beginframe ok t h st = Some r" "case_sum snd (\<lambda>st'. (h, st')) r = (h', st')"
    using ap by (auto simp: lc_apply_def)
  then show ?thesis using state_event_frame_lc(1) [OF inv] by (metis fst_conv snd_conv)
next
  case (LC_EndFrame ok t)
  then obtain r where "state_event_endframe ok t h st = Some r" "case_sum snd (\<lambda>st'. (h, st')) r = (h', st')"
    using ap by (auto simp: lc_apply_def)
  then show ?thesis using state_event_frame_lc(2) [OF inv] by (metis fst_conv snd_conv)
next
  case (LC_Pause ok t)
  then obtain r where "lmprof_pause_execution ok t h st = Some r" "case_sum snd snd r = (h', st')"
    using ap by (auto simp: lc_apply_def)
  then show ?thesis using pause_resume_lc(1) [OF inv] by (metis fst_conv snd_conv)
next
  case (LC_Resume ok t)
  then obtain r where "lmprof_resume_execution ok t h st = Some r" "case_sum snd snd r = (h', st')"
    using ap by (auto simp: lc_apply_def)
  then show ?thesis using pause_resume_lc(2) [OF inv] by (metis fst_conv snd_conv)
next
  case (LC_Switch c)
  then show ?thesis using ap inv by (auto simp: lc_apply_def lc_inv_def)
qed

lemma lmprof_create_inv:
  assumes "lmprof_create args h st0 = Inr st" "h_singleton h = SINGLETON_NONE"
  shows "lc_inv h st"
proof -
  obtain m st1 where "lmprof_new h st0 m = Inr st1" "st = st1\<lparr>state := BITFIELD_SET (state st1) LMPROF_STATE_PERSISTENT\<rparr>"
    using assms(1) by (auto simp: lmprof_create_def rbind_def split: sum.splits)
  moreover have "lmprof_new h st0 m = Inr st1 \<Longrightarrow> state st1 = BITFIELD_SET 0 LMPROF_STATE_IGNORE_CALL \<and>
      on_error st1 = LMPROF_DEFAULT_ERROR"
    by (auto simp: lmprof_new_def lmprof_initialize_state_def lmprof_state_reset_def rbind_def Let_def
        split: sum.splits)
  ultimately show ?thesis using assms(2)
    by (simp add: lc_inv_def BITFIELD_SET_def BITFIELD_TEST_def state_flag_defs)
qed

text \<open>What a successful start and stop do to the flags the pause leaves.\<close>

lemma initialize_profiler_Inr_facts:
  assumes hk: "lmprof_initialize_profiler e t fh ah h st1 = Some (Inr (c, h', st'))"
    and nr: "\<not> BITFIELD_TEST (state st1) LMPROF_STATE_RUNNING" "\<not> BITFIELD_TEST (state st1) LMPROF_STATE_ERROR"
    and sg: "h_singleton h = SINGLETON_NONE"
  shows "c = LMPROF_STARTUP_OK \<and> h_singleton h' = SINGLETON_SELF \<and> BITFIELD_TEST (state st') LMPROF_STATE_RUNNING \<and>
    \<not> BITFIELD_TEST (state st') LMPROF_STATE_ERROR \<and> mode st' = mode st1 \<and>
    (BITFIELD_TEST (state st') LMPROF_STATE_PAUSED \<longleftrightarrow> BITFIELD_TEST (state st1) LMPROF_STATE_PAUSED) \<and>
    thread_call_stack st' = thread_call_stack st1"
  using initialize_profiler_ok [OF hk nr sg] initialize_profiler_keeps [OF hk] nr by simp

lemma initialize_only_hooks_Inr:
  assumes run: "lmprof_initialize_only_hooks e h st = Some (Inr (h', st'))"
    and nr: "\<not> BITFIELD_TEST (state st) LMPROF_STATE_RUNNING" "\<not> BITFIELD_TEST (state st) LMPROF_STATE_ERROR"
    and sg: "h_singleton h = SINGLETON_NONE"
  shows "h_singleton h' = SINGLETON_SELF \<and> BITFIELD_TEST (state st') LMPROF_STATE_RUNNING \<and>
    \<not> BITFIELD_TEST (state st') LMPROF_STATE_ERROR \<and> mode st' = mode st \<and>
    (BITFIELD_TEST (state st') LMPROF_STATE_PAUSED \<longleftrightarrow> BITFIELD_TEST (state st) LMPROF_STATE_PAUSED) \<and>
    thread_call_stack st' = thread_call_stack st"
  using run nr sg
  by (auto simp: lmprof_initialize_only_hooks_def Let_def luaL_error_def
      split: if_splits sum.splits prod.splits option.splits dest!: initialize_profiler_Inr_facts)

lemma state_start_Inr:
  assumes inv: "lc_inv h st" and run: "state_start e h st = Some (Inr (h', st'))"
  shows "h_singleton h' = SINGLETON_SELF \<and> BITFIELD_TEST (state st') LMPROF_STATE_RUNNING \<and>
    \<not> BITFIELD_TEST (state st') LMPROF_STATE_ERROR \<and> mode st' = mode st \<and>
    (BITFIELD_TEST (state st') LMPROF_STATE_PAUSED \<longleftrightarrow> BITFIELD_TEST (state st) LMPROF_STATE_PAUSED) \<and>
    thread_call_stack st' = thread_call_stack st"
proof -
  have sg: "h_singleton h = SINGLETON_NONE" and d: "lmprof_initialize_default e h st = Some (Inr (h', st'))"
    using inv run by (auto simp: state_start_def state_get_valid_def lmprof_check_can_profile_def luaL_error_def
        lc_inv_def split: if_splits sum.splits)
  have nr: "\<not> BITFIELD_TEST (state st) LMPROF_STATE_RUNNING" "\<not> BITFIELD_TEST (state st) LMPROF_STATE_ERROR"
    using inv sg by (simp_all add: lc_inv_def)
  from d show ?thesis
    using initialize_only_hooks_Inr [OF _ nr sg] initialize_only_hooks_Inr [of e h "st\<lparr>i_trace := _\<rparr>", OF _ _ _ sg] nr
    by (auto simp: lmprof_initialize_default_def split: if_splits option.splits)
qed

lemma state_stop_Inr:
  assumes inv: "lc_inv h st" and run: "state_stop (lmprof_stop_report e t arg) t h st = Some (Inr (v, h', st'))"
  shows "h_singleton h' = SINGLETON_NONE \<and> lc_inv h' st' \<and> mode st' = mode st \<and>
    (BITFIELD_TEST (state st') LMPROF_STATE_PAUSED \<longleftrightarrow> BITFIELD_TEST (state st) LMPROF_STATE_PAUSED) \<and>
    thread_call_stack st' = None"
proof -
  have sg: "h_singleton h = SINGLETON_SELF" and sp: "stop_profiler (lmprof_stop_report e t arg) t h st = Some (Inr (v, h', st'))"
    using run by (auto simp: state_stop_def luaL_error_def split: if_splits)
  have r: "BITFIELD_TEST (state st) LMPROF_STATE_RUNNING" using inv sg by (simp add: lc_inv_def)
  obtain h1 st1 st2 where p: "pop_remaining_stacks t h st = Some (h1, st1)"
    and rp: "lmprof_stop_report e t arg (snd (lmprof_finalize_body h1 st1)) = Some (Inr (v, st2))"
    and d: "lmprof_shutdown_profiler (fst (lmprof_finalize_body h1 st1)) st2 = (h', st')"
    using sp r by (auto simp: stop_profiler_def lmprof_finalize_profiler_def luaL_error_def
                        split: prod.splits option.splits sum.splits)
  obtain tm where st2: "st2 = (snd (lmprof_finalize_body h1 st1))\<lparr>i_trace := tm\<rparr>"
    using stop_report_st [OF rp] by blast
  have P: "state st1 = state st" "mode st1 = mode st"
    using p by (auto simp: pop_remaining_stacks_def Let_def split: if_splits option.splits prod.splits)
  have "BITFIELD_TEST (state (snd (lmprof_finalize_body h1 st1))) LMPROF_STATE_PERSISTENT"
    "mode (snd (lmprof_finalize_body h1 st1)) = mode st1"
    "(BITFIELD_TEST (state (snd (lmprof_finalize_body h1 st1))) LMPROF_STATE_PAUSED \<longleftrightarrow>
       BITFIELD_TEST (state st1) LMPROF_STATE_PAUSED)"
    using inv P by (simp_all add: lmprof_finalize_body_def Let_def lc_inv_def)
  then show ?thesis
    using stop_profiler_lc [OF inv sg sp] d P st2
    by (auto simp: lmprof_shutdown_profiler_def lmprof_clear_state_def Let_def split: if_splits)
qed

text \<open>
  C20 (invariant): every profiler object a script can reach, by creating it while no
  profiler runs and then calling its methods and the pause and resume callbacks in any
  order, with any of them raising except a stop whose report raises
  (\<open>lc_stop_report_raise_strands\<close>), keeps its default
  error handler and its persistent flag, is never left failed or half set up, and runs
  exactly when it holds the singleton slot.
\<close>

theorem lc_reachable_inv:
  "lc_reachable h st \<Longrightarrow> lc_inv h st"
proof (induction rule: lc_reachable.induct)
  case (create args h st0 st)
  then show ?case by (rule lmprof_create_inv)
next
  case (call h st op h' st')
  then show ?case by (blast intro: lc_apply_inv)
qed

text \<open>
  C21 (liveness): quitting is always possible: on every profiler satisfying the invariant
  (every reachable one, \<open>lc_reachable_inv\<close>) \<^verbatim>\<open>profiler:quit()\<close> returns, and leaves the profiler
  stopped, the singleton slot free for the next start, and the invariant intact.
\<close>

theorem lc_quit_stops:
  assumes "lc_inv h st"
  shows "\<exists>h' st'. lc_apply LC_Quit h st = Some (h', st') \<and> lc_inv h' st' \<and>
           h_singleton h' = SINGLETON_NONE \<and> \<not> BITFIELD_TEST (state st') LMPROF_STATE_RUNNING"
proof (cases "h_singleton h = SINGLETON_SELF")
  case True
  obtain h' st' where q: "quit_profiler h st = (h', st')" by fastforce
  then show ?thesis using quit_profiler_lc [OF assms True] True
    by (auto simp: lc_apply_def state_quit_def lc_inv_def)
next
  case False
  then have "h_singleton h = SINGLETON_NONE" using assms by (cases "h_singleton h") (auto simp: lc_inv_def)
  then show ?thesis using assms False by (simp add: lc_apply_def state_quit_def lc_inv_def)
qed

text \<open>
  C22 (error): \<^verbatim>\<open>LMPROF_STATE_PAUSED\<close> survives a stop and a restart. After
  \<^verbatim>\<open>lmprof_pause_execution\<close> acted, \<^verbatim>\<open>profiler:stop()\<close> and a successful
  \<^verbatim>\<open>profiler:start()\<close> leave the profiler paused with no current stack, so
  \<^verbatim>\<open>lmprof_resume_execution\<close> does nothing and the first trace hook event raises
  ``profiler in a deferred state'' and tears the new run down: the persistent profiler can
  no longer record in its trace mode.
\<close>

theorem lc_pause_survives_restart:
  assumes inv: "lc_inv h st"
    and p: "lmprof_pause_execution ok t h st = Some (Inr (1, h1, st1))"
    and sp: "state_stop (lmprof_stop_report re t2 arg) t2 h1 st1 = Some (Inr (v, h2, st2))"
    and sr: "state_start e h2 st2 = Some (Inr (h3, st3))"
    and nst: "\<not> BITFIELD_TEST (mode st) LMPROF_MODE_SINGLE_THREAD"
  shows "BITFIELD_TEST (state st3) LMPROF_STATE_PAUSED \<and>
         lmprof_resume_execution ok' t' h3 st3 = Some (Inr (0, h3, st3)) \<and>
         traceevent_instrument a h3 st3 = Some (lmprof_error h3 st3 ''profiler in a deferred state'')"
proof -
  obtain k stk stk1 tm where cb: "BITFIELD_TEST (mode st) LMPROF_CALLBACK_MASK"
    and st1: "st1 = st\<lparr>thread_r := (thread_r st)\<lparr>s := (s (thread_r st))\<lparr>time := t\<rparr>\<rparr>, i_trace := tm,
              state := BITFIELD_SET (state st) LMPROF_STATE_PAUSED\<rparr>"
    using p by (rule pause_acted)
  have inv1: "lc_inv h1 st1" using pause_resume_lc(1) [OF inv p] by simp
  note S = state_stop_Inr [OF inv1 sp]
  have inv2: "lc_inv h2 st2" using S by simp
  note R = state_start_Inr [OF inv2 sr]
  have paused: "BITFIELD_TEST (state st3) LMPROF_STATE_PAUSED" using R S st1 by simp
  moreover have "lmprof_resume_execution ok' t' h3 st3 = Some (Inr (0, h3, st3))"
    using R S by (simp add: lmprof_resume_execution_def)
  moreover have "traceevent_instrument a h3 st3 = Some (lmprof_error h3 st3 ''profiler in a deferred state'')"
    using R S st1 cb nst paused by (intro trace_prehook_paused) simp_all
  ultimately show ?thesis by blast
qed

lemmas example_stop_defs = lmprof_pause_execution_def traceevent_clear_stack_def host_stack_def host_set_stack_def
  example_lc_host_def example_lc_trace_def example_trace_defs Let_def BITFIELD_SET_def BITFIELD_CLEAR_def
  state_stop_def stop_profiler_def lmprof_finalize_profiler_def pop_remaining_stacks_def lmprof_finalize_body_def
  lmprof_clear_thread_def lmprof_shutdown_profiler_def lmprof_clear_state_def lmprof_clear_singleton_def
  lmprof_stop_report_def report_type_def lmprof_report_def luaL_error_def

lemma example_lc_run: "\<exists>v h1 st1 h2 st2 h3 st3.
   lmprof_pause_execution True 5 example_lc_host example_lc_trace = Some (Inr (1, h1, st1)) \<and>
   state_stop (lmprof_stop_report example_report_env 7 (LStr ''out.json'')) 7 h1 st1 = Some (Inr (v, h2, st2)) \<and>
   state_start example_start_env h2 st2 = Some (Inr (h3, st3))"
  by (simp add: example_stop_defs example_report_env_def BITFIELD_TEST_def mode_defs
      state_start_def state_get_valid_def lmprof_check_can_profile_def lmprof_initialize_default_def timeline_new_def
      lmprof_initialize_only_hooks_def lmprof_hash_create_def lmprof_initialize_profiler_def lmprof_register_singleton_def
      startup_gc_def startup_prepare_def lmprof_hook_mask_def lmprof_initialize_thread_def
      lmprof_thread_stacktable_get_def setup_stack_def lmprof_stack_clear_def st_fetch_record_def lmprof_fetch_record_def
      lmprof_hash_get_def lmprof_hash_insert_def stack_push_record_def lmprof_stack_event_push_def lmprof_stack_next_def
      startup_finish_def example_start_env_def traceevent_new_def to_bucket_def clear_fold_sel LMPROF_MAXSTACK_def LMPROF_STARTUP_OK_def LMPROF_STARTUP_ERROR_def LMPROF_STARTUP_ERROR_RUNNING_def LMPROF_STARTUP_ERROR_SINGLETON_def LMPROF_OPT_CLOCK_INIT_def LMPROF_OPT_GC_DISABLE_def LMPROF_OPT_LOAD_STACK_def)

lemma example_lc_inv: "lc_inv example_lc_host example_lc_trace"
  by (simp add: lc_inv_def example_lc_host_def example_lc_trace_def example_trace_defs)

theorem lc_reachable_inv_witness:
  "\<exists>st. lc_reachable example_host st \<and> lc_inv example_host st"
proof -
  obtain st where c: "lmprof_create [LStr ''instrument''] example_host example_profiler = Inr st"
    by (simp add: lmprof_create_def rbind_def lmprof_new_def lmprof_initialize_state_def lmprof_state_reset_def
        lmprof_parsemode_def luaL_checkoption_def luaL_checkstring_def lmprof_mode_strings_def lmprof_mode_codes_def
        mode_defs NOT_ONLY_MODE_def BITFIELD_TEST_def BITFIELD_IS_def lmprof_getlibi_def example_host_def Let_def)
  have r: "lc_reachable example_host st"
    by (rule lc_reachable.create [OF c]) (simp add: example_host_def)
  show ?thesis using lc_reachable_inv [OF r] r by blast
qed

theorem lc_quit_stops_witness:
  "\<exists>h' st'. lc_apply LC_Quit example_lc_host example_lc_trace = Some (h', st') \<and>
     h_singleton h' = SINGLETON_NONE \<and> \<not> BITFIELD_TEST (state st') LMPROF_STATE_RUNNING"
  using lc_quit_stops [OF example_lc_inv] by blast

theorem lc_pause_survives_restart_witness:
  "\<exists>v h1 st1 h2 st2 h3 st3.
     lmprof_pause_execution True 5 example_lc_host example_lc_trace = Some (Inr (1, h1, st1)) \<and>
     state_stop (lmprof_stop_report example_report_env 7 (LStr ''out.json'')) 7 h1 st1 = Some (Inr (v, h2, st2)) \<and>
     state_start example_start_env h2 st2 = Some (Inr (h3, st3)) \<and>
     BITFIELD_TEST (state st3) LMPROF_STATE_PAUSED \<and>
     traceevent_instrument undefined h3 st3 = Some (lmprof_error h3 st3 ''profiler in a deferred state'')"
proof -
  obtain v h1 st1 h2 st2 h3 st3 where p: "lmprof_pause_execution True 5 example_lc_host example_lc_trace = Some (Inr (1, h1, st1))"
    and sp: "state_stop (lmprof_stop_report example_report_env 7 (LStr ''out.json'')) 7 h1 st1 = Some (Inr (v, h2, st2))"
    and sr: "state_start example_start_env h2 st2 = Some (Inr (h3, st3))"
    using example_lc_run by blast
  have "\<not> BITFIELD_TEST (mode example_lc_trace) LMPROF_MODE_SINGLE_THREAD"
    by (simp add: example_lc_trace_def example_trace_defs)
  from lc_pause_survives_restart [OF example_lc_inv p sp sr this, of True 9 undefined]
  show ?thesis using p sp sr by blast
qed

text \<open>
  C23 (error): a stop of the running profiler whose report raises (for instance a path
  \<^verbatim>\<open>fopen\<close> refuses, \<open>lmprof_report_refused\<close>) leaves \<^verbatim>\<open>stop_profiler\<close> after the finalisation and
  before the shutdown: the profiler no longer runs but still owns the singleton slot,
  breaking the lifecycle invariant, and every later \<^verbatim>\<open>profiler:start()\<close> raises
  ``calling lmprof start function twice'' until the object is quit or collected.
\<close>

theorem lc_stop_report_raise_strands:
  assumes inv: "lc_inv h st" and raises: "lc_stop_raises (LC_Stop t arg e) h st"
  shows "\<exists>h' st'. lc_apply (LC_Stop t arg e) h st = Some (h', st') \<and>
           h_singleton h' = SINGLETON_SELF \<and> \<not> BITFIELD_TEST (state st') LMPROF_STATE_RUNNING \<and>
           \<not> lc_inv h' st' \<and>
           (\<forall>e'. state_start e' h' st' = Some (luaL_error h' st' ''calling lmprof start function twice''))"
proof -
  obtain err where sg: "h_singleton h = SINGLETON_SELF"
    and sp: "state_stop (lmprof_stop_report e t arg) t h st = Some (Inl err)"
    using raises by (auto simp: lc_stop_raises_def split: option.splits sum.splits)
  have "stop_profiler (lmprof_stop_report e t arg) t h st = Some (Inl err)"
    using sp sg by (simp add: state_stop_def)
  note R = stop_profiler_raise [OF inv sg this]
  have ap: "lc_apply (LC_Stop t arg e) h st = Some (fst (snd err), snd (snd err))"
    using sp by (simp add: lc_apply_def)
  have "h_singleton (fst (snd err)) = SINGLETON_SELF \<and> \<not> BITFIELD_TEST (state (snd (snd err))) LMPROF_STATE_RUNNING \<and>
        \<not> lc_inv (fst (snd err)) (snd (snd err)) \<and>
        (\<forall>e'. state_start e' (fst (snd err)) (snd (snd err)) =
               Some (luaL_error (fst (snd err)) (snd (snd err)) ''calling lmprof start function twice''))"
    using R by (simp add: lc_inv_def state_start_def state_get_valid_def lmprof_check_can_profile_def luaL_error_def)
  with ap show ?thesis by blast
qed

theorem lc_stop_report_raise_strands_witness:
  "lc_inv example_lc_host example_lc_trace \<and>
   lc_stop_raises (LC_Stop 7 (LStr ''out.json'') example_denied_env) example_lc_host example_lc_trace \<and>
   (\<exists>h' st'. lc_apply (LC_Stop 7 (LStr ''out.json'') example_denied_env) example_lc_host example_lc_trace = Some (h', st') \<and>
      h_singleton h' = SINGLETON_SELF \<and> \<not> lc_inv h' st' \<and>
      state_start example_start_env h' st' = Some (luaL_error h' st' ''calling lmprof start function twice''))"
proof -
  have r: "lc_stop_raises (LC_Stop 7 (LStr ''out.json'') example_denied_env) example_lc_host example_lc_trace"
    by (simp add: lc_stop_raises_def example_stop_defs example_denied_env_def example_report_env_def
                  BITFIELD_TEST_def mode_defs)
  show ?thesis
    using lc_stop_report_raise_strands [OF example_lc_inv r] example_lc_inv r by blast
qed

end
