(* ===== verification/Spec2Isabelle.thy ===== *)
theory Spec2Isabelle
  imports Timeline_Passes Lifecycle Report Report_Trace
begin

text \<open>
  \<^bold>\<open>A verification development for lmprof\<close>, the Lua profiler of
  \<^verbatim>\<open>src/src\<close>. lmprof installs a debug hook (and, in memory mode, an allocator) in
  the Lua interpreter. On every call, return, line and count event the hook measures
  time and memory into a per-coroutine profile stack. In the graph modes it accumulates
  the measurements into activation records kept in a hashtable. In the trace-event modes
  it appends them to a paged timeline, which the report emitter adjusts and compresses
  before writing. The profiler object (\<^verbatim>\<open>lmprof_State\<close>) ties these together: its
  configuration, its running state, its singleton registration in the interpreter, and its
  error pathway.

  \<^bold>\<open>Theories and what they model.\<close> The development is a shallow embedding. Every C
  function is a HOL function over explicit state: records for structs, datatypes for
  enums, \<open>64 word\<close> and \<open>32 word\<close> for the machine integers of
  \<^verbatim>\<open>lmprof_conf.h\<close>. Errors are values: \<^verbatim>\<open>'a lres\<close> is a raised Lua error
  (message, host, profiler) or a result. Undefined behaviour (a NULL dereference, a frame
  without a record) is an outer \<open>None\<close>. What the interpreter decides (allocation
  outcomes, clock samples, \<^verbatim>\<open>lua_getinfo\<close> answers) comes in as parameters: records
  \<open>fetch_env\<close>, \<open>start_env\<close> and \<open>hook_ar\<close>, and flags \<open>ok\<close>.
  \<^item> Prelude: machine types, the \<^verbatim>\<open>BITFIELD_*\<close> macros with their algebra, and the
    shared lemma collections \<open>unit_simps\<close>, \<open>hash_simps\<close>, \<open>stack_simps\<close> and
    \<open>timeline_simps\<close>.
  \<^item> Measure: \<^verbatim>\<open>lmprof_EventUnit\<close> arithmetic (\<^verbatim>\<open>unit_*\<close>, lmprof_conf.h), the
    clock difference, and the allocator trampoline's accounting (lmprof_lib.c
    \<^verbatim>\<open>alloc_hook\<close>).
  \<^item> Activation: \<^verbatim>\<open>lmprof_Record\<close>, name sanitising, the Jenkins and string hashes,
    and \<^verbatim>\<open>lmprof_record_id\<close> (collections/lmprof_record.c).
  \<^item> Hashtable: the chained record table (\<^verbatim>\<open>lmprof_hash_get/insert\<close>, move-to-front,
    \<^verbatim>\<open>lmprof_fetch_record\<close>) over a store of records. It has an abstract key map, an
    invariant, and refinement lemmas.
  \<^item> Profile_Stack: the array stack with its head (\<^verbatim>\<open>lmprof_stack_*\<close>). Frames are
    indices. It covers the measured push and pop of the graph modes and the event push of
    the trace modes.
  \<^item> Timeline: pages of trace events (\<^verbatim>\<open>timeline_allocpage\<close>, every
    \<^verbatim>\<open>traceevent_*\<close> emitter, the enter/exit cross links) with their invariant.
  \<^item> Timeline_Passes: \<^verbatim>\<open>timeline_adjust\<close> and \<^verbatim>\<open>timeline_compress\<close> as used by
    lmprof_report.c.
  \<^item> Config: mode parsing, option flags, and the library's \<^verbatim>\<open>set_option/get_option\<close>
    (lmprof.c).
  \<^item> Profiler_State: \<^verbatim>\<open>lmprof_State\<close> and the host record \<open>lua_host\<close> (registry
    singleton, current thread, hook, allocator, collector, thread-stack table). It covers
    state creation and reset, start-up (\<^verbatim>\<open>lmprof_initialize_profiler\<close>,
    \<^verbatim>\<open>lmprof_initialize_default\<close>), finalisation and shutdown, \<^verbatim>\<open>lmprof_error\<close> with
    the default handler, and the profiler object's methods start, stop, quit, gc,
    set_mode, set_option and get_option (lmprof_lib.c, lmprof.c).
  \<^item> Graph_Hook: \<^verbatim>\<open>graph_prehook\<close>, \<^verbatim>\<open>graph_instrument\<close> (call, return with its
    unwinding loop, count, line, post) and \<^verbatim>\<open>graph_sample\<close> with
    \<^verbatim>\<open>lmprof_sample_stack\<close>.
  \<^item> Trace_Hook: \<^verbatim>\<open>traceevent_prehook\<close> with the coroutine switch,
    \<^verbatim>\<open>traceevent_instrument\<close>, \<^verbatim>\<open>lmprof_pause_execution\<close> and
    \<^verbatim>\<open>lmprof_resume_execution\<close>, and the frame markers behind
    \<^verbatim>\<open>profiler:begin_frame/end_frame\<close> and \<^verbatim>\<open>lchrome.trace_event_*frame\<close>.
  \<^item> Lifecycle: the calls a script makes on a persistent profiler object, as the
    datatype \<open>lc_op\<close>. It gives the step function \<open>lc_apply\<close> (dispatch through the
    method table \<^verbatim>\<open>lmprof_state_initialize\<close>, every raised error caught), the inductive
    set \<open>lc_reachable\<close> of objects reachable from \<^verbatim>\<open>lmprof.create\<close>, and the
    invariant \<open>lc_inv\<close>. A stop (\<open>LC_Stop\<close>) carries its output argument and a
    \<open>report_env\<close>; \<^verbatim>\<open>stop_profiler\<close> of Profiler_State takes its report as a
    parameter, and Lifecycle passes it \<open>lmprof_stop_report\<close> of Report_Trace
    (\<^verbatim>\<open>report_type\<close> and \<^verbatim>\<open>lmprof_report\<close>), so a stop is the whole
    C function: finalise, report (which may raise), shut down.
  \<^item> Report: the graph report of lmprof_report.c (\<^verbatim>\<open>profiler_header\<close>,
    \<^verbatim>\<open>graph_hash_callback\<close>, \<^verbatim>\<open>graph_report\<close>) in its table form, as a
    \<open>report_value\<close> of Lua tables, and in its file form, as the text \<^verbatim>\<open>fprintf\<close>
    writes. It includes the hashtable walk \<^verbatim>\<open>lmprof_hash_report\<close> with its early
    stop. The \<^verbatim>\<open>lmprof_Report\<close> record carries the report table, the array the
    record callbacks fill, \<^verbatim>\<open>array_count\<close>, the file text and the indentation.
  \<^item> Report_Trace: the trace-event report of lmprof_report.c. The Chrome builders
    (\<^verbatim>\<open>__metaProcess\<close> to \<^verbatim>\<open>__eventUpdateCounters\<close>) share one shape,
    \<open>report_builder\<close>: the table pushed in a table report, the JSON object written in a
    file report. \<open>REPORT_TABLE_APPEND\<close> stores the table at \<^verbatim>\<open>array_count\<close>.
    The metadata header (\<^verbatim>\<open>tracevent_table_header\<close>, with the thread-name loop
    \<open>layout_threads\<close>), the event walk of \<^verbatim>\<open>traceevent_table_events\<close> (state
    \<open>trace_walk\<close>: report, timeline, pending sample, counter; one \<open>trace_walk_step\<close>
    per \<^verbatim>\<open>switch\<close> turn), \<^verbatim>\<open>traceevent_report\<close>, the dispatch
    \<^verbatim>\<open>lmprof_push_report\<close> and the entry point \<^verbatim>\<open>lmprof_report\<close>, whose
    result is the value left on the Lua stack, the file written and the profiler.

  \<^bold>\<open>What the lemmas show\<close> (claims C1 to C37, by component).
  \<^item> Stack accounting: measured pops charge totals and self times exactly, and overhead
    is never subtracted. The stack bound is kept. A full stack refuses pushes.
  \<^item> Timeline: the emitters keep the page invariant, enter/exit events are
    cross-linked, and page allocation is specified. \<^verbatim>\<open>timeline_canbuffer\<close> says
    yes exactly when the request is at least the free capacity, the opposite question.
  \<^item> Passes: compress terminates and is specified. Adjust subtracts the base time and
    each event's overhead, and is not idempotent.
  \<^item> Graph hooks: the return event's unwinding equals a declarative reference, and its
    mismatch error is unreachable. Inactive hooks detach themselves. Memory-only mode
    dereferences a NULL stack. Count events charge overhead as specified.
  \<^item> Trace hooks: a paused profiler raises at its next hook, pause and resume round-trip,
    and user frame markers are dropped under \<^verbatim>\<open>draw_frame\<close>.
  \<^item> Lifecycle: every reachable object satisfies \<open>lc_inv\<close>, proved by rule induction
    over \<open>lc_reachable\<close> with one preservation lemma per call, for every sequence of
    calls in which no stop's report raises. A stop whose report raises leaves the
    profiler stopped but owning the singleton, so no later start succeeds until quit.
    Quit always stops the profiler. \<^verbatim>\<open>LMPROF_STATE_PAUSED\<close> survives stop and start, so a paused
    persistent trace profiler can never record again.
  \<^item> Report: \<^verbatim>\<open>lmprof_report\<close> of a graph profiler with a well-formed
    hashtable returns the profiler header and one row per entry in bucket order from index
    1, composing the dispatch, \<^verbatim>\<open>graph_report\<close> and the hashtable traversal. Rows have
    the documented Lua types except \<^verbatim>\<open>parent_line\<close>. The file report renders the
    table report except the two \<^verbatim>\<open>char\<close> flags, while the counters stay below
    \<open>2 ^ 63\<close>.
  \<^item> Trace report: with \<^verbatim>\<open>about:tracing\<close> a table report stores its events
    in \<^verbatim>\<open>records\<close> and leaves \<^verbatim>\<open>traceEvents\<close> empty (the walk only appends,
    lemmas \<open>walk_step_grows\<close> to \<open>table_events_grows\<close>). A report changes the
    profiler only through its timeline (\<open>lmprof_report_st\<close>).
    \<^verbatim>\<open>lmprof_report\<close> refuses callback, buffer and path-less file reports and
    raises on an unopenable file, where the documentation promises \<^verbatim>\<open>false\<close>.
  \<^item> Start-up and errors: the start-up codes and the teardown by
    \<^verbatim>\<open>lmprof_error\<close>.
  \<^item> Hashtable: \<^verbatim>\<open>lmprof_fetch_record\<close>, invariant preservation, and refinement of
    the abstract key map.
  \<^item> Records: sanitised names are safe.
  \<^item> Configuration: valid modes and the option round trip (without
    \<^verbatim>\<open>hash_size\<close>, read back from the wrong field).

  \<^bold>\<open>Loops, bounds and fuel.\<close>
  \<^item> The return-event unwinding loops (\<open>graph_unwind\<close>, \<open>trace_unwind\<close>) are
    \<^theory_text>\<open>function\<close>s. They terminate by the measure "stack head, plus one while a
    frame is pending".
  \<^item> \<open>pop_stack_all\<close> is given \<^verbatim>\<open>head\<close> as fuel, which is exactly the number of
    frames it pops.
  \<^item> Following a timeline's line chain (\<open>ignore_lines\<close>) may not end on a corrupt
    timeline. It is a \<^theory_text>\<open>partial_function (option)\<close>. C10 proves that it returns
    whenever the chains end.
  \<^item> Stack capacity is \<^verbatim>\<open>LMPROF_MAXSTACK = 1024\<close>. Times and sizes are 64-bit words,
    and unit arithmetic wraps as in C.

  \<^bold>\<open>Not modelled.\<close>
  \<^item> Of the report emitter, the floating-point values (the bucket statistics of
    \<^verbatim>\<open>lmprof_hash_debug\<close>, the verbose \<^verbatim>\<open>debug\<close> entry, and the
    \<^verbatim>\<open>pageusage\<close> ratio) are parameters. The registry thread-name table is a
    parameter, its entries in \<^verbatim>\<open>lua_next\<close> order, and a failed \<^verbatim>\<open>fopen\<close> is
    its \<^verbatim>\<open>strerror\<close> text. The file handle plumbing (\<^verbatim>\<open>io_fud\<close>,
    \<^verbatim>\<open>fclose\<close>) is not modelled. A report that raises is taken to leave the profiler
    as finalisation left it (changes to the timeline pages before the raise are not
    kept); the output kind is computed after finalisation, which changes no option.
  \<^item> Raised messages are the format text without the \<^verbatim>\<open>luaL_where(L, 1)\<close>
    position prefix \<^verbatim>\<open>luaL_error\<close> and \<^verbatim>\<open>lmprof_error\<close> add (interpreter
    debug information). \<^verbatim>\<open>strdup\<close> of process and thread names is taken to succeed,
    \<^verbatim>\<open>luaL_verify_thread\<close> of the main thread in \<^verbatim>\<open>lmprof_initialize_state\<close> is
    taken to hold, and the hook mask reads the trace timeline where the C reads its
    sample pointer.
  \<^item> Registry plumbing (registering thread names, the ignore set, \<^verbatim>\<open>debug.sethook\<close> caching) and
    the Lua C API glue are pure interpreter I/O. Calibration and the
    profile_file/string/function wrappers are also left out.
  \<^item> The \<^verbatim>\<open>LMPROF_OPT_GC_COUNT_INIT\<close> block is not modelled, because the macro is
    undefined.
  \<^item> \<^verbatim>\<open>EACH_THREAD\<close> sweeps over threads other than the running one are not
    modelled.
  \<^item> The Lifecycle model has a single profiler in the interpreter, so the singleton slot
    is never another object's. Its calls exclude the hook events themselves; their
    effects are the subject of Graph_Hook and Trace_Hook.
  \<^item> \<^verbatim>\<open>LMPROF_STATE_PAUSED\<close> is used but defined in no header. It is given the free bit
    \<open>0x80\<close>.
\<close>

end
